(* ===== verification/Go_Base.thy ===== *)
theory Go_Base
  imports Main "HOL-Library.AList" "HOL-Library.Word"
begin

text \<open>
  The prelude of the development: how Go values, errors, pointers, strings, maps and machine
  integers are read in HOL, and the generic lemmas on them that every component uses.

  \<^item> A Go pointer to a value is an option: \<open>None\<close> is nil. Reading a nil pointer is a panic.
  \<^item> A Go function that returns an error, or that can panic, returns \<open>err + 'a\<close>.
  \<^item> A Go string is a \<open>string\<close>, that is a list of bytes.
  \<^item> A Go map with string keys is an association list with distinct keys; the order of the list
    is the order in which one run of the program happens to iterate over the map.
  \<^item> Go's \<open>int\<close> is an \<open>int\<close>, with the wrap-around of a conversion or a product written out
    where the code has one.
\<close>

named_theorems go_defs \<open>definitions of the string, map and pointer operations of Go\<close>
named_theorems emit_intros \<open>introduction rules for the effects of API programs\<close>

section \<open>Errors, panics and pointers\<close>

text \<open>
  The errors the operator distinguishes: the API server's NotFound and Conflict, any other error of
  the API server, an error made by the operator's own code, and a run-time panic.
\<close>

datatype err =
    ErrNotFound
  | ErrConflict
  | ErrApi string
  | ErrGo string
  | GoPanic string

fun is_panic :: "err \<Rightarrow> bool" where
  "is_panic (GoPanic m) = True"
| "is_panic ErrNotFound = False"
| "is_panic ErrConflict = False"
| "is_panic (ErrApi m) = False"
| "is_panic (ErrGo m) = False"

definition rbind :: "err + 'a \<Rightarrow> ('a \<Rightarrow> err + 'b) \<Rightarrow> err + 'b" where
  "rbind m f = (case m of Inl e \<Rightarrow> Inl e | Inr x \<Rightarrow> f x)"

lemma rbind_simps [simp]:
  "rbind (Inr x) f = f x"
  "rbind (Inl e) f = Inl e"
  by (simp_all add: rbind_def)

lemma rbind_eq_Inr: "rbind m f = Inr y \<longleftrightarrow> (\<exists>x. m = Inr x \<and> f x = Inr y)"
  by (cases m) (auto simp: rbind_def)

lemma rbind_eq_Inl: "rbind m f = Inl e \<longleftrightarrow> m = Inl e \<or> (\<exists>x. m = Inr x \<and> f x = Inl e)"
  by (cases m) (auto simp: rbind_def)

lemma rbind_assoc: "rbind (rbind m f) g = rbind m (\<lambda>x. rbind (f x) g)"
  by (cases m) simp_all

definition rmap :: "('a \<Rightarrow> 'b) \<Rightarrow> err + 'a \<Rightarrow> err + 'b" where
  "rmap f m = rbind m (\<lambda>x. Inr (f x))"

lemma rmap_simps [simp]:
  "rmap f (Inr x) = Inr (f x)"
  "rmap f (Inl e) = Inl e"
  by (simp_all add: rmap_def)

lemma rmap_eq_Inr: "rmap f m = Inr y \<longleftrightarrow> (\<exists>x. m = Inr x \<and> y = f x)"
  by (cases m) auto

lemma rmap_rmap: "rmap f (rmap g m) = rmap (f \<circ> g) m"
  by (cases m) auto

definition isOK :: "err + 'a \<Rightarrow> bool" where
  "isOK m = (case m of Inl e \<Rightarrow> False | Inr x \<Rightarrow> True)"

lemma isOK_simps [simp]:
  "isOK (Inr x)"
  "\<not> isOK (Inl e)"
  by (simp_all add: isOK_def)

lemma isOK_iff: "isOK m \<longleftrightarrow> (\<exists>x. m = Inr x)"
  by (cases m) auto

lemma isOK_rbind: "isOK (rbind m f) \<longleftrightarrow> (\<exists>x. m = Inr x \<and> isOK (f x))"
  by (cases m) auto

lemma isOK_rmap [simp]: "isOK (rmap f m) = isOK m"
  by (cases m) auto

definition deref :: "'a option \<Rightarrow> err + 'a" where
  "deref p = (case p of None \<Rightarrow> Inl (GoPanic ''nil pointer dereference'') | Some x \<Rightarrow> Inr x)"

lemma deref_simps [simp]:
  "deref (Some x) = Inr x"
  "deref None = Inl (GoPanic ''nil pointer dereference'')"
  by (simp_all add: deref_def)

lemma isOK_deref [simp]: "isOK (deref p) \<longleftrightarrow> p \<noteq> None"
  by (cases p) auto

text \<open>The value a pointer holds, with a default for nil (pointy's BoolValue, Int32Value, IntValue).\<close>

definition PtrValue :: "'a option \<Rightarrow> 'a \<Rightarrow> 'a" where
  "PtrValue p d = (case p of None \<Rightarrow> d | Some v \<Rightarrow> v)"

lemma PtrValue_simps [simp]:
  "PtrValue None d = d"
  "PtrValue (Some v) d = v"
  by (simp_all add: PtrValue_def)

text \<open>A Go loop that builds a slice from another and returns or panics at the first failure.\<close>

fun rmapM :: "('a \<Rightarrow> err + 'b) \<Rightarrow> 'a list \<Rightarrow> err + 'b list" where
  "rmapM f [] = Inr []"
| "rmapM f (x # xs) = rbind (f x) (\<lambda>y. rbind (rmapM f xs) (\<lambda>ys. Inr (y # ys)))"

lemma rmapM_Inr: "(\<And>x. x \<in> set xs \<Longrightarrow> f x = Inr (g x)) \<Longrightarrow> rmapM f xs = Inr (map g xs)"
  by (induction xs) auto

lemma isOK_rmapM: "isOK (rmapM f xs) \<longleftrightarrow> (\<forall>x \<in> set xs. isOK (f x))"
  by (induction xs) (auto simp: isOK_iff rbind_eq_Inr)

section \<open>Strings\<close>

definition HasPrefix :: "string \<Rightarrow> string \<Rightarrow> bool" where
  "HasPrefix s p = (take (length p) s = p)"

lemma HasPrefix_iff: "HasPrefix s p \<longleftrightarrow> (\<exists>t. s = p @ t)"
  unfolding HasPrefix_def
  by (metis append_eq_conv_conj append_take_drop_id)

lemma HasPrefix_append [simp]: "HasPrefix (p @ s) p"
  by (simp add: HasPrefix_def)

lemma HasPrefix_trans: "HasPrefix s p \<Longrightarrow> HasPrefix p q \<Longrightarrow> HasPrefix s q"
  by (auto simp: HasPrefix_iff)

text \<open>\<open>strings.Split\<close> with a separator of one character: never empty, pieces free of it.\<close>

fun Split :: "char \<Rightarrow> string \<Rightarrow> string list" where
  "Split c [] = [[]]"
| "Split c (x # xs) =
     (if x = c then [] # Split c xs
      else (case Split c xs of [] \<Rightarrow> [[x]] | p # ps \<Rightarrow> (x # p) # ps))"

fun Join :: "string list \<Rightarrow> string \<Rightarrow> string" where
  "Join [] sep = []"
| "Join [x] sep = x"
| "Join (x # y # zs) sep = x @ sep @ Join (y # zs) sep"

lemma Split_nonempty [simp]: "Split c s \<noteq> []"
  by (induction s) (auto split: list.splits)

lemma Split_pieces: "p \<in> set (Split c s) \<Longrightarrow> c \<notin> set p"
  by (induction s arbitrary: p) (auto split: if_splits list.splits)

lemma Split_no_sep: "c \<notin> set s \<Longrightarrow> Split c s = [s]"
  by (induction s) auto

lemma Split_append: "c \<notin> set p \<Longrightarrow> Split c (p @ c # s) = p # Split c s"
  by (induction p) auto

lemma Join_Cons: "ps \<noteq> [] \<Longrightarrow> Join (p # ps) sep = p @ sep @ Join ps sep"
  by (cases ps) auto

lemma Join_Split: "Join (Split c s) [c] = s"
proof (induction s)
  case (Cons x xs)
  then show ?case
    by (cases "Split c xs"; cases "tl (Split c xs)") auto
qed simp

lemma Split_Join:
  "ps \<noteq> [] \<Longrightarrow> (\<And>p. p \<in> set ps \<Longrightarrow> c \<notin> set p) \<Longrightarrow> Split c (Join ps [c]) = ps"
proof (induction ps)
  case (Cons p ps)
  then show ?case
    by (cases ps) (auto simp: Split_no_sep Split_append)
qed simp

text \<open>\<open>strings.ReplaceAll\<close> and \<open>strings.Replace(\<dots>, 1)\<close>, for a pattern that is not empty.\<close>

fun ReplaceAll :: "string \<Rightarrow> string \<Rightarrow> string \<Rightarrow> string" where
  "ReplaceAll [] old new = []"
| "ReplaceAll (c # cs) old new =
     (if HasPrefix (c # cs) old
      then new @ ReplaceAll (drop (length old - 1) cs) old new
      else c # ReplaceAll cs old new)"

fun ReplaceFirst :: "string \<Rightarrow> string \<Rightarrow> string \<Rightarrow> string" where
  "ReplaceFirst [] old new = []"
| "ReplaceFirst (c # cs) old new =
     (if HasPrefix (c # cs) old then new @ drop (length old) (c # cs)
      else c # ReplaceFirst cs old new)"

fun Contains :: "string \<Rightarrow> string \<Rightarrow> bool" where
  "Contains [] sub = (sub = [])"
| "Contains (c # cs) sub = (HasPrefix (c # cs) sub \<or> Contains cs sub)"

lemma ReplaceAll_absent: "\<not> Contains s old \<Longrightarrow> ReplaceAll s old new = s"
  by (induction s) auto

definition to_upper_char :: "char \<Rightarrow> char" where
  "to_upper_char c = (if 97 \<le> (of_char c :: nat) \<and> (of_char c :: nat) \<le> 122
                      then char_of ((of_char c :: nat) - 32) else c)"

text \<open>\<open>strings.ToUpper\<close> on ASCII text, which is all the operator applies it to.\<close>

definition ToUpper :: "string \<Rightarrow> string" where
  "ToUpper s = map to_upper_char s"

definition FormatBool :: "bool \<Rightarrow> string" where
  "FormatBool b = (if b then ''true'' else ''false'')"

end
