(* ===== verification/Go_Num.thy ===== *)
theory Go_Num
  imports Go_Base
begin

text \<open>
  Go's integers and their decimal text: the conversions between integer types that wrap around,
  \<open>strconv.Itoa\<close> and \<open>strconv.Atoi\<close> with its two errors, and the round trip between them.
\<close>

section \<open>Conversions that wrap around\<close>

text \<open>\<open>int32(x)\<close> and an \<open>int\<close> (64-bit) result: two's complement truncation.\<close>

definition go_int32 :: "int \<Rightarrow> int" where
  "go_int32 x = signed_take_bit 31 x"

definition go_int :: "int \<Rightarrow> int" where
  "go_int x = signed_take_bit 63 x"

definition in_int32 :: "int \<Rightarrow> bool" where
  "in_int32 x \<longleftrightarrow> - (2 ^ 31) \<le> x \<and> x < 2 ^ 31"

definition in_int :: "int \<Rightarrow> bool" where
  "in_int x \<longleftrightarrow> - (2 ^ 63) \<le> x \<and> x < 2 ^ 63"

lemma go_int32_id: "in_int32 x \<Longrightarrow> go_int32 x = x"
  by (simp add: go_int32_def in_int32_def signed_take_bit_int_eq_self)

lemma go_int_id: "in_int x \<Longrightarrow> go_int x = x"
  by (simp add: go_int_def in_int_def signed_take_bit_int_eq_self)

lemma go_int32_range: "in_int32 (go_int32 x)"
  unfolding go_int32_def in_int32_def
  using signed_take_bit_int_greater_eq_minus_exp [of 31 x] signed_take_bit_int_less_exp [of 31 x]
  by simp

text \<open>Go's \<open>/\<close> and \<open>%\<close> on signed integers truncate towards zero.\<close>

definition go_div :: "int \<Rightarrow> int \<Rightarrow> int" where
  "go_div a b = sgn a * sgn b * (\<bar>a\<bar> div \<bar>b\<bar>)"

definition go_mod :: "int \<Rightarrow> int \<Rightarrow> int" where
  "go_mod a b = a - b * go_div a b"

lemma go_div_nonneg: "0 \<le> a \<Longrightarrow> 0 < b \<Longrightarrow> go_div a b = a div b"
  by (cases "a = 0") (simp_all add: go_div_def)

lemma go_mod_even: "go_mod a 2 = 0 \<longleftrightarrow> even a"
proof -
  have "\<bar>a\<bar> = 2 * (\<bar>a\<bar> div 2) \<longleftrightarrow> even a"
    by presburger
  then show ?thesis
    by (cases "a < 0") (auto simp: go_mod_def go_div_def sgn_if)
qed

section \<open>Decimal text\<close>

definition digit_char :: "int \<Rightarrow> char" where
  "digit_char d = char_of (48 + d)"

definition digit_value :: "char \<Rightarrow> int option" where
  "digit_value c = (let v = (of_char c :: int) in
     if 48 \<le> v \<and> v \<le> 57 then Some (v - 48) else None)"

lemma digit_value_digit_char: "0 \<le> d \<Longrightarrow> d < 10 \<Longrightarrow> digit_value (digit_char d) = Some d"
  by (simp add: digit_value_def digit_char_def Let_def)

text \<open>The digits of a number that is not negative.\<close>

function digits :: "int \<Rightarrow> string" where
  "digits n = (if n < 10 then [digit_char n] else digits (n div 10) @ [digit_char (n mod 10)])"
  by pat_completeness auto
termination
  by (relation "measure nat") auto

declare digits.simps [simp del]

definition Itoa :: "int \<Rightarrow> string" where
  "Itoa i = (if i < 0 then CHR ''-'' # digits (- i) else digits i)"

datatype atoi_error = AtoiSyntax | AtoiRange

text \<open>
  The digit loop of \<open>strconv.ParseUint\<close> in base 10 for 64 bits: a character that is no digit
  is a syntax error, a value above \<open>2^64 - 1\<close> is a range error, whichever comes first.
\<close>

fun scan_digits :: "int \<Rightarrow> string \<Rightarrow> atoi_error + int" where
  "scan_digits n [] = Inr n"
| "scan_digits n (c # cs) =
     (case digit_value c of
        None \<Rightarrow> Inl AtoiSyntax
      | Some d \<Rightarrow> if 18446744073709551615 < n * 10 + d then Inl AtoiRange
                  else scan_digits (n * 10 + d) cs)"

text \<open>
  \<open>strconv.Atoi\<close> returns a value and an error: 0 on a syntax error, the nearest bound of
  the type on a range error.
\<close>

definition atoi_unsigned :: "bool \<Rightarrow> string \<Rightarrow> int \<times> atoi_error option" where
  "atoi_unsigned neg ds =
     (if ds = [] then (0, Some AtoiSyntax)
      else case scan_digits 0 ds of
        Inl AtoiSyntax \<Rightarrow> (0, Some AtoiSyntax)
      | Inl AtoiRange \<Rightarrow> (if neg then - 9223372036854775808 else 9223372036854775807, Some AtoiRange)
      | Inr n \<Rightarrow>
          if \<not> neg \<and> 9223372036854775808 \<le> n then (9223372036854775807, Some AtoiRange)
          else if neg \<and> 9223372036854775808 < n then (- 9223372036854775808, Some AtoiRange)
          else (if neg then - n else n, None))"

definition Atoi :: "string \<Rightarrow> int \<times> atoi_error option" where
  "Atoi s =
     (case s of
        [] \<Rightarrow> (0, Some AtoiSyntax)
      | c # cs \<Rightarrow> if c = CHR ''-'' then atoi_unsigned True cs
                  else if c = CHR ''+'' then atoi_unsigned False cs
                  else atoi_unsigned False (c # cs))"

lemma scan_digits_append:
  "scan_digits n (xs @ ys) = (case scan_digits n xs of Inl e \<Rightarrow> Inl e | Inr m \<Rightarrow> scan_digits m ys)"
  by (induction xs arbitrary: n) (auto split: option.splits)

lemma digits_not_Nil [simp]: "digits n \<noteq> []"
  by (subst digits.simps) simp

lemma scan_digits_digits:
  "0 \<le> m \<Longrightarrow> m \<le> 18446744073709551615 \<Longrightarrow> scan_digits 0 (digits m) = Inr m"
proof (induction m rule: digits.induct)
  case (1 m)
  show ?case
  proof (cases "m < 10")
    case True
    with 1 show ?thesis
      by (subst digits.simps) (simp add: digit_value_digit_char)
  next
    case False
    with 1 have ih: "scan_digits 0 (digits (m div 10)) = Inr (m div 10)"
      by simp
    have m: "m div 10 * 10 + m mod 10 = m"
      by simp
    show ?thesis
      using False ih 1(3)
      by (subst digits.simps)
        (simp add: scan_digits_append digit_value_digit_char del: div_mult_mod_eq add: m)
  qed
qed

lemma set_digits: "0 \<le> n \<Longrightarrow> c \<in> set (digits n) \<Longrightarrow> \<exists>d. 0 \<le> d \<and> d < 10 \<and> c = digit_char d"
proof (induction n rule: digits.induct)
  case (1 n)
  then show ?case
    by (auto simp: digits.simps [of n] split: if_splits intro: exI [of _ "n mod 10"])
qed

lemma digit_value_sign: "digit_value CHR ''-'' = None" "digit_value CHR ''+'' = None"
  by (simp_all add: digit_value_def)

lemma digits_hd:
  assumes "0 \<le> n"
  obtains c cs where "digits n = c # cs" and "c \<noteq> CHR ''-''" and "c \<noteq> CHR ''+''"
proof -
  obtain c cs where ds: "digits n = c # cs"
    by (cases "digits n") simp_all
  then obtain d where "0 \<le> d" "d < 10" "c = digit_char d"
    using set_digits [of n c] assms by auto
  then have "digit_value c \<noteq> None"
    by (simp add: digit_value_digit_char)
  with ds that digit_value_sign show thesis
    by metis
qed

lemma Atoi_Itoa: "in_int i \<Longrightarrow> Atoi (Itoa i) = (i, None)"
proof (cases "i < 0")
  case True
  assume i: "in_int i"
  from True i have "- i \<le> 9223372036854775808" "0 \<le> - i"
    by (simp_all add: in_int_def)
  with True show ?thesis
    by (simp add: Itoa_def Atoi_def atoi_unsigned_def scan_digits_digits)
next
  case False
  assume i: "in_int i"
  from False i have le: "i < 9223372036854775808" "0 \<le> i"
    by (simp_all add: in_int_def)
  obtain c cs where d: "digits i = c # cs" and c: "c \<noteq> CHR ''-''" "c \<noteq> CHR ''+''"
    using digits_hd [of i] le by blast
  have "atoi_unsigned False (digits i) = (i, None)"
    using le by (simp add: atoi_unsigned_def scan_digits_digits)
  then show ?thesis
    using False c by (simp add: Itoa_def Atoi_def d)
qed

lemma Itoa_inject: "in_int i \<Longrightarrow> in_int j \<Longrightarrow> Itoa i = Itoa j \<Longrightarrow> i = j"
  by (metis Atoi_Itoa fst_conv)

lemma digit_value_range: "digit_value c = Some d \<Longrightarrow> 0 \<le> d \<and> d < 10"
  by (auto simp: digit_value_def Let_def split: if_splits)

lemma scan_digits_nonneg: "0 \<le> n \<Longrightarrow> scan_digits n s = Inr m \<Longrightarrow> 0 \<le> m"
proof (induction s arbitrary: n)
  case (Cons c cs)
  then obtain d where d: "digit_value c = Some d" and m: "scan_digits (n * 10 + d) cs = Inr m"
    by (auto split: option.splits if_splits)
  from d Cons.prems(1) have "0 \<le> n * 10 + d"
    by (simp add: digit_value_range)
  then show ?case
    using m by (rule Cons.IH)
qed simp

lemma in_int_atoi_unsigned: "in_int (fst (atoi_unsigned neg ds))"
proof (cases "scan_digits 0 ds")
  case (Inl e)
  then show ?thesis
    by (cases e) (simp_all add: atoi_unsigned_def in_int_def)
next
  case (Inr n)
  then have "0 \<le> n"
    by (rule scan_digits_nonneg [rotated]) simp
  with Inr show ?thesis
    by (simp add: atoi_unsigned_def in_int_def)
qed

lemma in_int_Atoi: "in_int (fst (Atoi s))"
  by (cases s) (simp_all add: Atoi_def in_int_atoi_unsigned, simp add: in_int_def)

end
