(* ===== verification/K8s_Types.thy ===== *)
theory K8s_Types
  imports Go_Num
begin

text \<open>
  The Kubernetes object types the operator reads and builds, with the fields it sets or reads.
  These structs come from the Kubernetes Go packages; the records keep their field names behind a
  prefix. Parts of a struct that the operator only copies from the user's resource (an affinity, a
  volume source, a probe handler of another kind) are opaque strings: their serialised form.
\<close>

section \<open>Metadata, quantities, labels\<close>

type_synonym smap = "(string \<times> string) list"

definition wf_smap :: "smap \<Rightarrow> bool" where
  "wf_smap m = distinct (map fst m)"

text \<open>A quantity is kept as the text the API server stores; reading it is the library's task.\<close>

datatype quantity = Quantity string

record owner_ref =
  or_Kind :: string
  or_Name :: string

record object_meta =
  om_Name :: string
  om_Namespace :: string
  om_Labels :: smap
  om_Annotations :: "smap option"
  om_Controller :: "owner_ref option"
  om_Finalizers :: "string list"
  om_Deleting :: bool
  om_Generation :: int
  om_ResourceVersion :: string

definition NewMeta :: "string \<Rightarrow> string \<Rightarrow> object_meta" where
  "NewMeta name ns =
     \<lparr>om_Name = name, om_Namespace = ns, om_Labels = [], om_Annotations = None, om_Controller = None,
      om_Finalizers = [], om_Deleting = False, om_Generation = 0, om_ResourceVersion = []\<rparr>"

lemma NewMeta_simps [simp]:
  "om_Name (NewMeta n ns) = n"
  "om_Namespace (NewMeta n ns) = ns"
  by (simp_all add: NewMeta_def)

section \<open>Pods\<close>

datatype env_source =
    SecretKeyRef string string
  | FieldRef string
  | ConfigMapKeyRef string string
  | ResourceFieldRef string

record env_var =
  ev_Name :: string
  ev_Value :: string
  ev_ValueFrom :: "env_source option"

definition EnvValue :: "string \<Rightarrow> string \<Rightarrow> env_var" where
  "EnvValue n v = \<lparr>ev_Name = n, ev_Value = v, ev_ValueFrom = None\<rparr>"

definition EnvSecret :: "string \<Rightarrow> string \<Rightarrow> string \<Rightarrow> env_var" where
  "EnvSecret n secret key = \<lparr>ev_Name = n, ev_Value = [], ev_ValueFrom = Some (SecretKeyRef secret key)\<rparr>"

definition EnvField :: "string \<Rightarrow> string \<Rightarrow> env_var" where
  "EnvField n path = \<lparr>ev_Name = n, ev_Value = [], ev_ValueFrom = Some (FieldRef path)\<rparr>"

lemma env_var_simps [simp]:
  "ev_Name (EnvValue n v) = n" "ev_Value (EnvValue n v) = v" "ev_ValueFrom (EnvValue n v) = None"
  "ev_Name (EnvSecret n s k) = n" "ev_ValueFrom (EnvSecret n s k) = Some (SecretKeyRef s k)"
  "ev_Name (EnvField n p) = n" "ev_ValueFrom (EnvField n p) = Some (FieldRef p)"
  by (simp_all add: EnvValue_def EnvSecret_def EnvField_def)

text \<open>
  The value a container sees for a name: of two entries with the same name, the later one holds.
\<close>

definition env_lookup :: "env_var list \<Rightarrow> string \<Rightarrow> env_var option" where
  "env_lookup es n = List.find (\<lambda>e. ev_Name e = n) (rev es)"

lemma env_lookup_append:
  "env_lookup (xs @ ys) n = (case env_lookup ys n of None \<Rightarrow> env_lookup xs n | Some e \<Rightarrow> Some e)"
proof -
  have find_append: "List.find P (as @ bs) = (case List.find P as of None \<Rightarrow> List.find P bs | Some e \<Rightarrow> Some e)"
    for P and as bs :: "env_var list"
    by (induction as) auto
  show ?thesis
    by (simp add: env_lookup_def find_append split: option.split)
qed

datatype volume_source =
    VolConfigMap string "(string \<times> string) list"
  | VolSecret string "(string \<times> string) list" "int option"
  | VolOther string

record volume =
  vol_Name :: string
  vol_Source :: volume_source

record volume_mount =
  vm_Name :: string
  vm_MountPath :: string
  vm_ReadOnly :: bool

datatype int_or_string = IntPort int | NamedPort string

datatype probe_handler = HTTPGet string int_or_string | OtherHandler string

record probe =
  pr_Handler :: probe_handler
  pr_InitialDelaySeconds :: int
  pr_TimeoutSeconds :: int
  pr_PeriodSeconds :: int
  pr_FailureThreshold :: int

record pod_affinity_term =
  pat_Key :: string
  pat_Operator :: string
  pat_Values :: "string list"
  pat_TopologyKey :: string

record affinity =
  aff_RequiredAntiAffinity :: "pod_affinity_term list"
  aff_Other :: "string option"

type_synonym resource_list = "(string \<times> quantity) list"

record resource_requirements =
  rr_Limits :: resource_list
  rr_Requests :: resource_list

definition NoResources :: resource_requirements where
  "NoResources = \<lparr>rr_Limits = [], rr_Requests = []\<rparr>"

record container_port =
  cp_Name :: string
  cp_ContainerPort :: int

record security_context =
  sc_Privileged :: "bool option"
  sc_RunAsNonRoot :: "bool option"
  sc_AllowPrivilegeEscalation :: "bool option"
  sc_ReadOnlyRootFilesystem :: "bool option"

record container =
  c_Name :: string
  c_Image :: string
  c_ImagePullPolicy :: string
  c_Ports :: "container_port list"
  c_VolumeMounts :: "volume_mount list"
  c_Env :: "env_var list"
  c_Resources :: resource_requirements
  c_ReadinessProbe :: "probe option"
  c_LivenessProbe :: "probe option"
  c_StartupProbe :: "probe option"
  c_SecurityContext :: "security_context option"

record pod_spec =
  ps_TerminationGracePeriodSeconds :: "int option"
  ps_ServiceAccountName :: string
  ps_ImagePullSecrets :: "string list"
  ps_Affinity :: "affinity option"
  ps_Containers :: "container list"
  ps_Volumes :: "volume list"
  ps_PriorityClassName :: string

record pod_template =
  pt_Labels :: smap
  pt_Annotations :: smap
  pt_Spec :: pod_spec

text \<open>
  Every mount of every container names a volume of the pod, or one that a claim template adds.
\<close>

definition mounts_resolved :: "string list \<Rightarrow> pod_spec \<Rightarrow> bool" where
  "mounts_resolved claims ps =
     list_all (\<lambda>c. list_all (\<lambda>m. vm_Name m \<in> set (map vol_Name (ps_Volumes ps)) \<union> set claims)
                 (c_VolumeMounts c)) (ps_Containers ps)"

section \<open>Workloads and their companions\<close>

record deployment_strategy =
  ds_Type :: string
  ds_RollingUpdate :: "string option"

definition StrategyOf :: "string \<Rightarrow> deployment_strategy" where
  "StrategyOf t = \<lparr>ds_Type = t, ds_RollingUpdate = None\<rparr>"

record deployment_spec =
  dp_Selector :: smap
  dp_Strategy :: deployment_strategy
  dp_Template :: pod_template
  dp_Replicas :: "int option"

record deployment =
  d_Meta :: object_meta
  d_Spec :: deployment_spec
  d_ReadyReplicas :: int
  d_StatusReplicas :: int

record persistent_volume_claim =
  pvc_Meta :: object_meta
  pvc_AccessModes :: "string list"
  pvc_StorageRequest :: quantity
  pvc_StorageClassName :: "string option"

record stateful_set_spec =
  ssp_ServiceName :: string
  ssp_Selector :: smap
  ssp_Template :: pod_template
  ssp_VolumeClaimTemplates :: "persistent_volume_claim list"
  ssp_Replicas :: "int option"

record stateful_set =
  ss_Meta :: object_meta
  ss_Spec :: stateful_set_spec
  ss_ReadyReplicas :: int

record service_port =
  sp_Name :: string
  sp_Port :: int
  sp_TargetPort :: int_or_string
  sp_Protocol :: string

record service =
  svc_Meta :: object_meta
  svc_Type :: string
  svc_ClusterIP :: string
  svc_Ports :: "service_port list"
  svc_Selector :: smap
  svc_ExternalTrafficPolicy :: string
  svc_LoadBalancerIP :: string
  svc_Status :: string

record secret =
  sec_Meta :: object_meta
  sec_Type :: string
  sec_Data :: smap
  sec_StringData :: smap

record config_map =
  cm_Meta :: object_meta
  cm_Data :: smap

record service_account =
  sa_Meta :: object_meta

record policy_rule =
  pol_APIGroups :: "string list"
  pol_Resources :: "string list"
  pol_Verbs :: "string list"

record role =
  role_Meta :: object_meta
  role_Rules :: "policy_rule list"

record role_binding =
  rb_Meta :: object_meta
  rb_Subjects :: "(string \<times> string) list"
  rb_RoleRef :: "string \<times> string \<times> string"

record priority_class =
  pc_Meta :: object_meta
  pc_GlobalDefault :: bool
  pc_PreemptionPolicy :: "string option"
  pc_Value :: int
  pc_Description :: string

record hpa =
  hpa_Meta :: object_meta
  hpa_DesiredReplicas :: int

record pod =
  pod_Meta :: object_meta
  pod_Phase :: string
  pod_ContainerStates :: "(string option \<times> string option) list"

record ingress_path =
  ip_Path :: string
  ip_PathType :: string
  ip_Service :: string
  ip_Port :: string

record ingress_rule =
  ir_Host :: string
  ir_Paths :: "ingress_path list"

record ingress_tls =
  it_Hosts :: "string list"
  it_SecretName :: string

record ingress_spec =
  is_IngressClassName :: "string option"
  is_TLS :: "ingress_tls list"
  is_Rules :: "ingress_rule list"

record ingress =
  ing_Meta :: object_meta
  ing_Spec :: ingress_spec
  ing_Status :: string

end
