(* ===== verification/Astarte_Types.thy ===== *)
theory Astarte_Types
  imports K8s_Types
begin

text \<open>
  The Astarte custom resource (\<open>api/api/v2alpha1/astarte_types.go\<close>): one record per Go struct,
  with the struct's fields in the struct's order behind a prefix, a pointer field as an option and
  an embedded struct as a field of its record. The list of pull secrets holds their names.
\<close>

section \<open>Enumerations\<close>

datatype AstarteClusterHealth =
    HealthUnset
  | AstarteClusterHealthRed
  | AstarteClusterHealthYellow
  | AstarteClusterHealthGreen

datatype ReconciliationPhase =
    ReconciliationPhaseUnknown
  | ReconciliationPhaseReconciling
  | ReconciliationPhaseUpgrading
  | ReconciliationPhaseReconciled
  | ReconciliationPhaseManualMaintenanceMode
  | ReconciliationPhaseFailed

datatype AstarteResourceEvent =
    AstarteResourceEventInconsistentVersion
  | AstarteResourceEventUnsupportedVersion
  | AstarteResourceEventMigration
  | AstarteResourceEventReconciliationFailed
  | AstarteResourceEventCriticalError
  | AstarteResourceEventStatus
  | AstarteResourceEventUpgrade
  | AstarteResourceEventUpgradeError

fun event_String :: "AstarteResourceEvent \<Rightarrow> string" where
  "event_String AstarteResourceEventInconsistentVersion = ''ErrInconsistentVersion''"
| "event_String AstarteResourceEventUnsupportedVersion = ''ErrUnsupportedVersion''"
| "event_String AstarteResourceEventMigration = ''Migration''"
| "event_String AstarteResourceEventReconciliationFailed = ''ErrReconcile''"
| "event_String AstarteResourceEventCriticalError = ''ErrCritical''"
| "event_String AstarteResourceEventStatus = ''Status''"
| "event_String AstarteResourceEventUpgrade = ''Upgrade''"
| "event_String AstarteResourceEventUpgradeError = ''ErrUpgrade''"

datatype AstarteComponent =
    AppEngineAPI
  | DataUpdaterPlant
  | FlowComponent
  | Housekeeping
  | Pairing
  | RealmManagement
  | TriggerEngine
  | Dashboard

fun component_String :: "AstarteComponent \<Rightarrow> string" where
  "component_String AppEngineAPI = ''appengine_api''"
| "component_String DataUpdaterPlant = ''data_updater_plant''"
| "component_String FlowComponent = ''flow''"
| "component_String Housekeeping = ''housekeeping''"
| "component_String Pairing = ''pairing''"
| "component_String RealmManagement = ''realm_management''"
| "component_String TriggerEngine = ''trigger_engine''"
| "component_String Dashboard = ''dashboard''"

definition DashedString :: "AstarteComponent \<Rightarrow> string" where
  "DashedString a = ReplaceAll (component_String a) ''_'' ''-''"

definition DockerImageName :: "AstarteComponent \<Rightarrow> string" where
  "DockerImageName a = (if a = Dashboard then ''astarte-dashboard'' else ''astarte_'' @ component_String a)"

definition ServiceName :: "AstarteComponent \<Rightarrow> string" where
  "ServiceName a = DashedString a"

definition ServiceRelativePath :: "AstarteComponent \<Rightarrow> string" where
  "ServiceRelativePath a =
     (let ret = ReplaceAll (DashedString a) ''-'' '''' in ReplaceAll ret ''api'' '''')"

definition AllComponents :: "AstarteComponent list" where
  "AllComponents =
     [AppEngineAPI, DataUpdaterPlant, FlowComponent, Housekeeping, Pairing, RealmManagement,
      TriggerEngine, Dashboard]"

lemma AllComponents_complete: "c \<in> set AllComponents"
  by (cases c) (simp_all add: AllComponents_def)

text \<open>The components are an enumeration also for the library, so that statements on all of them evaluate.\<close>

instantiation AstarteComponent :: enum
begin

definition enum_AstarteComponent :: "AstarteComponent list" where
  "enum_AstarteComponent = AllComponents"

definition enum_all_AstarteComponent :: "(AstarteComponent \<Rightarrow> bool) \<Rightarrow> bool" where
  "enum_all_AstarteComponent P \<longleftrightarrow> list_all P AllComponents"

definition enum_ex_AstarteComponent :: "(AstarteComponent \<Rightarrow> bool) \<Rightarrow> bool" where
  "enum_ex_AstarteComponent P \<longleftrightarrow> list_ex P AllComponents"

instance
proof
  show "(UNIV :: AstarteComponent set) = set enum_class.enum"
    by (auto simp: enum_AstarteComponent_def AllComponents_def intro: AstarteComponent.exhaust)
  show "distinct (enum_class.enum :: AstarteComponent list)"
    by (simp add: enum_AstarteComponent_def AllComponents_def)
  show "enum_class.enum_all P \<longleftrightarrow> Ball UNIV P" for P :: "AstarteComponent \<Rightarrow> bool"
    unfolding enum_all_AstarteComponent_def AllComponents_def by (auto intro: AstarteComponent.induct)
  show "enum_class.enum_ex P \<longleftrightarrow> Bex UNIV P" for P :: "AstarteComponent \<Rightarrow> bool"
    unfolding enum_ex_AstarteComponent_def AllComponents_def by (auto, metis AstarteComponent.exhaust)
qed

end

lemma DashedString_table:
  "DashedString AppEngineAPI = ''appengine-api''"
  "DashedString DataUpdaterPlant = ''data-updater-plant''"
  "DashedString FlowComponent = ''flow''"
  "DashedString Housekeeping = ''housekeeping''"
  "DashedString Pairing = ''pairing''"
  "DashedString RealmManagement = ''realm-management''"
  "DashedString TriggerEngine = ''trigger-engine''"
  "DashedString Dashboard = ''dashboard''"
  by code_simp+

lemma ServiceRelativePath_table:
  "ServiceRelativePath AppEngineAPI = ''appengine''"
  "ServiceRelativePath DataUpdaterPlant = ''dataupdaterplant''"
  "ServiceRelativePath FlowComponent = ''flow''"
  "ServiceRelativePath Housekeeping = ''housekeeping''"
  "ServiceRelativePath Pairing = ''pairing''"
  "ServiceRelativePath RealmManagement = ''realmmanagement''"
  "ServiceRelativePath TriggerEngine = ''triggerengine''"
  "ServiceRelativePath Dashboard = ''dashboard''"
  by code_simp+

lemma DashedString_inject: "DashedString a = DashedString b \<Longrightarrow> a = b"
  by (cases a; cases b) (simp_all add: DashedString_table)

section \<open>The generic component\<close>

record AstarteGenericClusteredResourceAutoscalerSpec =
  autoscaler_Horizontal :: string

record AstarteGenericClusteredResource =
  gcr_Deploy :: "bool option"
  gcr_Replicas :: "int option"
  gcr_AntiAffinity :: "bool option"
  gcr_CustomAffinity :: "affinity option"
  gcr_DeploymentStrategy :: "deployment_strategy option"
  gcr_Version :: string
  gcr_Image :: string
  gcr_ImagePullPolicy :: "string option"
  gcr_ImagePullSecrets :: "string list"
  gcr_Resources :: "resource_requirements option"
  gcr_AdditionalEnv :: "env_var list"
  gcr_PodLabels :: smap
  gcr_Autoscale :: "AstarteGenericClusteredResourceAutoscalerSpec option"
  gcr_PriorityClass :: string
  gcr_LivenessProbe :: "probe option"
  gcr_ReadinessProbe :: "probe option"
  gcr_StartupProbe :: "probe option"

text \<open>The zero value of the struct.\<close>

definition EmptyClusteredResource :: AstarteGenericClusteredResource where
  "EmptyClusteredResource =
     \<lparr>gcr_Deploy = None, gcr_Replicas = None, gcr_AntiAffinity = None, gcr_CustomAffinity = None,
      gcr_DeploymentStrategy = None, gcr_Version = [], gcr_Image = [], gcr_ImagePullPolicy = None,
      gcr_ImagePullSecrets = [], gcr_Resources = None, gcr_AdditionalEnv = [], gcr_PodLabels = [],
      gcr_Autoscale = None, gcr_PriorityClass = [], gcr_LivenessProbe = None,
      gcr_ReadinessProbe = None, gcr_StartupProbe = None\<rparr>"

record AstartePersistentStorageSpec =
  storage_Size :: "quantity option"
  storage_ClassName :: string
  storage_VolumeDefinition :: "volume option"

section \<open>Connections\<close>

record AstarteAPISpec =
  api_SSL :: "bool option"
  api_Host :: string

record HostAndPort =
  hp_Host :: string
  hp_Port :: "int option"

record LoginCredentialsSecret =
  login_Name :: string
  login_UsernameKey :: string
  login_PasswordKey :: string

record ConnectionStringSecret =
  css_Name :: string
  css_Key :: string

record GenericSSLConfigurationSpec =
  ssl_Enable :: bool
  ssl_CustomCASecret :: string
  ssl_SNI :: "bool option"
  ssl_CustomSNI :: string

record GenericConnectionSpec =
  conn_SSLConfiguration :: GenericSSLConfigurationSpec
  conn_CredentialsSecret :: "LoginCredentialsSecret option"
  conn_ConnectionStringSecret :: "ConnectionStringSecret option"

record AstarteRabbitMQConnectionSpec =
  rmqc_HostAndPort :: HostAndPort
  rmqc_Generic :: GenericConnectionSpec
  rmqc_VirtualHost :: string

record AstarteRabbitMQSpec =
  rmq_Connection :: "AstarteRabbitMQConnectionSpec option"
  rmq_DataQueuesPrefix :: string
  rmq_EventsExchangeName :: string

record AstarteCassandraConnectionSpec =
  cassc_Generic :: GenericConnectionSpec
  cassc_Nodes :: "HostAndPort list"
  cassc_PoolSize :: "int option"
  cassc_EnableKeepalive :: "bool option"

record AstarteSystemKeyspaceSpec =
  ask_ReplicationStrategy :: string
  ask_ReplicationFactor :: int
  ask_DataCenterReplication :: string

record AstarteCassandraSpec =
  cass_Connection :: "AstarteCassandraConnectionSpec option"
  cass_AstarteSystemKeyspace :: AstarteSystemKeyspaceSpec

section \<open>Components\<close>

record AstarteVerneMQSpec =
  vmq_Generic :: AstarteGenericClusteredResource
  vmq_HostAndPort :: HostAndPort
  vmq_CaSecret :: string
  vmq_Storage :: "AstartePersistentStorageSpec option"
  vmq_DeviceHeartbeatSeconds :: int
  vmq_MaxOfflineMessages :: "int option"
  vmq_PersistentClientExpiration :: string
  vmq_MirrorQueue :: string
  vmq_SSLListener :: "bool option"
  vmq_SSLListenerCertSecretName :: string

record AstarteDataUpdaterPlantSpec =
  dup_Generic :: AstarteGenericClusteredResource
  dup_DataQueueCount :: "int option"
  dup_PrefetchCount :: "int option"

record AstarteTriggerEngineSpec =
  te_Generic :: AstarteGenericClusteredResource
  te_EventsQueueName :: string
  te_EventsRoutingKey :: string

record AstarteGenericAPIComponentSpec =
  gac_Generic :: AstarteGenericClusteredResource
  gac_DisableAuthentication :: "bool option"

record AstarteAppengineAPISpec =
  ae_GenericAPI :: AstarteGenericAPIComponentSpec
  ae_MaxResultsLimit :: "int option"
  ae_RoomEventsQueueName :: string
  ae_RoomEventsExchangeName :: string

record AstarteDashboardConfigAuthSpec =
  dash_auth_Type :: string
  dash_auth_OAuthAPIURL :: string

record AstarteDashboardConfigSpec =
  dashc_RealmManagementAPIURL :: string
  dashc_AppEngineAPIURL :: string
  dashc_PairingAPIURL :: string
  dashc_FlowAPIURL :: string
  dashc_DefaultRealm :: string
  dashc_DefaultAuth :: string
  dashc_Auth :: "AstarteDashboardConfigAuthSpec list"

record AstarteDashboardSpec =
  dash_Generic :: AstarteGenericClusteredResource
  dash_Config :: AstarteDashboardConfigSpec

record AstarteComponentsSpec =
  comp_Resources :: "resource_requirements option"
  comp_Flow :: AstarteGenericAPIComponentSpec
  comp_Housekeeping :: AstarteGenericAPIComponentSpec
  comp_RealmManagement :: AstarteGenericAPIComponentSpec
  comp_Pairing :: AstarteGenericAPIComponentSpec
  comp_DataUpdaterPlant :: AstarteDataUpdaterPlantSpec
  comp_AppengineAPI :: AstarteAppengineAPISpec
  comp_TriggerEngine :: AstarteTriggerEngineSpec
  comp_Dashboard :: AstarteDashboardSpec

section \<open>CFSSL\<close>

record AstarteCFSSLDBConfigSpec =
  cdb_Driver :: string
  cdb_DataSource :: string

record AstarteCFSSLCSRRootCAKeySpec =
  ckey_Algo :: string
  ckey_Size :: int

record AstarteCFSSLCSRRootCANamesSpec =
  cnames_C :: string
  cnames_L :: string
  cnames_O :: string
  cnames_OU :: string
  cnames_ST :: string

record AstarteCFSSLCSRRootCASpec =
  ccsr_CN :: string
  ccsr_Key :: "AstarteCFSSLCSRRootCAKeySpec option"
  ccsr_Names :: "AstarteCFSSLCSRRootCANamesSpec list"
  ccsr_Expiry :: string

record AstarteCFSSLCARootConfigSigningCAConstraintSpec =
  ccon_MaxPathLen :: int
  ccon_IsCA :: bool
  ccon_MaxPathLenZero :: bool

record AstarteCFSSLCARootConfigSigningDefaultSpec =
  csig_Usages :: "string list"
  csig_Expiry :: string
  csig_CAConstraint :: "AstarteCFSSLCARootConfigSigningCAConstraintSpec option"

record AstarteCFSSLCARootConfigSpec =
  cca_SigningDefault :: "AstarteCFSSLCARootConfigSigningDefaultSpec option"

record AstarteCFSSLSpec =
  cfssl_Deploy :: "bool option"
  cfssl_URL :: string
  cfssl_CaExpiry :: string
  cfssl_CASecret :: string
  cfssl_CertificateExpiry :: string
  cfssl_DBConfig :: "AstarteCFSSLDBConfigSpec option"
  cfssl_Resources :: "resource_requirements option"
  cfssl_Version :: string
  cfssl_Image :: string
  cfssl_Storage :: "AstartePersistentStorageSpec option"
  cfssl_CSRRootCa :: "AstarteCFSSLCSRRootCASpec option"
  cfssl_CARootConfig :: "AstarteCFSSLCARootConfigSpec option"
  cfssl_PodLabels :: smap
  cfssl_PriorityClass :: string
  cfssl_LivenessProbe :: "probe option"
  cfssl_ReadinessProbe :: "probe option"
  cfssl_StartupProbe :: "probe option"

section \<open>Features and the resource itself\<close>

record AstartePodPrioritiesSpec =
  prio_Enable :: bool
  prio_AstarteHighPriority :: "int option"
  prio_AstarteMidPriority :: "int option"
  prio_AstarteLowPriority :: "int option"

record AstarteFDOSpec =
  fdo_Enable :: bool
  fdo_RendezvousServer :: HostAndPort

record AstarteFeatures =
  feat_RealmDeletion :: bool
  feat_Autoscaling :: bool
  feat_AstartePodPriorities :: "AstartePodPrioritiesSpec option"
  feat_FDO :: "AstarteFDOSpec option"

text \<open>\<open>IsEnabled\<close> is a method on a pointer and answers false for nil.\<close>

definition IsEnabled :: "AstartePodPrioritiesSpec option \<Rightarrow> bool" where
  "IsEnabled a = (case a of None \<Rightarrow> False | Some p \<Rightarrow> prio_Enable p)"

record AstarteSpec =
  spec_Version :: string
  spec_Features :: AstarteFeatures
  spec_ImagePullPolicy :: "string option"
  spec_ImagePullSecrets :: "string list"
  spec_DistributionChannel :: string
  spec_DeploymentStrategy :: "deployment_strategy option"
  spec_StorageClassName :: string
  spec_API :: AstarteAPISpec
  spec_RabbitMQ :: AstarteRabbitMQSpec
  spec_Cassandra :: AstarteCassandraSpec
  spec_VerneMQ :: AstarteVerneMQSpec
  spec_CFSSL :: AstarteCFSSLSpec
  spec_Components :: AstarteComponentsSpec
  spec_AstarteInstanceID :: string
  spec_ManualMaintenanceMode :: bool

record AstarteStatus =
  status_ReconciliationPhase :: ReconciliationPhase
  status_AstarteVersion :: string
  status_OperatorVersion :: string
  status_Health :: AstarteClusterHealth
  status_BaseAPIURL :: string
  status_BrokerURL :: string

record Astarte =
  ast_Meta :: object_meta
  ast_Spec :: AstarteSpec
  ast_Status :: AstarteStatus

abbreviation cr_Name :: "Astarte \<Rightarrow> string" where
  "cr_Name cr \<equiv> om_Name (ast_Meta cr)"

abbreviation cr_Namespace :: "Astarte \<Rightarrow> string" where
  "cr_Namespace cr \<equiv> om_Namespace (ast_Meta cr)"

section \<open>The interface PodLabelsGetter\<close>

definition gcr_GetPodLabels :: "AstarteGenericClusteredResource \<Rightarrow> smap" where
  "gcr_GetPodLabels r = gcr_PodLabels r"

definition cfssl_GetPodLabels :: "AstarteCFSSLSpec \<Rightarrow> smap" where
  "cfssl_GetPodLabels r = cfssl_PodLabels r"

end
