(* ===== verification/Ingress_Types.thy ===== *)
theory Ingress_Types
  imports Astarte_Types
begin

text \<open>
  The resource AstarteDefaultIngress (\<open>api/ingress/v2alpha1/astartedefaultingress_types.go\<close>).
\<close>

record AstarteDefaultIngressAPISpec =
  adia_Deploy :: "bool option"
  adia_TLSSecret :: string
  adia_Cors :: "bool option"
  adia_ExposeHousekeeping :: "bool option"

record AstarteDefaultIngressDashboardSpec =
  adid_Deploy :: "bool option"
  adid_SSL :: "bool option"
  adid_Host :: string
  adid_TLSSecret :: string

record AstarteDefaultIngressBrokerSpec =
  adib_Deploy :: "bool option"
  adib_ServiceType :: string
  adib_LoadBalancerIP :: string
  adib_ServiceAnnotations :: "smap option"

record AstarteDefaultIngressSpec =
  adis_Astarte :: string
  adis_IngressClass :: string
  adis_API :: AstarteDefaultIngressAPISpec
  adis_Dashboard :: AstarteDefaultIngressDashboardSpec
  adis_Broker :: AstarteDefaultIngressBrokerSpec
  adis_TLSSecret :: string

record AstarteDefaultIngressStatus =
  adit_APIStatus :: string
  adit_BrokerStatus :: string

record AstarteDefaultIngress =
  adi_Meta :: object_meta
  adi_Spec :: AstarteDefaultIngressSpec
  adi_Status :: AstarteDefaultIngressStatus

abbreviation adi_Name :: "AstarteDefaultIngress \<Rightarrow> string" where
  "adi_Name cr \<equiv> om_Name (adi_Meta cr)"

abbreviation adi_Namespace :: "AstarteDefaultIngress \<Rightarrow> string" where
  "adi_Namespace cr \<equiv> om_Namespace (adi_Meta cr)"

definition AnnotationIngressControllerSelector :: string where
  "AnnotationIngressControllerSelector = ''ingress.astarte-platform.org/ingress-controller-selector''"

definition HAProxySelectorValue :: string where
  "HAProxySelectorValue = ''haproxy.org''"

definition NGINXSelectorValue :: string where
  "NGINXSelectorValue = ''nginx.ingress.kubernetes.io''"

text \<open>Reading a nil map gives no entry; writing to it is a panic.\<close>

definition nil_map_lookup :: "smap option \<Rightarrow> string \<Rightarrow> string option" where
  "nil_map_lookup m k = map_of (PtrValue m []) k"

definition HAProxyIngressControllerSelected :: "AstarteDefaultIngress \<Rightarrow> bool" where
  "HAProxyIngressControllerSelected i \<longleftrightarrow>
     nil_map_lookup (om_Annotations (adi_Meta i)) AnnotationIngressControllerSelector = Some HAProxySelectorValue"

definition GetIngressClassName :: "AstarteDefaultIngress \<Rightarrow> string" where
  "GetIngressClassName i = adis_IngressClass (adi_Spec i)"

end
