(* ===== verification/Flow_Types.thy ===== *)
theory Flow_Types
  imports Astarte_Types
begin

text \<open>
  The resource Flow (\<open>api/flow/v2alpha1/flow_types.go\<close>). References to other objects are kept as
  their names.
\<close>

datatype FlowState = FlowStateUnknown | FlowStateUnstable | FlowStateUnhealthy | FlowStateFlowing

record RabbitMQConfig =
  frc_Host :: string
  frc_Port :: int
  frc_SSL :: "bool option"
  frc_Username :: string
  frc_Password :: string

record RabbitMQExchange =
  fre_Name :: string
  fre_RoutingKey :: string

record RabbitMQDataProvider =
  frd_Queues :: "string list"
  frd_Exchange :: "RabbitMQExchange option"
  frd_RabbitMQConfig :: "RabbitMQConfig option"

definition RabbitMQDataProvider_Type :: "RabbitMQDataProvider \<Rightarrow> string" where
  "RabbitMQDataProvider_Type r = ''rabbitmq''"

definition IsProducer :: "RabbitMQDataProvider \<Rightarrow> bool" where
  "IsProducer r \<longleftrightarrow> frd_Exchange r \<noteq> None"

definition IsConsumer :: "RabbitMQDataProvider \<Rightarrow> bool" where
  "IsConsumer r \<longleftrightarrow> length (frd_Queues r) > 0"

record DataProvider =
  dp_RabbitMQ :: "RabbitMQDataProvider option"

record BlockWorker =
  bw_WorkerID :: string
  bw_DataProvider :: DataProvider

record ContainerBlockSpec =
  cb_BlockID :: string
  cb_Image :: string
  cb_ImagePullSecrets :: "string list"
  cb_Environment :: "env_var list"
  cb_Resources :: resource_requirements
  cb_Configuration :: string
  cb_Workers :: "BlockWorker list"

record FlowSpec =
  fs_Astarte :: string
  fs_AstarteRealm :: string
  fs_NativeBlocks :: int
  fs_NativeBlocksResources :: resource_list
  fs_FlowPool :: string
  fs_ContainerBlocks :: "ContainerBlockSpec list"

text \<open>The state of a container: the reason it has terminated for, or the one it waits for.\<close>

type_synonym container_state = "string option \<times> string option"

record FlowStatus =
  ft_State :: FlowState
  ft_TotalContainerBlocks :: int
  ft_ReadyContainerBlocks :: int
  ft_Resources :: resource_list
  ft_FailingContainerBlocks :: int
  ft_UnrecoverableFailures :: "container_state list"

record Flow =
  flow_Meta :: object_meta
  flow_Spec :: FlowSpec
  flow_Status :: FlowStatus

abbreviation flow_Name :: "Flow \<Rightarrow> string" where
  "flow_Name cr \<equiv> om_Name (flow_Meta cr)"

abbreviation flow_Namespace :: "Flow \<Rightarrow> string" where
  "flow_Namespace cr \<equiv> om_Namespace (flow_Meta cr)"

end
