(* ===== verification/Kube_Api.thy ===== *)
theory Kube_Api
  imports Ingress_Types Flow_Types
begin

text \<open>
  The operator's world: the objects of the API server, the calls the operator makes, and programs
  of such calls. A program maps the history of calls made so far to a result and the longer
  history. The environment \<open>E\<close> answers every call as it likes from the history, so that whatever
  the server, other clients and faults do between two calls is a function of this kind; the locale
  \<open>kube_api\<close> states the documented behaviour the theorems rely on.
\<close>

section \<open>Objects\<close>

datatype okind =
    OAstarte | OFlow | OIngressCR | ODeployment | OStatefulSet | OService | OSecret | OConfigMap
  | OServiceAccount | ORole | ORoleBinding | OPriorityClass | OHPA | OPod | OPVC | OIngress

datatype kobj =
    KAstarte Astarte
  | KFlow Flow
  | KIngressCR AstarteDefaultIngress
  | KDeployment deployment
  | KStatefulSet stateful_set
  | KService service
  | KSecret secret
  | KConfigMap config_map
  | KServiceAccount service_account
  | KRole role
  | KRoleBinding role_binding
  | KPriorityClass priority_class
  | KHPA hpa
  | KPod pod
  | KPVC persistent_volume_claim
  | KIngress ingress

fun obj_kind :: "kobj \<Rightarrow> okind" where
  "obj_kind (KAstarte x) = OAstarte"
| "obj_kind (KFlow x) = OFlow"
| "obj_kind (KIngressCR x) = OIngressCR"
| "obj_kind (KDeployment x) = ODeployment"
| "obj_kind (KStatefulSet x) = OStatefulSet"
| "obj_kind (KService x) = OService"
| "obj_kind (KSecret x) = OSecret"
| "obj_kind (KConfigMap x) = OConfigMap"
| "obj_kind (KServiceAccount x) = OServiceAccount"
| "obj_kind (KRole x) = ORole"
| "obj_kind (KRoleBinding x) = ORoleBinding"
| "obj_kind (KPriorityClass x) = OPriorityClass"
| "obj_kind (KHPA x) = OHPA"
| "obj_kind (KPod x) = OPod"
| "obj_kind (KPVC x) = OPVC"
| "obj_kind (KIngress x) = OIngress"

fun obj_meta :: "kobj \<Rightarrow> object_meta" where
  "obj_meta (KAstarte x) = ast_Meta x"
| "obj_meta (KFlow x) = flow_Meta x"
| "obj_meta (KIngressCR x) = adi_Meta x"
| "obj_meta (KDeployment x) = d_Meta x"
| "obj_meta (KStatefulSet x) = ss_Meta x"
| "obj_meta (KService x) = svc_Meta x"
| "obj_meta (KSecret x) = sec_Meta x"
| "obj_meta (KConfigMap x) = cm_Meta x"
| "obj_meta (KServiceAccount x) = sa_Meta x"
| "obj_meta (KRole x) = role_Meta x"
| "obj_meta (KRoleBinding x) = rb_Meta x"
| "obj_meta (KPriorityClass x) = pc_Meta x"
| "obj_meta (KHPA x) = hpa_Meta x"
| "obj_meta (KPod x) = pod_Meta x"
| "obj_meta (KPVC x) = pvc_Meta x"
| "obj_meta (KIngress x) = ing_Meta x"

fun set_meta :: "object_meta \<Rightarrow> kobj \<Rightarrow> kobj" where
  "set_meta m (KAstarte x) = KAstarte (x\<lparr>ast_Meta := m\<rparr>)"
| "set_meta m (KFlow x) = KFlow (x\<lparr>flow_Meta := m\<rparr>)"
| "set_meta m (KIngressCR x) = KIngressCR (x\<lparr>adi_Meta := m\<rparr>)"
| "set_meta m (KDeployment x) = KDeployment (x\<lparr>d_Meta := m\<rparr>)"
| "set_meta m (KStatefulSet x) = KStatefulSet (x\<lparr>ss_Meta := m\<rparr>)"
| "set_meta m (KService x) = KService (x\<lparr>svc_Meta := m\<rparr>)"
| "set_meta m (KSecret x) = KSecret (x\<lparr>sec_Meta := m\<rparr>)"
| "set_meta m (KConfigMap x) = KConfigMap (x\<lparr>cm_Meta := m\<rparr>)"
| "set_meta m (KServiceAccount x) = KServiceAccount (x\<lparr>sa_Meta := m\<rparr>)"
| "set_meta m (KRole x) = KRole (x\<lparr>role_Meta := m\<rparr>)"
| "set_meta m (KRoleBinding x) = KRoleBinding (x\<lparr>rb_Meta := m\<rparr>)"
| "set_meta m (KPriorityClass x) = KPriorityClass (x\<lparr>pc_Meta := m\<rparr>)"
| "set_meta m (KHPA x) = KHPA (x\<lparr>hpa_Meta := m\<rparr>)"
| "set_meta m (KPod x) = KPod (x\<lparr>pod_Meta := m\<rparr>)"
| "set_meta m (KPVC x) = KPVC (x\<lparr>pvc_Meta := m\<rparr>)"
| "set_meta m (KIngress x) = KIngress (x\<lparr>ing_Meta := m\<rparr>)"

lemma set_meta_simps [simp]:
  "obj_meta (set_meta m x) = m"
  "obj_kind (set_meta m x) = obj_kind x"
  by (cases x; simp)+

type_synonym okey = "okind \<times> string \<times> string"

definition obj_key :: "kobj \<Rightarrow> okey" where
  "obj_key x = (obj_kind x, om_Namespace (obj_meta x), om_Name (obj_meta x))"

lemma obj_key_set_meta:
  "om_Namespace m = om_Namespace (obj_meta x) \<Longrightarrow> om_Name m = om_Name (obj_meta x) \<Longrightarrow>
   obj_key (set_meta m x) = obj_key x"
  by (simp add: obj_key_def)

section \<open>Calls and programs\<close>

text \<open>
  \<open>EvLoad\<close> and \<open>EvStore\<close> are the two halves of \<open>controllerutil.CreateOrUpdate\<close>: fetching
  the object the mutation starts from, and writing the mutated one. \<open>EvRecord\<close> is an event recorded
  on the resource, with its type and reason.
\<close>

datatype event =
    EvGet okey
  | EvList okind "string option" smap
  | EvCreate kobj
  | EvUpdate kobj
  | EvStatusUpdate kobj
  | EvDelete okey
  | EvDeleteAll okind string smap
  | EvLoad okey
  | EvStore kobj
  | EvRandom int
  | EvGenerateKey
  | EvGenerateCA
  | EvRecord string string

type_synonym hist = "event list"
type_synonym 'a io = "hist \<Rightarrow> (err + 'a) \<times> hist"

datatype op_result = OperationResultNone | OperationResultCreated | OperationResultUpdated

record env =
  e_get :: "hist \<Rightarrow> okey \<Rightarrow> err + kobj"
  e_list :: "hist \<Rightarrow> okind \<Rightarrow> string option \<Rightarrow> smap \<Rightarrow> err + kobj list"
  e_create :: "hist \<Rightarrow> kobj \<Rightarrow> err + unit"
  e_update :: "hist \<Rightarrow> kobj \<Rightarrow> err + kobj"
  e_status_update :: "hist \<Rightarrow> kobj \<Rightarrow> err + unit"
  e_delete :: "hist \<Rightarrow> okey \<Rightarrow> err + unit"
  e_delete_all :: "hist \<Rightarrow> okind \<Rightarrow> string \<Rightarrow> smap \<Rightarrow> err + unit"
  e_load :: "hist \<Rightarrow> kobj \<Rightarrow> err + kobj"
  e_store :: "hist \<Rightarrow> kobj \<Rightarrow> err + op_result"
  e_owner :: "kobj \<Rightarrow> object_meta \<Rightarrow> err + object_meta"
  e_random :: "hist \<Rightarrow> int \<Rightarrow> err + string"
  e_generate_key :: "hist \<Rightarrow> err + string"
  e_initca :: "hist \<Rightarrow> string \<Rightarrow> err + string \<times> string"
  e_retry_steps :: nat

definition ret :: "'a \<Rightarrow> 'a io" where
  "ret x = (\<lambda>h. (Inr x, h))"

definition fail :: "err \<Rightarrow> 'a io" where
  "fail e = (\<lambda>h. (Inl e, h))"

definition bnd :: "'a io \<Rightarrow> ('a \<Rightarrow> 'b io) \<Rightarrow> 'b io" where
  "bnd m f = (\<lambda>h. case m h of (Inl e, h') \<Rightarrow> (Inl e, h') | (Inr x, h') \<Rightarrow> f x h')"

text \<open>The caller inspects the error: everything but a panic becomes a value.\<close>

definition on_result :: "'a io \<Rightarrow> (err + 'a \<Rightarrow> 'b io) \<Rightarrow> 'b io" where
  "on_result m f =
     (\<lambda>h. case m h of (Inl e, h') \<Rightarrow> (if is_panic e then (Inl e, h') else f (Inl e) h')
                    | (Inr x, h') \<Rightarrow> f (Inr x) h')"

definition lift :: "err + 'a \<Rightarrow> 'a io" where
  "lift r = (\<lambda>h. (r, h))"

definition do_when :: "bool \<Rightarrow> unit io \<Rightarrow> unit io" where
  "do_when b m = (if b then m else ret ())"

fun for_each :: "('a \<Rightarrow> unit io) \<Rightarrow> 'a list \<Rightarrow> unit io" where
  "for_each f [] = ret ()"
| "for_each f (x # xs) = bnd (f x) (\<lambda>_. for_each f xs)"

text \<open>A call: it is recorded, then answered from the history before it.\<close>

definition call :: "event \<Rightarrow> (hist \<Rightarrow> err + 'a) \<Rightarrow> 'a io" where
  "call ev answer = (\<lambda>h. (answer h, h @ [ev]))"

definition Get :: "env \<Rightarrow> okind \<Rightarrow> string \<Rightarrow> string \<Rightarrow> kobj io" where
  "Get E k ns n = call (EvGet (k, ns, n)) (\<lambda>h. e_get E h (k, ns, n))"

definition ListObjs :: "env \<Rightarrow> okind \<Rightarrow> string option \<Rightarrow> smap \<Rightarrow> kobj list io" where
  "ListObjs E k ns labels = call (EvList k ns labels) (\<lambda>h. e_list E h k ns labels)"

definition CreateObj :: "env \<Rightarrow> kobj \<Rightarrow> unit io" where
  "CreateObj E x = call (EvCreate x) (\<lambda>h. e_create E h x)"

definition UpdateObj :: "env \<Rightarrow> kobj \<Rightarrow> kobj io" where
  "UpdateObj E x = call (EvUpdate x) (\<lambda>h. e_update E h x)"

definition StatusUpdate :: "env \<Rightarrow> kobj \<Rightarrow> unit io" where
  "StatusUpdate E x = call (EvStatusUpdate x) (\<lambda>h. e_status_update E h x)"

definition DeleteObj :: "env \<Rightarrow> kobj \<Rightarrow> unit io" where
  "DeleteObj E x = call (EvDelete (obj_key x)) (\<lambda>h. e_delete E h (obj_key x))"

definition DeleteAllOf :: "env \<Rightarrow> okind \<Rightarrow> string \<Rightarrow> smap \<Rightarrow> unit io" where
  "DeleteAllOf E k ns labels = call (EvDeleteAll k ns labels) (\<lambda>h. e_delete_all E h k ns labels)"

definition RandRead :: "env \<Rightarrow> int \<Rightarrow> string io" where
  "RandRead E n = call (EvRandom n) (\<lambda>h. e_random E h n)"

definition Recorder_Event :: "string \<Rightarrow> string \<Rightarrow> unit io" where
  "Recorder_Event type reason = call (EvRecord type reason) (\<lambda>h. Inr ())"

definition CreateOrUpdate :: "env \<Rightarrow> kobj \<Rightarrow> (kobj \<Rightarrow> kobj io) \<Rightarrow> op_result io" where
  "CreateOrUpdate E x mutate =
     bnd (call (EvLoad (obj_key x)) (\<lambda>h. e_load E h x)) (\<lambda>x0.
     bnd (mutate x0) (\<lambda>x1.
       call (EvStore x1) (\<lambda>h. e_store E h x1)))"

definition SetControllerReference :: "env \<Rightarrow> kobj \<Rightarrow> kobj \<Rightarrow> kobj io" where
  "SetControllerReference E owner x =
     bnd (lift (e_owner E owner (obj_meta x))) (\<lambda>m. ret (set_meta m x))"

text \<open>
  \<open>retry.RetryOnConflict\<close>: at most \<open>n\<close> attempts, a new one only after a conflict.
\<close>

fun retry_on_conflict :: "nat \<Rightarrow> 'a io \<Rightarrow> 'a io" where
  "retry_on_conflict 0 m = m"
| "retry_on_conflict (Suc n) m =
     on_result m (\<lambda>r. if r = Inl ErrConflict \<and> 0 < n then retry_on_conflict n m else lift r)"

definition RetryOnConflict :: "env \<Rightarrow> 'a io \<Rightarrow> 'a io" where
  "RetryOnConflict E m = retry_on_conflict (e_retry_steps E) m"

text \<open>A mutation that sets the owner and then changes the object in place.\<close>

definition owned :: "env \<Rightarrow> kobj \<Rightarrow> (kobj \<Rightarrow> kobj) \<Rightarrow> kobj \<Rightarrow> kobj io" where
  "owned E owner f x = bnd (SetControllerReference E owner x) (\<lambda>x1. ret (f x1))"

section \<open>Reasoning about programs\<close>

text \<open>
  \<open>io_spec P m Q\<close>: whatever the history, the calls \<open>m\<close> adds satisfy \<open>P\<close> and its result
  satisfies \<open>Q\<close>.
\<close>

definition io_spec :: "(event \<Rightarrow> bool) \<Rightarrow> 'a io \<Rightarrow> (err + 'a \<Rightarrow> bool) \<Rightarrow> bool" where
  "io_spec P m Q \<longleftrightarrow>
     (\<forall>h. Q (fst (m h)) \<and> (\<exists>evs. snd (m h) = h @ evs \<and> list_all P evs))"

lemma io_spec_weaken:
  "io_spec P m Q \<Longrightarrow> (\<And>e. P e \<Longrightarrow> P' e) \<Longrightarrow> (\<And>r. Q r \<Longrightarrow> Q' r) \<Longrightarrow> io_spec P' m Q'"
  unfolding io_spec_def by (metis list.pred_mono_strong)

lemma io_spec_emits: "io_spec P m Q \<Longrightarrow> io_spec P m (\<lambda>_. True)"
  by (erule io_spec_weaken) simp_all

lemma io_spec_ret: "Q (Inr x) \<Longrightarrow> io_spec P (ret x) Q"
  by (simp add: io_spec_def ret_def)

lemma io_spec_fail: "Q (Inl e) \<Longrightarrow> io_spec P (fail e) Q"
  by (simp add: io_spec_def fail_def)

lemma io_spec_lift: "Q r \<Longrightarrow> io_spec P (lift r) Q"
  by (simp add: io_spec_def lift_def)

lemma io_spec_call: "P ev \<Longrightarrow> (\<And>h. Q (answer h)) \<Longrightarrow> io_spec P (call ev answer) Q"
  by (simp add: io_spec_def call_def)

lemma io_spec_bnd:
  assumes "io_spec P m R"
    and "\<And>x. R (Inr x) \<Longrightarrow> io_spec P (f x) Q" and "\<And>e. R (Inl e) \<Longrightarrow> Q (Inl e)"
  shows "io_spec P (bnd m f) Q"
  unfolding io_spec_def
proof
  fix h
  from assms(1) obtain evs where 1: "R (fst (m h))" "snd (m h) = h @ evs" "list_all P evs"
    unfolding io_spec_def by blast
  show "Q (fst (bnd m f h)) \<and> (\<exists>evs. snd (bnd m f h) = h @ evs \<and> list_all P evs)"
  proof (cases "fst (m h)")
    case (Inl e)
    then have "bnd m f h = (Inl e, h @ evs)"
      using 1 by (cases "m h") (simp add: bnd_def)
    then show ?thesis
      using assms(3) 1 Inl by simp
  next
    case (Inr x)
    then have b: "bnd m f h = f x (h @ evs)"
      using 1 by (cases "m h") (simp add: bnd_def)
    have "io_spec P (f x) Q"
      using assms(2) 1 Inr by simp
    then obtain evs' where "Q (fst (f x (h @ evs)))" "snd (f x (h @ evs)) = (h @ evs) @ evs'" "list_all P evs'"
      unfolding io_spec_def by blast
    then show ?thesis
      using 1 b by (auto intro: exI [of _ "evs @ evs'"])
  qed
qed

lemma io_spec_on_result:
  assumes "io_spec P m R"
    and "\<And>r. R r \<Longrightarrow> (\<forall>e. r = Inl e \<longrightarrow> \<not> is_panic e) \<Longrightarrow> io_spec P (f r) Q"
    and "\<And>e. R (Inl e) \<Longrightarrow> is_panic e \<Longrightarrow> Q (Inl e)"
  shows "io_spec P (on_result m f) Q"
  unfolding io_spec_def
proof
  fix h
  from assms(1) obtain evs where 1: "R (fst (m h))" "snd (m h) = h @ evs" "list_all P evs"
    unfolding io_spec_def by blast
  show "Q (fst (on_result m f h)) \<and> (\<exists>evs. snd (on_result m f h) = h @ evs \<and> list_all P evs)"
  proof (cases "\<exists>e. fst (m h) = Inl e \<and> is_panic e")
    case True
    then obtain e where e: "fst (m h) = Inl e" "is_panic e"
      by blast
    then have "on_result m f h = (Inl e, h @ evs)"
      using 1 by (cases "m h") (simp add: on_result_def)
    then show ?thesis
      using assms(3) 1 e by simp
  next
    case False
    define r where "r = fst (m h)"
    have b: "on_result m f h = f r (h @ evs)"
      using 1 False by (cases "m h") (auto simp: on_result_def r_def split: sum.split)
    have "io_spec P (f r) Q"
      using 1 False by (intro assms(2)) (auto simp: r_def)
    then obtain evs' where "Q (fst (f r (h @ evs)))" "snd (f r (h @ evs)) = (h @ evs) @ evs'" "list_all P evs'"
      unfolding io_spec_def by blast
    then show ?thesis
      using 1 b by (auto intro: exI [of _ "evs @ evs'"])
  qed
qed

text \<open>
  For statements about the calls alone, one rule per construct; together with \<open>emit_intros\<close> they
  follow the shape of a program.
\<close>

abbreviation emits :: "(event \<Rightarrow> bool) \<Rightarrow> 'a io \<Rightarrow> bool" where
  "emits P m \<equiv> io_spec P m (\<lambda>_. True)"

lemma emits_ret [emit_intros]: "emits P (ret x)"
  by (rule io_spec_ret) simp

lemma emits_fail [emit_intros]: "emits P (fail e)"
  by (rule io_spec_fail) simp

lemma emits_lift [emit_intros]: "emits P (lift r)"
  by (rule io_spec_lift) simp

lemma emits_call [emit_intros]: "P ev \<Longrightarrow> emits P (call ev answer)"
  by (rule io_spec_call) simp_all

lemma emits_bnd [emit_intros]: "emits P m \<Longrightarrow> (\<And>x. emits P (f x)) \<Longrightarrow> emits P (bnd m f)"
  by (rule io_spec_bnd)

lemma emits_on_result [emit_intros]: "emits P m \<Longrightarrow> (\<And>r. emits P (f r)) \<Longrightarrow> emits P (on_result m f)"
  by (rule io_spec_on_result)

lemma emits_if [emit_intros]: "(b \<Longrightarrow> emits P m) \<Longrightarrow> (\<not> b \<Longrightarrow> emits P m') \<Longrightarrow> emits P (if b then m else m')"
  by simp

lemma emits_do_when [emit_intros]: "(b \<Longrightarrow> emits P m) \<Longrightarrow> emits P (do_when b m)"
  by (simp add: do_when_def emits_ret)

lemma emits_for_each [emit_intros]:
  "(\<And>x. x \<in> set xs \<Longrightarrow> emits P (f x)) \<Longrightarrow> emits P (for_each f xs)"
  by (induction xs) (auto intro: emits_ret emits_bnd)

lemma emits_retry [emit_intros]:
  assumes "emits P m"
  shows "emits P (RetryOnConflict E m)"
proof -
  have "emits P (retry_on_conflict n m)" for n
    by (induction n) (auto intro!: emits_on_result emits_lift assms)
  then show ?thesis
    by (simp add: RetryOnConflict_def)
qed

lemma emits_case_sum [emit_intros]:
  "(\<And>e. r = Inl e \<Longrightarrow> emits P (f e)) \<Longrightarrow> (\<And>x. r = Inr x \<Longrightarrow> emits P (g x)) \<Longrightarrow>
   emits P (case r of Inl e \<Rightarrow> f e | Inr x \<Rightarrow> g x)"
  by (cases r) simp_all

lemma emits_case_option [emit_intros]:
  "(r = None \<Longrightarrow> emits P m) \<Longrightarrow> (\<And>x. r = Some x \<Longrightarrow> emits P (g x)) \<Longrightarrow>
   emits P (case r of None \<Rightarrow> m | Some x \<Rightarrow> g x)"
  by (cases r) simp_all

lemma emits_case_prod [emit_intros]:
  "(\<And>x y. r = (x, y) \<Longrightarrow> emits P (g x y)) \<Longrightarrow> emits P (case r of (x, y) \<Rightarrow> g x y)"
  by (cases r) simp_all

lemma emits_calls [emit_intros]:
  "P (EvGet (k, ns, n)) \<Longrightarrow> emits P (Get E k ns n)"
  "P (EvList k nso ls) \<Longrightarrow> emits P (ListObjs E k nso ls)"
  "P (EvCreate x) \<Longrightarrow> emits P (CreateObj E x)"
  "P (EvUpdate x) \<Longrightarrow> emits P (UpdateObj E x)"
  "P (EvStatusUpdate x) \<Longrightarrow> emits P (StatusUpdate E x)"
  "P (EvDelete (obj_key x)) \<Longrightarrow> emits P (DeleteObj E x)"
  "P (EvDeleteAll k ns ls) \<Longrightarrow> emits P (DeleteAllOf E k ns ls)"
  "P (EvRandom i) \<Longrightarrow> emits P (RandRead E i)"
  "P (EvRecord t s) \<Longrightarrow> emits P (Recorder_Event t s)"
  by (simp_all add: Get_def ListObjs_def CreateObj_def UpdateObj_def StatusUpdate_def DeleteObj_def
      DeleteAllOf_def RandRead_def Recorder_Event_def emits_call)

section \<open>What the API server promises\<close>

text \<open>
  Objects come back under the key they were asked for, lists hold objects of their kind and
  namespace, loading starts from an object of the same key, and setting the owner changes nothing
  but the owner.
\<close>

definition selected :: "okind \<Rightarrow> string option \<Rightarrow> smap \<Rightarrow> kobj \<Rightarrow> bool" where
  "selected k ns labels x \<longleftrightarrow>
     obj_kind x = k \<and> (case ns of None \<Rightarrow> True | Some n \<Rightarrow> om_Namespace (obj_meta x) = n) \<and>
     (\<forall>(l, v) \<in> set labels. map_of (om_Labels (obj_meta x)) l = Some v)"

text \<open>The reference a controller leaves in the objects it owns: kind and name.\<close>

definition owner_ref_of :: "kobj \<Rightarrow> owner_ref" where
  "owner_ref_of x =
     \<lparr>or_Kind =
        (if obj_kind x = OAstarte then ''Astarte''
         else if obj_kind x = OFlow then ''Flow''
         else if obj_kind x = OIngressCR then ''AstarteDefaultIngress''
         else []),
      or_Name = om_Name (obj_meta x)\<rparr>"

locale kube_api =
  fixes E :: env
  assumes get_key: "e_get E h key = Inr x \<Longrightarrow> obj_key x = key"
    and list_selected: "e_list E h k ns labels = Inr xs \<Longrightarrow> x \<in> set xs \<Longrightarrow> selected k ns labels x"
    and load_key: "e_load E h x = Inr y \<Longrightarrow> obj_key y = obj_key x"
    and update_key: "e_update E h x = Inr y \<Longrightarrow> obj_key y = obj_key x"
    and owner_only: "e_owner E owner m = Inr m' \<Longrightarrow> m' = m\<lparr>om_Controller := Some (owner_ref_of owner)\<rparr>"
    and retry_positive: "0 < e_retry_steps E"
begin

lemma SetControllerReference_spec:
  "io_spec P (SetControllerReference E owner x)
     (\<lambda>r. \<forall>y. r = Inr y \<longrightarrow> y = set_meta ((obj_meta x)\<lparr>om_Controller := Some (owner_ref_of owner)\<rparr>) x)"
  unfolding SetControllerReference_def
  by (rule io_spec_bnd [OF io_spec_lift [where Q = "\<lambda>r. r = e_owner E owner (obj_meta x)"]])
    (auto intro!: io_spec_ret dest!: owner_only [OF sym])

lemma owned_spec:
  "io_spec P (owned E owner f x)
     (\<lambda>r. \<forall>y. r = Inr y \<longrightarrow> y = f (set_meta ((obj_meta x)\<lparr>om_Controller := Some (owner_ref_of owner)\<rparr>) x))"
  unfolding owned_def
  by (rule io_spec_bnd [OF SetControllerReference_spec]) (auto intro!: io_spec_ret)

text \<open>
  Creating or updating an object stores one object of the same key if the mutation keeps the key.
\<close>

lemma emits_CreateOrUpdate:
  assumes "P (EvLoad (obj_key x))"
    and "\<And>x0. obj_key x0 = obj_key x \<Longrightarrow> io_spec P (mutate x0) (\<lambda>r. \<forall>y. r = Inr y \<longrightarrow> P (EvStore y))"
  shows "emits P (CreateOrUpdate E x mutate)"
  unfolding CreateOrUpdate_def
proof (rule io_spec_bnd)
  show "io_spec P (call (EvLoad (obj_key x)) (\<lambda>h. e_load E h x))
      (\<lambda>r. \<forall>x0. r = Inr x0 \<longrightarrow> obj_key x0 = obj_key x)"
    using assms(1) load_key by (intro io_spec_call) auto
  fix x0
  assume "\<forall>y. (Inr x0 :: err + kobj) = Inr y \<longrightarrow> obj_key y = obj_key x"
  then have "obj_key x0 = obj_key x"
    by simp
  from assms(2) [OF this] show "emits P (bnd (mutate x0) (\<lambda>x1. call (EvStore x1) (\<lambda>h. e_store E h x1)))"
    by (rule io_spec_bnd) (auto intro!: io_spec_call)
qed simp

lemma emits_CreateOrUpdate_owned:
  assumes "P (EvLoad (obj_key x))"
    and "\<And>x0. obj_key x0 = obj_key x \<Longrightarrow> om_Controller (obj_meta x0) = Some (owner_ref_of owner) \<Longrightarrow>
           P (EvStore (f x0))"
  shows "emits P (CreateOrUpdate E x (owned E owner f))"
proof (rule emits_CreateOrUpdate [where P = P, OF assms(1)])
  fix x0
  assume "obj_key x0 = obj_key x"
  then show "io_spec P (owned E owner f x0) (\<lambda>r. \<forall>y. r = Inr y \<longrightarrow> P (EvStore y))"
    using assms(2) by (intro io_spec_weaken [OF owned_spec]) (auto simp: obj_key_def)
qed

end

end
