(* ===== verification/Astarte_Version.thy ===== *)
theory Astarte_Version
  imports Astarte_Types
begin

text \<open>
  The version gate of the operator (\<open>internal/version\<close>): which Astarte versions it agrees to
  manage. Semantic versions are the business of a library, which is a parameter: the record
  \<open>semver\<close> holds the functions the operator calls, the locale \<open>semver_laws\<close> what their
  documentation promises about them.
\<close>

section \<open>The library's interface\<close>

text \<open>
  \<open>NewVersion\<close> and \<open>NewConstraint\<close> return a pointer or an error, \<open>SetPrerelease\<close> a value
  and an error, \<open>Check\<close> is called on pointers that may be nil and may panic.
\<close>

record ('v, 'c) semver =
  sv_NewVersion :: "string \<Rightarrow> err + 'v"
  sv_Prerelease :: "'v \<Rightarrow> string"
  sv_SetPrerelease :: "'v \<Rightarrow> string \<Rightarrow> 'v \<times> err option"
  sv_NewConstraint :: "string \<Rightarrow> err + 'c"
  sv_Check :: "'c option \<Rightarrow> 'v option \<Rightarrow> err + bool"
  sv_GreaterThan :: "'v \<Rightarrow> 'v \<Rightarrow> bool"

text \<open>\<open>semver.MustParse\<close> panics where \<open>NewVersion\<close> returns an error.\<close>

definition MustParse :: "('v, 'c) semver \<Rightarrow> string \<Rightarrow> err + 'v" where
  "MustParse sv s = (case sv_NewVersion sv s of Inl e \<Rightarrow> Inl (GoPanic ''MustParse'') | Inr v \<Rightarrow> Inr v)"

text \<open>The pointer of a call whose error is dropped.\<close>

definition ptr_of :: "err + 'a \<Rightarrow> 'a option" where
  "ptr_of r = (case r of Inl e \<Rightarrow> None | Inr x \<Rightarrow> Some x)"

lemma ptr_of_simps [simp]: "ptr_of (Inr x) = Some x" "ptr_of (Inl e) = None"
  by (simp_all add: ptr_of_def)

section \<open>\<open>version.go\<close> and \<open>checks.go\<close>\<close>

definition Version :: string where
  "Version = ''25.5.0-dev''"

definition AstarteVersionConstraintString :: string where
  "AstarteVersionConstraintString = ''>= 1.3.0, < 1.4.0''"

definition SnapshotVersion :: string where
  "SnapshotVersion = ''snapshot''"

definition CanManageSnapshot :: "('v, 'c) semver \<Rightarrow> bool" where
  "CanManageSnapshot sv =
     (case sv_NewVersion sv Version of
        Inl e \<Rightarrow> False
      | Inr operatorVersion \<Rightarrow> sv_Prerelease sv operatorVersion \<noteq> '''')"

definition CanManageVersion :: "('v, 'c) semver \<Rightarrow> string \<Rightarrow> err + bool" where
  "CanManageVersion sv v =
     (if v = SnapshotVersion then Inr (CanManageSnapshot sv)
      else case sv_NewVersion sv v of
        Inl e \<Rightarrow> Inr False
      | Inr targetVersion \<Rightarrow>
          (let target = fst (sv_SetPrerelease sv targetVersion '''');
               c = ptr_of (sv_NewConstraint sv AstarteVersionConstraintString)
           in sv_Check sv c (Some target)))"

definition GetAstarteSemanticVersionFrom :: "('v, 'c) semver \<Rightarrow> string \<Rightarrow> err + 'v" where
  "GetAstarteSemanticVersionFrom sv v =
     rbind (CanManageVersion sv v) (\<lambda>can.
       if \<not> can then Inl (ErrGo (''version '' @ v @ '' cannot be managed by this Operator''))
       else if v = SnapshotVersion then sv_NewVersion sv ''999.99.9''
       else sv_NewVersion sv v)"

definition ErrConstraintNotSatisfied :: err where
  "ErrConstraintNotSatisfied = ErrGo ''constraint not satisfied''"

definition CheckConstraintAgainstAstarteVersion ::
    "('v, 'c) semver \<Rightarrow> string \<Rightarrow> string \<Rightarrow> err + unit" where
  "CheckConstraintAgainstAstarteVersion sv constraint v =
     rbind (sv_NewConstraint sv constraint) (\<lambda>c.
     rbind (GetAstarteSemanticVersionFrom sv v) (\<lambda>semVer.
       (case sv_SetPrerelease sv semVer '''' of
          (_, Some e) \<Rightarrow> Inl e
        | (semVer', None) \<Rightarrow>
            rbind (sv_Check sv (Some c) (Some semVer')) (\<lambda>ok.
              if \<not> ok then Inl ErrConstraintNotSatisfied else Inr ()))))"

definition GetVersionForAstarteComponent :: "string \<Rightarrow> string \<Rightarrow> string" where
  "GetVersionForAstarteComponent astarteVersion componentVersion =
     (if componentVersion \<noteq> '''' then componentVersion else astarteVersion)"

definition CheckConstraintAgainstAstarteComponentVersion ::
    "('v, 'c) semver \<Rightarrow> string \<Rightarrow> string \<Rightarrow> string \<Rightarrow> err + unit" where
  "CheckConstraintAgainstAstarteComponentVersion sv constraint componentVersion astarteVersion =
     (let versionString = GetVersionForAstarteComponent astarteVersion componentVersion
      in CheckConstraintAgainstAstarteVersion sv constraint versionString)"

section \<open>What the library promises\<close>

text \<open>
  \<open>core\<close> reads the three numbers of a version. The laws cover what the operator relies on: a
  version and a constraint the operator names are well formed, \<open>snapshot\<close> is no version, a
  prerelease can be cleared, and a version without prerelease satisfies the operator's constraint
  exactly when its numbers lie in the range the constraint spells out.
\<close>

type_synonym core = "nat \<times> nat \<times> nat"

definition core_le :: "core \<Rightarrow> core \<Rightarrow> bool" where
  "core_le a b =
     (case (a, b) of ((a1, a2, a3), (b1, b2, b3)) \<Rightarrow>
        a1 < b1 \<or> a1 = b1 \<and> (a2 < b2 \<or> a2 = b2 \<and> a3 \<le> b3))"

definition in_supported_range :: "core \<Rightarrow> bool" where
  "in_supported_range c \<longleftrightarrow> core_le (1, 3, 0) c \<and> \<not> core_le (1, 4, 0) c"

lemma in_supported_range_iff: "in_supported_range (a, b, c) \<longleftrightarrow> a = 1 \<and> b = 3"
  by (auto simp: in_supported_range_def core_le_def)

locale semver_laws =
  fixes sv :: "('v, 'c) semver" and core :: "'v \<Rightarrow> core"
  assumes operator_version: "\<exists>v. sv_NewVersion sv Version = Inr v \<and> sv_Prerelease sv v = ''dev''"
    and snapshot_no_version: "\<not> isOK (sv_NewVersion sv SnapshotVersion)"
    and snapshot_stand_in:
      "\<exists>v. sv_NewVersion sv ''999.99.9'' = Inr v \<and> core v = (999, 99, 9) \<and> sv_Prerelease sv v = ''''"
    and clear_prerelease:
      "\<exists>v'. sv_SetPrerelease sv v '''' = (v', None) \<and> core v' = core v \<and> sv_Prerelease sv v' = ''''"
    and constraint_parses: "isOK (sv_NewConstraint sv AstarteVersionConstraintString)"
    and constraint_checks:
      "sv_NewConstraint sv AstarteVersionConstraintString = Inr c \<Longrightarrow> sv_Prerelease sv v = '''' \<Longrightarrow>
       sv_Check sv (Some c) (Some v) = Inr (in_supported_range (core v))"
    and clustering_version: "isOK (sv_NewVersion sv ''1.2.0'')"
    and vernemq_constraint:
      "\<exists>c. sv_NewConstraint sv ''>= 1.2.0-0'' = Inr c \<and> (\<forall>v. isOK (sv_Check sv (Some c) (Some v)))"
begin

lemma can_manage_snapshot: "CanManageSnapshot sv"
  using operator_version by (auto simp: CanManageSnapshot_def)

lemma can_manage_version:
  "CanManageVersion sv s =
     Inr (s = SnapshotVersion \<or>
          (case sv_NewVersion sv s of Inl e \<Rightarrow> False | Inr v \<Rightarrow> in_supported_range (core v)))"
proof (cases "s = SnapshotVersion")
  case True
  then show ?thesis
    by (simp add: CanManageVersion_def can_manage_snapshot)
next
  case False
  show ?thesis
  proof (cases "sv_NewVersion sv s")
    case (Inl e)
    with False show ?thesis
      by (simp add: CanManageVersion_def)
  next
    case (Inr v)
    obtain v' where v': "sv_SetPrerelease sv v '''' = (v', None)" "core v' = core v"
      "sv_Prerelease sv v' = ''''"
      using clear_prerelease by blast
    obtain c where c: "sv_NewConstraint sv AstarteVersionConstraintString = Inr c"
      using constraint_parses by (auto simp: isOK_iff)
    show ?thesis
      using False Inr v' constraint_checks [OF c v'(3)]
      by (simp add: CanManageVersion_def c)
  qed
qed

lemma semantic_version_cases:
  "GetAstarteSemanticVersionFrom sv s =
     (if s = SnapshotVersion then sv_NewVersion sv ''999.99.9''
      else case sv_NewVersion sv s of
        Inl e \<Rightarrow> Inl (ErrGo (''version '' @ s @ '' cannot be managed by this Operator''))
      | Inr v \<Rightarrow> if in_supported_range (core v) then Inr v
                 else Inl (ErrGo (''version '' @ s @ '' cannot be managed by this Operator'')))"
  by (auto simp: GetAstarteSemanticVersionFrom_def can_manage_version split: sum.split)

lemma must_parse_snapshot: "MustParse sv SnapshotVersion = Inl (GoPanic ''MustParse'')"
  using snapshot_no_version by (simp add: MustParse_def isOK_def split: sum.splits)

lemma supported_parses:
  "CanManageVersion sv s = Inr True \<Longrightarrow> s \<noteq> SnapshotVersion \<Longrightarrow>
   \<exists>v. sv_NewVersion sv s = Inr v \<and> fst (core v) = 1 \<and> fst (snd (core v)) = 3"
  by (cases "sv_NewVersion sv s"; cases "core (projr (sv_NewVersion sv s))")
    (auto simp: can_manage_version in_supported_range_iff)

end

section \<open>A strict instance\<close>

text \<open>
  The laws can be met: a library that reads exactly \<open>MAJOR.MINOR.PATCH\<close> with an optional
  \<open>-PRERELEASE\<close>, and constraints that are comma-separated \<open>>= VERSION\<close> and
  \<open>< VERSION\<close> parts. The witnesses of theorems about versions use it.
\<close>

type_synonym strict_version = "core \<times> string"

datatype strict_bound = AtLeast core | Below core

definition strict_num :: "string \<Rightarrow> nat option" where
  "strict_num s = (if s = [] then None else
     (case scan_digits 0 s of Inl e \<Rightarrow> None | Inr n \<Rightarrow> Some (nat n)))"

definition strict_NewVersion :: "string \<Rightarrow> err + strict_version" where
  "strict_NewVersion s =
     (case Split CHR ''-'' s of
        [] \<Rightarrow> Inl (ErrGo ''Invalid Semantic Version'')
      | p # rest \<Rightarrow>
         (case map strict_num (Split CHR ''.'' p) of
            [Some a, Some b, Some c] \<Rightarrow> Inr ((a, b, c), Join rest ''-'')
          | _ \<Rightarrow> Inl (ErrGo ''Invalid Semantic Version'')))"

definition strict_bound_of :: "string \<Rightarrow> err + strict_bound" where
  "strict_bound_of s0 =
     (let s = dropWhile (\<lambda>c. c = CHR '' '') s0 in
      if HasPrefix s ''>= '' then rmap (\<lambda>v. AtLeast (fst v)) (strict_NewVersion (drop 3 s))
      else if HasPrefix s ''< '' then rmap (\<lambda>v. Below (fst v)) (strict_NewVersion (drop 2 s))
      else Inl (ErrGo ''improper constraint''))"

definition strict_holds :: "strict_version \<Rightarrow> strict_bound \<Rightarrow> bool" where
  "strict_holds v b = (case b of AtLeast c \<Rightarrow> core_le c (fst v) | Below c \<Rightarrow> \<not> core_le c (fst v))"

definition strict_semver :: "(strict_version, strict_bound list) semver" where
  "strict_semver =
     \<lparr>sv_NewVersion = strict_NewVersion,
      sv_Prerelease = snd,
      sv_SetPrerelease = (\<lambda>v p. ((fst v, p), None)),
      sv_NewConstraint = (\<lambda>s. rmapM strict_bound_of (Split CHR '','' s)),
      sv_Check = (\<lambda>c v. rbind (deref c) (\<lambda>bs. rbind (deref v) (\<lambda>x. Inr (list_all (strict_holds x) bs)))),
      sv_GreaterThan = (\<lambda>a b. \<not> core_le (fst a) (fst b))\<rparr>"

lemma strict_constraint:
  "rmapM strict_bound_of (Split CHR '','' AstarteVersionConstraintString) =
     Inr [AtLeast (1, 3, 0), Below (1, 4, 0)]"
  by code_simp

interpretation strict: semver_laws strict_semver fst
proof unfold_locales
  show "\<exists>v. sv_NewVersion strict_semver Version = Inr v \<and> sv_Prerelease strict_semver v = ''dev''"
  proof
    show "sv_NewVersion strict_semver Version = Inr ((25, 5, 0), ''dev'') \<and>
        sv_Prerelease strict_semver ((25, 5, 0), ''dev'') = ''dev''"
      by code_simp
  qed
  show "\<not> isOK (sv_NewVersion strict_semver SnapshotVersion)"
    by code_simp
  show "\<exists>v. sv_NewVersion strict_semver ''999.99.9'' = Inr v \<and> fst v = (999, 99, 9) \<and>
      sv_Prerelease strict_semver v = ''''"
  proof
    show "sv_NewVersion strict_semver ''999.99.9'' = Inr ((999, 99, 9), '''') \<and>
        fst ((999, 99, 9) :: core, '''' :: string) = (999, 99, 9) \<and>
        sv_Prerelease strict_semver ((999, 99, 9), '''') = ''''"
      by code_simp
  qed
  show "\<exists>v'. sv_SetPrerelease strict_semver v '''' = (v', None) \<and> fst v' = fst v \<and>
      sv_Prerelease strict_semver v' = ''''" for v
    by (simp add: strict_semver_def)
  show "isOK (sv_NewConstraint strict_semver AstarteVersionConstraintString)"
    by (simp add: strict_semver_def strict_constraint)
  show "sv_Check strict_semver (Some c) (Some v) = Inr (in_supported_range (fst v))"
    if "sv_NewConstraint strict_semver AstarteVersionConstraintString = Inr c"
      and "sv_Prerelease strict_semver v = ''''" for c v
    using that
    by (auto simp: strict_semver_def strict_constraint strict_holds_def in_supported_range_def)
  show "isOK (sv_NewVersion strict_semver ''1.2.0'')"
    by code_simp
  have "sv_NewConstraint strict_semver ''>= 1.2.0-0'' = Inr [AtLeast (1, 2, 0)]"
    by code_simp
  then show "\<exists>c. sv_NewConstraint strict_semver ''>= 1.2.0-0'' = Inr c \<and>
      (\<forall>v. isOK (sv_Check strict_semver (Some c) (Some v)))"
    by (auto simp: strict_semver_def)
qed

section \<open>The gate\<close>

text \<open>C38: exactly the 1.3 releases and the snapshot pass the gate.

  A version is accepted, with the semantic version the controller goes on with, exactly when it parses and is
  some 1.3.x, prereleases of 1.3.0 included and prereleases of 1.4.0 not; the snapshot is accepted as
  999.99.9. Nothing in the gate panics.\<close>

theorem version_gate_exact:
  assumes "semver_laws sv core"
  shows "GetAstarteSemanticVersionFrom sv s = Inr v \<longleftrightarrow>
     (if s = SnapshotVersion then sv_NewVersion sv ''999.99.9'' = Inr v
      else sv_NewVersion sv s = Inr v \<and> fst (core v) = 1 \<and> fst (snd (core v)) = 3)"
  unfolding semver_laws.semantic_version_cases [OF assms]
  by (cases "core v") (auto simp: in_supported_range_iff split: sum.split)

theorem version_gate_exact_witness:
  "GetAstarteSemanticVersionFrom strict_semver ''1.3.0-rc.1'' = Inr ((1, 3, 0), ''rc.1'') \<and>
   GetAstarteSemanticVersionFrom strict_semver ''1.4.0-rc.1'' \<noteq> Inr ((1, 4, 0), ''rc.1'')"
proof -
  have "''1.3.0-rc.1'' \<noteq> SnapshotVersion" "''1.4.0-rc.1'' \<noteq> SnapshotVersion"
    "sv_NewVersion strict_semver ''1.3.0-rc.1'' = Inr ((1, 3, 0), ''rc.1'')"
    by code_simp+
  then show ?thesis
    using version_gate_exact [OF strict.semver_laws_axioms] by simp
qed

end
