(* ===== verification/Example_Resource.thy ===== *)
theory Example_Resource
  imports Astarte_Types
begin

text \<open>
  A complete Astarte resource, the input at which the witnesses of the development evaluate the
  model: both connections set, with SSL towards RabbitMQ, ten data queues, resources for the whole
  of Astarte, priorities enabled, and one component with labels and variables of its own.
\<close>

definition ex_meta :: object_meta where
  "ex_meta = NewMeta ''example'' ''astarte''"

definition ex_generic :: AstarteGenericClusteredResource where
  "ex_generic = EmptyClusteredResource\<lparr>
     gcr_AdditionalEnv := [EnvValue ''RELEASE_NAME'' ''custom'', EnvValue ''LOG_LEVEL'' ''debug''],
     gcr_PodLabels := [(''team'', ''iot'')]\<rparr>"

definition ex_api :: "AstarteGenericClusteredResource \<Rightarrow> AstarteGenericAPIComponentSpec" where
  "ex_api g = \<lparr>gac_Generic = g, gac_DisableAuthentication = None\<rparr>"

definition ex_ssl :: GenericSSLConfigurationSpec where
  "ex_ssl = \<lparr>ssl_Enable = True, ssl_CustomCASecret = ''rabbitmq-ca'', ssl_SNI = None, ssl_CustomSNI = ''''\<rparr>"

definition ex_no_ssl :: GenericSSLConfigurationSpec where
  "ex_no_ssl = \<lparr>ssl_Enable = False, ssl_CustomCASecret = '''', ssl_SNI = None, ssl_CustomSNI = ''''\<rparr>"

definition ex_rabbitmq :: AstarteRabbitMQSpec where
  "ex_rabbitmq =
     \<lparr>rmq_Connection = Some \<lparr>rmqc_HostAndPort = \<lparr>hp_Host = ''rabbitmq'', hp_Port = None\<rparr>,
        rmqc_Generic = \<lparr>conn_SSLConfiguration = ex_ssl, conn_CredentialsSecret = None, conn_ConnectionStringSecret = None\<rparr>,
        rmqc_VirtualHost = ''''\<rparr>,
      rmq_DataQueuesPrefix = '''', rmq_EventsExchangeName = ''''\<rparr>"

definition ex_cassandra :: AstarteCassandraSpec where
  "ex_cassandra =
     \<lparr>cass_Connection = Some \<lparr>cassc_Generic = \<lparr>conn_SSLConfiguration = ex_no_ssl, conn_CredentialsSecret = None,
          conn_ConnectionStringSecret = None\<rparr>,
        cassc_Nodes = [\<lparr>hp_Host = ''scylla'', hp_Port = Some 9042\<rparr>], cassc_PoolSize = None, cassc_EnableKeepalive = None\<rparr>,
      cass_AstarteSystemKeyspace = \<lparr>ask_ReplicationStrategy = ''NetworkTopologyStrategy'', ask_ReplicationFactor = 0,
        ask_DataCenterReplication = ''dc1:3,dc2:5''\<rparr>\<rparr>"

definition ex_vernemq :: AstarteVerneMQSpec where
  "ex_vernemq =
     \<lparr>vmq_Generic = EmptyClusteredResource, vmq_HostAndPort = \<lparr>hp_Host = ''broker.example.com'', hp_Port = None\<rparr>,
      vmq_CaSecret = '''', vmq_Storage = None, vmq_DeviceHeartbeatSeconds = 60, vmq_MaxOfflineMessages = None,
      vmq_PersistentClientExpiration = '''', vmq_MirrorQueue = '''', vmq_SSLListener = Some True,
      vmq_SSLListenerCertSecretName = ''broker-cert''\<rparr>"

definition ex_cfssl :: AstarteCFSSLSpec where
  "ex_cfssl =
     \<lparr>cfssl_Deploy = None, cfssl_URL = '''', cfssl_CaExpiry = '''', cfssl_CASecret = '''', cfssl_CertificateExpiry = '''',
      cfssl_DBConfig = None, cfssl_Resources = None, cfssl_Version = '''', cfssl_Image = '''', cfssl_Storage = None,
      cfssl_CSRRootCa = None, cfssl_CARootConfig = None, cfssl_PodLabels = [], cfssl_PriorityClass = '''',
      cfssl_LivenessProbe = None, cfssl_ReadinessProbe = None, cfssl_StartupProbe = None\<rparr>"

definition ex_components :: AstarteComponentsSpec where
  "ex_components =
     \<lparr>comp_Resources = Some \<lparr>rr_Limits = [(''cpu'', Quantity ''4''), (''memory'', Quantity ''8G'')],
                              rr_Requests = [(''cpu'', Quantity ''2''), (''memory'', Quantity ''4G'')]\<rparr>,
      comp_Flow = ex_api EmptyClusteredResource,
      comp_Housekeeping = ex_api EmptyClusteredResource,
      comp_RealmManagement = ex_api EmptyClusteredResource,
      comp_Pairing = ex_api ex_generic,
      comp_DataUpdaterPlant = \<lparr>dup_Generic = EmptyClusteredResource\<lparr>gcr_Replicas := Some 3\<rparr>,
        dup_DataQueueCount = Some 10, dup_PrefetchCount = None\<rparr>,
      comp_AppengineAPI = \<lparr>ae_GenericAPI = ex_api EmptyClusteredResource, ae_MaxResultsLimit = None,
        ae_RoomEventsQueueName = '''', ae_RoomEventsExchangeName = ''''\<rparr>,
      comp_TriggerEngine = \<lparr>te_Generic = ex_generic, te_EventsQueueName = '''', te_EventsRoutingKey = ''''\<rparr>,
      comp_Dashboard = \<lparr>dash_Generic = EmptyClusteredResource,
        dash_Config = \<lparr>dashc_RealmManagementAPIURL = '''', dashc_AppEngineAPIURL = '''', dashc_PairingAPIURL = '''',
          dashc_FlowAPIURL = '''', dashc_DefaultRealm = '''', dashc_DefaultAuth = '''', dashc_Auth = []\<rparr>\<rparr>\<rparr>"

definition ex_features :: AstarteFeatures where
  "ex_features =
     \<lparr>feat_RealmDeletion = False, feat_Autoscaling = False,
      feat_AstartePodPriorities = Some \<lparr>prio_Enable = True, prio_AstarteHighPriority = Some 1000,
        prio_AstarteMidPriority = Some 100, prio_AstarteLowPriority = Some 10\<rparr>,
      feat_FDO = None\<rparr>"

definition ex_spec :: AstarteSpec where
  "ex_spec =
     \<lparr>spec_Version = ''1.3.0'', spec_Features = ex_features, spec_ImagePullPolicy = Some ''IfNotPresent'',
      spec_ImagePullSecrets = [], spec_DistributionChannel = ''astarte'', spec_DeploymentStrategy = None,
      spec_StorageClassName = '''', spec_API = \<lparr>api_SSL = None, api_Host = ''api.example.com''\<rparr>,
      spec_RabbitMQ = ex_rabbitmq, spec_Cassandra = ex_cassandra, spec_VerneMQ = ex_vernemq,
      spec_CFSSL = ex_cfssl, spec_Components = ex_components, spec_AstarteInstanceID = ''instance'',
      spec_ManualMaintenanceMode = False\<rparr>"

definition ex_astarte :: Astarte where
  "ex_astarte =
     \<lparr>ast_Meta = ex_meta, ast_Spec = ex_spec,
      ast_Status = \<lparr>status_ReconciliationPhase = ReconciliationPhaseUnknown, status_AstarteVersion = '''',
        status_OperatorVersion = '''', status_Health = HealthUnset, status_BaseAPIURL = '''', status_BrokerURL = ''''\<rparr>\<rparr>"

lemmas ex_defs =
  ex_meta_def ex_generic_def ex_api_def ex_ssl_def ex_no_ssl_def ex_rabbitmq_def ex_cassandra_def ex_vernemq_def
  ex_cfssl_def ex_components_def ex_features_def ex_spec_def ex_astarte_def EmptyClusteredResource_def

end
