(* ===== verification/Misc_Utils.thy ===== *)
theory Misc_Utils
  imports Astarte_Types Astarte_Version Example_Resource
begin

text \<open>
  The helpers of \<open>internal/misc/utils.go\<close> and \<open>internal/deps\<close> that read the Astarte
  resource: broker URL, RabbitMQ and Cassandra access data, and which components are deployed.
\<close>

definition RabbitMQDefaultUserCredentialsUsernameKey :: string where
  "RabbitMQDefaultUserCredentialsUsernameKey = ''admin-username''"

definition RabbitMQDefaultUserCredentialsPasswordKey :: string where
  "RabbitMQDefaultUserCredentialsPasswordKey = ''admin-password''"

definition CassandraDefaultUserCredentialsUsernameKey :: string where
  "CassandraDefaultUserCredentialsUsernameKey = ''username''"

definition CassandraDefaultUserCredentialsPasswordKey :: string where
  "CassandraDefaultUserCredentialsPasswordKey = ''password''"

definition GetDefaultVersionForCFSSL :: "string \<Rightarrow> string" where
  "GetDefaultVersionForCFSSL astarteVersion = ''1.5.0-astarte.3''"

definition GetVerneMQBrokerURL :: "Astarte \<Rightarrow> string" where
  "GetVerneMQBrokerURL cr =
     (let hp = vmq_HostAndPort (spec_VerneMQ (ast_Spec cr))
      in ''mqtts://'' @ hp_Host hp @ '':'' @ Itoa (PtrValue (hp_Port hp) 8883))"

text \<open>The generic part of each deployable component.\<close>

definition component_resource :: "Astarte \<Rightarrow> AstarteComponent \<Rightarrow> AstarteGenericClusteredResource" where
  "component_resource cr c =
     (let cs = spec_Components (ast_Spec cr) in
      case c of
        AppEngineAPI \<Rightarrow> gac_Generic (ae_GenericAPI (comp_AppengineAPI cs))
      | Dashboard \<Rightarrow> dash_Generic (comp_Dashboard cs)
      | DataUpdaterPlant \<Rightarrow> dup_Generic (comp_DataUpdaterPlant cs)
      | FlowComponent \<Rightarrow> gac_Generic (comp_Flow cs)
      | Housekeeping \<Rightarrow> gac_Generic (comp_Housekeeping cs)
      | Pairing \<Rightarrow> gac_Generic (comp_Pairing cs)
      | RealmManagement \<Rightarrow> gac_Generic (comp_RealmManagement cs)
      | TriggerEngine \<Rightarrow> te_Generic (comp_TriggerEngine cs))"

text \<open>Flow is the one component that is not deployed by default.\<close>

definition IsAstarteComponentDeployed :: "Astarte \<Rightarrow> AstarteComponent \<Rightarrow> bool" where
  "IsAstarteComponentDeployed cr component =
     (case component of
        AppEngineAPI \<Rightarrow> PtrValue (gcr_Deploy (component_resource cr AppEngineAPI)) True
      | Dashboard \<Rightarrow> PtrValue (gcr_Deploy (component_resource cr Dashboard)) True
      | DataUpdaterPlant \<Rightarrow> PtrValue (gcr_Deploy (component_resource cr DataUpdaterPlant)) True
      | FlowComponent \<Rightarrow> PtrValue (gcr_Deploy (component_resource cr FlowComponent)) False
      | Housekeeping \<Rightarrow> PtrValue (gcr_Deploy (component_resource cr Housekeeping)) True
      | Pairing \<Rightarrow> PtrValue (gcr_Deploy (component_resource cr Pairing)) True
      | RealmManagement \<Rightarrow> PtrValue (gcr_Deploy (component_resource cr RealmManagement)) True
      | TriggerEngine \<Rightarrow> PtrValue (gcr_Deploy (component_resource cr TriggerEngine)) True)"

lemma IsAstarteComponentDeployed_eq:
  "IsAstarteComponentDeployed cr c = PtrValue (gcr_Deploy (component_resource cr c)) (c \<noteq> FlowComponent)"
  by (cases c) (simp_all add: IsAstarteComponentDeployed_def)

text \<open>The connection is a pointer that both RabbitMQ readers dereference.\<close>

definition GetRabbitMQHostnameAndPort :: "Astarte \<Rightarrow> err + string \<times> int" where
  "GetRabbitMQHostnameAndPort cr =
     rbind (deref (rmq_Connection (spec_RabbitMQ (ast_Spec cr)))) (\<lambda>c.
       Inr (hp_Host (rmqc_HostAndPort c), PtrValue (hp_Port (rmqc_HostAndPort c)) 5672))"

definition GetRabbitMQUserCredentialsSecret :: "Astarte \<Rightarrow> err + string \<times> string \<times> string" where
  "GetRabbitMQUserCredentialsSecret cr =
     rbind (deref (rmq_Connection (spec_RabbitMQ (ast_Spec cr)))) (\<lambda>c.
       (case conn_CredentialsSecret (rmqc_Generic c) of
          Some s \<Rightarrow> Inr (login_Name s, login_UsernameKey s, login_PasswordKey s)
        | None \<Rightarrow> Inr (cr_Name cr @ ''-rabbitmq-user-credentials'',
                       RabbitMQDefaultUserCredentialsUsernameKey,
                       RabbitMQDefaultUserCredentialsPasswordKey)))"

definition GetCassandraUserCredentialsSecret :: "Astarte \<Rightarrow> err + string \<times> string \<times> string" where
  "GetCassandraUserCredentialsSecret cr =
     rbind (deref (cass_Connection (spec_Cassandra (ast_Spec cr)))) (\<lambda>c.
       (case conn_CredentialsSecret (cassc_Generic c) of
          Some s \<Rightarrow> Inr (login_Name s, login_UsernameKey s, login_PasswordKey s)
        | None \<Rightarrow> Inr (cr_Name cr @ ''-cassandra-user-credentials'',
                       CassandraDefaultUserCredentialsUsernameKey,
                       CassandraDefaultUserCredentialsPasswordKey)))"

text \<open>Resources whose connections are set are the ones no reader panics on.\<close>

definition rabbitmq_connected :: "Astarte \<Rightarrow> bool" where
  "rabbitmq_connected cr \<longleftrightarrow> rmq_Connection (spec_RabbitMQ (ast_Spec cr)) \<noteq> None"

definition cassandra_connected :: "Astarte \<Rightarrow> bool" where
  "cassandra_connected cr \<longleftrightarrow>
     (case cass_Connection (spec_Cassandra (ast_Spec cr)) of
        None \<Rightarrow> False
      | Some c \<Rightarrow> list_all (\<lambda>n. hp_Port n \<noteq> None) (cassc_Nodes c))"

end
