(* ===== verification/Go_Json.thy ===== *)
theory Go_Json
  imports Go_Num "HOL-Library.Multiset" "HOL-Library.Char_ord"
    "HOL-Library.List_Lexorder"
begin

text \<open>
  What the operator uses of \<open>encoding/json\<close>: values, and \<open>json.Marshal\<close> as a function to
  text. Strings are escaped as the package does by default (HTML-safe, and U+2028 and U+2029 as
  escapes); strings are valid UTF-8, as every string of an API object is. A Go map is marshalled
  with its keys in ascending byte order, a struct with its fields in the order of their declaration.
\<close>

datatype json =
    JNull
  | JBool bool
  | JNum int
  | JStr string
  | JArr "json list"
  | JObj "(string \<times> json) list"

definition hex_digit :: "nat \<Rightarrow> char" where
  "hex_digit d = (if d < 10 then char_of (48 + d) else char_of (87 + d))"

definition json_char :: "char \<Rightarrow> string" where
  "json_char c =
     (let v = (of_char c :: nat) in
      if v = 34 then [CHR 0x5C, CHR 0x22]
      else if v = 92 then [CHR 0x5C, CHR 0x5C]
      else if v = 8 then [CHR 0x5C, CHR ''b'']
      else if v = 12 then [CHR 0x5C, CHR ''f'']
      else if v = 10 then [CHR 0x5C, CHR ''n'']
      else if v = 13 then [CHR 0x5C, CHR ''r'']
      else if v = 9 then [CHR 0x5C, CHR ''t'']
      else if v < 32 \<or> v = 60 \<or> v = 62 \<or> v = 38
        then [CHR 0x5C, CHR ''u'', CHR ''0'', CHR ''0'', hex_digit (v div 16), hex_digit (v mod 16)]
      else [c])"

fun json_chars :: "string \<Rightarrow> string" where
  "json_chars [] = []"
| "json_chars (c # cs) =
     (if take 3 (c # cs) = [CHR 0xE2, CHR 0x80, CHR 0xA8]
      then [CHR 0x5C, CHR ''u'', CHR ''2'', CHR ''0'', CHR ''2'', CHR ''8''] @ json_chars (drop 2 cs)
      else if take 3 (c # cs) = [CHR 0xE2, CHR 0x80, CHR 0xA9]
      then [CHR 0x5C, CHR ''u'', CHR ''2'', CHR ''0'', CHR ''2'', CHR ''9''] @ json_chars (drop 2 cs)
      else json_char c @ json_chars cs)"

definition json_string :: "string \<Rightarrow> string" where
  "json_string s = [CHR 0x22] @ json_chars s @ [CHR 0x22]"

fun json_text :: "json \<Rightarrow> string" where
  "json_text JNull = ''null''"
| "json_text (JBool b) = FormatBool b"
| "json_text (JNum i) = Itoa i"
| "json_text (JStr s) = json_string s"
| "json_text (JArr xs) = ''['' @ Join (map json_text xs) '','' @ '']''"
| "json_text (JObj kvs) =
     ''{'' @ Join (map (\<lambda>(k, v). json_string k @ '':'' @ json_text v) kvs) '','' @ ''}''"

text \<open>A Go map as a JSON object: its keys in ascending order.\<close>

definition json_map :: "(string \<times> json) list \<Rightarrow> json" where
  "json_map m = JObj (sort_key fst m)"

definition json_int_map :: "(string \<times> int) list \<Rightarrow> json" where
  "json_int_map m = json_map (map (\<lambda>(k, v). (k, JNum v)) m)"

text \<open>
  Maps within maps: every object of the value is a Go map, as in a value that \<open>json.Unmarshal\<close>
  has made.
\<close>

fun json_sorted :: "json \<Rightarrow> json" where
  "json_sorted JNull = JNull"
| "json_sorted (JBool b) = JBool b"
| "json_sorted (JNum i) = JNum i"
| "json_sorted (JStr s) = JStr s"
| "json_sorted (JArr xs) = JArr (map json_sorted xs)"
| "json_sorted (JObj kvs) = json_map (map (\<lambda>(k, v). (k, json_sorted v)) kvs)"

text \<open>The object does not depend on the order in which the map was filled.\<close>

lemma json_map_perm:
  assumes "mset m = mset m'" and "distinct (map fst m)"
  shows "json_map m = json_map m'"
proof -
  have "inj_on fst (set m)"
    using assms(2) by (simp add: distinct_map)
  moreover have "mset m = mset (sort_key fst m')"
    using assms(1) by simp
  ultimately have "sort_key fst m = sort_key fst m'"
    by (intro sort_key_inj_key_eq) simp_all
  then show ?thesis
    by (simp add: json_map_def)
qed

end
