(* ===== verification/Env_Vars.thy ===== *)
theory Env_Vars
  imports Misc_Utils Go_Json
begin

text \<open>
  The environment variables of Astarte's containers (\<open>internal/reconcile/utils.go\<close>). Functions
  that dereference a pointer or parse a version return \<open>err + env_var list\<close>, with the panic as
  the error. The semver library is the parameter \<open>sv\<close>.
\<close>

section \<open>Names and URLs\<close>

definition astarteServicesPort :: int where
  "astarteServicesPort = 4000"

definition noneClusterIP :: string where
  "noneClusterIP = ''None''"

definition getErlangClusteringCookieSecretName :: "Astarte \<Rightarrow> string" where
  "getErlangClusteringCookieSecretName cr = cr_Name cr @ ''-erlang-clustering-cookie''"

definition getErlangClusteringCookieSecretReference :: "Astarte \<Rightarrow> env_source" where
  "getErlangClusteringCookieSecretReference cr =
     SecretKeyRef (getErlangClusteringCookieSecretName cr) ''erlang-cookie''"

definition getAstarteImageFromChannel :: "string \<Rightarrow> string \<Rightarrow> Astarte \<Rightarrow> string" where
  "getAstarteImageFromChannel name tag cr =
     (let distributionChannel =
        (if spec_DistributionChannel (ast_Spec cr) \<noteq> '''' then spec_DistributionChannel (ast_Spec cr) else '''')
      in distributionChannel @ ''/'' @ name @ '':'' @ tag)"

definition getBaseAstarteAPIURL :: "Astarte \<Rightarrow> string" where
  "getBaseAstarteAPIURL cr =
     (let scheme = (if \<not> PtrValue (api_SSL (spec_API (ast_Spec cr))) True then ''http'' else ''https'')
      in scheme @ ''://'' @ api_Host (spec_API (ast_Spec cr)))"

definition getCFSSLURL :: "Astarte \<Rightarrow> string" where
  "getCFSSLURL cr =
     (if cfssl_URL (spec_CFSSL (ast_Spec cr)) \<noteq> '''' then cfssl_URL (spec_CFSSL (ast_Spec cr))
      else ''http://'' @ cr_Name cr @ ''-cfssl.'' @ cr_Namespace cr @ ''.svc.cluster.local'')"

definition getDataQueueCount :: "Astarte \<Rightarrow> int" where
  "getDataQueueCount cr =
     PtrValue (dup_DataQueueCount (comp_DataUpdaterPlant (spec_Components (ast_Spec cr)))) 128"

definition getAppEngineAPIMaxResultslimit :: "Astarte \<Rightarrow> int" where
  "getAppEngineAPIMaxResultslimit cr =
     PtrValue (ae_MaxResultsLimit (comp_AppengineAPI (spec_Components (ast_Spec cr)))) 10000"

section \<open>RabbitMQ and Cassandra\<close>

definition appendRabbitMQConnectionEnvVars ::
    "env_var list \<Rightarrow> string \<Rightarrow> Astarte \<Rightarrow> err + env_var list" where
  "appendRabbitMQConnectionEnvVars ret prefix cr =
     (case rmq_Connection (spec_RabbitMQ (ast_Spec cr)) of
        None \<Rightarrow> Inr ret
      | Some spec \<Rightarrow>
         (let virtualHost = (if rmqc_VirtualHost spec \<noteq> '''' then rmqc_VirtualHost spec else ''/'');
              ssl = conn_SSLConfiguration (rmqc_Generic spec);
              ret1 = (if ssl_Enable ssl
                then ret @ [EnvValue (prefix @ ''_SSL_ENABLED'') ''true'']
                  @ (if ssl_CustomCASecret ssl \<noteq> ''''
                     then [EnvValue (prefix @ ''_SSL_CA_FILE'') ''/rabbitmq-ssl/ca.crt''] else [])
                  @ (if ssl_CustomSNI ssl \<noteq> ''''
                     then [EnvValue (prefix @ ''_SSL_CUSTOM_SNI'') (ssl_CustomSNI ssl)]
                     else if \<not> PtrValue (ssl_SNI ssl) True
                     then [EnvValue (prefix @ ''_SSL_DISABLE_SNI'') ''true''] else [])
                else ret)
          in rbind (GetRabbitMQHostnameAndPort cr) (\<lambda>(rabbitMQHost, rabbitMQPort).
             rbind (GetRabbitMQUserCredentialsSecret cr) (\<lambda>(secretName, usernameKey, passwordKey).
               Inr (ret1 @
                 [EnvValue (prefix @ ''_HOST'') rabbitMQHost,
                  EnvValue (prefix @ ''_PORT'') (Itoa rabbitMQPort),
                  EnvValue (prefix @ ''_VIRTUAL_HOST'') virtualHost,
                  EnvSecret (prefix @ ''_USERNAME'') secretName usernameKey,
                  EnvSecret (prefix @ ''_PASSWORD'') secretName passwordKey])))))"

definition appendCassandraConnectionEnvVars ::
    "env_var list \<Rightarrow> Astarte \<Rightarrow> err + env_var list" where
  "appendCassandraConnectionEnvVars ret cr =
     (case cass_Connection (spec_Cassandra (ast_Spec cr)) of
        None \<Rightarrow> Inr ret
      | Some spec \<Rightarrow>
         (let ssl = conn_SSLConfiguration (cassc_Generic spec);
              ret1 = (case cassc_PoolSize spec of
                        Some n \<Rightarrow> ret @ [EnvValue ''CASSANDRA_POOL_SIZE'' (Itoa n)] | None \<Rightarrow> ret);
              ret2 = (if ssl_Enable ssl
                then ret1 @ [EnvValue ''CASSANDRA_SSL_ENABLED'' ''true'']
                  @ (if ssl_CustomCASecret ssl \<noteq> ''''
                     then [EnvValue ''CASSANDRA_SSL_CA_FILE'' ''/cassandra-ssl/ca.crt''] else [])
                  @ (if ssl_CustomSNI ssl \<noteq> ''''
                     then [EnvValue ''CASSANDRA_SSL_CUSTOM_SNI'' (ssl_CustomSNI ssl)]
                     else if \<not> PtrValue (ssl_SNI ssl) True
                     then [EnvValue ''CASSANDRA_SSL_DISABLE_SNI'' ''true''] else [])
                else ret1)
          in rbind (if conn_CredentialsSecret (cassc_Generic spec) \<noteq> None
               then rbind (GetCassandraUserCredentialsSecret cr) (\<lambda>(secretName, usernameKey, passwordKey).
                      Inr (ret2 @
                        [EnvSecret ''CASSANDRA_USERNAME'' secretName usernameKey,
                         EnvSecret ''CASSANDRA_PASSWORD'' secretName passwordKey]))
               else Inr ret2) (\<lambda>ret3.
             Inr (ret3 @
               [EnvValue ''CASSANDRA_ENABLE_KEEPALIVE'' (FormatBool (PtrValue (cassc_EnableKeepalive spec) True))]))))"

definition getCassandraNodes :: "Astarte \<Rightarrow> err + string" where
  "getCassandraNodes cr =
     rbind (deref (cass_Connection (spec_Cassandra (ast_Spec cr)))) (\<lambda>c.
     rbind (rmapM (\<lambda>node. rmap (\<lambda>port. hp_Host node @ '':'' @ Itoa port) (deref (hp_Port node)))
              (cassc_Nodes c)) (\<lambda>nodes.
       Inr (Join nodes '','')))"

definition appendAstarteEventsProducerEnvVars :: "env_var list \<Rightarrow> Astarte \<Rightarrow> err + env_var list" where
  "appendAstarteEventsProducerEnvVars ret cr =
     rbind (appendRabbitMQConnectionEnvVars ret ''ASTARTE_EVENTS_PRODUCER_AMQP'' cr) (\<lambda>ret1.
       let ret2 = ret1 @
             [EnvValue ''ASTARTE_EVENTS_PRODUCER_AMQP_CONNECTION_NUMBER'' ''10'',
              EnvValue ''ASTARTE_EVENTS_PRODUCER_AMQP_DATA_QUEUE_TOTAL_COUNT'' ''128''];
           exchange = rmq_EventsExchangeName (spec_RabbitMQ (ast_Spec cr))
       in Inr (if exchange \<noteq> ''''
               then ret2 @ [EnvValue ''ASTARTE_EVENTS_PRODUCER_AMQP_EVENTS_EXCHANGE_NAME'' exchange]
               else ret2))"

section \<open>FDO and the system keyspace\<close>

definition appendAstarteFDOEnvVars :: "env_var list \<Rightarrow> Astarte \<Rightarrow> env_var list" where
  "appendAstarteFDOEnvVars ret cr =
     (case feat_FDO (spec_Features (ast_Spec cr)) of
        None \<Rightarrow> ret @ [EnvValue ''PAIRING_ENABLE_FDO'' ''false'']
      | Some fdo \<Rightarrow>
         if \<not> fdo_Enable fdo then ret @ [EnvValue ''PAIRING_ENABLE_FDO'' ''false'']
         else
          (let ssl = PtrValue (api_SSL (spec_API (ast_Spec cr))) True;
               scheme = (if \<not> ssl then ''http'' else ''https'');
               port = (if \<not> ssl then 80 else 443);
               rsPort = PtrValue (hp_Port (fdo_RendezvousServer fdo)) 8041
           in ret @
             [EnvValue ''PAIRING_ENABLE_FDO'' ''true'',
              EnvValue ''PAIRING_FDO_RENDEZVOUS_URL''
                (hp_Host (fdo_RendezvousServer fdo) @ '':'' @ Itoa rsPort),
              EnvValue ''ASTARTE_BASE_URL_DOMAIN'' (api_Host (spec_API (ast_Spec cr))),
              EnvValue ''ASTARTE_BASE_URL_PORT'' (Itoa port),
              EnvValue ''ASTARTE_BASE_URL_PROTOCOL'' scheme]))"

text \<open>
  One pair of the replication map: \<open>kv[1]\<close> is out of range, a panic, where the pair has no
  colon; the error of \<open>Atoi\<close> is dropped.
\<close>

definition keyspace_pair :: "(string \<times> int) list \<Rightarrow> string \<Rightarrow> err + (string \<times> int) list" where
  "keyspace_pair theMap pair =
     (case Split CHR '':'' pair of
        [] \<Rightarrow> Inl (GoPanic ''index out of range'')
      | [key] \<Rightarrow> Inl (GoPanic ''index out of range'')
      | key # v # rest \<Rightarrow> Inr (AList.update key (fst (Atoi v)) theMap))"

fun keyspace_pairs :: "(string \<times> int) list \<Rightarrow> string list \<Rightarrow> err + (string \<times> int) list" where
  "keyspace_pairs theMap [] = Inr theMap"
| "keyspace_pairs theMap (pair # pairs) =
     rbind (keyspace_pair theMap pair) (\<lambda>m. keyspace_pairs m pairs)"

definition appendAstarteKeyspaceEnvVars :: "Astarte \<Rightarrow> err + env_var list" where
  "appendAstarteKeyspaceEnvVars cr =
     (let ask = cass_AstarteSystemKeyspace (spec_Cassandra (ast_Spec cr));
          ret = [EnvValue ''HOUSEKEEPING_ASTARTE_KEYSPACE_REPLICATION_STRATEGY'' (ask_ReplicationStrategy ask)]
      in if ask_ReplicationStrategy ask = ''SimpleStrategy''
         then Inr (ret @ [EnvValue ''HOUSEKEEPING_ASTARTE_KEYSPACE_REPLICATION_FACTOR''
                            (Itoa (ask_ReplicationFactor ask))])
         else rbind (keyspace_pairs [] (Split CHR '','' (ask_DataCenterReplication ask))) (\<lambda>theMap.
                Inr (ret @ [EnvValue ''HOUSEKEEPING_ASTARTE_KEYSPACE_NETWORK_REPLICATION_MAP''
                              (json_text (json_int_map theMap))])))"

section \<open>Variables of every component\<close>

definition getAstarteCommonEnvVars ::
    "('v, 'c) semver \<Rightarrow> string \<Rightarrow> Astarte \<Rightarrow> AstarteComponent \<Rightarrow> err + env_var list" where
  "getAstarteCommonEnvVars sv deploymentName cr component =
     (let ret =
        [EnvValue ''RELEASE_CONFIG_DIR'' ''/beamconfig'',
         EnvValue ''REPLACE_OS_VARS'' (FormatBool True),
         EnvField ''MY_POD_IP'' ''status.podIP'',
         EnvValue ''RELEASE_NAME'' (DockerImageName component),
         EnvSecret ''SECRET_KEY_BASE'' (cr_Name cr @ ''-secret-key-base'') ''key'']
      in rbind
        (if component \<in> {AppEngineAPI, DataUpdaterPlant, RealmManagement, Pairing}
         then
          (let ret1 = ret @ [\<lparr>ev_Name = ''RELEASE_COOKIE'', ev_Value = '''',
                             ev_ValueFrom = Some (getErlangClusteringCookieSecretReference cr)\<rparr>]
           in if spec_Version (ast_Spec cr) = '''' then Inr ret1
              else rbind (MustParse sv (spec_Version (ast_Spec cr))) (\<lambda>v.
                   rbind (MustParse sv ''1.2.0'') (\<lambda>w.
                     Inr (if sv_GreaterThan sv v w
                      then ret1 @
                       [EnvValue ''CLUSTERING_STRATEGY'' ''kubernetes'',
                        EnvValue ''VERNEMQ_CLUSTERING_KUBERNETES_SELECTOR'' (''app='' @ cr_Name cr @ ''-vernemq''),
                        EnvValue ''CLUSTERING_KUBERNETES_NAMESPACE'' (cr_Namespace cr),
                        EnvValue ''VERNEMQ_CLUSTERING_KUBERNETES_SERVICE_NAME'' (cr_Name cr @ ''-vernemq'')]
                      else ret1))))
         else Inr (ret @ [EnvSecret ''RELEASE_COOKIE'' (deploymentName @ ''-cookie'') ''erlang-cookie'']))
        (\<lambda>ret2.
          let suffix = (if component \<in> {Housekeeping, Pairing, RealmManagement} then ''_API_PORT'' else ''_PORT'');
              ret3 = ret2 @ [EnvValue (ToUpper (component_String component) @ suffix) (Itoa astarteServicesPort)]
          in appendRabbitMQConnectionEnvVars ret3 ''RPC_AMQP_CONNECTION'' cr))"

end
