(* ===== verification/Pod_Parts.thy ===== *)
theory Pod_Parts
  imports Env_Vars
begin

text \<open>
  The parts pods and workloads are built from: image, pull policy, affinity, deployment strategy,
  volumes and mounts, claims, labels (\<open>internal/reconcile/utils.go\<close>), probes (\<open>probes.go\<close>) and
  priority classes (\<open>astarte_priorityclass.go\<close>).
\<close>

section \<open>Image, affinity, strategy\<close>

definition getImagePullPolicy :: "Astarte \<Rightarrow> AstarteGenericClusteredResource \<Rightarrow> err + string" where
  "getImagePullPolicy cr astarteComponent =
     (case gcr_ImagePullPolicy astarteComponent of
        Some p \<Rightarrow> Inr p
      | None \<Rightarrow> deref (spec_ImagePullPolicy (ast_Spec cr)))"

definition getStandardAntiAffinityForAppLabel :: "string \<Rightarrow> affinity" where
  "getStandardAntiAffinityForAppLabel app =
     \<lparr>aff_RequiredAntiAffinity =
        [\<lparr>pat_Key = ''app'', pat_Operator = ''In'', pat_Values = [app],
          pat_TopologyKey = ''kubernetes.io/hostname''\<rparr>],
      aff_Other = None\<rparr>"

definition getAffinityForClusteredResource ::
    "string \<Rightarrow> AstarteGenericClusteredResource \<Rightarrow> affinity option" where
  "getAffinityForClusteredResource appLabel resource =
     (let affinity = gcr_CustomAffinity resource
      in if affinity = None \<and> PtrValue (gcr_AntiAffinity resource) True
         then Some (getStandardAntiAffinityForAppLabel appLabel)
         else affinity)"

definition getAstarteImageForClusteredResource ::
    "string \<Rightarrow> AstarteGenericClusteredResource \<Rightarrow> Astarte \<Rightarrow> string" where
  "getAstarteImageForClusteredResource defaultImageName resource cr =
     (if gcr_Image resource \<noteq> '''' then gcr_Image resource
      else getAstarteImageFromChannel defaultImageName
             (GetVersionForAstarteComponent (spec_Version (ast_Spec cr)) (gcr_Version resource)) cr)"

definition getDeploymentStrategyForClusteredResource ::
    "Astarte \<Rightarrow> AstarteGenericClusteredResource \<Rightarrow> AstarteComponent \<Rightarrow> deployment_strategy" where
  "getDeploymentStrategyForClusteredResource cr resource component =
     (if component = DataUpdaterPlant \<or> component = TriggerEngine \<or> component = FlowComponent
      then StrategyOf ''Recreate''
      else case gcr_DeploymentStrategy resource of
        Some s \<Rightarrow> s
      | None \<Rightarrow>
         (case spec_DeploymentStrategy (ast_Spec cr) of
            Some s \<Rightarrow> s
          | None \<Rightarrow> StrategyOf ''RollingUpdate''))"

section \<open>Volumes\<close>

text \<open>Both read the two connections, which panics when one of them is not set.\<close>

definition getAstarteCommonVolumes :: "Astarte \<Rightarrow> err + volume list" where
  "getAstarteCommonVolumes cr =
     (let ret = [\<lparr>vol_Name = ''beam-config'',
                  vol_Source = VolConfigMap (cr_Name cr @ ''-generic-erlang-configuration'')
                                 [(''vm.args'', ''vm.args'')]\<rparr>]
      in rbind (deref (rmq_Connection (spec_RabbitMQ (ast_Spec cr)))) (\<lambda>rmq.
         let rmqCA = ssl_CustomCASecret (conn_SSLConfiguration (rmqc_Generic rmq));
             ret1 = (if rmqCA \<noteq> ''''
               then ret @ [\<lparr>vol_Name = ''rabbitmq-ssl-ca'',
                            vol_Source = VolSecret rmqCA [(''ca.crt'', ''ca.crt'')] None\<rparr>]
               else ret)
         in rbind (deref (cass_Connection (spec_Cassandra (ast_Spec cr)))) (\<lambda>cass.
         let cassCA = ssl_CustomCASecret (conn_SSLConfiguration (cassc_Generic cass))
         in Inr (if cassCA \<noteq> ''''
               then ret1 @ [\<lparr>vol_Name = ''cassandra-ssl-ca'',
                             vol_Source = VolSecret cassCA [(''ca.crt'', ''ca.crt'')] None\<rparr>]
               else ret1))))"

definition getAstarteCommonVolumeMounts :: "Astarte \<Rightarrow> err + volume_mount list" where
  "getAstarteCommonVolumeMounts cr =
     (let ret = [\<lparr>vm_Name = ''beam-config'', vm_MountPath = ''/beamconfig'', vm_ReadOnly = True\<rparr>]
      in rbind (deref (rmq_Connection (spec_RabbitMQ (ast_Spec cr)))) (\<lambda>rmq.
         let ret1 = (if ssl_CustomCASecret (conn_SSLConfiguration (rmqc_Generic rmq)) \<noteq> ''''
               then ret @ [\<lparr>vm_Name = ''rabbitmq-ssl-ca'', vm_MountPath = ''/rabbitmq-ssl'', vm_ReadOnly = True\<rparr>]
               else ret)
         in rbind (deref (cass_Connection (spec_Cassandra (ast_Spec cr)))) (\<lambda>cass.
           Inr (if ssl_CustomCASecret (conn_SSLConfiguration (cassc_Generic cass)) \<noteq> ''''
               then ret1 @ [\<lparr>vm_Name = ''cassandra-ssl-ca'', vm_MountPath = ''/cassandra-ssl'', vm_ReadOnly = True\<rparr>]
               else ret1))))"

text \<open>
  The volume name and the claim template of a component's storage; with a volume definition in the
  resource there is no claim. The size is a pointer that the caller never passes as nil.
\<close>

definition computePersistentVolumeClaim ::
    "string \<Rightarrow> quantity \<Rightarrow> AstartePersistentStorageSpec option \<Rightarrow> Astarte \<Rightarrow>
     string \<times> persistent_volume_claim option" where
  "computePersistentVolumeClaim defaultName defaultSize storageSpec cr =
     (let claim = (\<lambda>size class.
        (defaultName,
         Some \<lparr>pvc_Meta = NewMeta defaultName '''', pvc_AccessModes = [''ReadWriteOnce''],
               pvc_StorageRequest = size,
               pvc_StorageClassName = (if class \<noteq> '''' then Some class else None)\<rparr>))
      in case storageSpec of
        None \<Rightarrow> claim defaultSize ''''
      | Some s \<Rightarrow>
         (case storage_VolumeDefinition s of
            Some v \<Rightarrow> (vol_Name v, None)
          | None \<Rightarrow>
             claim (PtrValue (storage_Size s) defaultSize)
               (if storage_ClassName s \<noteq> '''' then storage_ClassName s
                else if spec_StorageClassName (ast_Spec cr) \<noteq> '''' then spec_StorageClassName (ast_Spec cr)
                else '''')))"

section \<open>Labels\<close>

text \<open>
  The user's labels are laid over the operator's; \<open>getLabels\<close> is the method of the interface
  \<open>PodLabelsGetter\<close>.
\<close>

definition computePodLabels :: "('r \<Rightarrow> smap) \<Rightarrow> 'r \<Rightarrow> smap \<Rightarrow> smap" where
  "computePodLabels getLabels r labels =
     fold (\<lambda>(k, v) m. AList.update k v m) (getLabels r)
       (fold (\<lambda>(k, v) m. AList.update k v m) labels [])"

section \<open>Probes\<close>

definition getDefaultProbeWithThreshold :: "string \<Rightarrow> int \<Rightarrow> probe" where
  "getDefaultProbeWithThreshold path threshold =
     \<lparr>pr_Handler = HTTPGet path (NamedPort ''http''), pr_InitialDelaySeconds = 10,
      pr_TimeoutSeconds = 5, pr_PeriodSeconds = 30, pr_FailureThreshold = threshold\<rparr>"

definition getAstarteDefaultProbe :: "AstarteComponent \<Rightarrow> probe" where
  "getAstarteDefaultProbe component =
     (if component = Housekeeping then getDefaultProbeWithThreshold ''/health'' 15
      else getDefaultProbeWithThreshold ''/health'' 5)"

definition getAstarteComponentStartupProbe :: "AstarteGenericClusteredResource \<Rightarrow> probe option" where
  "getAstarteComponentStartupProbe res =
     (if gcr_StartupProbe res \<noteq> None then gcr_StartupProbe res else None)"

definition getAstarteComponentReadinessProbe ::
    "AstarteComponent \<Rightarrow> AstarteGenericClusteredResource \<Rightarrow> probe option" where
  "getAstarteComponentReadinessProbe component res =
     (if gcr_ReadinessProbe res \<noteq> None then gcr_ReadinessProbe res
      else Some (getAstarteDefaultProbe component))"

definition getAstarteComponentLivenessProbe ::
    "AstarteComponent \<Rightarrow> AstarteGenericClusteredResource \<Rightarrow> probe option" where
  "getAstarteComponentLivenessProbe component res =
     (if gcr_LivenessProbe res \<noteq> None then gcr_LivenessProbe res
      else Some (getAstarteDefaultProbe component))"

definition getCFSSLDefaultProbe :: probe where
  "getCFSSLDefaultProbe =
     \<lparr>pr_Handler = HTTPGet ''/api/v1/cfssl/health'' (NamedPort ''http''), pr_InitialDelaySeconds = 10,
      pr_TimeoutSeconds = 5, pr_PeriodSeconds = 20, pr_FailureThreshold = 3\<rparr>"

definition getCFSSLReadinessProbe :: "Astarte \<Rightarrow> probe option" where
  "getCFSSLReadinessProbe cr =
     (if cfssl_ReadinessProbe (spec_CFSSL (ast_Spec cr)) \<noteq> None
      then cfssl_ReadinessProbe (spec_CFSSL (ast_Spec cr)) else Some getCFSSLDefaultProbe)"

definition getCFSSLLivenessProbe :: "Astarte \<Rightarrow> probe option" where
  "getCFSSLLivenessProbe cr =
     (if cfssl_LivenessProbe (spec_CFSSL (ast_Spec cr)) \<noteq> None
      then cfssl_LivenessProbe (spec_CFSSL (ast_Spec cr)) else Some getCFSSLDefaultProbe)"

definition getCFSSLStartupProbe :: "Astarte \<Rightarrow> probe option" where
  "getCFSSLStartupProbe cr =
     (if cfssl_StartupProbe (spec_CFSSL (ast_Spec cr)) \<noteq> None
      then cfssl_StartupProbe (spec_CFSSL (ast_Spec cr)) else None)"

definition getVerneMQDefaultProbe :: probe where
  "getVerneMQDefaultProbe =
     \<lparr>pr_Handler = HTTPGet ''/metrics'' (IntPort 8888), pr_InitialDelaySeconds = 60,
      pr_TimeoutSeconds = 10, pr_PeriodSeconds = 20, pr_FailureThreshold = 3\<rparr>"

definition getVerneMQReadinessProbe :: "Astarte \<Rightarrow> probe option" where
  "getVerneMQReadinessProbe cr =
     (if gcr_ReadinessProbe (vmq_Generic (spec_VerneMQ (ast_Spec cr))) \<noteq> None
      then gcr_ReadinessProbe (vmq_Generic (spec_VerneMQ (ast_Spec cr))) else Some getVerneMQDefaultProbe)"

definition getVerneMQLivenessProbe :: "Astarte \<Rightarrow> probe option" where
  "getVerneMQLivenessProbe cr =
     (if gcr_LivenessProbe (vmq_Generic (spec_VerneMQ (ast_Spec cr))) \<noteq> None
      then gcr_LivenessProbe (vmq_Generic (spec_VerneMQ (ast_Spec cr))) else Some getVerneMQDefaultProbe)"

definition getVerneMQStartupProbe :: "Astarte \<Rightarrow> probe option" where
  "getVerneMQStartupProbe cr =
     (if gcr_StartupProbe (vmq_Generic (spec_VerneMQ (ast_Spec cr))) \<noteq> None
      then gcr_StartupProbe (vmq_Generic (spec_VerneMQ (ast_Spec cr))) else None)"

section \<open>Priority classes\<close>

definition highPriority :: string where "highPriority = ''high''"
definition midPriority :: string where "midPriority = ''mid''"
definition lowPriority :: string where "lowPriority = ''low''"

definition AstarteHighPriorityName :: string where
  "AstarteHighPriorityName = ''astarte-high-priority-non-preemptive''"

definition AstarteMidPriorityName :: string where
  "AstarteMidPriorityName = ''astarte-mid-priority-non-preemptive''"

definition AstarteLowPriorityName :: string where
  "AstarteLowPriorityName = ''astarte-low-priority-non-preemptive''"

definition GetDefaultAstartePriorityClassNameForComponent :: "AstarteComponent \<Rightarrow> string" where
  "GetDefaultAstartePriorityClassNameForComponent component =
     (case component of
        AppEngineAPI \<Rightarrow> AstarteMidPriorityName
      | DataUpdaterPlant \<Rightarrow> AstarteHighPriorityName
      | FlowComponent \<Rightarrow> AstarteMidPriorityName
      | Housekeeping \<Rightarrow> AstarteLowPriorityName
      | Pairing \<Rightarrow> AstarteMidPriorityName
      | RealmManagement \<Rightarrow> AstarteLowPriorityName
      | TriggerEngine \<Rightarrow> AstarteLowPriorityName
      | Dashboard \<Rightarrow> AstarteLowPriorityName)"

text \<open>
  The switch every pod spec ends with: a priority class only if the feature is enabled, the
  requested one if it is known, else the default of the caller.
\<close>

definition podPriorityClassName :: "Astarte \<Rightarrow> string \<Rightarrow> string \<Rightarrow> string" where
  "podPriorityClassName cr requested dflt =
     (if IsEnabled (feat_AstartePodPriorities (spec_Features (ast_Spec cr)))
      then if requested = highPriority then AstarteHighPriorityName
           else if requested = midPriority then AstarteMidPriorityName
           else if requested = lowPriority then AstarteLowPriorityName
           else dflt
      else '''')"

end
