(* ===== verification/Float64.thy ===== *)
theory Float64
  imports Complex_Main Go_Num
begin

text \<open>
  Go's \<open>float64\<close> as the operator uses it: finite values of moderate size. A value is the rational
  number it denotes; every operation computes exactly and then rounds to 53 significant bits, ties
  to even, as IEEE 754 binary64 does. The exponent range is not bounded here: the operator's
  coefficients lie between 0.05 and 1 and its quantities below \<open>2^63\<close>, so no operation it makes
  can overflow or leave the normal range.
\<close>

fun ilog2 :: "int \<Rightarrow> int" where
  "ilog2 n = (if n < 2 then 0 else 1 + ilog2 (n div 2))"

declare ilog2.simps [simp del]

definition pow2 :: "int \<Rightarrow> rat" where
  "pow2 e = (if 0 \<le> e then 2 ^ nat e else 1 / 2 ^ nat (- e))"

text \<open>The exponent of a positive number: \<open>2^e \<le> x < 2^(e+1)\<close>.\<close>

definition expo :: "rat \<Rightarrow> int" where
  "expo x = (let (p, q) = quotient_of x; e = ilog2 p - ilog2 q in if pow2 e \<le> x then e else e - 1)"

definition round_half_even :: "rat \<Rightarrow> int" where
  "round_half_even x =
     (let n = \<lfloor>x\<rfloor>; d = x - of_int n in
      if d < 1 / 2 then n else if 1 / 2 < d then n + 1 else if even n then n else n + 1)"

definition fl :: "rat \<Rightarrow> rat" where
  "fl x = (if x = 0 then 0
           else let e = expo \<bar>x\<bar> - 52 in sgn x * (of_int (round_half_even (\<bar>x\<bar> / pow2 e)) * pow2 e))"

definition fadd :: "rat \<Rightarrow> rat \<Rightarrow> rat" where "fadd a b = fl (a + b)"
definition fmul :: "rat \<Rightarrow> rat \<Rightarrow> rat" where "fmul a b = fl (a * b)"

text \<open>Division by a number other than 0.\<close>

definition fdiv :: "rat \<Rightarrow> rat \<Rightarrow> rat" where "fdiv a b = fl (a / b)"

definition float64_of_int :: "int \<Rightarrow> rat" where "float64_of_int n = fl (of_int n)"

text \<open>\<open>int64(x)\<close>: truncation towards zero.\<close>

definition int64_of_float :: "rat \<Rightarrow> int" where
  "int64_of_float x = go_int (if x < 0 then - \<lfloor>- x\<rfloor> else \<lfloor>x\<rfloor>)"

section \<open>Rounding\<close>

lemma pow2_pos [simp]: "0 < pow2 e"
  by (simp add: pow2_def)

lemma pow2_Suc: "pow2 (e + 1) = 2 * pow2 e"
proof -
  consider "0 \<le> e" | "e = - 1" | "e < - 1"
    by linarith
  then show ?thesis
  proof cases
    case 1
    then show ?thesis
      by (simp add: pow2_def nat_add_distrib)
  next
    case 2
    then show ?thesis
      by (simp add: pow2_def)
  next
    case 3
    then have "nat (- e) = Suc (nat (- (e + 1)))"
      by linarith
    with 3 show ?thesis
      by (simp add: pow2_def)
  qed
qed

lemma pow2_add_nat: "pow2 (e + int n) = 2 ^ n * pow2 e"
proof (induction n)
  case (Suc n)
  have "pow2 (e + int (Suc n)) = pow2 ((e + int n) + 1)"
    by (simp add: algebra_simps)
  with Suc show ?case
    by (simp only: pow2_Suc) simp
qed simp

lemma ilog2_bounds: "1 \<le> n \<Longrightarrow> 0 \<le> ilog2 n \<and> 2 ^ nat (ilog2 n) \<le> n \<and> n < 2 ^ Suc (nat (ilog2 n))"
proof (induction n rule: ilog2.induct)
  case (1 n)
  show ?case
  proof (cases "n < 2")
    case True
    with 1(2) show ?thesis
      by (simp add: ilog2.simps [of n])
  next
    case False
    then have ih: "0 \<le> ilog2 (n div 2)" "2 ^ nat (ilog2 (n div 2)) \<le> n div 2"
      "n div 2 < 2 ^ Suc (nat (ilog2 (n div 2)))"
      using 1(1) by auto
    have e: "ilog2 n = 1 + ilog2 (n div 2)"
      using False by (simp add: ilog2.simps [of n])
    have s: "nat (ilog2 n) = Suc (nat (ilog2 (n div 2)))"
      using ih(1) e by simp
    define k :: int where "k = 2 ^ nat (ilog2 (n div 2))"
    have "k \<le> n div 2" "n div 2 < 2 * k"
      using ih(2, 3) by (simp_all add: k_def)
    then have "2 * k \<le> n" "n < 2 * (2 * k)"
      by linarith+
    then show ?thesis
      using ih(1) e unfolding s by (simp add: k_def)
  qed
qed

lemma round_half_even_error: "\<bar>of_int (round_half_even x) - x\<bar> \<le> 1 / 2"
proof -
  define n where "n = \<lfloor>x\<rfloor>"
  have n: "of_int n \<le> x" "x < of_int n + 1"
    unfolding n_def by linarith+
  consider "round_half_even x = n" "x - of_int n \<le> 1 / 2"
    | "round_half_even x = n + 1" "1 / 2 \<le> x - of_int n"
    unfolding round_half_even_def n_def [symmetric] Let_def
    by (cases "x - of_int n < 1 / 2"; cases "1 / 2 < x - of_int n"; cases "even n") auto
  then show ?thesis
    using n by cases (auto simp: abs_if)
qed

lemma expo_le: "0 < x \<Longrightarrow> pow2 (expo x) \<le> x"
proof -
  assume x: "0 < x"
  obtain p q where pq: "quotient_of x = (p, q)"
    by (cases "quotient_of x")
  have q: "0 < q"
    using quotient_of_denom_pos [OF pq] .
  have xe: "x = of_int p / of_int q"
    using quotient_of_div [OF pq] .
  have p: "0 < p"
    using x q by (simp add: xe zero_less_divide_iff)
  define lp lq where "lp = ilog2 p" and "lq = ilog2 q"
  have lp: "0 \<le> lp" "2 ^ nat lp \<le> p"
    using ilog2_bounds [of p] p by (simp_all add: lp_def)
  have lq: "0 \<le> lq" "q < 2 ^ Suc (nat lq)"
    using ilog2_bounds [of q] q by (simp_all add: lq_def)
  have P: "pow2 lp \<le> of_int p"
    using lp by (simp add: pow2_def)
  have Q: "of_int q \<le> pow2 (lq + 1)"
    using lq by (simp add: pow2_def nat_add_distrib)
      (metis less_imp_le of_int_le_iff of_int_mult of_int_numeral of_int_power)
  have split: "pow2 (lp - lq - 1) * pow2 (lq + 1) = pow2 lp"
  proof -
    have "pow2 lp = pow2 ((lp - lq - 1) + int (nat (lq + 1)))"
      using lq by simp
    also have "\<dots> = 2 ^ nat (lq + 1) * pow2 (lp - lq - 1)"
      by (rule pow2_add_nat)
    also have "(2 :: rat) ^ nat (lq + 1) = pow2 (lq + 1)"
      using lq by (simp add: pow2_def)
    finally show ?thesis
      by simp
  qed
  have "pow2 (lp - lq - 1) * of_int q \<le> pow2 (lp - lq - 1) * pow2 (lq + 1)"
    using Q by (intro mult_left_mono) (simp_all add: less_imp_le)
  also have "\<dots> \<le> of_int p"
    using P by (simp add: split)
  finally have "pow2 (lp - lq - 1) \<le> x"
    using q by (simp add: xe le_divide_eq)
  then show ?thesis
    by (simp add: expo_def pq lp_def lq_def Let_def)
qed

text \<open>Rounding errs by at most one part in \<open>2^53\<close>.\<close>

lemma fl_error: "\<bar>fl x - x\<bar> \<le> \<bar>x\<bar> / 2 ^ 53"
proof (cases "x = 0")
  case False
  define a e where "a = \<bar>x\<bar>" and "e = expo \<bar>x\<bar> - 52"
  have a: "0 < a"
    using False by (simp add: a_def)
  have "pow2 (e + int 52) \<le> a"
    using expo_le [OF a] by (simp add: e_def a_def)
  then have e: "pow2 e \<le> a / 2 ^ 52"
    unfolding pow2_add_nat by (simp add: field_simps)
  have "\<bar>of_int (round_half_even (a / pow2 e)) - a / pow2 e\<bar> * pow2 e \<le> 1 / 2 * pow2 e"
    by (intro mult_right_mono round_half_even_error) (simp add: less_imp_le)
  moreover have "\<bar>of_int (round_half_even (a / pow2 e)) - a / pow2 e\<bar> * pow2 e =
      \<bar>of_int (round_half_even (a / pow2 e)) * pow2 e - a\<bar>"
    using pow2_pos [of e] abs_mult [of "of_int (round_half_even (a / pow2 e)) - a / pow2 e" "pow2 e"]
    by (simp add: left_diff_distrib less_imp_neq [symmetric] abs_of_pos)
  ultimately have m: "\<bar>of_int (round_half_even (a / pow2 e)) * pow2 e - a\<bar> \<le> a / 2 ^ 53"
    using e by simp
  have "fl x - x = sgn x * (of_int (round_half_even (a / pow2 e)) * pow2 e - a)"
    using False by (simp add: fl_def a_def e_def Let_def right_diff_distrib sgn_mult_abs)
  then have "\<bar>fl x - x\<bar> = \<bar>of_int (round_half_even (a / pow2 e)) * pow2 e - a\<bar>"
    using False by (simp add: abs_mult)
  with m show ?thesis
    by (simp add: a_def)
qed (simp add: fl_def)

lemma fl_upper: "0 \<le> x \<Longrightarrow> fl x \<le> x * (1 + 1 / 2 ^ 53)"
  using fl_error [of x] abs_ge_self [of "fl x - x"] by (simp add: algebra_simps)

lemma fl_nonneg: "0 \<le> x \<Longrightarrow> 0 \<le> fl x"
proof -
  assume "0 \<le> x"
  moreover have "x / 2 ^ 53 \<le> x" if "0 \<le> x"
    using that by simp
  ultimately show ?thesis
    using fl_error [of x] by (auto simp: abs_if split: if_splits)
qed

lemma in_int_int64_of_float: "in_int (int64_of_float x)"
  unfolding int64_of_float_def go_int_def in_int_def
  using signed_take_bit_int_greater_eq_minus_exp [of 63] signed_take_bit_int_less_exp [of 63]
  by simp

end
