(* ===== verification/Allocation.thy ===== *)
theory Allocation
  imports Misc_Utils Float64
begin

text \<open>
  How the resources requested for all of Astarte are shared among its components
  (\<open>GetResourcesForAstarteComponent\<close> and its helpers in \<open>internal/misc/utils.go\<close>). The
  coefficients are Go \<open>float64\<close> values. Quantities belong to a Kubernetes library, which is a
  parameter: the record \<open>quantity_lib\<close> holds the functions the operator calls, the locale
  \<open>quantity_laws\<close> what their documentation promises.
\<close>

section \<open>The library's interface\<close>

datatype quantity_format = DecimalExponent | BinarySI | DecimalSI

text \<open>
  \<open>Cpu\<close> and \<open>Memory\<close> read an entry of a resource list (a zero quantity when it is absent);
  the scales of \<open>ScaledValue\<close> and \<open>NewScaledQuantity\<close> are powers of ten.
\<close>

record quantity_lib =
  ql_Cpu :: "resource_list \<Rightarrow> quantity"
  ql_Memory :: "resource_list \<Rightarrow> quantity"
  ql_MilliValue :: "quantity \<Rightarrow> int"
  ql_Value :: "quantity \<Rightarrow> int"
  ql_ScaledValue :: "quantity \<Rightarrow> int \<Rightarrow> int"
  ql_Cmp :: "quantity \<Rightarrow> quantity \<Rightarrow> int"
  ql_NewScaledQuantity :: "int \<Rightarrow> int \<Rightarrow> quantity"
  ql_NewMilliQuantity :: "int \<Rightarrow> quantity_format \<Rightarrow> quantity"
  ql_NewQuantity :: "int \<Rightarrow> quantity_format \<Rightarrow> quantity"
  ql_Format :: "quantity \<Rightarrow> quantity_format"
  ql_Add :: "quantity \<Rightarrow> quantity \<Rightarrow> quantity"

definition scale_Milli :: int where "scale_Milli = - 3"
definition scale_Mega :: int where "scale_Mega = 6"

section \<open>Coefficients\<close>

record allocationCoefficients =
  CPUCoefficient :: rat
  MemoryCoefficient :: rat

definition both_coefficients :: "rat \<Rightarrow> allocationCoefficients" where
  "both_coefficients x = \<lparr>CPUCoefficient = fl x, MemoryCoefficient = fl x\<rparr>"

definition defaultComponentAllocations :: "AstarteComponent \<Rightarrow> allocationCoefficients" where
  "defaultComponentAllocations c =
     (case c of
        AppEngineAPI \<Rightarrow> both_coefficients (18 / 100)
      | DataUpdaterPlant \<Rightarrow> both_coefficients (21 / 100)
      | FlowComponent \<Rightarrow> both_coefficients (10 / 100)
      | Housekeeping \<Rightarrow> both_coefficients (8 / 100)
      | Pairing \<Rightarrow> both_coefficients (19 / 100)
      | RealmManagement \<Rightarrow> both_coefficients (12 / 100)
      | TriggerEngine \<Rightarrow> both_coefficients (7 / 100)
      | Dashboard \<Rightarrow> both_coefficients (5 / 100))"

text \<open>The components in the order in which the code counts them.\<close>

definition allocation_order :: "AstarteComponent list" where
  "allocation_order =
     [AppEngineAPI, Dashboard, DataUpdaterPlant, FlowComponent, Housekeeping, Pairing,
      RealmManagement, TriggerEngine]"

text \<open>Here every component, Flow included, counts as deployed by default.\<close>

definition counted_as_deployed :: "Astarte \<Rightarrow> AstarteComponent \<Rightarrow> bool" where
  "counted_as_deployed cr c = PtrValue (gcr_Deploy (component_resource cr c)) True"

definition getNumberOfDeployedAstarteComponentsAsFloat :: "Astarte \<Rightarrow> rat" where
  "getNumberOfDeployedAstarteComponentsAsFloat cr =
     float64_of_int (foldl (\<lambda>n c. if counted_as_deployed cr c then n + 1 else n) 0 allocation_order)"

definition checkComponentForLeftoverAllocations ::
    "AstarteGenericClusteredResource \<Rightarrow> AstarteComponent \<Rightarrow> allocationCoefficients \<Rightarrow>
     allocationCoefficients" where
  "checkComponentForLeftoverAllocations clusteredResource component aC =
     (if \<not> PtrValue (gcr_Deploy clusteredResource) True
      then \<lparr>CPUCoefficient = fadd (CPUCoefficient aC) (CPUCoefficient (defaultComponentAllocations component)),
            MemoryCoefficient =
              fadd (MemoryCoefficient aC) (MemoryCoefficient (defaultComponentAllocations component))\<rparr>
      else aC)"

definition getLeftoverCoefficients :: "Astarte \<Rightarrow> allocationCoefficients" where
  "getLeftoverCoefficients cr =
     foldl (\<lambda>aC c. checkComponentForLeftoverAllocations (component_resource cr c) c aC)
       \<lparr>CPUCoefficient = 0, MemoryCoefficient = 0\<rparr> allocation_order"

definition getWeightedDefaultAllocationFor :: "Astarte \<Rightarrow> AstarteComponent \<Rightarrow> allocationCoefficients" where
  "getWeightedDefaultAllocationFor cr component =
     (let leftovers = getLeftoverCoefficients cr;
          n = getNumberOfDeployedAstarteComponentsAsFloat cr;
          d = defaultComponentAllocations component;
          d1 = (if 0 < CPUCoefficient leftovers
                then d\<lparr>CPUCoefficient := fadd (CPUCoefficient d) (fdiv (CPUCoefficient leftovers) n)\<rparr>
                else d)
      in if 0 < MemoryCoefficient leftovers
         then d1\<lparr>MemoryCoefficient := fadd (MemoryCoefficient d1) (fdiv (MemoryCoefficient leftovers) n)\<rparr>
         else d1)"

section \<open>Scaling\<close>

definition getCpuScaledQuantity :: "quantity_lib \<Rightarrow> quantity \<Rightarrow> rat \<Rightarrow> quantity" where
  "getCpuScaledQuantity ql qty coefficient =
     ql_NewMilliQuantity ql
       (int64_of_float (fmul (float64_of_int (ql_MilliValue ql qty)) coefficient)) (ql_Format ql qty)"

definition getMemoryScaledQuantity :: "quantity_lib \<Rightarrow> quantity \<Rightarrow> rat \<Rightarrow> quantity" where
  "getMemoryScaledQuantity ql qty coefficient =
     ql_NewQuantity ql
       (int64_of_float (fmul (float64_of_int (ql_Value ql qty)) coefficient)) (ql_Format ql qty)"

definition GetResourcesForAstarteComponent ::
    "quantity_lib \<Rightarrow> Astarte \<Rightarrow> resource_requirements option \<Rightarrow> AstarteComponent \<Rightarrow>
     resource_requirements" where
  "GetResourcesForAstarteComponent ql cr requestedResources component =
     (case requestedResources of
        Some r \<Rightarrow> r
      | None \<Rightarrow>
         (case comp_Resources (spec_Components (ast_Spec cr)) of
            None \<Rightarrow> NoResources
          | Some res \<Rightarrow>
             (let a = getWeightedDefaultAllocationFor cr component in
              if MemoryCoefficient a = 0 \<or> CPUCoefficient a = 0 then NoResources
              else
               (let cpuLimits = getCpuScaledQuantity ql (ql_Cpu ql (rr_Limits res)) (CPUCoefficient a);
                    cpuRequests = getCpuScaledQuantity ql (ql_Cpu ql (rr_Requests res)) (CPUCoefficient a);
                    memoryLimits = getMemoryScaledQuantity ql (ql_Memory ql (rr_Limits res)) (MemoryCoefficient a);
                    memoryRequests = getMemoryScaledQuantity ql (ql_Memory ql (rr_Requests res)) (MemoryCoefficient a);
                    cpuRequests1 = (if ql_MilliValue ql cpuRequests < 150
                                    then ql_NewScaledQuantity ql 0 scale_Milli else cpuRequests);
                    memoryRequests1 = (if ql_ScaledValue ql memoryRequests scale_Mega < 128
                                    then ql_NewScaledQuantity ql 128 scale_Mega else memoryRequests);
                    cpuLimits1 = (if ql_Cmp ql cpuLimits cpuRequests1 < 0 then cpuRequests1 else cpuLimits);
                    memoryLimits1 = (if ql_Cmp ql memoryLimits memoryRequests1 < 0 then memoryRequests1 else memoryLimits);
                    cpuLimits2 = (if ql_MilliValue ql cpuLimits1 < 300
                                  then ql_NewScaledQuantity ql 300 scale_Milli else cpuLimits1)
                in \<lparr>rr_Limits = [(''cpu'', cpuLimits2), (''memory'', memoryLimits1)],
                    rr_Requests = [(''cpu'', cpuRequests1), (''memory'', memoryRequests1)]\<rparr>))))"

section \<open>What the library promises\<close>

text \<open>
  \<open>amount\<close> is the number a quantity stands for. Reading rounds up, and is exact only while the
  result fits 64 bits.
\<close>

locale quantity_laws =
  fixes ql :: quantity_lib and amount :: "quantity \<Rightarrow> rat"
  assumes milli_value: "in_int \<lceil>amount q * 1000\<rceil> \<Longrightarrow> ql_MilliValue ql q = \<lceil>amount q * 1000\<rceil>"
    and unit_value: "in_int \<lceil>amount q\<rceil> \<Longrightarrow> ql_Value ql q = \<lceil>amount q\<rceil>"
    and mega_value:
      "in_int \<lceil>amount q / 10 ^ 6\<rceil> \<Longrightarrow> ql_ScaledValue ql q scale_Mega = \<lceil>amount q / 10 ^ 6\<rceil>"
    and cmp_less: "ql_Cmp ql p q < 0 \<longleftrightarrow> amount p < amount q"
    and new_milli: "in_int v \<Longrightarrow> amount (ql_NewMilliQuantity ql v f) = of_int v / 1000"
    and new_unit: "in_int v \<Longrightarrow> amount (ql_NewQuantity ql v f) = of_int v"
    and new_scaled_milli: "in_int v \<Longrightarrow> amount (ql_NewScaledQuantity ql v scale_Milli) = of_int v / 1000"
    and new_scaled_mega: "in_int v \<Longrightarrow> amount (ql_NewScaledQuantity ql v scale_Mega) = of_int v * 10 ^ 6"
begin

lemma milli_value_int: "in_int v \<Longrightarrow> amount q = of_int v / 1000 \<Longrightarrow> ql_MilliValue ql q = v"
  using milli_value [of q] by simp

text \<open>The adjustment of the CPU figures, for scaled values of \<open>r\<close> and \<open>l\<close> milli-units.\<close>

definition adjusted_cpu :: "quantity \<Rightarrow> quantity \<Rightarrow> quantity \<times> quantity" where
  "adjusted_cpu r l =
     (let r1 = (if ql_MilliValue ql r < 150 then ql_NewScaledQuantity ql 0 scale_Milli else r);
          l1 = (if ql_Cmp ql l r1 < 0 then r1 else l)
      in (r1, if ql_MilliValue ql l1 < 300 then ql_NewScaledQuantity ql 300 scale_Milli else l1))"

definition adjusted_memory :: "quantity \<Rightarrow> quantity \<Rightarrow> quantity \<times> quantity" where
  "adjusted_memory r l =
     (let r1 = (if ql_ScaledValue ql r scale_Mega < 128 then ql_NewScaledQuantity ql 128 scale_Mega else r)
      in (r1, if ql_Cmp ql l r1 < 0 then r1 else l))"

text \<open>A quantity of \<open>v\<close> milli-units.\<close>

definition is_milli :: "quantity \<Rightarrow> int \<Rightarrow> bool" where
  "is_milli q v \<longleftrightarrow> in_int v \<and> amount q = of_int v / 1000"

lemma is_milli_value: "is_milli q v \<Longrightarrow> ql_MilliValue ql q = v"
  by (auto simp: is_milli_def intro: milli_value_int)

lemma is_milli_cmp: "is_milli p v \<Longrightarrow> is_milli q w \<Longrightarrow> ql_Cmp ql p q < 0 \<longleftrightarrow> v < w"
  unfolding is_milli_def cmp_less by (auto simp: divide_less_cancel)

lemma is_milli_new: "in_int v \<Longrightarrow> is_milli (ql_NewScaledQuantity ql v scale_Milli) v"
  by (simp add: is_milli_def new_scaled_milli)

lemma is_milli_cpu_scaled:
  "is_milli (getCpuScaledQuantity ql q k)
     (int64_of_float (fmul (float64_of_int (ql_MilliValue ql q)) k))"
  by (simp add: is_milli_def getCpuScaledQuantity_def new_milli in_int_int64_of_float)

lemma is_milli_if: "(P \<Longrightarrow> is_milli p v) \<Longrightarrow> (\<not> P \<Longrightarrow> is_milli q w) \<Longrightarrow>
   is_milli (if P then p else q) (if P then v else w)"
  by simp

text \<open>The adjusted request is dropped below 150; the limit is raised to the request and to 300.\<close>

lemma adjusted_cpu_exact:
  assumes r: "is_milli r vr" and l: "is_milli l vl" and "adjusted_cpu r l = (r', l')"
  shows "is_milli r' (if vr < 150 then 0 else vr)"
    and "is_milli l' (max 300 (max vl (if vr < 150 then 0 else vr)))"
proof -
  define r1 where "r1 = (if ql_MilliValue ql r < 150 then ql_NewScaledQuantity ql 0 scale_Milli else r)"
  define v1 where "v1 = (if vr < 150 then 0 else vr)"
  define l1 where "l1 = (if ql_Cmp ql l r1 < 0 then r1 else l)"
  have r1: "is_milli r1 v1"
    using r by (simp add: r1_def v1_def is_milli_value is_milli_new in_int_def)
  have l1: "is_milli l1 (max vl v1)"
    using r1 l by (auto simp: l1_def is_milli_cmp max_def)
  have "r' = r1" "l' = (if ql_MilliValue ql l1 < 300 then ql_NewScaledQuantity ql 300 scale_Milli else l1)"
    using assms(3) by (simp_all add: adjusted_cpu_def r1_def l1_def Let_def split: if_splits)
  then show "is_milli r' (if vr < 150 then 0 else vr)"
    and "is_milli l' (max 300 (max vl (if vr < 150 then 0 else vr)))"
    using r1 l1 is_milli_new [of 300]
    by (simp_all add: v1_def [symmetric] is_milli_value in_int_def max_def)
qed

lemma adjusted_memory_exact:
  assumes "in_int vr" "amount r = of_int vr" "amount l = of_int vl" and "adjusted_memory r l = (r', l')"
  shows "amount r' = of_int (if vr \<le> 127 * 10 ^ 6 then 128 * 10 ^ 6 else vr)"
    and "amount l' = of_int (max vl (if vr \<le> 127 * 10 ^ 6 then 128 * 10 ^ 6 else vr))"
proof -
  have "in_int \<lceil>amount r / 10 ^ 6\<rceil>"
    using assms(1, 2) by (auto simp: in_int_def ceiling_le_iff le_ceiling_iff less_ceiling_iff ceiling_less_iff)
  then have m: "ql_ScaledValue ql r scale_Mega = \<lceil>amount r / 10 ^ 6\<rceil>"
    by (rule mega_value)
  have s: "\<lceil>amount r / 10 ^ 6\<rceil> < 128 \<longleftrightarrow> vr \<le> 127 * 10 ^ 6"
    using assms(2) by (simp add: ceiling_less_iff)
  have n: "amount (ql_NewScaledQuantity ql 128 scale_Mega) = of_int (128 * 10 ^ 6)"
    using new_scaled_mega [of 128] by (simp add: in_int_def)
  define r1 where "r1 = (if ql_ScaledValue ql r scale_Mega < 128 then ql_NewScaledQuantity ql 128 scale_Mega else r)"
  have r1: "amount r1 = of_int (if vr \<le> 127 * 10 ^ 6 then 128 * 10 ^ 6 else vr)"
    by (simp add: r1_def m s n assms(2))
  have "r' = r1" "l' = (if ql_Cmp ql l r1 < 0 then r1 else l)"
    using assms(4) unfolding adjusted_memory_def Let_def r1_def [symmetric] by auto
  with r1 show "amount r' = of_int (if vr \<le> 127 * 10 ^ 6 then 128 * 10 ^ 6 else vr)"
    and "amount l' = of_int (max vl (if vr \<le> 127 * 10 ^ 6 then 128 * 10 ^ 6 else vr))"
    using assms(3) by (auto simp only: cmp_less of_int_less_iff max_def split: if_splits)
qed

lemma GetResources_distributed:
  assumes "comp_Resources (spec_Components (ast_Spec cr)) = Some all"
    and "a = getWeightedDefaultAllocationFor cr c"
    and "MemoryCoefficient a \<noteq> 0" "CPUCoefficient a \<noteq> 0"
    and "adjusted_cpu (getCpuScaledQuantity ql (ql_Cpu ql (rr_Requests all)) (CPUCoefficient a))
           (getCpuScaledQuantity ql (ql_Cpu ql (rr_Limits all)) (CPUCoefficient a)) = (cr', cl')"
    and "adjusted_memory (getMemoryScaledQuantity ql (ql_Memory ql (rr_Requests all)) (MemoryCoefficient a))
           (getMemoryScaledQuantity ql (ql_Memory ql (rr_Limits all)) (MemoryCoefficient a)) = (mr', ml')"
  shows "GetResourcesForAstarteComponent ql cr None c =
    \<lparr>rr_Limits = [(''cpu'', cl'), (''memory'', ml')], rr_Requests = [(''cpu'', cr'), (''memory'', mr')]\<rparr>"
proof -
  note c = assms(5) [unfolded adjusted_cpu_def Let_def prod.inject]
  note m = assms(6) [unfolded adjusted_memory_def Let_def prod.inject]
  show ?thesis
    unfolding GetResourcesForAstarteComponent_def Let_def option.case assms(1) assms(2) [symmetric]
      c [THEN conjunct1, symmetric] c [THEN conjunct2, symmetric]
      m [THEN conjunct1, symmetric] m [THEN conjunct2, symmetric]
    using assms(3,4) by simp
qed

lemma distributed_exact:
  assumes "comp_Resources (spec_Components (ast_Spec cr)) = Some all"
    and "a = getWeightedDefaultAllocationFor cr c"
    and "MemoryCoefficient a \<noteq> 0" "CPUCoefficient a \<noteq> 0"
    and cv: "cv = (\<lambda>rs. int64_of_float (fmul (float64_of_int (ql_MilliValue ql (ql_Cpu ql rs))) (CPUCoefficient a)))"
    and mv: "mv = (\<lambda>rs. int64_of_float (fmul (float64_of_int (ql_Value ql (ql_Memory ql rs))) (MemoryCoefficient a)))"
    and rc: "rc = (if cv (rr_Requests all) < 150 then 0 else cv (rr_Requests all))"
    and rm: "rm = (if mv (rr_Requests all) \<le> 127 * 10 ^ 6 then 128 * 10 ^ 6 else mv (rr_Requests all))"
  shows "\<exists>cl ml cq mq. GetResourcesForAstarteComponent ql cr None c =
      \<lparr>rr_Limits = [(''cpu'', cl), (''memory'', ml)], rr_Requests = [(''cpu'', cq), (''memory'', mq)]\<rparr> \<and>
      amount cq = of_int rc / 1000 \<and> amount cl = of_int (max 300 (max (cv (rr_Limits all)) rc)) / 1000 \<and>
      amount mq = of_int rm \<and> amount ml = of_int (max (mv (rr_Limits all)) rm)"
proof -
  let ?C = "\<lambda>rs. getCpuScaledQuantity ql (ql_Cpu ql rs) (CPUCoefficient a)"
  let ?M = "\<lambda>rs. getMemoryScaledQuantity ql (ql_Memory ql rs) (MemoryCoefficient a)"
  obtain cq cl where c: "adjusted_cpu (?C (rr_Requests all)) (?C (rr_Limits all)) = (cq, cl)"
    by fastforce
  obtain mq ml where m: "adjusted_memory (?M (rr_Requests all)) (?M (rr_Limits all)) = (mq, ml)"
    by fastforce
  have "is_milli (?C rs) (cv rs)" for rs
    unfolding cv by (rule is_milli_cpu_scaled)
  from adjusted_cpu_exact [OF this this c]
  have "amount cq = of_int rc / 1000" "amount cl = of_int (max 300 (max (cv (rr_Limits all)) rc)) / 1000"
    by (simp_all add: is_milli_def rc)
  moreover have "in_int (mv rs)" "amount (?M rs) = of_int (mv rs)" for rs
    unfolding mv getMemoryScaledQuantity_def by (simp_all add: new_unit in_int_int64_of_float)
  from adjusted_memory_exact [OF this(1,2) this(2) m]
  have "amount mq = of_int rm" "amount ml = of_int (max (mv (rr_Limits all)) rm)"
    by (simp_all add: rm)
  ultimately show ?thesis
    using GetResources_distributed [OF assms(1-4) c m] by blast
qed

end

section \<open>A concrete instance\<close>

text \<open>
  A library that keeps a quantity as a signed integer with a unit (none, \<open>m\<close>, \<open>k\<close>, \<open>M\<close>,
  \<open>G\<close>, \<open>Ki\<close>, \<open>Mi\<close> or \<open>Gi\<close>) meets the laws.
\<close>

definition is_number_char :: "char \<Rightarrow> bool" where
  "is_number_char c \<longleftrightarrow> c = CHR ''-'' \<or> digit_value c \<noteq> None"

definition unit_of :: "string \<Rightarrow> rat" where
  "unit_of s =
     (if s = ''m'' then 1 / 1000 else if s = ''k'' then 10 ^ 3 else if s = ''M'' then 10 ^ 6
      else if s = ''G'' then 10 ^ 9 else if s = ''Ki'' then 2 ^ 10 else if s = ''Mi'' then 2 ^ 20
      else if s = ''Gi'' then 2 ^ 30 else 1)"

fun plain_amount :: "quantity \<Rightarrow> rat" where
  "plain_amount (Quantity s) =
     of_int (fst (Atoi (takeWhile is_number_char s))) * unit_of (dropWhile is_number_char s)"

fun plain_format :: "quantity \<Rightarrow> quantity_format" where
  "plain_format (Quantity s) = (if CHR ''i'' \<in> set s then BinarySI else DecimalSI)"

definition plain_entry :: "string \<Rightarrow> resource_list \<Rightarrow> quantity" where
  "plain_entry k rs = (case map_of rs k of None \<Rightarrow> Quantity ''0'' | Some q \<Rightarrow> q)"

definition plain_quantities :: quantity_lib where
  "plain_quantities =
     \<lparr>ql_Cpu = plain_entry ''cpu'', ql_Memory = plain_entry ''memory'',
      ql_MilliValue = (\<lambda>q. \<lceil>plain_amount q * 1000\<rceil>), ql_Value = (\<lambda>q. \<lceil>plain_amount q\<rceil>),
      ql_ScaledValue = (\<lambda>q s. \<lceil>if s = scale_Mega then plain_amount q / 10 ^ 6 else plain_amount q * 1000\<rceil>),
      ql_Cmp = (\<lambda>p q. if plain_amount p < plain_amount q then - 1
                      else if plain_amount q < plain_amount p then 1 else 0),
      ql_NewScaledQuantity = (\<lambda>v s. Quantity (Itoa v @ (if s = scale_Mega then ''M'' else ''m''))),
      ql_NewMilliQuantity = (\<lambda>v f. Quantity (Itoa v @ ''m'')),
      ql_NewQuantity = (\<lambda>v f. Quantity (Itoa v)),
      ql_Format = plain_format,
      ql_Add = (\<lambda>p q. Quantity (Itoa \<lceil>(plain_amount p + plain_amount q) * 1000\<rceil> @ ''m''))\<rparr>"

lemma Itoa_number_chars: "c \<in> set (Itoa v) \<Longrightarrow> is_number_char c"
proof -
  have *: "is_number_char c" if "0 \<le> n" "c \<in> set (digits n)" for n
    using set_digits [OF that] by (auto simp: is_number_char_def digit_value_digit_char)
  then show "c \<in> set (Itoa v) \<Longrightarrow> is_number_char c"
    using * [of v] * [of "- v"]
    by (cases "v < 0") (auto simp: Itoa_def, simp_all add: is_number_char_def)
qed

lemma plain_amount_Itoa:
  assumes "in_int v" and "u = [] \<or> \<not> is_number_char (hd u)"
  shows "plain_amount (Quantity (Itoa v @ u)) = of_int v * unit_of u"
proof -
  have "takeWhile is_number_char u = []" "dropWhile is_number_char u = u"
    using assms(2) by (cases u; simp)+
  with assms(1) show ?thesis
    by (simp add: takeWhile_append dropWhile_append Itoa_number_chars Atoi_Itoa)
qed

interpretation plain: quantity_laws plain_quantities plain_amount
proof unfold_locales
  have unit: "\<not> is_number_char (hd ''m'')" "\<not> is_number_char (hd ''M'')"
    by code_simp+
  show "plain_amount (ql_NewMilliQuantity plain_quantities v f) = of_int v / 1000" if "in_int v" for v f
    using plain_amount_Itoa [OF that, of "''m''"] unit by (simp add: plain_quantities_def unit_of_def del: plain_amount.simps)
  show "plain_amount (ql_NewQuantity plain_quantities v f) = of_int v" if "in_int v" for v f
    using plain_amount_Itoa [OF that, of "[]"] by (simp add: plain_quantities_def unit_of_def del: plain_amount.simps)
  show "plain_amount (ql_NewScaledQuantity plain_quantities v scale_Milli) = of_int v / 1000" if "in_int v" for v
    using plain_amount_Itoa [OF that, of "''m''"] unit
    by (simp add: plain_quantities_def unit_of_def scale_Milli_def scale_Mega_def del: plain_amount.simps)
  show "plain_amount (ql_NewScaledQuantity plain_quantities v scale_Mega) = of_int v * 10 ^ 6" if "in_int v" for v
    using plain_amount_Itoa [OF that, of "''M''"] unit
    by (simp add: plain_quantities_def unit_of_def scale_Mega_def del: plain_amount.simps)
qed (simp_all add: plain_quantities_def)

end
