(* ===== verification/Backend_Pods.thy ===== *)
theory Backend_Pods
  imports Pod_Parts Allocation
begin

text \<open>
  The pods of the backend components, Trigger Engine and Data Updater Plant
  (\<open>astarte_generic_backend.go\<close>): their environment, with the range of data queues a replica of
  Data Updater Plant consumes, and their pod specification.
\<close>

section \<open>Data queues\<close>

text \<open>
  The first and the last queue of a replica: the queues are split evenly, the last replica takes
  the rest.
\<close>

definition dup_queue_range :: "int \<Rightarrow> int \<Rightarrow> int \<Rightarrow> int \<times> int" where
  "dup_queue_range replicaIndex replicas dataQueueCount =
     (let rangeStart = 0; rangeEnd = go_int (dataQueueCount - 1) in
      if 1 < replicas then
       (let dataQueuePartition = go_int (go_div dataQueueCount replicas)
        in (go_int (dataQueuePartition * replicaIndex),
            if replicas \<noteq> go_int (replicaIndex + 1)
            then go_int (go_int (dataQueuePartition * go_int (replicaIndex + 1)) - 1) else rangeEnd))
      else (rangeStart, rangeEnd))"

definition getAstarteDataUpdaterPlantQueuesEnvVars :: "int \<Rightarrow> int \<Rightarrow> Astarte \<Rightarrow> env_var list" where
  "getAstarteDataUpdaterPlantQueuesEnvVars replicaIndex replicas cr =
     (let (rangeStart, rangeEnd) = dup_queue_range replicaIndex replicas (getDataQueueCount cr)
      in [EnvValue ''DATA_UPDATER_PLANT_AMQP_DATA_QUEUE_RANGE_START'' (Itoa rangeStart),
          EnvValue ''DATA_UPDATER_PLANT_AMQP_DATA_QUEUE_RANGE_END'' (Itoa rangeEnd)])"

section \<open>Environment\<close>

definition getAstarteDataUpdaterPlantBackendEnvVars ::
    "int \<Rightarrow> int \<Rightarrow> Astarte \<Rightarrow> err + env_var list" where
  "getAstarteDataUpdaterPlantBackendEnvVars replicaIndex replicas cr =
     rbind (appendRabbitMQConnectionEnvVars [] ''DATA_UPDATER_PLANT_AMQP_CONSUMER'' cr) (\<lambda>ret.
     rbind (appendRabbitMQConnectionEnvVars ret ''DATA_UPDATER_PLANT_AMQP_PRODUCER'' cr) (\<lambda>ret.
     rbind (appendAstarteEventsProducerEnvVars ret cr) (\<lambda>ret.
       let ret1 = (if dup_PrefetchCount (comp_DataUpdaterPlant (spec_Components (ast_Spec cr))) \<noteq> None
                   then ret @ [EnvValue ''DATA_UPDATER_PLANT_AMQP_CONSUMER_PREFETCH_COUNT''
                     (Itoa (PtrValue (dup_PrefetchCount (comp_DataUpdaterPlant (spec_Components (ast_Spec cr)))) 300))]
                   else ret);
           ret2 = ret1 @ getAstarteDataUpdaterPlantQueuesEnvVars replicaIndex replicas cr;
           ret3 = ret2 @ [EnvValue ''DATA_UPDATER_PLANT_AMQP_DATA_QUEUE_TOTAL_COUNT'' (Itoa (getDataQueueCount cr))];
           ret4 = ret3 @ [EnvValue ''DATA_UPDATER_PLANT_CLUSTERING_KUBERNETES_SELECTOR''
                            (''app='' @ cr_Name cr @ ''-data-updater-plant'')];
           ret5 = (if rmq_DataQueuesPrefix (spec_RabbitMQ (ast_Spec cr)) \<noteq> ''''
                   then ret4 @ [EnvValue ''DATA_UPDATER_PLANT_AMQP_DATA_QUEUE_PREFIX''
                                  (rmq_DataQueuesPrefix (spec_RabbitMQ (ast_Spec cr)))]
                   else ret4)
       in Inr (if 0 < vmq_DeviceHeartbeatSeconds (spec_VerneMQ (ast_Spec cr))
               then ret5 @ [EnvValue ''DATA_UPDATER_PLANT_DEVICE_HEARTBEAT_INTERVAL_MS''
                      (Itoa (go_int (vmq_DeviceHeartbeatSeconds (spec_VerneMQ (ast_Spec cr)) * 1000)))]
               else ret5))))"

definition getTriggerEngineBackendEnvVars :: "Astarte \<Rightarrow> err + env_var list" where
  "getTriggerEngineBackendEnvVars cr =
     rbind (appendRabbitMQConnectionEnvVars [] ''TRIGGER_ENGINE_AMQP_CONSUMER'' cr) (\<lambda>ret.
       let eventsExchangeName = rmq_EventsExchangeName (spec_RabbitMQ (ast_Spec cr));
           queue = ae_RoomEventsQueueName (comp_AppengineAPI (spec_Components (ast_Spec cr)));
           key = te_EventsRoutingKey (comp_TriggerEngine (spec_Components (ast_Spec cr)));
           ret1 = (if eventsExchangeName \<noteq> ''''
                   then ret @ [EnvValue ''TRIGGER_ENGINE_AMQP_EVENTS_EXCHANGE_NAME'' eventsExchangeName]
                   else ret);
           ret2 = (if queue \<noteq> '''' then ret1 @ [EnvValue ''TRIGGER_ENGINE_AMQP_EVENTS_QUEUE_NAME'' queue]
                   else ret1)
       in Inr (if key \<noteq> '''' then ret2 @ [EnvValue ''TRIGGER_ENGINE_AMQP_EVENTS_ROUTING_KEY'' key] else ret2))"

definition getAstarteGenericBackendEnvVars ::
    "('v, 'c) semver \<Rightarrow> string \<Rightarrow> int \<Rightarrow> int \<Rightarrow> Astarte \<Rightarrow> AstarteGenericClusteredResource \<Rightarrow>
     AstarteComponent \<Rightarrow> err + env_var list" where
  "getAstarteGenericBackendEnvVars sv deploymentName replicaIndex replicas cr backend component =
     rbind (getAstarteCommonEnvVars sv deploymentName cr component) (\<lambda>ret.
     rbind (appendCassandraConnectionEnvVars ret cr) (\<lambda>ret.
     rbind (getCassandraNodes cr) (\<lambda>nodes.
       let ret1 = ret @ [EnvValue ''CASSANDRA_NODES'' nodes];
           ret2 = (if spec_AstarteInstanceID (ast_Spec cr) \<noteq> ''''
                   then ret1 @ [EnvValue ''ASTARTE_INSTANCE_ID'' (spec_AstarteInstanceID (ast_Spec cr))]
                   else ret1)
       in rbind
            (if component = DataUpdaterPlant
             then rmap (\<lambda>es. ret2 @ es) (getAstarteDataUpdaterPlantBackendEnvVars replicaIndex replicas cr)
             else if component = TriggerEngine
             then rmap (\<lambda>es. ret2 @ es) (getTriggerEngineBackendEnvVars cr)
             else Inr ret2)
            (\<lambda>ret3. Inr (if gcr_AdditionalEnv backend \<noteq> [] then ret3 @ gcr_AdditionalEnv backend else ret3)))))"

section \<open>The pod\<close>

definition getAstarteGenericBackendVolumes :: "Astarte \<Rightarrow> err + volume list" where
  "getAstarteGenericBackendVolumes cr = getAstarteCommonVolumes cr"

definition getAstarteGenericBackendVolumeMounts :: "Astarte \<Rightarrow> err + volume_mount list" where
  "getAstarteGenericBackendVolumeMounts cr = getAstarteCommonVolumeMounts cr"

text \<open>The libraries a pod is computed with: versions and quantities.\<close>

record ('v, 'c) libs =
  lib_semver :: "('v, 'c) semver"
  lib_quantity :: quantity_lib

definition getAstarteGenericBackendPodSpec ::
    "('v, 'c) libs \<Rightarrow> string \<Rightarrow> int \<Rightarrow> int \<Rightarrow> Astarte \<Rightarrow> AstarteGenericClusteredResource \<Rightarrow>
     AstarteComponent \<Rightarrow> err + pod_spec" where
  "getAstarteGenericBackendPodSpec L deploymentName replicaIndex replicas cr backend component =
     rbind (getAstarteGenericBackendVolumeMounts cr) (\<lambda>mounts.
     rbind (getImagePullPolicy cr backend) (\<lambda>pullPolicy.
     rbind (getAstarteGenericBackendEnvVars (lib_semver L) deploymentName replicaIndex replicas cr backend component) (\<lambda>env.
     rbind (getAstarteGenericBackendVolumes cr) (\<lambda>volumes.
       Inr \<lparr>ps_TerminationGracePeriodSeconds = Some 30,
            ps_ServiceAccountName = deploymentName,
            ps_ImagePullSecrets = spec_ImagePullSecrets (ast_Spec cr),
            ps_Affinity = getAffinityForClusteredResource deploymentName backend,
            ps_Containers =
              [\<lparr>c_Name = DashedString component,
                c_Image = getAstarteImageForClusteredResource (DockerImageName component) backend cr,
                c_ImagePullPolicy = pullPolicy,
                c_Ports = [\<lparr>cp_Name = ''http'', cp_ContainerPort = astarteServicesPort\<rparr>],
                c_VolumeMounts = mounts,
                c_Env = env,
                c_Resources = GetResourcesForAstarteComponent (lib_quantity L) cr (gcr_Resources backend) component,
                c_ReadinessProbe = getAstarteComponentReadinessProbe component backend,
                c_LivenessProbe = getAstarteComponentLivenessProbe component backend,
                c_StartupProbe = getAstarteComponentStartupProbe backend,
                c_SecurityContext = None\<rparr>],
            ps_Volumes = volumes,
            ps_PriorityClassName =
              podPriorityClassName cr (gcr_PriorityClass backend)
                (GetDefaultAstartePriorityClassNameForComponent component)\<rparr>))))"

section \<open>The queues of the replicas\<close>

lemma div_mult_le: "0 < r \<Longrightarrow> (n :: int) div r * r \<le> n"
  by (simp add: minus_mod_eq_div_mult [symmetric])

text \<open>Within the range of Go's \<open>int\<close> the computation is the plain one.\<close>

lemma dup_queue_range_eq:
  assumes "0 \<le> n" "in_int n" "0 \<le> i" "i < r" "in_int r"
  shows "dup_queue_range i r n = (n div r * i, if i = r - 1 then n - 1 else n div r * (i + 1) - 1)"
proof -
  have p: "0 \<le> n div r" "n div r * r \<le> n"
    using assms by (simp_all add: pos_imp_zdiv_nonneg_iff div_mult_le)
  have le: "n div r * i \<le> n div r * r" "n div r * (i + 1) \<le> n div r * r"
    using assms p(1) by (intro mult_left_mono; simp)+
  have nn: "0 \<le> n div r * i" "0 \<le> n div r * (i + 1)"
    using assms p(1) by simp_all
  have "n div r * 1 \<le> n div r * r"
    using assms p(1) by (intro mult_left_mono) simp_all
  then have big: "n div r \<le> n"
    using p(2) by simp
  have small: "in_int x" if "- 1 \<le> x" "x \<le> n" for x
    using that assms by (auto simp: in_int_def)
  have "in_int (n div r * i)" "in_int (n div r * (i + 1))" "in_int (n div r * (i + 1) - 1)"
    by (rule small; use le nn p in linarith)+
  moreover have "in_int (n - 1)" "in_int (n div r)"
    using assms(1) p(1) big by (simp_all add: small)
  moreover have "in_int (i + 1)"
    using assms by (auto simp: in_int_def)
  ultimately have rng: "go_int (n - 1) = n - 1" "go_int (i + 1) = i + 1" "go_int (n div r) = n div r"
    "go_int (n div r * i) = n div r * i" "go_int (n div r * (i + 1)) = n div r * (i + 1)"
    "go_int (n div r * (i + 1) - 1) = n div r * (i + 1) - 1"
    by (simp_all only: go_int_id)
  show ?thesis
  proof (cases "1 < r")
    case True
    then show ?thesis
      using assms by (auto simp: dup_queue_range_def go_div_nonneg rng Let_def)
  next
    case False
    with assms have "r = 1" "i = 0"
      by simp_all
    then show ?thesis
      using rng(1) by (simp add: dup_queue_range_def Let_def)
  qed
qed

lemma queue_owner:
  fixes n r q :: int
  assumes "0 \<le> q" "q < n" "0 < r"
  shows "\<exists>!i. 0 \<le> i \<and> i < r \<and> n div r * i \<le> q \<and> q \<le> (if i = r - 1 then n - 1 else n div r * (i + 1) - 1)"
proof (cases "q < n div r * (r - 1)")
  case True
  define p where "p = n div r"
  have p: "0 < p"
    using True assms by (cases "p = 0") (simp_all add: p_def pos_imp_zdiv_nonneg_iff order_less_le)
  have lo: "p * (q div p) \<le> q" and hi: "q < p * (q div p + 1)"
    using p by (simp_all add: div_mult_mod_eq minus_mod_eq_mult_div [symmetric] algebra_simps)
  have "q div p < r - 1"
    using le_less_trans [OF lo True [folded p_def]] p by simp
  show ?thesis
    unfolding p_def [symmetric]
  proof (intro ex1I conjI)
    show "0 \<le> q div p" "q div p < r" "p * (q div p) \<le> q"
      "q \<le> (if q div p = r - 1 then n - 1 else p * (q div p + 1) - 1)"
      using assms p lo hi \<open>q div p < r - 1\<close> by (simp_all add: pos_imp_zdiv_nonneg_iff)
    fix i
    assume i: "0 \<le> i \<and> i < r \<and> p * i \<le> q \<and> q \<le> (if i = r - 1 then n - 1 else p * (i + 1) - 1)"
    have "i \<noteq> r - 1"
      using i True by (auto simp: p_def)
    with i have "p * i \<le> q" "q < p * (i + 1)"
      by simp_all
    then show "i = q div p"
      using p by (intro int_div_pos_eq [symmetric, of _ _ _ "q - p * i"]) (simp_all add: algebra_simps)
  qed
next
  case False
  define p where "p = n div r"
  have p: "0 \<le> p"
    using assms by (simp add: p_def pos_imp_zdiv_nonneg_iff)
  show ?thesis
    unfolding p_def [symmetric]
  proof (intro ex1I conjI)
    show "0 \<le> r - 1" "r - 1 < r" "p * (r - 1) \<le> q" "q \<le> (if r - 1 = r - 1 then n - 1 else p * (r - 1 + 1) - 1)"
      using assms False by (simp_all add: p_def)
    fix i
    assume i: "0 \<le> i \<and> i < r \<and> p * i \<le> q \<and> q \<le> (if i = r - 1 then n - 1 else p * (i + 1) - 1)"
    show "i = r - 1"
    proof (rule ccontr)
      assume "i \<noteq> r - 1"
      with i have "q < p * (i + 1)" "i + 1 \<le> r - 1"
        by simp_all
      moreover have "p * (i + 1) \<le> p * (r - 1)"
        using p calculation(2) by (rule mult_left_mono [rotated])
      ultimately show False
        using False by (simp add: p_def)
    qed
  qed
qed

text \<open>
  What a replica reads from its environment: a queue is consumed if it lies between the two numbers
  that the two variables spell.
\<close>

definition env_int :: "env_var list \<Rightarrow> string \<Rightarrow> int option" where
  "env_int es n = map_option (\<lambda>e. fst (Atoi (ev_Value e))) (env_lookup es n)"

definition consumes_queue :: "env_var list \<Rightarrow> int \<Rightarrow> bool" where
  "consumes_queue es q =
     (case (env_int es ''DATA_UPDATER_PLANT_AMQP_DATA_QUEUE_RANGE_START'',
            env_int es ''DATA_UPDATER_PLANT_AMQP_DATA_QUEUE_RANGE_END'') of
        (Some s, Some e) \<Rightarrow> s \<le> q \<and> q \<le> e
      | _ \<Rightarrow> False)"

lemma in_int_dup_queue_range:
  "in_int (fst (dup_queue_range i r n)) \<and> in_int (snd (dup_queue_range i r n))"
proof -
  have g: "in_int (go_int x)" for x
    unfolding go_int_def in_int_def
    using signed_take_bit_int_greater_eq_minus_exp [of 63 x] signed_take_bit_int_less_exp [of 63 x]
    by simp
  have "in_int 0"
    by (simp add: in_int_def)
  with g show ?thesis
    by (simp add: dup_queue_range_def Let_def)
qed

lemma consumes_queue_iff:
  "consumes_queue (getAstarteDataUpdaterPlantQueuesEnvVars i r cr) q \<longleftrightarrow>
     (let (s, e) = dup_queue_range i r (getDataQueueCount cr) in s \<le> q \<and> q \<le> e)"
  using in_int_dup_queue_range [of i r "getDataQueueCount cr"]
  by (auto simp: consumes_queue_def env_int_def getAstarteDataUpdaterPlantQueuesEnvVars_def env_lookup_def
      Atoi_Itoa split: prod.splits)

text \<open>C35: the replicas of Data Updater Plant share the data queues.

  Each of the \<open>r\<close> replicas gets the first and the last queue it consumes as decimal text in two
  environment variables. Read back with \<open>Atoi\<close>, these ranges partition the queues: every queue
  from 0 to the queue count is consumed by exactly one replica, and no replica consumes another.\<close>

theorem dup_queues_partition:
  assumes "0 \<le> getDataQueueCount cr" "in_int (getDataQueueCount cr)" "0 < r" "in_int r"
  shows "if 0 \<le> q \<and> q < getDataQueueCount cr
         then \<exists>!i. 0 \<le> i \<and> i < r \<and> consumes_queue (getAstarteDataUpdaterPlantQueuesEnvVars i r cr) q
         else \<not> (\<exists>i. 0 \<le> i \<and> i < r \<and> consumes_queue (getAstarteDataUpdaterPlantQueuesEnvVars i r cr) q)"
proof -
  define n where "n = getDataQueueCount cr"
  have c: "0 \<le> i \<and> i < r \<and> consumes_queue (getAstarteDataUpdaterPlantQueuesEnvVars i r cr) q \<longleftrightarrow>
      0 \<le> i \<and> i < r \<and> n div r * i \<le> q \<and> q \<le> (if i = r - 1 then n - 1 else n div r * (i + 1) - 1)" for i
    using assms dup_queue_range_eq [of n i r] by (auto simp: consumes_queue_iff n_def)
  have within: "0 \<le> q \<and> q < n" if "0 \<le> i" "i < r" "n div r * i \<le> q"
    "q \<le> (if i = r - 1 then n - 1 else n div r * (i + 1) - 1)" for i
  proof -
    have "n div r * (i + 1) \<le> n div r * r"
      using that assms by (intro mult_left_mono) (simp_all add: n_def pos_imp_zdiv_nonneg_iff)
    moreover have "n div r * r \<le> n" "0 \<le> n div r * i"
      using that assms by (simp_all add: n_def pos_imp_zdiv_nonneg_iff div_mult_le)
    ultimately show ?thesis
      using that by (auto split: if_splits)
  qed
  show ?thesis
  proof (cases "0 \<le> q \<and> q < n")
    case True
    with queue_owner [of q n r] assms(3) show ?thesis
      unfolding c n_def [symmetric] by simp
  next
    case False
    show ?thesis
      unfolding c n_def [symmetric] if_not_P [OF False] using within False by blast
  qed
qed

theorem dup_queues_partition_witness:
  "\<exists>!i. 0 \<le> i \<and> i < 3 \<and> consumes_queue (getAstarteDataUpdaterPlantQueuesEnvVars i 3 ex_astarte) 9"
proof -
  have n: "getDataQueueCount ex_astarte = 10"
    by (simp add: getDataQueueCount_def ex_defs)
  show ?thesis
    using dup_queues_partition [of ex_astarte 3 9] by (simp add: n in_int_def)
qed

end
