(* ===== verification/API_Pods.thy ===== *)
theory API_Pods
  imports Backend_Pods
begin

text \<open>
  The pods of the API components (\<open>astarte_generic_api.go\<close>) and of the dashboard
  (\<open>astarte_dashboard.go\<close>).
\<close>

section \<open>Environment of the API components\<close>

definition getAstarteRealmManagementEnvVars :: "Astarte \<Rightarrow> err + env_var list" where
  "getAstarteRealmManagementEnvVars cr =
     rbind (appendAstarteEventsProducerEnvVars [] cr) (\<lambda>ret.
       Inr (ret @
         [EnvValue ''DATA_UPDATER_PLANT_CLUSTERING_KUBERNETES_SELECTOR'' (''app='' @ cr_Name cr @ ''-data-updater-plant''),
          EnvValue ''REALM_MANAGEMENT_CLUSTERING_KUBERNETES_SELECTOR'' (''app='' @ cr_Name cr @ ''-realm-management''),
          EnvValue ''PAIRING_CLUSTERING_KUBERNETES_SELECTOR'' (''app='' @ cr_Name cr @ ''-pairing'')]))"

definition getAstarteAppEngineAPIEnvVars :: "Astarte \<Rightarrow> err + env_var list" where
  "getAstarteAppEngineAPIEnvVars cr =
     rbind (appendRabbitMQConnectionEnvVars [] ''APPENGINE_API_ROOMS_AMQP_CLIENT'' cr) (\<lambda>ret.
     let ret1 = (if spec_AstarteInstanceID (ast_Spec cr) \<noteq> ''''
                 then ret @ [EnvValue ''ASTARTE_INSTANCE_ID'' (spec_AstarteInstanceID (ast_Spec cr))] else ret)
     in rbind (getCassandraNodes cr) (\<lambda>nodes.
     let api = comp_AppengineAPI (spec_Components (ast_Spec cr));
         ret2 = ret1 @
           [EnvValue ''CASSANDRA_NODES'' nodes,
            EnvValue ''DATA_UPDATER_PLANT_CLUSTERING_KUBERNETES_SELECTOR'' (''app='' @ cr_Name cr @ ''-data-updater-plant''),
            EnvValue ''APPENGINE_API_MAX_RESULTS_LIMIT'' (Itoa (getAppEngineAPIMaxResultslimit cr))];
         ret3 = (if ae_RoomEventsQueueName api \<noteq> ''''
                 then ret2 @ [EnvValue ''APPENGINE_API_ROOMS_EVENTS_QUEUE_NAME'' (ae_RoomEventsQueueName api)] else ret2)
     in Inr (if ae_RoomEventsExchangeName api \<noteq> ''''
             then ret3 @ [EnvValue ''APPENGINE_API_ROOMS_EVENTS_EXCHANGE_NAME'' (ae_RoomEventsExchangeName api)]
             else ret3)))"

definition getAstarteHousekeepingEnvVars :: "Astarte \<Rightarrow> err + env_var list" where
  "getAstarteHousekeepingEnvVars cr =
     rbind (appendAstarteKeyspaceEnvVars cr) (\<lambda>keyspace.
     rbind (appendRabbitMQConnectionEnvVars keyspace ''HOUSEKEEPING_AMQP'' cr) (\<lambda>ret.
     rbind (getCassandraNodes cr) (\<lambda>nodes.
       let ret1 = ret @
             [EnvValue ''HOUSEKEEPING_AMQP_MANAGEMENT_PORT'' (Itoa 15672),
              EnvValue ''CASSANDRA_NODES'' nodes,
              EnvValue ''HOUSEKEEPING_API_JWT_PUBLIC_KEY_PATH'' ''/jwtpubkey/public-key''];
           ret2 = (if spec_AstarteInstanceID (ast_Spec cr) \<noteq> ''''
                   then ret1 @ [EnvValue ''ASTARTE_INSTANCE_ID'' (spec_AstarteInstanceID (ast_Spec cr))] else ret1)
       in Inr (if feat_RealmDeletion (spec_Features (ast_Spec cr))
               then ret2 @ [EnvValue ''HOUSEKEEPING_ENABLE_REALM_DELETION'' ''true''] else ret2))))"

definition getAstartePairingEnvVars :: "Astarte \<Rightarrow> err + env_var list" where
  "getAstartePairingEnvVars cr =
     rbind (appendRabbitMQConnectionEnvVars
              [EnvValue ''PAIRING_CFSSL_URL'' (getCFSSLURL cr), EnvValue ''PAIRING_BROKER_URL'' (GetVerneMQBrokerURL cr)]
              ''ASTARTE_EVENTS_PRODUCER_AMQP'' cr) (\<lambda>ret.
       Inr (appendAstarteFDOEnvVars ret cr))"

definition getAstarteFlowEnvVars :: "Astarte \<Rightarrow> err + env_var list" where
  "getAstarteFlowEnvVars cr =
     rbind (getCassandraNodes cr) (\<lambda>nodes.
       let ret =
             [EnvValue ''FLOW_ASTARTE_INSTANCE'' (cr_Name cr),
              EnvValue ''FLOW_TARGET_NAMESPACE'' (cr_Namespace cr),
              EnvValue ''FLOW_PIPELINES_DIR'' ''/pipelines'',
              EnvValue ''CASSANDRA_NODES'' nodes,
              EnvValue ''FLOW_REALM_PUBLIC_KEY_PROVIDER'' ''astarte''];
           ret1 = (if spec_AstarteInstanceID (ast_Spec cr) \<noteq> ''''
                   then ret @ [EnvValue ''ASTARTE_INSTANCE_ID'' (spec_AstarteInstanceID (ast_Spec cr))] else ret)
       in appendRabbitMQConnectionEnvVars ret1 ''FLOW_DEFAULT_AMQP_CONNECTION'' cr)"

definition component_api_env :: "Astarte \<Rightarrow> AstarteComponent \<Rightarrow> err + env_var list" where
  "component_api_env cr component =
     (case component of
        Housekeeping \<Rightarrow> getAstarteHousekeepingEnvVars cr
      | Pairing \<Rightarrow> getAstartePairingEnvVars cr
      | FlowComponent \<Rightarrow> getAstarteFlowEnvVars cr
      | AppEngineAPI \<Rightarrow> getAstarteAppEngineAPIEnvVars cr
      | RealmManagement \<Rightarrow> getAstarteRealmManagementEnvVars cr
      | DataUpdaterPlant \<Rightarrow> Inr []
      | TriggerEngine \<Rightarrow> Inr []
      | Dashboard \<Rightarrow> Inr [])"

definition getAstarteGenericAPIEnvVars ::
    "('v, 'c) semver \<Rightarrow> string \<Rightarrow> Astarte \<Rightarrow> AstarteGenericAPIComponentSpec \<Rightarrow> AstarteComponent \<Rightarrow>
     err + env_var list" where
  "getAstarteGenericAPIEnvVars sv deploymentName cr api component =
     rbind (getAstarteCommonEnvVars sv deploymentName cr component) (\<lambda>ret0.
     let ret = (if PtrValue (gac_DisableAuthentication api) False
                then ret0 @ [EnvValue (ToUpper (component_String component) @ ''_DISABLE_AUTHENTICATION'') (FormatBool True)]
                else ret0)
     in rbind (appendCassandraConnectionEnvVars ret cr) (\<lambda>ret.
     rbind (getCassandraNodes cr) (\<lambda>nodes.
     let ret1 = ret @ [EnvValue ''CASSANDRA_NODES'' nodes];
         ret2 = (if spec_AstarteInstanceID (ast_Spec cr) \<noteq> ''''
                 then ret1 @ [EnvValue ''ASTARTE_INSTANCE_ID'' (spec_AstarteInstanceID (ast_Spec cr))] else ret1)
     in rbind (component_api_env cr component) (\<lambda>es.
       Inr (if gcr_AdditionalEnv (gac_Generic api) \<noteq> []
            then (ret2 @ es) @ gcr_AdditionalEnv (gac_Generic api) else ret2 @ es)))))"

section \<open>Their pods\<close>

definition getAstarteGenericAPIComponentVolumes :: "Astarte \<Rightarrow> AstarteComponent \<Rightarrow> err + volume list" where
  "getAstarteGenericAPIComponentVolumes cr component =
     rbind (getAstarteCommonVolumes cr) (\<lambda>ret.
       Inr (if component = Housekeeping
            then ret @ [\<lparr>vol_Name = ''jwtpubkey'',
                         vol_Source = VolSecret (cr_Name cr @ ''-housekeeping-public-key'') [] None\<rparr>]
            else ret))"

definition getAstarteGenericAPIComponentVolumeMounts ::
    "Astarte \<Rightarrow> AstarteComponent \<Rightarrow> err + volume_mount list" where
  "getAstarteGenericAPIComponentVolumeMounts cr component =
     rbind (getAstarteCommonVolumeMounts cr) (\<lambda>ret.
       Inr (if component = Housekeeping
            then ret @ [\<lparr>vm_Name = ''jwtpubkey'', vm_MountPath = ''/jwtpubkey'', vm_ReadOnly = True\<rparr>]
            else ret))"

definition getAstarteGenericAPIPodSpec ::
    "('v, 'c) libs \<Rightarrow> string \<Rightarrow> Astarte \<Rightarrow> AstarteGenericAPIComponentSpec \<Rightarrow> AstarteComponent \<Rightarrow>
     err + pod_spec" where
  "getAstarteGenericAPIPodSpec L deploymentName cr api component =
     rbind (getAstarteGenericAPIComponentVolumeMounts cr component) (\<lambda>mounts.
     rbind (getImagePullPolicy cr (gac_Generic api)) (\<lambda>pullPolicy.
     rbind (getAstarteGenericAPIEnvVars (lib_semver L) deploymentName cr api component) (\<lambda>env.
     rbind (getAstarteGenericAPIComponentVolumes cr component) (\<lambda>volumes.
       Inr \<lparr>ps_TerminationGracePeriodSeconds = Some 30,
            ps_ServiceAccountName =
              (if component = FlowComponent then cr_Name cr @ ''-'' @ ServiceName component
               else if component = AppEngineAPI \<or> component = RealmManagement \<or> component = Pairing
               then deploymentName else ''''),
            ps_ImagePullSecrets = spec_ImagePullSecrets (ast_Spec cr),
            ps_Affinity = getAffinityForClusteredResource deploymentName (gac_Generic api),
            ps_Containers =
              [\<lparr>c_Name = DashedString component,
                c_Image = getAstarteImageForClusteredResource (DockerImageName component) (gac_Generic api) cr,
                c_ImagePullPolicy = pullPolicy,
                c_Ports = [\<lparr>cp_Name = ''http'', cp_ContainerPort = astarteServicesPort\<rparr>],
                c_VolumeMounts = mounts,
                c_Env = env,
                c_Resources =
                  GetResourcesForAstarteComponent (lib_quantity L) cr (gcr_Resources (gac_Generic api)) component,
                c_ReadinessProbe = getAstarteComponentReadinessProbe component (gac_Generic api),
                c_LivenessProbe = getAstarteComponentLivenessProbe component (gac_Generic api),
                c_StartupProbe = getAstarteComponentStartupProbe (gac_Generic api),
                c_SecurityContext = None\<rparr>],
            ps_Volumes = volumes,
            ps_PriorityClassName =
              podPriorityClassName cr (gcr_PriorityClass (gac_Generic api))
                (GetDefaultAstartePriorityClassNameForComponent component)\<rparr>))))"

section \<open>Dashboard\<close>

definition auth_json :: "AstarteDashboardConfigAuthSpec \<Rightarrow> json" where
  "auth_json a =
     JObj ([(''type'', JStr (dash_auth_Type a))] @
           (if dash_auth_OAuthAPIURL a \<noteq> '''' then [(''oauth_api_url'', JStr (dash_auth_OAuthAPIURL a))] else []))"

definition getAstarteDashboardConfigMapData :: "Astarte \<Rightarrow> AstarteDashboardSpec \<Rightarrow> smap" where
  "getAstarteDashboardConfigMapData cr dashboard =
     (let d = dash_Config dashboard;
          opt = (\<lambda>k v. if v \<noteq> '''' then [(k, JStr v)] else []);
          dashboardConfig =
            [(''astarte_api_url'', JStr (getBaseAstarteAPIURL cr)),
             (''enable_flow_preview'', JBool (IsAstarteComponentDeployed cr FlowComponent))]
            @ opt ''realm_management_api_url'' (dashc_RealmManagementAPIURL d)
            @ opt ''appengine_api_url'' (dashc_AppEngineAPIURL d)
            @ opt ''flow_api_url'' (dashc_FlowAPIURL d)
            @ opt ''pairing_api_url'' (dashc_PairingAPIURL d)
            @ opt ''default_realm'' (dashc_DefaultRealm d)
            @ [(''default_auth'', JStr (if dashc_DefaultAuth d \<noteq> '''' then dashc_DefaultAuth d else ''token''))]
            @ [(''auth'', JArr (map auth_json (if dashc_Auth d \<noteq> [] then dashc_Auth d
                  else [\<lparr>dash_auth_Type = ''token'', dash_auth_OAuthAPIURL = ''''\<rparr>])))]
      in [(''config.json'', json_text (json_map dashboardConfig))])"

definition getAstarteDashboardVolumes :: "Astarte \<Rightarrow> volume list" where
  "getAstarteDashboardVolumes cr =
     [\<lparr>vol_Name = ''config'',
       vol_Source = VolConfigMap (cr_Name cr @ ''-dashboard-config'') [(''config.json'', ''config.json'')]\<rparr>]"

definition getAstarteDashboardVolumeMounts :: "volume_mount list" where
  "getAstarteDashboardVolumeMounts =
     [\<lparr>vm_Name = ''config'', vm_MountPath = ''/usr/share/nginx/html/user-config'', vm_ReadOnly = True\<rparr>]"

definition getAstarteDashboardEnvVars :: "env_var list" where
  "getAstarteDashboardEnvVars = [EnvField ''MY_POD_IP'' ''status.podIP'']"

text \<open>The pull policy is read from the resource, everything else from the argument.\<close>

definition getAstarteDashboardPodSpec ::
    "('v, 'c) libs \<Rightarrow> Astarte \<Rightarrow> AstarteDashboardSpec \<Rightarrow> err + pod_spec" where
  "getAstarteDashboardPodSpec L cr dashboard =
     rbind (getImagePullPolicy cr (dash_Generic (comp_Dashboard (spec_Components (ast_Spec cr))))) (\<lambda>pullPolicy.
       Inr \<lparr>ps_TerminationGracePeriodSeconds = Some 30,
            ps_ServiceAccountName = '''',
            ps_ImagePullSecrets = spec_ImagePullSecrets (ast_Spec cr),
            ps_Affinity = None,
            ps_Containers =
              [\<lparr>c_Name = ''dashboard'',
                c_Image = getAstarteImageForClusteredResource (DockerImageName Dashboard) (dash_Generic dashboard) cr,
                c_ImagePullPolicy = pullPolicy,
                c_Ports = [\<lparr>cp_Name = ''http'', cp_ContainerPort = 80\<rparr>],
                c_VolumeMounts = getAstarteDashboardVolumeMounts,
                c_Env = getAstarteDashboardEnvVars,
                c_Resources =
                  GetResourcesForAstarteComponent (lib_quantity L) cr (gcr_Resources (dash_Generic dashboard)) Dashboard,
                c_ReadinessProbe = None, c_LivenessProbe = None, c_StartupProbe = None,
                c_SecurityContext = None\<rparr>],
            ps_Volumes = getAstarteDashboardVolumes cr,
            ps_PriorityClassName =
              podPriorityClassName cr (gcr_PriorityClass (dash_Generic dashboard))
                (GetDefaultAstartePriorityClassNameForComponent Dashboard)\<rparr>)"

end
