(* ===== verification/CFSSL_Pods.thy ===== *)
theory CFSSL_Pods
  imports API_Pods
begin

text \<open>
  CFSSL's pod and its configuration map (\<open>cfssl.go\<close>). The configuration is built by passing
  structs through \<open>encoding/json\<close> into maps: a nil pointer becomes the text \<open>null\<close> and from it a
  nil map, so that the override is not taken. Numbers go through \<open>float64\<close> on this way; the model
  keeps them exact, which they are up to \<open>2^53\<close>.
\<close>

section \<open>The structs as JSON\<close>

definition ptr_json :: "('a \<Rightarrow> json) \<Rightarrow> 'a option \<Rightarrow> json" where
  "ptr_json f p = (case p of None \<Rightarrow> JNull | Some x \<Rightarrow> f x)"

definition db_config_json :: "AstarteCFSSLDBConfigSpec \<Rightarrow> json" where
  "db_config_json d =
     JObj ((if cdb_Driver d \<noteq> '''' then [(''driver'', JStr (cdb_Driver d))] else [])
           @ (if cdb_DataSource d \<noteq> '''' then [(''dataSource'', JStr (cdb_DataSource d))] else []))"

definition csr_key_json :: "AstarteCFSSLCSRRootCAKeySpec \<Rightarrow> json" where
  "csr_key_json k = JObj [(''algo'', JStr (ckey_Algo k)), (''size'', JNum (ckey_Size k))]"

definition csr_names_json :: "AstarteCFSSLCSRRootCANamesSpec \<Rightarrow> json" where
  "csr_names_json n =
     JObj [(''C'', JStr (cnames_C n)), (''L'', JStr (cnames_L n)), (''O'', JStr (cnames_O n)),
           (''OU'', JStr (cnames_OU n)), (''ST'', JStr (cnames_ST n))]"

definition csr_root_ca_json :: "AstarteCFSSLCSRRootCASpec \<Rightarrow> json" where
  "csr_root_ca_json c =
     JObj [(''CN'', JStr (ccsr_CN c)), (''key'', ptr_json csr_key_json (ccsr_Key c)),
           (''names'', JArr (map csr_names_json (ccsr_Names c))), (''expiry'', JStr (ccsr_Expiry c))]"

definition ca_constraint_json :: "AstarteCFSSLCARootConfigSigningCAConstraintSpec \<Rightarrow> json" where
  "ca_constraint_json c =
     JObj [(''max_path_len'', JNum (ccon_MaxPathLen c)), (''is_ca'', JBool (ccon_IsCA c)),
           (''max_path_len_zero'', JBool (ccon_MaxPathLenZero c))]"

definition signing_default_json :: "AstarteCFSSLCARootConfigSigningDefaultSpec \<Rightarrow> json" where
  "signing_default_json s =
     JObj [(''usages'', JArr (map JStr (csig_Usages s))), (''expiry'', JStr (csig_Expiry s)),
           (''ca_constraint'', ptr_json ca_constraint_json (csig_CAConstraint s))]"

definition ca_root_config_json :: "AstarteCFSSLCARootConfigSpec \<Rightarrow> json" where
  "ca_root_config_json c =
     JObj [(''signingDefault'', ptr_json signing_default_json (cca_SigningDefault c))]"

section \<open>The configuration map\<close>

text \<open>A nil map is \<open>None\<close>. The text of a struct read into a map is the struct's object.\<close>

definition getCFSSLFullOverride :: "json \<Rightarrow> err + (string \<times> json) list option" where
  "getCFSSLFullOverride field =
     (case field of
        JNull \<Rightarrow> Inr None
      | JObj kvs \<Rightarrow> Inr (Some kvs)
      | _ \<Rightarrow> Inl (ErrGo ''json: cannot unmarshal into Go value of type map''))"

definition getCFSSLConfigMapDataDefaults :: "(string \<times> json) list \<times> (string \<times> json) list" where
  "getCFSSLConfigMapDataDefaults =
     ([(''signing'', JObj [(''default'', JObj
          [(''usages'', JArr [JStr ''digital signature'', JStr ''cert sign'', JStr ''crl sign'', JStr ''signing'']),
           (''ca_constraint'', JObj [(''max_path_len_zero'', JBool True), (''max_path_len'', JNum 0), (''is_ca'', JBool True)]),
           (''expiry'', JStr ''2190h'')])])],
      [(''ca'', JObj [(''expiry'', JStr ''262800h'')]),
       (''CN'', JStr ''Astarte Root CA''),
       (''key'', JObj [(''algo'', JStr ''rsa''), (''size'', JNum 2048)]),
       (''names'', JArr [JObj [(''C'', JStr ''IT''), (''ST'', JStr ''Lombardia''), (''L'', JStr ''Milan''),
                              (''O'', JStr ''Astarte User''), (''OU'', JStr ''IoT Division'')]])])"

definition getCFSSLDBConfig :: "Astarte \<Rightarrow> err + (string \<times> json) list option" where
  "getCFSSLDBConfig cr =
     rmap (map_option (\<lambda>m.
         (case map_of m ''dataSource'' of
            Some val \<Rightarrow> AList.delete ''dataSource'' (AList.update ''data_source'' val m)
          | None \<Rightarrow> m)))
       (getCFSSLFullOverride (ptr_json db_config_json (cfssl_DBConfig (spec_CFSSL (ast_Spec cr)))))"

text \<open>A type assertion to a map: a panic on any other value.\<close>

definition as_map :: "json option \<Rightarrow> err + (string \<times> json) list" where
  "as_map v = (case v of Some (JObj kvs) \<Rightarrow> Inr kvs | _ \<Rightarrow> Inl (GoPanic ''interface conversion''))"

definition with_certificate_expiry :: "string \<Rightarrow> (string \<times> json) list \<Rightarrow> err + (string \<times> json) list" where
  "with_certificate_expiry expiry caRootConfig =
     rbind (as_map (map_of caRootConfig ''signing'')) (\<lambda>signing.
     rbind (as_map (map_of signing ''default'')) (\<lambda>defaultObj.
       Inr (AList.update ''signing''
              (JObj [(''default'', JObj (AList.update ''expiry'' (JStr expiry) defaultObj))]) caRootConfig)))"

definition marshal_map :: "(string \<times> json) list \<Rightarrow> string" where
  "marshal_map m = json_text (json_sorted (JObj m))"

definition getCFSSLConfigMapData :: "Astarte \<Rightarrow> err + smap" where
  "getCFSSLConfigMapData cr =
     (let spec = spec_CFSSL (ast_Spec cr);
          (caRootConfig, csrRootCa) = getCFSSLConfigMapDataDefaults
      in rbind (getCFSSLDBConfig cr) (\<lambda>dbConfig.
         let csrRootCa1 = (if cfssl_CaExpiry spec \<noteq> ''''
               then AList.update ''ca'' (JObj [(''expiry'', JStr (cfssl_CaExpiry spec))]) csrRootCa else csrRootCa)
         in rbind (if cfssl_CertificateExpiry spec \<noteq> ''''
                   then with_certificate_expiry (cfssl_CertificateExpiry spec) caRootConfig
                   else Inr caRootConfig) (\<lambda>caRootConfig1.
         rbind (getCFSSLFullOverride (ptr_json csr_root_ca_json (cfssl_CSRRootCa spec))) (\<lambda>overriddenCSRRootCa.
         rbind (getCFSSLFullOverride (ptr_json ca_root_config_json (cfssl_CARootConfig spec))) (\<lambda>overriddenCARootConfig.
           Inr ([(''ca_root_config.json'', marshal_map (PtrValue overriddenCARootConfig caRootConfig1)),
                 (''csr_root_ca.json'', marshal_map (PtrValue overriddenCSRRootCa csrRootCa1))]
                @ (case dbConfig of None \<Rightarrow> [] | Some m \<Rightarrow> [(''db_config.json'', marshal_map m)])))))))"

text \<open>
  The checksum of the pod's annotation: the values in the order of their sorted keys, hashed. The
  hash function (\<open>crypto/sha256\<close> and \<open>encoding/hex\<close>) is the parameter \<open>H\<close>.
\<close>

definition getChecksumForConfigMap :: "(string \<Rightarrow> err + string) \<Rightarrow> config_map \<Rightarrow> err + string" where
  "getChecksumForConfigMap H cm =
     (let keys = sort (map fst (cm_Data cm));
          allData = foldl (\<lambda>acc k. acc @ (case map_of (cm_Data cm) k of None \<Rightarrow> '''' | Some v \<Rightarrow> v)) '''' keys
      in H allData)"

section \<open>The pod\<close>

definition TLSCertKey :: string where "TLSCertKey = ''tls.crt''"
definition TLSPrivateKeyKey :: string where "TLSPrivateKeyKey = ''tls.key''"

definition getCFSSLPodSpec :: "string \<Rightarrow> string \<Rightarrow> Astarte \<Rightarrow> err + pod_spec" where
  "getCFSSLPodSpec deploymentName secretName cr =
     (let spec = spec_CFSSL (ast_Spec cr);
          cfsslImage =
            (if cfssl_Image spec \<noteq> '''' then cfssl_Image spec
             else if cfssl_Version spec \<noteq> '''' then getAstarteImageFromChannel ''cfssl'' (cfssl_Version spec) cr
             else getAstarteImageFromChannel ''cfssl'' (GetDefaultVersionForCFSSL (spec_Version (ast_Spec cr))) cr)
      in rbind (getImagePullPolicy cr EmptyClusteredResource) (\<lambda>pullPolicy.
       Inr \<lparr>ps_TerminationGracePeriodSeconds = Some 30,
            ps_ServiceAccountName = '''',
            ps_ImagePullSecrets = spec_ImagePullSecrets (ast_Spec cr),
            ps_Affinity = None,
            ps_Containers =
              [\<lparr>c_Name = ''cfssl'',
                c_Image = cfsslImage,
                c_ImagePullPolicy = pullPolicy,
                c_Ports = [\<lparr>cp_Name = ''http'', cp_ContainerPort = 8080\<rparr>],
                c_VolumeMounts =
                  [\<lparr>vm_Name = ''config'', vm_MountPath = ''/etc/cfssl'', vm_ReadOnly = False\<rparr>,
                   \<lparr>vm_Name = ''devices-ca'', vm_MountPath = ''/devices-ca'', vm_ReadOnly = True\<rparr>],
                c_Env =
                  [EnvValue ''KUBERNETES'' ''1'',
                   EnvValue ''CFSSL_CA_CERTIFICATE'' (''/devices-ca/'' @ TLSCertKey),
                   EnvValue ''CFSSL_CA_PRIVATE_KEY'' (''/devices-ca/'' @ TLSPrivateKeyKey)]
                  @ (if cfssl_DBConfig spec \<noteq> None then [EnvValue ''CFSSL_USE_DB'' ''1''] else []),
                c_Resources = PtrValue (cfssl_Resources spec) NoResources,
                c_ReadinessProbe = getCFSSLReadinessProbe cr,
                c_LivenessProbe = getCFSSLLivenessProbe cr,
                c_StartupProbe = getCFSSLStartupProbe cr,
                c_SecurityContext = None\<rparr>],
            ps_Volumes =
              [\<lparr>vol_Name = ''config'', vol_Source = VolConfigMap (deploymentName @ ''-config'') []\<rparr>,
               \<lparr>vol_Name = ''devices-ca'', vol_Source = VolSecret secretName [] None\<rparr>],
            ps_PriorityClassName = podPriorityClassName cr (cfssl_PriorityClass spec) AstarteLowPriorityName\<rparr>))"

section \<open>Lemmas\<close>

lemma as_map_simps [simp]:
  "as_map (Some (JObj kvs)) = Inr kvs"
  "as_map None = Inl (GoPanic ''interface conversion'')"
  by (simp_all add: as_map_def)

lemma full_override_ptr:
  "(\<And>x. \<exists>kvs. f x = JObj kvs) \<Longrightarrow>
   getCFSSLFullOverride (ptr_json f p) = Inr (map_option (\<lambda>x. case f x of JObj kvs \<Rightarrow> kvs | _ \<Rightarrow> []) p)"
proof (cases p)
  case (Some x)
  assume "\<And>x. \<exists>kvs. f x = JObj kvs"
  then obtain kvs where "f x = JObj kvs"
    by blast
  with Some show ?thesis
    by (simp add: getCFSSLFullOverride_def ptr_json_def)
qed (simp add: getCFSSLFullOverride_def ptr_json_def)

text \<open>The certificate's expiry can always be written: the default configuration has the path.\<close>

lemma with_certificate_expiry_default:
  "with_certificate_expiry e (fst getCFSSLConfigMapDataDefaults) =
     Inr [(''signing'', JObj [(''default'', JObj
          [(''usages'', JArr [JStr ''digital signature'', JStr ''cert sign'', JStr ''crl sign'', JStr ''signing'']),
           (''ca_constraint'', JObj [(''max_path_len_zero'', JBool True), (''max_path_len'', JNum 0), (''is_ca'', JBool True)]),
           (''expiry'', JStr e)])])]"
  by (simp add: with_certificate_expiry_def getCFSSLConfigMapDataDefaults_def)

lemma getCFSSLConfigMapData_total: "isOK (getCFSSLConfigMapData cr)"
  using with_certificate_expiry_default [of "cfssl_CertificateExpiry (spec_CFSSL (ast_Spec cr))"]
  by (auto simp: getCFSSLConfigMapData_def getCFSSLDBConfig_def Let_def isOK_rbind full_override_ptr
      csr_root_ca_json_def ca_root_config_json_def db_config_json_def split_beta split: option.split)

text \<open>The checksum does not depend on the order of the map's iteration.\<close>

lemma checksum_perm:
  assumes "mset (cm_Data a) = mset (cm_Data b)" and "wf_smap (cm_Data a)"
  shows "getChecksumForConfigMap H a = getChecksumForConfigMap H b"
proof -
  have keys: "mset (map fst (cm_Data a)) = mset (map fst (cm_Data b))"
    using assms(1) by (metis mset_map)
  then have "sort (map fst (cm_Data a)) = sort (map fst (cm_Data b))"
    by (intro properties_for_sort) simp_all
  moreover have "map_of (cm_Data a) = map_of (cm_Data b)"
  proof (subst map_of_inject_set)
    show "distinct (map fst (cm_Data a))"
      using assms(2) by (simp add: wf_smap_def)
    then show "distinct (map fst (cm_Data b))"
      using mset_eq_imp_distinct_iff [OF keys] by simp
    show "set (cm_Data a) = set (cm_Data b)"
      using assms(1) by (rule mset_eq_setD)
  qed
  ultimately show ?thesis
    by (simp add: getChecksumForConfigMap_def)
qed

end
