(* ===== verification/VerneMQ_Pods.thy ===== *)
theory VerneMQ_Pods
  imports CFSSL_Pods
begin

text \<open>
  VerneMQ's pod (\<open>vernemq.go\<close>): its environment, the volume and mount of the certificate when
  the broker terminates SSL itself, and the claim of its data volume.
\<close>

section \<open>Environment\<close>

definition GetVerneMQStatefulSetName :: "Astarte \<Rightarrow> string" where
  "GetVerneMQStatefulSetName cr = cr_Name cr @ ''-vernemq''"

definition getMirrorQueue :: "Astarte \<Rightarrow> string" where
  "getMirrorQueue cr = vmq_MirrorQueue (spec_VerneMQ (ast_Spec cr))"

definition shouldVerneHandleSSLTermination :: "Astarte \<Rightarrow> bool" where
  "shouldVerneHandleSSLTermination cr \<longleftrightarrow>
     PtrValue (vmq_SSLListener (spec_VerneMQ (ast_Spec cr))) False \<and>
     vmq_SSLListenerCertSecretName (spec_VerneMQ (ast_Spec cr)) \<noteq> ''''"

definition vernemq_env_name :: "string \<Rightarrow> string" where
  "vernemq_env_name n =
     ''DOCKER_VERNEMQ_ASTARTE_VMQ_PLUGIN__'' @ ReplaceFirst n ''CASSANDRA_'' ''CASSANDRA__''"

definition appendVerneMQCassandraConnectionEnvVars :: "env_var list \<Rightarrow> Astarte \<Rightarrow> err + env_var list" where
  "appendVerneMQCassandraConnectionEnvVars ret cr =
     rbind (appendCassandraConnectionEnvVars [] cr) (\<lambda>theCassandraEnv.
     rbind (getCassandraNodes cr) (\<lambda>nodes.
       Inr (ret
            @ map (\<lambda>v. v\<lparr>ev_Name := vernemq_env_name (ev_Name v)\<rparr>)
                (filter (\<lambda>v. ev_Name v \<noteq> ''CASSANDRA_AUTODISCOVERY_ENABLED'') theCassandraEnv)
            @ [EnvValue ''DOCKER_VERNEMQ_ASTARTE_VMQ_PLUGIN__CASSANDRA__NODES'' nodes])))"

text \<open>
  The constraint and the version are parsed with the errors dropped: a version that is no semantic
  version, as \<open>snapshot\<close>, reaches \<open>Check\<close> as a nil pointer.
\<close>

definition getVerneMQEnvVars :: "('v, 'c) semver \<Rightarrow> string \<Rightarrow> Astarte \<Rightarrow> err + env_var list" where
  "getVerneMQEnvVars sv statefulSetName cr =
     (let vmq = spec_VerneMQ (ast_Spec cr);
          dataQueueCount = getDataQueueCount cr;
          mirrorQueue = getMirrorQueue cr;
          envVars =
           [EnvField ''MY_POD_NAME'' ''metadata.name'',
            EnvField ''MY_POD_IP'' ''status.podIP'',
            EnvValue ''DOCKER_VERNEMQ_DISCOVERY_KUBERNETES'' ''1'',
            EnvValue ''DOCKER_VERNEMQ_KUBERNETES_LABEL_SELECTOR'' (''app='' @ statefulSetName),
            \<lparr>ev_Name = ''RELEASE_COOKIE'', ev_Value = '''',
             ev_ValueFrom = Some (getErlangClusteringCookieSecretReference cr)\<rparr>]
           @ (if spec_AstarteInstanceID (ast_Spec cr) \<noteq> ''''
              then [EnvValue ''DOCKER_VERNEMQ_ASTARTE_VMQ_PLUGIN__ASTARTE_INSTANCE_ID''
                      (spec_AstarteInstanceID (ast_Spec cr))] else [])
      in rbind (appendRabbitMQConnectionEnvVars envVars ''DOCKER_VERNEMQ_ASTARTE_VMQ_PLUGIN__AMQP_'' cr) (\<lambda>envVars.
         rbind (appendRabbitMQConnectionEnvVars envVars ''RPC_AMQP_CONNECTION'' cr) (\<lambda>envVars.
         let envVars1 = envVars
           @ [EnvValue ''DOCKER_VERNEMQ_ASTARTE_VMQ_PLUGIN__AMQP__DATA_QUEUE_COUNT'' (Itoa dataQueueCount)]
           @ (if mirrorQueue \<noteq> ''''
              then [EnvValue ''DOCKER_VERNEMQ_ASTARTE_VMQ_PLUGIN__AMQP__MIRROR_QUEUE_NAME'' mirrorQueue] else [])
           @ (if 0 < vmq_DeviceHeartbeatSeconds vmq
              then [EnvValue ''DOCKER_VERNEMQ_ASTARTE_VMQ_PLUGIN__DEVICE_HEARTBEAT_INTERVAL_MS''
                      (Itoa (go_int (vmq_DeviceHeartbeatSeconds vmq * 1000)))] else [])
           @ (if PtrValue (vmq_SSLListener vmq) False \<and> vmq_SSLListenerCertSecretName vmq \<noteq> ''''
              then [EnvValue ''VERNEMQ_ENABLE_SSL_LISTENER'' (FormatBool True),
                    EnvValue ''DOCKER_VERNEMQ_LISTENER__SSL__DEFAULT__CAFILE'' ''/opt/vernemq/etc/ca.pem'',
                    EnvValue ''DOCKER_VERNEMQ_LISTENER__SSL__DEFAULT__CERTFILE'' ''/opt/vernemq/etc/cert.pem'',
                    EnvValue ''DOCKER_VERNEMQ_LISTENER__SSL__DEFAULT__KEYFILE'' ''/opt/vernemq/etc/privkey.pem'',
                    EnvValue ''CFSSL_URL''
                      (''http://'' @ cr_Name cr @ ''-cfssl.'' @ cr_Namespace cr @ ''.svc.cluster.local'')]
              else [])
           @ [EnvValue ''DOCKER_VERNEMQ_PERSISTENT_CLIENT_EXPIRATION''
                (if vmq_PersistentClientExpiration vmq = '''' then ''1y'' else vmq_PersistentClientExpiration vmq),
              EnvValue ''DOCKER_VERNEMQ_MAX_OFFLINE_MESSAGES''
                (Itoa (PtrValue (vmq_MaxOfflineMessages vmq) 1000000))];
             c = ptr_of (sv_NewConstraint sv ''>= 1.2.0-0'');
             v = ptr_of (sv_NewVersion sv (spec_Version (ast_Spec cr)))
         in rbind (sv_Check sv c v) (\<lambda>ok.
            rbind (if ok then appendVerneMQCassandraConnectionEnvVars envVars1 cr else Inr envVars1) (\<lambda>envVars2.
              Inr (if gcr_AdditionalEnv (vmq_Generic vmq) \<noteq> []
                   then envVars2 @ gcr_AdditionalEnv (vmq_Generic vmq) else envVars2))))))"

section \<open>Volumes\<close>

definition getVerneMQVolumes :: "Astarte \<Rightarrow> volume list" where
  "getVerneMQVolumes cr =
     (let vmq = spec_VerneMQ (ast_Spec cr) in
      if PtrValue (vmq_SSLListener vmq) False \<and> vmq_SSLListenerCertSecretName vmq \<noteq> ''''
      then [\<lparr>vol_Name = vmq_SSLListenerCertSecretName vmq,
             vol_Source = VolSecret (vmq_SSLListenerCertSecretName vmq)
               [(''tls.crt'', ''cert''), (''tls.key'', ''privkey'')] (Some 420)\<rparr>]
      else [])"

definition getVerneMQVolumeMounts :: "string \<Rightarrow> Astarte \<Rightarrow> volume_mount list" where
  "getVerneMQVolumeMounts dataVolumeName cr =
     [\<lparr>vm_Name = dataVolumeName, vm_MountPath = ''/opt/vernemq/data'', vm_ReadOnly = False\<rparr>]
     @ (if shouldVerneHandleSSLTermination cr
        then [\<lparr>vm_Name = vmq_SSLListenerCertSecretName (spec_VerneMQ (ast_Spec cr)),
               vm_MountPath = ''/etc/ssl/vernemq-certs'', vm_ReadOnly = True\<rparr>]
        else [])"

definition getVerneMQPolicyRules :: "policy_rule list" where
  "getVerneMQPolicyRules =
     [\<lparr>pol_APIGroups = [''''], pol_Resources = [''pods'', ''services'', ''endpoints''],
       pol_Verbs = [''list'', ''get'']\<rparr>,
      \<lparr>pol_APIGroups = [''apps''], pol_Resources = [''statefulsets''], pol_Verbs = [''get'']\<rparr>]"

section \<open>The pod\<close>

definition vernemq_ports :: "container_port list" where
  "vernemq_ports =
     map (\<lambda>(n, p). \<lparr>cp_Name = n, cp_ContainerPort = p\<rparr>)
       ([(''mqtt-ssl'', 8883), (''acme-verify'', 80), (''mqtt'', 1883), (''mqtt-reverse'', 1885),
         (''vmq-msg-dist'', 44053), (''epmd'', 4369), (''metrics'', 8888)]
        @ map (\<lambda>p. ('''', p)) [9100, 9101, 9102, 9103, 9104, 9105, 9106, 9107, 9108, 9109])"

definition getVerneMQPodSpec ::
    "('v, 'c) semver \<Rightarrow> string \<Rightarrow> string \<Rightarrow> Astarte \<Rightarrow> err + pod_spec" where
  "getVerneMQPodSpec sv statefulSetName dataVolumeName cr =
     (let vmq = spec_VerneMQ (ast_Spec cr) in
      rbind (getImagePullPolicy cr (vmq_Generic vmq)) (\<lambda>pullPolicy.
      rbind (getVerneMQEnvVars sv statefulSetName cr) (\<lambda>env.
       Inr \<lparr>ps_TerminationGracePeriodSeconds = Some 30,
            ps_ServiceAccountName = statefulSetName,
            ps_ImagePullSecrets = spec_ImagePullSecrets (ast_Spec cr),
            ps_Affinity = getAffinityForClusteredResource statefulSetName (vmq_Generic vmq),
            ps_Containers =
              [\<lparr>c_Name = ''vernemq'',
                c_Image = getAstarteImageForClusteredResource ''vernemq'' (vmq_Generic vmq) cr,
                c_ImagePullPolicy = pullPolicy,
                c_Ports = vernemq_ports,
                c_VolumeMounts = getVerneMQVolumeMounts dataVolumeName cr,
                c_Env = env,
                c_Resources = PtrValue (gcr_Resources (vmq_Generic vmq)) NoResources,
                c_ReadinessProbe = getVerneMQReadinessProbe cr,
                c_LivenessProbe = getVerneMQLivenessProbe cr,
                c_StartupProbe = getVerneMQStartupProbe cr,
                c_SecurityContext = None\<rparr>],
            ps_Volumes = getVerneMQVolumes cr,
            ps_PriorityClassName =
              podPriorityClassName cr (gcr_PriorityClass (vmq_Generic vmq)) AstarteHighPriorityName\<rparr>)))"

end
