(* ===== verification/Go_Encoding.thy ===== *)
theory Go_Encoding
  imports Go_Num
begin

text \<open>
  The text encodings of Go's standard library the operator writes secrets with:
  \<open>base64.StdEncoding\<close>, \<open>base32.StdEncoding\<close> and \<open>pem.EncodeToMemory\<close> of a block without headers.
\<close>

definition byte :: "char \<Rightarrow> int" where
  "byte c = of_char c"

definition base64_char :: "int \<Rightarrow> char" where
  "base64_char v =
     (if v < 26 then char_of (65 + v) else if v < 52 then char_of (71 + v)
      else if v < 62 then char_of (v - 4) else if v = 62 then CHR ''+'' else CHR ''/'')"

fun base64_encode :: "string \<Rightarrow> string" where
  "base64_encode [] = []"
| "base64_encode [a] =
     [base64_char (byte a div 4), base64_char (byte a mod 4 * 16), CHR ''='', CHR ''='']"
| "base64_encode [a, b] =
     [base64_char (byte a div 4), base64_char (byte a mod 4 * 16 + byte b div 16),
      base64_char (byte b mod 16 * 4), CHR ''='']"
| "base64_encode (a # b # c # rest) =
     [base64_char (byte a div 4), base64_char (byte a mod 4 * 16 + byte b div 16),
      base64_char (byte b mod 16 * 4 + byte c div 64), base64_char (byte c mod 64)] @ base64_encode rest"

definition base32_char :: "int \<Rightarrow> char" where
  "base32_char v = (if v < 26 then char_of (65 + v) else char_of (24 + v))"

text \<open>Eight characters from five bytes; a shorter last group is filled with zeros and padded.\<close>

definition base32_group :: "int \<Rightarrow> int \<Rightarrow> int \<Rightarrow> int \<Rightarrow> int \<Rightarrow> string" where
  "base32_group a b c d e =
     (let n = (((a * 256 + b) * 256 + c) * 256 + d) * 256 + e
      in map (\<lambda>i. base32_char (n div 32 ^ (7 - i) mod 32)) [0, 1, 2, 3, 4, 5, 6, 7])"

fun base32_encode :: "string \<Rightarrow> string" where
  "base32_encode [] = []"
| "base32_encode [a] = take 2 (base32_group (byte a) 0 0 0 0) @ replicate 6 CHR ''=''"
| "base32_encode [a, b] = take 4 (base32_group (byte a) (byte b) 0 0 0) @ replicate 4 CHR ''=''"
| "base32_encode [a, b, c] = take 5 (base32_group (byte a) (byte b) (byte c) 0 0) @ replicate 3 CHR ''=''"
| "base32_encode [a, b, c, d] = take 7 (base32_group (byte a) (byte b) (byte c) (byte d) 0) @ replicate 1 CHR ''=''"
| "base32_encode (a # b # c # d # e # rest) =
     base32_group (byte a) (byte b) (byte c) (byte d) (byte e) @ base32_encode rest"

text \<open>Lines of 64 characters.\<close>

function pem_lines :: "string \<Rightarrow> string" where
  "pem_lines s = (if s = [] then [] else take 64 s @ [CHR 0x0A] @ pem_lines (drop 64 s))"
  by pat_completeness auto
termination
  by (relation "measure length") auto

declare pem_lines.simps [simp del]

definition pem_encode :: "string \<Rightarrow> string \<Rightarrow> string" where
  "pem_encode type bytes =
     ''-----BEGIN '' @ type @ ''-----'' @ [CHR 0x0A] @ pem_lines (base64_encode bytes)
     @ ''-----END '' @ type @ ''-----'' @ [CHR 0x0A]"

section \<open>Lengths\<close>

lemma length_base64: "length (base64_encode s) = 4 * ((length s + 2) div 3)"
proof (induction s rule: base64_encode.induct)
  case (4 a b c rest)
  have "(length (a # b # c # rest) + 2) div 3 = (length rest + 2 + 3) div 3"
    by simp
  also have "\<dots> = (length rest + 2) div 3 + 1"
    by (subst div_add_self2) simp_all
  finally show ?case
    using 4 by (simp only: base64_encode.simps length_append list.size) simp
qed simp_all

lemma length_base32_group [simp]: "length (base32_group a b c d e) = 8"
  by (simp add: base32_group_def Let_def)

lemma length_base32: "length (base32_encode s) = 8 * ((length s + 4) div 5)"
proof (induction s rule: base32_encode.induct)
  case (6 a b c d e rest)
  have "(length (a # b # c # d # e # rest) + 4) div 5 = (length rest + 4 + 5) div 5"
    by simp
  also have "\<dots> = (length rest + 4) div 5 + 1"
    by (subst div_add_self2) simp_all
  finally show ?case
    using 6 by (simp only: base32_encode.simps length_append length_base32_group) simp
qed simp_all

end
