(* ===== verification/Reconcile_Common.thy ===== *)
theory Reconcile_Common
  imports Kube_Api VerneMQ_Pods Go_Encoding
begin

text \<open>
  The reconciliation steps the components share: config maps and secrets
  (\<open>internal/misc/utils.go\<close>), keys, cookies, the Erlang configuration (\<open>common.go\<close>), RBAC,
  services and replica counts (\<open>utils.go\<close>), priority classes (\<open>astarte_priorityclass.go\<close>).
\<close>

text \<open>
  What the steps are run with: the API server, the libraries, and the cryptography of Go's standard
  library, which is left abstract: RSA keys and their DER encodings, and SHA-256 as hexadecimal text.
\<close>

record crypto =
  cry_PublicKey :: "string \<Rightarrow> string"
  cry_MarshalPKIXPublicKey :: "string \<Rightarrow> err + string"
  cry_MarshalPKCS1PrivateKey :: "string \<Rightarrow> string"
  cry_SHA256 :: "string \<Rightarrow> err + string"
  cry_UnmarshalCSR :: "string \<Rightarrow> err + string"

record ('v, 'c) world =
  w_env :: env
  w_libs :: "('v, 'c) libs"
  w_crypto :: crypto

section \<open>Zero values\<close>

definition NewSecret :: "string \<Rightarrow> string \<Rightarrow> smap \<Rightarrow> kobj" where
  "NewSecret name ns labels =
     KSecret \<lparr>sec_Meta = (NewMeta name ns)\<lparr>om_Labels := labels\<rparr>, sec_Type = '''', sec_Data = [], sec_StringData = []\<rparr>"

definition NewConfigMap :: "string \<Rightarrow> string \<Rightarrow> kobj" where
  "NewConfigMap name ns = KConfigMap \<lparr>cm_Meta = NewMeta name ns, cm_Data = []\<rparr>"

definition NewService :: "string \<Rightarrow> string \<Rightarrow> kobj" where
  "NewService name ns =
     KService \<lparr>svc_Meta = NewMeta name ns, svc_Type = '''', svc_ClusterIP = '''', svc_Ports = [], svc_Selector = [],
               svc_ExternalTrafficPolicy = '''', svc_LoadBalancerIP = '''', svc_Status = ''''\<rparr>"

definition EmptyPodSpec :: pod_spec where
  "EmptyPodSpec =
     \<lparr>ps_TerminationGracePeriodSeconds = None, ps_ServiceAccountName = '''', ps_ImagePullSecrets = [],
      ps_Affinity = None, ps_Containers = [], ps_Volumes = [], ps_PriorityClassName = ''''\<rparr>"

definition EmptyTemplate :: pod_template where
  "EmptyTemplate = \<lparr>pt_Labels = [], pt_Annotations = [], pt_Spec = EmptyPodSpec\<rparr>"

definition NewDeployment :: "string \<Rightarrow> string \<Rightarrow> kobj" where
  "NewDeployment name ns =
     KDeployment \<lparr>d_Meta = NewMeta name ns,
       d_Spec = \<lparr>dp_Selector = [], dp_Strategy = StrategyOf '''', dp_Template = EmptyTemplate, dp_Replicas = None\<rparr>,
       d_ReadyReplicas = 0, d_StatusReplicas = 0\<rparr>"

lemma obj_key_new [simp]:
  "obj_key (NewSecret n ns ls) = (OSecret, ns, n)"
  "obj_key (NewConfigMap n ns) = (OConfigMap, ns, n)"
  "obj_key (NewService n ns) = (OService, ns, n)"
  "obj_key (NewDeployment n ns) = (ODeployment, ns, n)"
  by (simp_all add: obj_key_def NewSecret_def NewConfigMap_def NewService_def NewDeployment_def)

text \<open>A mutation of one kind of object; the others it never meets.\<close>

definition on_secret :: "(secret \<Rightarrow> secret) \<Rightarrow> kobj \<Rightarrow> kobj" where
  "on_secret f x = (case x of KSecret s \<Rightarrow> KSecret (f s) | _ \<Rightarrow> x)"

definition on_config_map :: "(config_map \<Rightarrow> config_map) \<Rightarrow> kobj \<Rightarrow> kobj" where
  "on_config_map f x = (case x of KConfigMap s \<Rightarrow> KConfigMap (f s) | _ \<Rightarrow> x)"

definition on_service :: "(service \<Rightarrow> service) \<Rightarrow> kobj \<Rightarrow> kobj" where
  "on_service f x = (case x of KService s \<Rightarrow> KService (f s) | _ \<Rightarrow> x)"

definition on_role :: "(role \<Rightarrow> role) \<Rightarrow> kobj \<Rightarrow> kobj" where
  "on_role f x = (case x of KRole s \<Rightarrow> KRole (f s) | _ \<Rightarrow> x)"

definition on_role_binding :: "(role_binding \<Rightarrow> role_binding) \<Rightarrow> kobj \<Rightarrow> kobj" where
  "on_role_binding f x = (case x of KRoleBinding s \<Rightarrow> KRoleBinding (f s) | _ \<Rightarrow> x)"

definition on_priority_class :: "(priority_class \<Rightarrow> priority_class) \<Rightarrow> kobj \<Rightarrow> kobj" where
  "on_priority_class f x = (case x of KPriorityClass s \<Rightarrow> KPriorityClass (f s) | _ \<Rightarrow> x)"

definition on_deployment :: "(deployment \<Rightarrow> deployment) \<Rightarrow> kobj \<Rightarrow> kobj" where
  "on_deployment f x = (case x of KDeployment s \<Rightarrow> KDeployment (f s) | _ \<Rightarrow> x)"

definition on_stateful_set :: "(stateful_set \<Rightarrow> stateful_set) \<Rightarrow> kobj \<Rightarrow> kobj" where
  "on_stateful_set f x = (case x of KStatefulSet s \<Rightarrow> KStatefulSet (f s) | _ \<Rightarrow> x)"

section \<open>Config maps and secrets\<close>

definition obj_Namespace :: "kobj \<Rightarrow> string" where
  "obj_Namespace x = om_Namespace (obj_meta x)"

definition ReconcileConfigMap :: "env \<Rightarrow> string \<Rightarrow> smap \<Rightarrow> kobj \<Rightarrow> op_result io" where
  "ReconcileConfigMap E objName data cr =
     CreateOrUpdate E (NewConfigMap objName (obj_Namespace cr))
       (owned E cr (on_config_map (\<lambda>c. c\<lparr>cm_Data := data\<rparr>)))"

definition ReconcileTLSSecret :: "env \<Rightarrow> string \<Rightarrow> string \<Rightarrow> string \<Rightarrow> kobj \<Rightarrow> op_result io" where
  "ReconcileTLSSecret E objName cert key cr =
     CreateOrUpdate E (NewSecret objName (obj_Namespace cr) [])
       (owned E cr (on_secret (\<lambda>s. s\<lparr>sec_Type := ''kubernetes.io/tls'',
          sec_StringData := [(TLSCertKey, cert), (TLSPrivateKeyKey, key)]\<rparr>)))"

definition ReconcileSecret :: "env \<Rightarrow> string \<Rightarrow> smap \<Rightarrow> kobj \<Rightarrow> op_result io" where
  "ReconcileSecret E objName data cr =
     CreateOrUpdate E (NewSecret objName (obj_Namespace cr) [])
       (owned E cr (on_secret (\<lambda>s. s\<lparr>sec_Type := ''Opaque'', sec_Data := data\<rparr>)))"

text \<open>The labels are those of the object handed in: they are set when the secret is created.\<close>

definition ReconcileSecretStringWithLabels :: "env \<Rightarrow> string \<Rightarrow> smap \<Rightarrow> smap \<Rightarrow> kobj \<Rightarrow> op_result io" where
  "ReconcileSecretStringWithLabels E objName data labels cr =
     CreateOrUpdate E (NewSecret objName (obj_Namespace cr) labels)
       (owned E cr (on_secret (\<lambda>s. s\<lparr>sec_Type := ''Opaque'', sec_StringData := data\<rparr>)))"

definition ReconcileSecretString :: "env \<Rightarrow> string \<Rightarrow> smap \<Rightarrow> kobj \<Rightarrow> op_result io" where
  "ReconcileSecretString E objName data cr = ReconcileSecretStringWithLabels E objName data [] cr"

text \<open>A missing entry of a secret's data reads as the empty string.\<close>

definition secret_data :: "kobj \<Rightarrow> string \<Rightarrow> string" where
  "secret_data x k = (case x of KSecret s \<Rightarrow> PtrValue (map_of (sec_Data s) k) '''' | _ \<Rightarrow> '''')"

definition GetRabbitMQCredentialsFor :: "env \<Rightarrow> Astarte \<Rightarrow> (string \<times> int \<times> string \<times> string) io" where
  "GetRabbitMQCredentialsFor E cr =
     bnd (lift (GetRabbitMQHostnameAndPort cr)) (\<lambda>(host, port).
     bnd (lift (GetRabbitMQUserCredentialsSecret cr)) (\<lambda>(secretName, usernameKey, passwordKey).
     bnd (Get E OSecret (cr_Namespace cr) secretName) (\<lambda>s.
       ret (host, port, secret_data s usernameKey, secret_data s passwordKey))))"

section \<open>Keys and cookies\<close>

definition generateKeyPair :: "('v, 'c) world \<Rightarrow> string io" where
  "generateKeyPair W = call EvGenerateKey (e_generate_key (w_env W))"

definition storePublicKeyInSecret :: "('v, 'c) world \<Rightarrow> string \<Rightarrow> string \<Rightarrow> Astarte \<Rightarrow> unit io" where
  "storePublicKeyInSecret W name publicKey cr =
     bnd (lift (cry_MarshalPKIXPublicKey (w_crypto W) publicKey)) (\<lambda>pkixBytes.
     bnd (ReconcileSecretString (w_env W) name [(''public-key'', pem_encode ''PUBLIC KEY'' pkixBytes)] (KAstarte cr)) (\<lambda>_.
       ret ()))"

definition storePrivateKeyInSecret :: "('v, 'c) world \<Rightarrow> string \<Rightarrow> string \<Rightarrow> Astarte \<Rightarrow> unit io" where
  "storePrivateKeyInSecret W name privateKey cr =
     bnd (ReconcileSecretString (w_env W) name
            [(''private-key'', pem_encode ''RSA PRIVATE KEY'' (cry_MarshalPKCS1PrivateKey (w_crypto W) privateKey))]
            (KAstarte cr)) (\<lambda>_. ret ())"

definition housekeeping_public_name :: "Astarte \<Rightarrow> string" where
  "housekeeping_public_name cr = cr_Name cr @ ''-housekeeping-public-key''"

definition housekeeping_private_name :: "Astarte \<Rightarrow> string" where
  "housekeeping_private_name cr = cr_Name cr @ ''-housekeeping-private-key''"

definition EnsureHousekeepingKey :: "('v, 'c) world \<Rightarrow> Astarte \<Rightarrow> unit io" where
  "EnsureHousekeepingKey W cr =
     (let E = w_env W in
      on_result (Get E OSecret (cr_Namespace cr) (housekeeping_public_name cr)) (\<lambda>r.
        case r of
          Inr _ \<Rightarrow> ret ()
        | Inl err \<Rightarrow>
           if err \<noteq> ErrNotFound then fail err
           else
             bnd (on_result (Get E OSecret (cr_Namespace cr) (housekeeping_private_name cr)) (\<lambda>r.
               case r of
                 Inr theSecret \<Rightarrow> DeleteObj E theSecret
               | Inl err \<Rightarrow> if err \<noteq> ErrNotFound then fail err else ret ())) (\<lambda>_.
             bnd (generateKeyPair W) (\<lambda>key.
             bnd (storePrivateKeyInSecret W (housekeeping_private_name cr) key cr) (\<lambda>_.
               storePublicKeyInSecret W (housekeeping_public_name cr) (cry_PublicKey (w_crypto W) key) cr)))))"

definition EnsureSecretKeyBase :: "('v, 'c) world \<Rightarrow> Astarte \<Rightarrow> unit io" where
  "EnsureSecretKeyBase W cr =
     (let E = w_env W; secretName = cr_Name cr @ ''-secret-key-base'' in
      on_result (Get E OSecret (cr_Namespace cr) secretName) (\<lambda>r.
        case r of
          Inr _ \<Rightarrow> ret ()
        | Inl err \<Rightarrow>
           if err \<noteq> ErrNotFound then fail err
           else
             bnd (RandRead E 48) (\<lambda>b.
             bnd (ReconcileSecretString E secretName [(''key'', base64_encode b)] (KAstarte cr)) (\<lambda>_. ret ()))))"

definition ensureErlangCookieSecret :: "('v, 'c) world \<Rightarrow> string \<Rightarrow> Astarte \<Rightarrow> unit io" where
  "ensureErlangCookieSecret W secretName cr =
     (let E = w_env W in
      on_result (Get E OSecret (cr_Namespace cr) secretName) (\<lambda>r.
        case r of
          Inr _ \<Rightarrow> ret ()
        | Inl err \<Rightarrow>
           if err = ErrNotFound then
             bnd (RandRead E 32) (\<lambda>cookie.
             bnd (SetControllerReference E (KAstarte cr)
                    (KSecret \<lparr>sec_Meta = NewMeta secretName (cr_Namespace cr), sec_Type = '''', sec_Data = [],
                              sec_StringData = [(''erlang-cookie'', base32_encode cookie)]\<rparr>)) (\<lambda>cookieSecret.
               CreateObj E cookieSecret))
           else fail err))"

definition EnsureErlangClusteringCookie :: "('v, 'c) world \<Rightarrow> Astarte \<Rightarrow> unit io" where
  "EnsureErlangClusteringCookie W cr =
     ensureErlangCookieSecret W (cr_Name cr @ ''-erlang-clustering-cookie'') cr"

section \<open>Erlang configuration\<close>

definition nl :: string where "nl = [CHR 0x0A]"

definition vm_args :: string where
  "vm_args =
     ''## Name of the node'' @ nl @ ''-name ${RELEASE_NAME}@${MY_POD_IP}'' @ nl @ nl
     @ ''## Cookie for distributed erlang'' @ nl @ ''-setcookie ${ERLANG_COOKIE}'' @ nl @ nl
     @ ''## Heartbeat management; auto-restarts VM if it dies or becomes unresponsive'' @ nl
     @ ''## (Disabled by default..use with caution!)'' @ nl @ ''##-heart'' @ nl @ nl
     @ ''## Enable kernel poll and a few async threads'' @ nl @ ''##+K true'' @ nl @ ''##+A 5'' @ nl @ nl
     @ ''## Increase number of concurrent ports/sockets'' @ nl @ ''##-env ERL_MAX_PORTS 4096'' @ nl @ nl
     @ ''## Tweak GC to run more often'' @ nl @ ''##-env ERL_FULLSWEEP_AFTER 10'' @ nl @ nl
     @ ''# Enable SMP automatically based on availability'' @ nl @ ''-smp auto'' @ nl"

definition EnsureGenericErlangConfiguration :: "('v, 'c) world \<Rightarrow> Astarte \<Rightarrow> unit io" where
  "EnsureGenericErlangConfiguration W cr =
     bnd (ReconcileConfigMap (w_env W) (cr_Name cr @ ''-generic-erlang-configuration'')
            [(''vm.args'', vm_args)] (KAstarte cr)) (\<lambda>_. ret ())"

section \<open>RBAC\<close>

definition GetAstarteClusteredServicePolicyRules :: "policy_rule list" where
  "GetAstarteClusteredServicePolicyRules =
     [\<lparr>pol_APIGroups = [''''], pol_Resources = [''pods'', ''endpoints''], pol_Verbs = [''list'', ''get'']\<rparr>]"

definition flow_policy_rules :: "policy_rule list" where
  "flow_policy_rules =
     [\<lparr>pol_APIGroups = [''api.astarte-platform.org''], pol_Resources = [''flows''],
       pol_Verbs = [''create'', ''delete'', ''get'', ''list'', ''patch'', ''update'', ''watch'']\<rparr>]"

definition reconcileStandardRBACForClusteringForApp ::
    "('v, 'c) world \<Rightarrow> string \<Rightarrow> policy_rule list \<Rightarrow> Astarte \<Rightarrow> unit io" where
  "reconcileStandardRBACForClusteringForApp W name policyRules cr =
     (let E = w_env W; meta = NewMeta name (cr_Namespace cr) in
      bnd (CreateOrUpdate E (KServiceAccount \<lparr>sa_Meta = meta\<rparr>) (owned E (KAstarte cr) id)) (\<lambda>_.
      bnd (CreateOrUpdate E (KRole \<lparr>role_Meta = meta, role_Rules = []\<rparr>)
             (owned E (KAstarte cr) (on_role (\<lambda>r. r\<lparr>role_Rules := policyRules\<rparr>)))) (\<lambda>_.
      bnd (CreateOrUpdate E (KRoleBinding \<lparr>rb_Meta = meta, rb_Subjects = [], rb_RoleRef = ('''', '''', '''')\<rparr>)
             (owned E (KAstarte cr) (on_role_binding (\<lambda>b. b\<lparr>rb_Subjects := [(''ServiceAccount'', name)],
                rb_RoleRef := (''rbac.authorization.k8s.io'', ''Role'', name)\<rparr>)))) (\<lambda>_.
        ret ()))))"

text \<open>The same three steps with rules of its own.\<close>

definition reconcileRBACForFlow :: "('v, 'c) world \<Rightarrow> string \<Rightarrow> Astarte \<Rightarrow> unit io" where
  "reconcileRBACForFlow W name cr =
     (let E = w_env W; meta = NewMeta name (cr_Namespace cr) in
      bnd (CreateOrUpdate E (KServiceAccount \<lparr>sa_Meta = meta\<rparr>) (owned E (KAstarte cr) id)) (\<lambda>_.
      bnd (CreateOrUpdate E (KRole \<lparr>role_Meta = meta, role_Rules = []\<rparr>)
             (owned E (KAstarte cr) (on_role (\<lambda>r. r\<lparr>role_Rules := flow_policy_rules\<rparr>)))) (\<lambda>_.
      bnd (CreateOrUpdate E (KRoleBinding \<lparr>rb_Meta = meta, rb_Subjects = [], rb_RoleRef = ('''', '''', '''')\<rparr>)
             (owned E (KAstarte cr) (on_role_binding (\<lambda>b. b\<lparr>rb_Subjects := [(''ServiceAccount'', name)],
                rb_RoleRef := (''rbac.authorization.k8s.io'', ''Role'', name)\<rparr>)))) (\<lambda>_.
        ret ()))))"

section \<open>Services and replicas\<close>

definition http_service_port :: "int \<Rightarrow> service_port" where
  "http_service_port p =
     \<lparr>sp_Name = ''http'', sp_Port = p, sp_TargetPort = NamedPort ''http'', sp_Protocol = ''TCP''\<rparr>"

definition createOrUpdateService :: "('v, 'c) world \<Rightarrow> Astarte \<Rightarrow> string \<Rightarrow> smap \<Rightarrow> smap \<Rightarrow> unit io" where
  "createOrUpdateService W cr serviceName matchLabels labels =
     (let E = w_env W in
      bnd (CreateOrUpdate E (NewService serviceName (cr_Namespace cr))
             (owned E (KAstarte cr) (on_service (\<lambda>s. s\<lparr>svc_Meta := (svc_Meta s)\<lparr>om_Labels := labels\<rparr>,
                svc_Type := ''ClusterIP'', svc_ClusterIP := noneClusterIP,
                svc_Ports := [http_service_port astarteServicesPort], svc_Selector := matchLabels\<rparr>)))) (\<lambda>_.
        ret ()))"

text \<open>The error of a failed read is replaced, so that the caller sees one error only.\<close>

definition getHPAStatusForResource :: "env \<Rightarrow> string \<Rightarrow> Astarte \<Rightarrow> int io" where
  "getHPAStatusForResource E autoscalerName cr =
     on_result (Get E OHPA (cr_Namespace cr) autoscalerName) (\<lambda>r.
       case r of
         Inl _ \<Rightarrow> fail (ErrGo ''not found'')
       | Inr x \<Rightarrow> ret (case x of KHPA h \<Rightarrow> hpa_DesiredReplicas h | _ \<Rightarrow> 0))"

definition getReplicaCountForResource ::
    "env \<Rightarrow> AstarteGenericClusteredResource \<Rightarrow> Astarte \<Rightarrow> int option io" where
  "getReplicaCountForResource E resource cr =
     (case gcr_Autoscale resource of
        None \<Rightarrow> ret (gcr_Replicas resource)
      | Some autoscale \<Rightarrow>
         if \<not> feat_Autoscaling (spec_Features (ast_Spec cr)) then ret (gcr_Replicas resource)
         else on_result (getHPAStatusForResource E (autoscaler_Horizontal autoscale) cr) (\<lambda>r.
           case r of
             Inl _ \<Rightarrow> ret (gcr_Replicas resource)
           | Inr desired \<Rightarrow> if desired = 0 then ret (gcr_Replicas resource) else ret (Some desired)))"

text \<open>
  The mutation of a component's deployment: owner, labels and specification, then the replicas,
  which may ask the API server.
\<close>

definition set_deployment ::
    "env \<Rightarrow> Astarte \<Rightarrow> smap \<Rightarrow> deployment_spec \<Rightarrow> int option io \<Rightarrow> kobj \<Rightarrow> kobj io" where
  "set_deployment E cr labels spec replicas x =
     bnd (owned E (KAstarte cr) (on_deployment (\<lambda>d. d\<lparr>d_Meta := (d_Meta d)\<lparr>om_Labels := labels\<rparr>, d_Spec := spec\<rparr>)) x) (\<lambda>x1.
     bnd replicas (\<lambda>n.
       ret (on_deployment (\<lambda>d. d\<lparr>d_Spec := (d_Spec d)\<lparr>dp_Replicas := n\<rparr>\<rparr>) x1)))"

section \<open>Priority classes\<close>

definition NewPriorityClass :: "string \<Rightarrow> kobj" where
  "NewPriorityClass name =
     KPriorityClass \<lparr>pc_Meta = NewMeta name '''', pc_GlobalDefault = False, pc_PreemptionPolicy = None,
                     pc_Value = 0, pc_Description = ''''\<rparr>"

text \<open>The value is a pointer to an \<open>int\<close>, read and truncated inside the mutation.\<close>

definition priority_class_step :: "env \<Rightarrow> string \<Rightarrow> int option \<Rightarrow> string \<Rightarrow> op_result io" where
  "priority_class_step E name priority description =
     CreateOrUpdate E (NewPriorityClass name) (\<lambda>x.
       bnd (lift (deref priority)) (\<lambda>v.
         ret (on_priority_class (\<lambda>p. p\<lparr>pc_GlobalDefault := False, pc_PreemptionPolicy := Some ''Never'',
                pc_Value := go_int32 v, pc_Description := description\<rparr>) x)))"

definition EnsureAstartePriorityClasses :: "('v, 'c) world \<Rightarrow> Astarte \<Rightarrow> unit io" where
  "EnsureAstartePriorityClasses W instnc =
     (let E = w_env W in
      case feat_AstartePodPriorities (spec_Features (ast_Spec instnc)) of
        None \<Rightarrow> ret ()
      | Some p \<Rightarrow>
         if \<not> IsEnabled (Some p) then ret ()
         else
           bnd (priority_class_step E AstarteHighPriorityName (prio_AstarteHighPriority p)
                  ''Astarte high-priority pods (e.g. RabbitMQ, VerneMQ, Astarte Data Updater Plant) should be in this priority class.'') (\<lambda>_.
           bnd (priority_class_step E AstarteMidPriorityName (prio_AstarteMidPriority p)
                  ''Astarte mid-priority pods should be in this priority class.'') (\<lambda>_.
           bnd (priority_class_step E AstarteLowPriorityName (prio_AstarteLowPriority p)
                  ''Astarte low-priority pods should be in this priority class.'') (\<lambda>_.
             ret ()))))"

end
