(* ===== verification/Reconcile_Components.thy ===== *)
theory Reconcile_Components
  imports Reconcile_Common
begin

text \<open>
  The operations that bring one component to its desired state: \<open>EnsureAstarteGenericBackend\<close>,
  \<open>EnsureAstarteGenericAPIComponent\<close>, \<open>EnsureAstarteDataUpdaterPlant\<close>,
  \<open>EnsureAstarteDashboard\<close>, \<open>EnsureCFSSL\<close> and \<open>EnsureVerneMQ\<close> (\<open>internal/reconcile\<close>).
\<close>

section \<open>Parts of these operations\<close>

text \<open>A component that is not to be deployed has a workload left over deleted, if there is one.\<close>

definition delete_if_present :: "env \<Rightarrow> okind \<Rightarrow> string \<Rightarrow> string \<Rightarrow> unit io" where
  "delete_if_present E k ns name =
     on_result (Get E k ns name) (\<lambda>r. case r of Inl _ \<Rightarrow> ret () | Inr x \<Rightarrow> DeleteObj E x)"

definition component_labels :: "string \<Rightarrow> AstarteComponent \<Rightarrow> smap" where
  "component_labels deploymentName component =
     [(''app'', deploymentName), (''component'', ''astarte''), (''astarte-component'', DashedString component)]"

definition ensure_deployment ::
    "('v, 'c) world \<Rightarrow> Astarte \<Rightarrow> string \<Rightarrow> smap \<Rightarrow> deployment_spec \<Rightarrow> int option io \<Rightarrow> unit io" where
  "ensure_deployment W cr name labels spec replicas =
     (let E = w_env W in
      bnd (CreateOrUpdate E (NewDeployment name (cr_Namespace cr)) (set_deployment E cr labels spec replicas)) (\<lambda>_.
        ret ()))"

section \<open>Backend components\<close>

definition EnsureAstarteGenericBackend ::
    "('v, 'c) world \<Rightarrow> Astarte \<Rightarrow> AstarteGenericClusteredResource \<Rightarrow> AstarteComponent \<Rightarrow> unit io" where
  "EnsureAstarteGenericBackend W cr backend component =
     (let E = w_env W;
          deploymentName = cr_Name cr @ ''-'' @ DashedString component;
          serviceName = cr_Name cr @ ''-'' @ ServiceName component;
          labels = component_labels deploymentName component;
          matchLabels = [(''app'', deploymentName)]
      in if \<not> PtrValue (gcr_Deploy backend) True
         then delete_if_present E ODeployment (cr_Namespace cr) deploymentName
         else
           bnd (reconcileStandardRBACForClusteringForApp W deploymentName GetAstarteClusteredServicePolicyRules cr) (\<lambda>_.
           bnd (ensureErlangCookieSecret W (deploymentName @ ''-cookie'') cr) (\<lambda>_.
           bnd (createOrUpdateService W cr serviceName matchLabels labels) (\<lambda>_.
           bnd (lift (getAstarteGenericBackendPodSpec (w_libs W) deploymentName 0 0 cr backend component)) (\<lambda>podSpec.
             ensure_deployment W cr deploymentName labels
               \<lparr>dp_Selector = matchLabels,
                dp_Strategy = getDeploymentStrategyForClusteredResource cr backend component,
                dp_Template = \<lparr>pt_Labels = computePodLabels gcr_GetPodLabels backend labels,
                               pt_Annotations = [], pt_Spec = podSpec\<rparr>,
                dp_Replicas = None\<rparr>
               (getReplicaCountForResource E backend cr))))))"

section \<open>Data Updater Plant\<close>

definition createIndexedDataUpdaterPlantDeployment ::
    "('v, 'c) world \<Rightarrow> int \<Rightarrow> int \<Rightarrow> Astarte \<Rightarrow> AstarteDataUpdaterPlantSpec \<Rightarrow> unit io" where
  "createIndexedDataUpdaterPlantDeployment W replicaIndex replicas cr dup =
     (let component = DataUpdaterPlant;
          deploymentName0 = cr_Name cr @ ''-'' @ DashedString component;
          deploymentName = (if 0 < replicaIndex then deploymentName0 @ ''-'' @ Itoa replicaIndex else deploymentName0);
          labels = component_labels deploymentName component @ [(''astarte-instance-name'', cr_Name cr)];
          matchLabels = [(''app'', deploymentName)]
      in bnd (ensureErlangCookieSecret W (deploymentName @ ''-cookie'') cr) (\<lambda>_.
         bnd (lift (getAstarteGenericBackendPodSpec (w_libs W) deploymentName replicaIndex replicas cr
                      (dup_Generic dup) component)) (\<lambda>podSpec.
           ensure_deployment W cr deploymentName labels
             \<lparr>dp_Selector = matchLabels,
              dp_Strategy = getDeploymentStrategyForClusteredResource cr (dup_Generic dup) component,
              dp_Template = \<lparr>pt_Labels = computePodLabels gcr_GetPodLabels (dup_Generic dup) labels,
                             pt_Annotations = [], pt_Spec = podSpec\<rparr>,
              dp_Replicas = None\<rparr>
             (ret (Some 1)))))"

definition EnsureAstarteDataUpdaterPlant ::
    "('v, 'c) world \<Rightarrow> Astarte \<Rightarrow> AstarteDataUpdaterPlantSpec \<Rightarrow> unit io" where
  "EnsureAstarteDataUpdaterPlant W cr dup =
     (let E = w_env W;
          replicas = PtrValue (gcr_Replicas (dup_Generic dup)) 1;
          component = DataUpdaterPlant;
          selector = [(''astarte-component'', DashedString component)];
          deploy = PtrValue (gcr_Deploy (dup_Generic dup)) True
      in bnd (ListObjs E ODeployment (Some (cr_Namespace cr)) selector) (\<lambda>current.
         bnd (do_when (replicas < int (length current) \<or> \<not> deploy)
                (DeleteAllOf E ODeployment (cr_Namespace cr) selector)) (\<lambda>_.
           if \<not> deploy then ret ()
           else if replicas = 1 then EnsureAstarteGenericBackend W cr (dup_Generic dup) component
           else
            (let serviceName = cr_Name cr @ ''-'' @ ServiceName component;
                 labels = component_labels (cr_Name cr @ ''-'' @ DashedString component) component
                          @ [(''astarte-instance-name'', cr_Name cr)];
                 matchLabels = [(''astarte-component'', DashedString component), (''astarte-instance-name'', cr_Name cr)]
             in bnd (createOrUpdateService W cr serviceName matchLabels labels) (\<lambda>_.
                  for_each (\<lambda>i. createIndexedDataUpdaterPlantDeployment W i replicas cr dup)
                    (map int [0..<nat replicas]))))))"

section \<open>API components\<close>

definition checkShouldDeploy ::
    "('v, 'c) world \<Rightarrow> string \<Rightarrow> Astarte \<Rightarrow> AstarteGenericAPIComponentSpec \<Rightarrow> AstarteComponent \<Rightarrow> bool io" where
  "checkShouldDeploy W deploymentName cr api component =
     (let E = w_env W; defaultDeployValue = (component \<noteq> FlowComponent) in
      if \<not> PtrValue (gcr_Deploy (gac_Generic api)) defaultDeployValue then
        bnd (on_result (Get E ODeployment (cr_Namespace cr) deploymentName) (\<lambda>r.
          case r of
            Inl _ \<Rightarrow> ret ()
          | Inr theDeployment \<Rightarrow> on_result (DeleteObj E theDeployment) (\<lambda>_. ret ()))) (\<lambda>_. ret False)
      else ret True)"

definition EnsureAstarteGenericAPIComponent ::
    "('v, 'c) world \<Rightarrow> Astarte \<Rightarrow> AstarteGenericAPIComponentSpec \<Rightarrow> AstarteComponent \<Rightarrow> unit io" where
  "EnsureAstarteGenericAPIComponent W cr api component =
     (let E = w_env W;
          deploymentName = cr_Name cr @ ''-'' @ DashedString component;
          serviceName = cr_Name cr @ ''-'' @ ServiceName component;
          labels = component_labels deploymentName component;
          matchLabels = [(''app'', deploymentName)]
      in bnd (checkShouldDeploy W deploymentName cr api component) (\<lambda>deploy.
         if \<not> deploy then ret ()
         else
           bnd (ensureErlangCookieSecret W (deploymentName @ ''-cookie'') cr) (\<lambda>_.
           bnd (createOrUpdateService W cr serviceName matchLabels labels) (\<lambda>_.
           bnd (do_when (component = FlowComponent)
                  (reconcileRBACForFlow W (cr_Name cr @ ''-'' @ ServiceName component) cr)) (\<lambda>_.
           bnd (do_when (component = AppEngineAPI \<or> component = RealmManagement \<or> component = Pairing)
                  (reconcileStandardRBACForClusteringForApp W deploymentName
                     GetAstarteClusteredServicePolicyRules cr)) (\<lambda>_.
           bnd (lift (getAstarteGenericAPIPodSpec (w_libs W) deploymentName cr api component)) (\<lambda>podSpec.
             ensure_deployment W cr deploymentName labels
               \<lparr>dp_Selector = matchLabels,
                dp_Strategy = getDeploymentStrategyForClusteredResource cr (gac_Generic api) component,
                dp_Template = \<lparr>pt_Labels = computePodLabels gcr_GetPodLabels (gac_Generic api) labels,
                               pt_Annotations = [], pt_Spec = podSpec\<rparr>,
                dp_Replicas = None\<rparr>
               (getReplicaCountForResource E (gac_Generic api) cr))))))))"

section \<open>Dashboard\<close>

definition EnsureAstarteDashboard :: "('v, 'c) world \<Rightarrow> Astarte \<Rightarrow> AstarteDashboardSpec \<Rightarrow> unit io" where
  "EnsureAstarteDashboard W cr dashboard =
     (let E = w_env W;
          deploymentName = cr_Name cr @ ''-dashboard'';
          serviceName = cr_Name cr @ ''-dashboard'';
          labels = [(''app'', deploymentName), (''component'', ''astarte''), (''astarte-component'', ''dashboard'')];
          matchLabels = [(''app'', deploymentName)]
      in if \<not> PtrValue (gcr_Deploy (dash_Generic dashboard)) True
         then delete_if_present E ODeployment (cr_Namespace cr) deploymentName
         else
           bnd (ReconcileConfigMap E (deploymentName @ ''-config'') (getAstarteDashboardConfigMapData cr dashboard)
                  (KAstarte cr)) (\<lambda>_.
           bnd (CreateOrUpdate E (NewService serviceName (cr_Namespace cr))
                  (owned E (KAstarte cr) (on_service (\<lambda>s. s\<lparr>svc_Meta := (svc_Meta s)\<lparr>om_Labels := labels\<rparr>,
                     svc_Type := ''ClusterIP'', svc_ClusterIP := noneClusterIP,
                     svc_Ports := [http_service_port 80], svc_Selector := matchLabels\<rparr>)))) (\<lambda>_.
           bnd (lift (getAstarteDashboardPodSpec (w_libs W) cr dashboard)) (\<lambda>podSpec.
             ensure_deployment W cr deploymentName labels
               \<lparr>dp_Selector = matchLabels,
                dp_Strategy = getDeploymentStrategyForClusteredResource cr (dash_Generic dashboard) Dashboard,
                dp_Template = \<lparr>pt_Labels = computePodLabels gcr_GetPodLabels (dash_Generic dashboard) labels,
                               pt_Annotations = [], pt_Spec = podSpec\<rparr>,
                dp_Replicas = None\<rparr>
               (getReplicaCountForResource E (dash_Generic dashboard) cr)))))"

section \<open>CFSSL\<close>

definition ensureCFSSLCommonSidecars :: "('v, 'c) world \<Rightarrow> string \<Rightarrow> smap \<Rightarrow> Astarte \<Rightarrow> unit io" where
  "ensureCFSSLCommonSidecars W resourceName labels cr =
     (let E = w_env W in
      bnd (CreateOrUpdate E (NewService resourceName (cr_Namespace cr))
             (owned E (KAstarte cr) (on_service (\<lambda>s. s\<lparr>svc_Type := ''ClusterIP'',
                svc_Ports := [http_service_port 80], svc_Selector := labels\<rparr>)))) (\<lambda>_.
      bnd (lift (getCFSSLConfigMapData cr)) (\<lambda>configMap.
      bnd (ReconcileConfigMap E (resourceName @ ''-config'') configMap (KAstarte cr)) (\<lambda>_.
        ret ()))))"

text \<open>
  When the request's JSON does not parse, the step returns the error of the call before, which is
  nil.
\<close>

definition createCFSSLCASecret :: "('v, 'c) world \<Rightarrow> string \<Rightarrow> Astarte \<Rightarrow> unit io" where
  "createCFSSLCASecret W secretName cr =
     (let E = w_env W in
      bnd (lift (getCFSSLConfigMapData cr)) (\<lambda>cfsslConfig.
        case cry_UnmarshalCSR (w_crypto W) (PtrValue (map_of cfsslConfig ''csr_root_ca.json'') '''') of
          Inl e \<Rightarrow> ret ()
        | Inr req \<Rightarrow>
            bnd (call EvGenerateCA (\<lambda>h. e_initca E h req)) (\<lambda>(cert, key).
            bnd (ReconcileTLSSecret E secretName cert key (KAstarte cr)) (\<lambda>_. ret ()))))"

definition ensureCFSSLCASecret :: "('v, 'c) world \<Rightarrow> string \<Rightarrow> Astarte \<Rightarrow> unit io" where
  "ensureCFSSLCASecret W secretName cr =
     on_result (Get (w_env W) OSecret (cr_Namespace cr) secretName) (\<lambda>r.
       case r of
         Inr _ \<Rightarrow> ret ()
       | Inl err \<Rightarrow> if err \<noteq> ErrNotFound then fail err else createCFSSLCASecret W secretName cr)"

definition ensureCFSSLCAProxySecret :: "('v, 'c) world \<Rightarrow> string \<Rightarrow> string \<Rightarrow> Astarte \<Rightarrow> unit io" where
  "ensureCFSSLCAProxySecret W secretName proxySecretName cr =
     (let E = w_env W in
      bnd (Get E OSecret (cr_Namespace cr) secretName) (\<lambda>s.
      bnd (ReconcileSecret E proxySecretName [(''ca.crt'', secret_data s TLSCertKey)] (KAstarte cr)) (\<lambda>_. ret ())))"

definition config_map_of :: "kobj \<Rightarrow> config_map" where
  "config_map_of x = (case x of KConfigMap c \<Rightarrow> c | _ \<Rightarrow> \<lparr>cm_Meta = obj_meta x, cm_Data = []\<rparr>)"

definition EnsureCFSSL :: "('v, 'c) world \<Rightarrow> Astarte \<Rightarrow> unit io" where
  "EnsureCFSSL W cr =
     (let E = w_env W;
          deploymentName = cr_Name cr @ ''-cfssl'';
          labels = [(''app'', deploymentName)];
          spec = spec_CFSSL (ast_Spec cr)
      in if \<not> PtrValue (cfssl_Deploy spec) True
         then delete_if_present E ODeployment (cr_Namespace cr) deploymentName
         else
           bnd (ensureCFSSLCommonSidecars W deploymentName labels cr) (\<lambda>_.
           bnd (Get E OConfigMap (cr_Namespace cr) (deploymentName @ ''-config'')) (\<lambda>theConfigMap.
           bnd (lift (getChecksumForConfigMap (cry_SHA256 (w_crypto W)) (config_map_of theConfigMap))) (\<lambda>configMapChecksum.
           let caSecretName = (if cfssl_CASecret spec \<noteq> '''' then cfssl_CASecret spec else cr_Name cr @ ''-devices-ca'')
           in bnd (do_when (cfssl_CASecret spec = '''') (ensureCFSSLCASecret W caSecretName cr)) (\<lambda>_.
              bnd (ensureCFSSLCAProxySecret W caSecretName (cr_Name cr @ ''-cfssl-ca'') cr) (\<lambda>_.
              bnd (lift (getCFSSLPodSpec deploymentName caSecretName cr)) (\<lambda>podSpec.
              bnd (CreateOrUpdate E (NewDeployment deploymentName (cr_Namespace cr))
                     (owned E (KAstarte cr) (on_deployment (\<lambda>d. d\<lparr>d_Spec :=
                        \<lparr>dp_Selector = labels, dp_Strategy = StrategyOf '''',
                         dp_Template = \<lparr>pt_Labels = labels,
                                        pt_Annotations = [(''checksum/config'', configMapChecksum)], pt_Spec = podSpec\<rparr>,
                         dp_Replicas = Some 1\<rparr>\<rparr>)))) (\<lambda>_.
                ret ()))))))))"

section \<open>VerneMQ\<close>

definition maybeDeleteVerneMQPods :: "('v, 'c) world \<Rightarrow> Astarte \<Rightarrow> unit io" where
  "maybeDeleteVerneMQPods W cr =
     (let E = w_env W in
      bnd (ListObjs E OSecret (Some (cr_Namespace cr)) []) (\<lambda>secrets.
        if list_ex (\<lambda>v. om_Name (obj_meta v) = vmq_SSLListenerCertSecretName (spec_VerneMQ (ast_Spec cr))) secrets
        then ret ()
        else DeleteAllOf E OPod (cr_Namespace cr) [(''app'', GetVerneMQStatefulSetName cr)]))"

definition named_port :: "string \<Rightarrow> int \<Rightarrow> service_port" where
  "named_port n p = \<lparr>sp_Name = n, sp_Port = p, sp_TargetPort = NamedPort n, sp_Protocol = ''TCP''\<rparr>"

definition NewStatefulSet :: "string \<Rightarrow> string \<Rightarrow> kobj" where
  "NewStatefulSet name ns =
     KStatefulSet \<lparr>ss_Meta = NewMeta name ns,
       ss_Spec = \<lparr>ssp_ServiceName = '''', ssp_Selector = [], ssp_Template = EmptyTemplate,
                  ssp_VolumeClaimTemplates = [], ssp_Replicas = None\<rparr>,
       ss_ReadyReplicas = 0\<rparr>"

lemma obj_key_NewStatefulSet [simp]: "obj_key (NewStatefulSet n ns) = (OStatefulSet, ns, n)"
  by (simp add: obj_key_def NewStatefulSet_def)

definition scale_Giga :: int where "scale_Giga = 9"

definition EnsureVerneMQ :: "('v, 'c) world \<Rightarrow> Astarte \<Rightarrow> unit io" where
  "EnsureVerneMQ W cr =
     (let E = w_env W;
          statefulSetName = GetVerneMQStatefulSetName cr;
          labels = [(''app'', statefulSetName)];
          vmq = spec_VerneMQ (ast_Spec cr)
      in if \<not> PtrValue (gcr_Deploy (vmq_Generic vmq)) True
         then delete_if_present E OStatefulSet (cr_Namespace cr) statefulSetName
         else
           bnd (reconcileStandardRBACForClusteringForApp W statefulSetName getVerneMQPolicyRules cr) (\<lambda>_.
           bnd (CreateOrUpdate E (NewService statefulSetName (cr_Namespace cr))
                  (owned E (KAstarte cr) (on_service (\<lambda>s. s\<lparr>svc_Type := ''ClusterIP'', svc_ClusterIP := noneClusterIP,
                     svc_Ports := [named_port ''mqtt'' 1883, named_port ''mqtt-reverse'' 1885, named_port ''webadmin'' 8888],
                     svc_Selector := labels\<rparr>)))) (\<lambda>_.
           let (dataVolumeName, persistentVolumeClaim) =
                 computePersistentVolumeClaim (statefulSetName @ ''-data'')
                   (ql_NewScaledQuantity (lib_quantity (w_libs W)) 4 scale_Giga) (vmq_Storage vmq) cr
           in bnd (do_when (shouldVerneHandleSSLTermination cr) (maybeDeleteVerneMQPods W cr)) (\<lambda>_.
              bnd (lift (getVerneMQPodSpec (lib_semver (w_libs W)) statefulSetName dataVolumeName cr)) (\<lambda>podSpec.
              bnd (CreateOrUpdate E (NewStatefulSet statefulSetName (cr_Namespace cr)) (\<lambda>x.
                     bnd (owned E (KAstarte cr) (on_stateful_set (\<lambda>s. s\<lparr>
                            ss_Meta := (ss_Meta s)\<lparr>om_Labels := [(''component'', ''astarte'')]\<rparr>,
                            ss_Spec := \<lparr>ssp_ServiceName = statefulSetName, ssp_Selector = labels,
                              ssp_Template = \<lparr>pt_Labels = computePodLabels gcr_GetPodLabels (vmq_Generic vmq) labels,
                                              pt_Annotations = [], pt_Spec = podSpec\<rparr>,
                              ssp_VolumeClaimTemplates = (case persistentVolumeClaim of None \<Rightarrow> [] | Some c \<Rightarrow> [c]),
                              ssp_Replicas = None\<rparr>\<rparr>)) x) (\<lambda>x1.
                     bnd (getReplicaCountForResource E (vmq_Generic vmq) cr) (\<lambda>n.
                       ret (on_stateful_set (\<lambda>s. s\<lparr>ss_Spec := (ss_Spec s)\<lparr>ssp_Replicas := n\<rparr>\<rparr>) x1))))) (\<lambda>_.
                ret ()))))))"

end
