(* ===== verification/Ingress.thy ===== *)
theory Ingress
  imports Reconcile_Common
begin

text \<open>
  Exposing Astarte: the ingress of the APIs and the dashboard, the service of the broker
  (\<open>internal/defaultingress\<close>), and the defaulting of the resource
  (\<open>astartedefaultingress_webhook.go\<close>).
\<close>

section \<open>Defaulting\<close>

text \<open>Writing the default annotation into a nil map is a panic.\<close>

definition adi_Default :: "AstarteDefaultIngress \<Rightarrow> err + AstarteDefaultIngress" where
  "adi_Default r =
     rbind
       (if nil_map_lookup (om_Annotations (adi_Meta r)) AnnotationIngressControllerSelector = None
        then (case om_Annotations (adi_Meta r) of
                None \<Rightarrow> Inl (GoPanic ''assignment to entry in nil map'')
              | Some m \<Rightarrow> Inr (r\<lparr>adi_Meta := (adi_Meta r)\<lparr>om_Annotations :=
                          Some (AList.update AnnotationIngressControllerSelector HAProxySelectorValue m)\<rparr>\<rparr>))
        else Inr r) (\<lambda>r1.
       Inr (if adis_IngressClass (adi_Spec r1) = ''''
            then r1\<lparr>adi_Spec := (adi_Spec r1)\<lparr>adis_IngressClass :=
                     (if \<not> HAProxyIngressControllerSelected r1 then ''nginx'' else ''haproxy'')\<rparr>\<rparr>
            else r1))"

section \<open>Annotations\<close>

definition buildContentSecurityPolicy :: "Astarte \<Rightarrow> string" where
  "buildContentSecurityPolicy parent =
     Join [''default-src * '', ''img-src * data:'', ''object-src '' @ [CHR 0x27] @ ''none'' @ [CHR 0x27],
           ''base-uri '' @ [CHR 0x27] @ ''self'' @ [CHR 0x27], ''script-src '' @ [CHR 0x27] @ ''self'' @ [CHR 0x27],
           ''connect-src '' @ [CHR 0x27] @ ''self'' @ [CHR 0x27] @ '' wss: '' @ api_Host (spec_API (ast_Spec parent))] ''; ''"

definition appendHAProxyCorsAnnotations :: "bool \<Rightarrow> smap \<Rightarrow> smap" where
  "appendHAProxyCorsAnnotations enableCors annotations =
     (if \<not> enableCors then AList.update ''haproxy.org/cors-enable'' ''false'' annotations
      else foldl (\<lambda>m (k, v). AList.update k v m) annotations
        [(''haproxy.org/cors-enable'', ''true''),
         (''haproxy.org/cors-allow-origin'', ''*''),
         (''haproxy.org/cors-allow-methods'', ''GET, POST, OPTIONS, PUT, DELETE''),
         (''haproxy.org/cors-allow-headers'',
          ''DNT,User-Agent,X-Requested-With,If-Modified-Since,Cache-Control,Content-Type,Range,Authorization''),
         (''haproxy.org/cors-expose-headers'', ''Content-Length,Content-Range'')])"

text \<open>
  The paths whose first segment HAProxy strips: \<open>rewritten_prefixes\<close> are the alternatives of the
  regular expression of the snippet.
\<close>

definition rewritten_prefixes :: "string list" where
  "rewritten_prefixes = [''appengine'', ''pairing'', ''housekeeping'', ''realmmanagement'']"

definition getHAProxyBackendConfig :: "Astarte \<Rightarrow> string" where
  "getHAProxyBackendConfig cr =
     ''http-request replace-path /('' @ Join rewritten_prefixes ''|'' @ '')/(.*) /'' @ [CHR 0x5C]
     @ ''2 if { hdr(host) -i '' @ api_Host (spec_API (ast_Spec cr)) @ '' }''"

definition getCommonIngressAnnotations :: "AstarteDefaultIngress \<Rightarrow> Astarte \<Rightarrow> smap" where
  "getCommonIngressAnnotations cr parent =
     (let nl = [CHR 0x0A]; dq = [CHR 0x22];
          apiSslRedirect = (PtrValue (api_SSL (spec_API (ast_Spec parent))) True
                            \<or> PtrValue (adid_SSL (adis_Dashboard (adi_Spec cr))) True);
          enableCors = PtrValue (adia_Cors (adis_API (adi_Spec cr))) False
      in if \<not> HAProxyIngressControllerSelected cr then
           [(''nginx.ingress.kubernetes.io/ssl-redirect'', FormatBool apiSslRedirect),
            (''nginx.ingress.kubernetes.io/use-regex'', ''true''),
            (''nginx.ingress.kubernetes.io/rewrite-target'', ''/$2''),
            (''nginx.ingress.kubernetes.io/enable-cors'', FormatBool enableCors),
            (''nginx.ingress.kubernetes.io/configuration-snippet'',
             ''more_set_headers '' @ dq @ ''X-Frame-Options: SAMEORIGIN'' @ dq @ '';'' @ nl @
             ''more_set_headers '' @ dq @ ''X-XSS-Protection: 1; mode=block'' @ dq @ '';'' @ nl @
             ''more_set_headers '' @ dq @ ''X-Content-Type-Options: nosniff'' @ dq @ '';'' @ nl @
             ''more_set_headers '' @ dq @ ''Referrer-Policy: no-referrer-when-downgrade'' @ dq @ '';'')]
         else appendHAProxyCorsAnnotations enableCors
           [(''haproxy.org/backend-config-snippet'', getHAProxyBackendConfig parent),
            (''haproxy.org/ssl-redirect'', FormatBool apiSslRedirect),
            (''haproxy.org/response-set-header'',
             nl @ ''X-Frame-Options SAMEORIGIN'' @ nl @
             ''Content-Security-Policy '' @ buildContentSecurityPolicy parent @ nl @
             ''X-Content-Type-Options nosniff'' @ nl @
             ''Referrer-Policy no-referrer-when-downgrade'')])"

section \<open>TLS\<close>

definition getIngressTLS :: "AstarteDefaultIngress \<Rightarrow> Astarte \<Rightarrow> bool \<Rightarrow> ingress_tls list" where
  "getIngressTLS cr parent includeDashboard =
     (let spec = adi_Spec cr; api = adis_API spec; dash = adis_Dashboard spec in
      (if PtrValue (api_SSL (spec_API (ast_Spec parent))) True \<or> PtrValue (adid_SSL dash) True
       then [\<lparr>it_Hosts = [api_Host (spec_API (ast_Spec parent))],
              it_SecretName = (if adia_TLSSecret api \<noteq> '''' then adia_TLSSecret api else adis_TLSSecret spec)\<rparr>]
       else [])
      @ (if includeDashboard \<and> PtrValue (adid_Deploy dash) True \<and> PtrValue (adid_SSL dash) True \<and> adid_Host dash \<noteq> ''''
         then [\<lparr>it_Hosts = [adid_Host dash],
                it_SecretName = (if adid_TLSSecret dash \<noteq> '''' then adid_TLSSecret dash else adis_TLSSecret spec)\<rparr>]
         else []))"

section \<open>Rules\<close>

definition exposed_components :: "AstarteDefaultIngress \<Rightarrow> AstarteComponent list" where
  "exposed_components cr =
     [AppEngineAPI, FlowComponent, Pairing, RealmManagement]
     @ (if PtrValue (adia_ExposeHousekeeping (adis_API (adi_Spec cr))) True then [Housekeeping] else [])"

definition http_path :: "AstarteDefaultIngress \<Rightarrow> AstarteComponent \<Rightarrow> string \<Rightarrow> ingress_path" where
  "http_path cr component path =
     \<lparr>ip_Path = path, ip_PathType = ''Prefix'',
      ip_Service = adis_Astarte (adi_Spec cr) @ ''-'' @ ServiceName component, ip_Port = ''http''\<rparr>"

definition getDashboardHost :: "AstarteDefaultIngress \<Rightarrow> Astarte \<Rightarrow> string" where
  "getDashboardHost cr parent =
     (if adid_Host (adis_Dashboard (adi_Spec cr)) = '''' then api_Host (spec_API (ast_Spec parent))
      else adid_Host (adis_Dashboard (adi_Spec cr)))"

definition getDashboardServiceRelativePath :: "AstarteDefaultIngress \<Rightarrow> string" where
  "getDashboardServiceRelativePath cr =
     (if \<not> HAProxyIngressControllerSelected cr then
        (if adid_Host (adis_Dashboard (adi_Spec cr)) = ''''
         then ''/'' @ ServiceRelativePath Dashboard @ ''(/|$)(.*)'' else ''/()(.*)'')
      else if adid_Host (adis_Dashboard (adi_Spec cr)) = '''' then ''/'' @ ServiceRelativePath Dashboard
      else ''/'')"

definition getHAProxyAPIIngressRules :: "AstarteDefaultIngress \<Rightarrow> Astarte \<Rightarrow> ingress_rule list" where
  "getHAProxyAPIIngressRules cr parent =
     (let apiPaths =
            map (\<lambda>component. http_path cr component (''/'' @ ServiceRelativePath component))
              (filter (IsAstarteComponentDeployed parent) (exposed_components cr));
          ingressRules = [\<lparr>ir_Host = api_Host (spec_API (ast_Spec parent)), ir_Paths = apiPaths\<rparr>]
      in if \<not> PtrValue (adid_Deploy (adis_Dashboard (adi_Spec cr))) True then ingressRules
         else ingressRules @
           [\<lparr>ir_Host = getDashboardHost cr parent,
             ir_Paths = [http_path cr Dashboard (getDashboardServiceRelativePath cr)]\<rparr>])"

definition getNgnixAPIIngressRules :: "AstarteDefaultIngress \<Rightarrow> Astarte \<Rightarrow> ingress_rule list" where
  "getNgnixAPIIngressRules cr parent =
     map (\<lambda>component.
            \<lparr>ir_Host = api_Host (spec_API (ast_Spec parent)),
             ir_Paths = [http_path cr component (''/'' @ ServiceRelativePath component @ ''(/|$)(.*)'')]\<rparr>)
       (filter (IsAstarteComponentDeployed parent) (exposed_components cr))
     @ (if PtrValue (adid_Deploy (adis_Dashboard (adi_Spec cr))) True \<and> IsAstarteComponentDeployed parent Dashboard
        then [\<lparr>ir_Host = getDashboardHost cr parent,
               ir_Paths = [http_path cr Dashboard (getDashboardServiceRelativePath cr)]\<rparr>]
        else [])"

definition getAPIIngressSpec :: "AstarteDefaultIngress \<Rightarrow> Astarte \<Rightarrow> ingress_spec" where
  "getAPIIngressSpec cr parent =
     \<lparr>is_IngressClassName = Some (GetIngressClassName cr),
      is_TLS = getIngressTLS cr parent True,
      is_Rules = (if HAProxyIngressControllerSelected cr then getHAProxyAPIIngressRules cr parent
                  else getNgnixAPIIngressRules cr parent)\<rparr>"

section \<open>Operations\<close>

definition getAPIIngressName :: "AstarteDefaultIngress \<Rightarrow> string" where
  "getAPIIngressName cr = adi_Name cr @ ''-api-ingress''"

definition getConfigMapName :: "AstarteDefaultIngress \<Rightarrow> string" where
  "getConfigMapName cr = adi_Name cr @ ''-api-ingress-config''"

definition getBrokerServiceName :: "AstarteDefaultIngress \<Rightarrow> string" where
  "getBrokerServiceName cr = adi_Name cr @ ''-broker-service''"

definition NewIngress :: "string \<Rightarrow> string \<Rightarrow> kobj" where
  "NewIngress name ns =
     KIngress \<lparr>ing_Meta = NewMeta name ns,
               ing_Spec = \<lparr>is_IngressClassName = None, is_TLS = [], is_Rules = []\<rparr>, ing_Status = ''''\<rparr>"

lemma obj_key_NewIngress [simp]: "obj_key (NewIngress n ns) = (OIngress, ns, n)"
  by (simp add: obj_key_def NewIngress_def)

definition on_ingress :: "(ingress \<Rightarrow> ingress) \<Rightarrow> kobj \<Rightarrow> kobj" where
  "on_ingress f x = (case x of KIngress s \<Rightarrow> KIngress (f s) | _ \<Rightarrow> x)"

definition api_ingress_config :: "AstarteDefaultIngress \<Rightarrow> Astarte \<Rightarrow> smap" where
  "api_ingress_config cr parent =
     [(''use-forwarded-headers'', ''true'')]
     @ (if PtrValue (api_SSL (spec_API (ast_Spec parent))) True \<or> PtrValue (adid_SSL (adis_Dashboard (adi_Spec cr))) True
        then [(''hsts'', FormatBool True), (''hsts-preload'', FormatBool True),
              (''hsts-include-subdomains'', FormatBool True), (''hsts-max-age'', ''180'')]
        else [])"

definition EnsureAPIIngress :: "env \<Rightarrow> AstarteDefaultIngress \<Rightarrow> Astarte \<Rightarrow> unit io" where
  "EnsureAPIIngress E cr parent =
     (let ingressName = getAPIIngressName cr in
      if \<not> PtrValue (adia_Deploy (adis_API (adi_Spec cr))) True then
        on_result (Get E OIngress (adi_Namespace cr) ingressName) (\<lambda>r.
          case r of Inl _ \<Rightarrow> ret () | Inr x \<Rightarrow> DeleteObj E x)
      else
        bnd (CreateOrUpdate E (NewConfigMap (getConfigMapName cr) (adi_Namespace cr))
               (owned E (KIngressCR cr) (on_config_map (\<lambda>c. c\<lparr>cm_Data := api_ingress_config cr parent\<rparr>)))) (\<lambda>_.
        bnd (CreateOrUpdate E (NewIngress ingressName (adi_Namespace cr))
               (owned E (KIngressCR cr) (on_ingress (\<lambda>i. i\<lparr>
                  ing_Meta := (ing_Meta i)\<lparr>om_Annotations := Some (getCommonIngressAnnotations cr parent)\<rparr>,
                  ing_Spec := getAPIIngressSpec cr parent\<rparr>)))) (\<lambda>_.
          ret ())))"

definition broker_service :: "AstarteDefaultIngress \<Rightarrow> Astarte \<Rightarrow> service \<Rightarrow> service" where
  "broker_service cr parent s =
     (let broker = adis_Broker (adi_Spec cr);
          s1 = s\<lparr>svc_Selector := [(''app'', adis_Astarte (adi_Spec cr) @ ''-vernemq'')],
                 svc_Meta := (svc_Meta s)\<lparr>om_Annotations := adib_ServiceAnnotations broker\<rparr>,
                 svc_Ports := [\<lparr>sp_Name = '''',
                   sp_Port = PtrValue (hp_Port (vmq_HostAndPort (spec_VerneMQ (ast_Spec parent)))) 8883,
                   sp_TargetPort = IntPort 8883, sp_Protocol = ''''\<rparr>],
                 svc_Type := adib_ServiceType broker,
                 svc_ExternalTrafficPolicy := ''Local''\<rparr>
      in if adib_LoadBalancerIP broker \<noteq> '''' \<and> adib_ServiceType broker = ''LoadBalancer''
         then s1\<lparr>svc_LoadBalancerIP := adib_LoadBalancerIP broker\<rparr> else s1)"

definition EnsureBrokerIngress :: "env \<Rightarrow> AstarteDefaultIngress \<Rightarrow> Astarte \<Rightarrow> unit io" where
  "EnsureBrokerIngress E cr parent =
     (let brokerServiceName = getBrokerServiceName cr in
      if \<not> PtrValue (adib_Deploy (adis_Broker (adi_Spec cr))) True then
        on_result (Get E OService (adi_Namespace cr) brokerServiceName) (\<lambda>r.
          case r of Inl _ \<Rightarrow> ret () | Inr x \<Rightarrow> DeleteObj E x)
      else
        bnd (CreateOrUpdate E (NewService brokerServiceName (adi_Namespace cr))
               (owned E (KIngressCR cr) (on_service (broker_service cr parent)))) (\<lambda>_. ret ()))"

section \<open>Status and controller\<close>

definition computeAPIStatus :: "env \<Rightarrow> AstarteDefaultIngress \<Rightarrow> string io" where
  "computeAPIStatus E instnc =
     (if \<not> PtrValue (adia_Deploy (adis_API (adi_Spec instnc))) True then ret ''''
      else on_result (Get E OIngress (adi_Namespace instnc) (adi_Name instnc @ ''-api-ingress'')) (\<lambda>r.
        case r of Inr (KIngress i) \<Rightarrow> ret (ing_Status i) | _ \<Rightarrow> ret ''''))"

definition computeBrokerStatus :: "env \<Rightarrow> AstarteDefaultIngress \<Rightarrow> string io" where
  "computeBrokerStatus E instnc =
     (if \<not> PtrValue (adib_Deploy (adis_Broker (adi_Spec instnc))) True then ret ''''
      else on_result (Get E OService (adi_Namespace instnc) (adi_Name instnc @ ''-broker-service'')) (\<lambda>r.
        case r of Inr (KService s) \<Rightarrow> ret (svc_Status s) | _ \<Rightarrow> ret ''''))"

definition ComputeADIStatusResource :: "env \<Rightarrow> AstarteDefaultIngress \<Rightarrow> AstarteDefaultIngressStatus io" where
  "ComputeADIStatusResource E instnc =
     bnd (computeAPIStatus E instnc) (\<lambda>api.
     bnd (computeBrokerStatus E instnc) (\<lambda>broker.
       ret ((adi_Status instnc)\<lparr>adit_APIStatus := api, adit_BrokerStatus := broker\<rparr>)))"

text \<open>
  The result of a reconciliation: whether it asks to be run again and after how many seconds, and
  the error, which comes along with it.
\<close>

record ctrl_result =
  cr_Requeue :: bool
  cr_RequeueAfter :: int

definition NoRequeue :: ctrl_result where
  "NoRequeue = \<lparr>cr_Requeue = False, cr_RequeueAfter = 0\<rparr>"

type_synonym reconcile_result = "ctrl_result \<times> err option"

text \<open>The early return of a handler when a step fails: no requeue of its own, and the error.\<close>

definition or_return :: "'a io \<Rightarrow> ('a \<Rightarrow> reconcile_result io) \<Rightarrow> reconcile_result io" where
  "or_return m f = on_result m (\<lambda>r. case r of Inl e \<Rightarrow> ret (NoRequeue, Some e) | Inr x \<Rightarrow> f x)"

definition as_adi :: "kobj \<Rightarrow> err + AstarteDefaultIngress" where
  "as_adi x = (case x of KIngressCR a \<Rightarrow> Inr a | _ \<Rightarrow> Inl (ErrApi ''unexpected kind''))"

definition as_astarte :: "kobj \<Rightarrow> err + Astarte" where
  "as_astarte x = (case x of KAstarte a \<Rightarrow> Inr a | _ \<Rightarrow> Inl (ErrApi ''unexpected kind''))"

definition GetADI :: "env \<Rightarrow> string \<Rightarrow> string \<Rightarrow> AstarteDefaultIngress io" where
  "GetADI E ns n = bnd (Get E OIngressCR ns n) (\<lambda>x. lift (as_adi x))"

definition GetAstarte :: "env \<Rightarrow> string \<Rightarrow> string \<Rightarrow> Astarte io" where
  "GetAstarte E ns n = bnd (Get E OAstarte ns n) (\<lambda>x. lift (as_astarte x))"

definition adi_Reconcile :: "env \<Rightarrow> string \<Rightarrow> string \<Rightarrow> reconcile_result io" where
  "adi_Reconcile E ns name =
     on_result (GetADI E ns name) (\<lambda>r.
       case r of
         Inl e \<Rightarrow> ret (NoRequeue, if e = ErrNotFound then None else Some e)
       | Inr instnc \<Rightarrow>
          on_result (GetAstarte E (adi_Namespace instnc) (adis_Astarte (adi_Spec instnc))) (\<lambda>r.
            case r of
              Inl e \<Rightarrow>
               (if e = ErrNotFound
                then ret (\<lparr>cr_Requeue = True, cr_RequeueAfter = 30\<rparr>,
                          Some (ErrGo (''the Astarte Instance '' @ adis_Astarte (adi_Spec instnc)
                                       @ '' associated to this Ingress object cannot be found'')))
                else ret (NoRequeue, Some e))
            | Inr astarte \<Rightarrow>
                or_return (EnsureAPIIngress E instnc astarte) (\<lambda>_.
                or_return (EnsureBrokerIngress E instnc astarte) (\<lambda>_.
                or_return (RetryOnConflict E
                  (bnd (GetADI E ns name) (\<lambda>instnc.
                   bnd (ComputeADIStatusResource E instnc) (\<lambda>status.
                     StatusUpdate E (KIngressCR (instnc\<lparr>adi_Status := status\<rparr>)))))) (\<lambda>_.
                  ret (NoRequeue, None))))))"

text \<open>
  Which updates of a watched resource reach the controller, and which resources a change of an
  Astarte resource leads to.
\<close>

definition adi_update_relevant :: "object_meta \<Rightarrow> object_meta \<Rightarrow> bool" where
  "adi_update_relevant old new \<longleftrightarrow>
     om_Generation old \<noteq> om_Generation new \<or>
     PtrValue (nil_map_lookup (om_Annotations old) AnnotationIngressControllerSelector) '''' \<noteq>
     PtrValue (nil_map_lookup (om_Annotations new) AnnotationIngressControllerSelector) ''''"

definition astarteToADIReconcileRequestFunc :: "env \<Rightarrow> object_meta \<Rightarrow> (string \<times> string) list io" where
  "astarteToADIReconcileRequestFunc E obj =
     on_result (ListObjs E OIngressCR (Some (om_Namespace obj)) []) (\<lambda>r.
       ret (case r of
              Inl _ \<Rightarrow> []
            | Inr items \<Rightarrow>
                map (\<lambda>x. (om_Name (obj_meta x), om_Namespace (obj_meta x)))
                  (filter (\<lambda>x. case x of KIngressCR a \<Rightarrow> adis_Astarte (adi_Spec a) = om_Name obj | _ \<Rightarrow> False) items)))"

end
