(* ===== verification/Controllers.thy ===== *)
theory Controllers
  imports Reconcile_Components Ingress
begin

text \<open>
  The controller of the Astarte resource: health, status, upgrades and the sequence of
  reconciliations (\<open>internal/controllerutils/astarte_controller.go\<close>), finalization
  (\<open>astarte_finalizer.go\<close>) and the handler itself (\<open>internal/controller/api\<close>). The texts of
  recorded events are left out: an event is its type and its reason.
\<close>

section \<open>Health\<close>

definition deployment_not_ready :: "kobj \<Rightarrow> bool" where
  "deployment_not_ready x =
     (case x of KDeployment d \<Rightarrow> d_ReadyReplicas d = 0 \<and> 0 < PtrValue (dp_Replicas (d_Spec d)) 0 | _ \<Rightarrow> False)"

definition computeCFSSLHealth :: "env \<Rightarrow> Astarte \<Rightarrow> bool io" where
  "computeCFSSLHealth E instnc =
     (if \<not> PtrValue (cfssl_Deploy (spec_CFSSL (ast_Spec instnc))) True then ret True
      else on_result (Get E ODeployment (cr_Namespace instnc) (cr_Name instnc @ ''-cfssl'')) (\<lambda>r.
        ret (case r of
               Inl _ \<Rightarrow> False
             | Inr x \<Rightarrow> (case x of KDeployment d \<Rightarrow> d_ReadyReplicas d \<noteq> 0 | _ \<Rightarrow> False))))"

definition vernemq_health :: "env \<Rightarrow> Astarte \<Rightarrow> int io" where
  "vernemq_health E instnc =
     (if PtrValue (gcr_Deploy (vmq_Generic (spec_VerneMQ (ast_Spec instnc)))) True
      then on_result (Get E OStatefulSet (cr_Namespace instnc) (cr_Name instnc @ ''-vernemq'')) (\<lambda>r.
        ret (case r of
               Inl _ \<Rightarrow> 1
             | Inr x \<Rightarrow> (case x of KStatefulSet s \<Rightarrow> (if ss_ReadyReplicas s = 0 then 1 else 0) | _ \<Rightarrow> 1)))
      else ret 0)"

definition health_of :: "int \<Rightarrow> AstarteClusterHealth" where
  "health_of nonReadyDeployments =
     (if nonReadyDeployments = 0 then AstarteClusterHealthGreen
      else if nonReadyDeployments = 1 then AstarteClusterHealthYellow
      else AstarteClusterHealthRed)"

definition ComputeClusterHealth :: "env \<Rightarrow> Astarte \<Rightarrow> AstarteClusterHealth io" where
  "ComputeClusterHealth E instnc =
     bnd (on_result (ListObjs E ODeployment (Some (cr_Namespace instnc)) [(''component'', ''astarte'')]) (\<lambda>r.
            ret (case r of
                   Inl _ \<Rightarrow> 5
                 | Inr items \<Rightarrow> int (length (filter deployment_not_ready items))))) (\<lambda>n.
     bnd (vernemq_health E instnc) (\<lambda>v.
     bnd (computeCFSSLHealth E instnc) (\<lambda>cfssl.
       ret (health_of (n + v + (if \<not> cfssl then 1 else 0))))))"

section \<open>Upgrades\<close>

definition health_refusal :: err where
  "health_refusal =
     ErrGo ''Astarte Upgrade requested, but the cluster isn't reporting stable Health. Refusing to upgrade''"

definition CheckAndPerformUpgrade :: "env \<Rightarrow> Astarte \<Rightarrow> reconcile_result io" where
  "CheckAndPerformUpgrade E instnc =
     bnd (ComputeClusterHealth E instnc) (\<lambda>computedClusterHealth.
       if computedClusterHealth \<noteq> AstarteClusterHealthGreen
          \<and> status_Health (ast_Status instnc) \<noteq> AstarteClusterHealthGreen
       then bnd (Recorder_Event ''Warning'' (event_String AstarteResourceEventCriticalError)) (\<lambda>_.
              ret (NoRequeue, Some health_refusal))
       else bnd (do_when (Contains (status_AstarteVersion (ast_Status instnc)) ''-snapshot'')
                   (Recorder_Event ''Normal'' (event_String AstarteResourceEventUpgrade))) (\<lambda>_.
              ret (NoRequeue, None)))"

section \<open>Status\<close>

definition ComputeAstarteStatusResource :: "env \<Rightarrow> Astarte \<Rightarrow> AstarteStatus io" where
  "ComputeAstarteStatusResource E instnc =
     (let oldAstarteHealth = status_Health (ast_Status instnc) in
      bnd (ComputeClusterHealth E instnc) (\<lambda>health.
      bnd (do_when (oldAstarteHealth \<noteq> health \<and> oldAstarteHealth \<noteq> HealthUnset)
             (Recorder_Event (if oldAstarteHealth = AstarteClusterHealthGreen then ''Warning'' else ''Normal'')
                (event_String AstarteResourceEventStatus))) (\<lambda>_.
        ret ((ast_Status instnc)\<lparr>
          status_Health := health,
          status_AstarteVersion := spec_Version (ast_Spec instnc),
          status_OperatorVersion := Version,
          status_ReconciliationPhase :=
            (if spec_ManualMaintenanceMode (ast_Spec instnc) then ReconciliationPhaseManualMaintenanceMode
             else ReconciliationPhaseReconciled),
          status_BaseAPIURL := ''https://'' @ api_Host (spec_API (ast_Spec instnc)),
          status_BrokerURL := GetVerneMQBrokerURL instnc\<rparr>))))"

definition update_astarte_status :: "env \<Rightarrow> string \<Rightarrow> string \<Rightarrow> unit io" where
  "update_astarte_status E ns name =
     bnd (GetAstarte E ns name) (\<lambda>instnc.
     bnd (ComputeAstarteStatusResource E instnc) (\<lambda>status.
       StatusUpdate E (KAstarte (instnc\<lparr>ast_Status := status\<rparr>))))"

text \<open>
  The status of a resource that has lost its version is rebuilt from Housekeeping's image. The
  result is what the handler's own copy of the resource has become: the fields set before the
  resource is read again, but not the version.
\<close>

definition housekeeping_image :: "kobj \<Rightarrow> err + string" where
  "housekeeping_image x =
     (case x of
        KDeployment d \<Rightarrow>
         (case ps_Containers (pt_Spec (dp_Template (d_Spec d))) of
            [] \<Rightarrow> Inl (GoPanic ''index out of range'')
          | c # cs \<Rightarrow> Inr (c_Image c))
      | _ \<Rightarrow> Inl (GoPanic ''index out of range''))"

definition unreadable_image :: "string \<Rightarrow> err" where
  "unreadable_image hkImage =
     ErrGo (''Could not parse Astarte version from Housekeeping Image tag '' @ hkImage @ ''. Refusing to proceed'')"

definition rebuilt_status :: "Astarte \<Rightarrow> Astarte" where
  "rebuilt_status instnc =
     instnc\<lparr>ast_Status := (ast_Status instnc)\<lparr>
       status_ReconciliationPhase := ReconciliationPhaseReconciling,
       status_OperatorVersion := Version,
       status_Health := AstarteClusterHealthRed,
       status_BaseAPIURL := api_Host (spec_API (ast_Spec instnc)),
       status_BrokerURL := hp_Host (vmq_HostAndPort (spec_VerneMQ (ast_Spec instnc)))\<rparr>\<rparr>"

definition restore_version :: "env \<Rightarrow> string \<Rightarrow> string \<Rightarrow> string \<Rightarrow> unit io" where
  "restore_version E ns name v =
     bnd (GetAstarte E ns name) (\<lambda>instnc.
     on_result (StatusUpdate E (KAstarte (instnc\<lparr>ast_Status := (ast_Status instnc)\<lparr>status_AstarteVersion := v\<rparr>\<rparr>))) (\<lambda>r.
       case r of
         Inr _ \<Rightarrow> ret ()
       | Inl e \<Rightarrow> bnd (Recorder_Event ''Warning'' (event_String AstarteResourceEventReconciliationFailed)) (\<lambda>_. fail e)))"

definition EnsureStatusCoherency ::
    "env \<Rightarrow> Astarte \<Rightarrow> string \<Rightarrow> string \<Rightarrow> (ctrl_result \<times> err option \<times> Astarte) io" where
  "EnsureStatusCoherency E instnc ns name =
     (if status_AstarteVersion (ast_Status instnc) \<noteq> '''' then ret (NoRequeue, None, instnc)
      else on_result (Get E ODeployment (cr_Namespace instnc) (cr_Name instnc @ ''-housekeeping'')) (\<lambda>r.
        case r of
          Inl e \<Rightarrow>
            (if e \<noteq> ErrNotFound then ret (NoRequeue, Some e, instnc)
             else bnd (Recorder_Event ''Normal'' (event_String AstarteResourceEventStatus)) (\<lambda>_. ret (NoRequeue, None, instnc)))
        | Inr hkDeployment \<Rightarrow>
            bnd (lift (housekeeping_image hkDeployment)) (\<lambda>hkImage.
            let instnc1 = rebuilt_status instnc; hkImageTokens = Split CHR '':'' hkImage
            in if length hkImageTokens \<noteq> 2
               then bnd (Recorder_Event ''Warning'' (event_String AstarteResourceEventCriticalError)) (\<lambda>_.
                      ret (\<lparr>cr_Requeue = False, cr_RequeueAfter = 60\<rparr>, Some (unreadable_image hkImage), instnc1))
               else on_result (RetryOnConflict E (restore_version E ns name (hkImageTokens ! 1))) (\<lambda>r.
                 case r of
                   Inl e \<Rightarrow> ret (NoRequeue, Some e, instnc1)
                 | Inr _ \<Rightarrow>
                     bnd (Recorder_Event ''Normal'' (event_String AstarteResourceEventMigration)) (\<lambda>_.
                     on_result (GetAstarte E ns name) (\<lambda>r.
                       case r of
                         Inl e \<Rightarrow> ret (NoRequeue, Some e, instnc1)
                       | Inr _ \<Rightarrow> bnd (Recorder_Event ''Normal'' (event_String AstarteResourceEventStatus)) (\<lambda>_.
                                  ret (NoRequeue, None, instnc1))))))))"

section \<open>The sequence of reconciliations\<close>

fun in_order :: "unit io list \<Rightarrow> unit io" where
  "in_order [] = ret ()"
| "in_order (m # ms) = bnd m (\<lambda>_. in_order ms)"

definition EnsureAstarteMicroservices :: "('v, 'c) world \<Rightarrow> Astarte \<Rightarrow> unit io" where
  "EnsureAstarteMicroservices W instnc =
     (let cs = spec_Components (ast_Spec instnc) in in_order
       [EnsureAstarteGenericAPIComponent W instnc (comp_Housekeeping cs) Housekeeping,
        EnsureAstarteGenericAPIComponent W instnc (comp_RealmManagement cs) RealmManagement,
        EnsureAstarteGenericAPIComponent W instnc (comp_Pairing cs) Pairing,
        EnsureAstarteGenericAPIComponent W instnc (comp_Flow cs) FlowComponent,
        EnsureAstarteGenericBackend W instnc (te_Generic (comp_TriggerEngine cs)) TriggerEngine,
        EnsureAstarteDataUpdaterPlant W instnc (comp_DataUpdaterPlant cs),
        EnsureAstarteGenericAPIComponent W instnc (ae_GenericAPI (comp_AppengineAPI cs)) AppEngineAPI])"

definition ReconcileAstarteResources :: "('v, 'c) world \<Rightarrow> Astarte \<Rightarrow> unit io" where
  "ReconcileAstarteResources W instnc = in_order
     [EnsureHousekeepingKey W instnc,
      EnsureSecretKeyBase W instnc,
      EnsureGenericErlangConfiguration W instnc,
      EnsureErlangClusteringCookie W instnc,
      EnsureAstartePriorityClasses W instnc,
      EnsureCFSSL W instnc,
      EnsureAstarteMicroservices W instnc,
      EnsureVerneMQ W instnc,
      EnsureAstarteDashboard W instnc (comp_Dashboard (spec_Components (ast_Spec instnc)))]"

section \<open>Finalization\<close>

definition priority_class_names :: "string list" where
  "priority_class_names = [AstarteHighPriorityName, AstarteMidPriorityName, AstarteLowPriorityName]"

definition finalizePriorityClasses :: "env \<Rightarrow> unit io" where
  "finalizePriorityClasses E =
     on_result (ListObjs E OPriorityClass None []) (\<lambda>r.
       case r of
         Inl e \<Rightarrow> if e \<noteq> ErrNotFound then fail e else ret ()
       | Inr items \<Rightarrow>
           for_each (\<lambda>x. DeleteObj E x)
             (filter (\<lambda>x. om_Name (obj_meta x) = AstarteHighPriorityName \<or>
                          om_Name (obj_meta x) = AstarteMidPriorityName \<or>
                          om_Name (obj_meta x) = AstarteLowPriorityName) items))"

definition erasePVCPrefixes :: "string \<Rightarrow> string list" where
  "erasePVCPrefixes name =
     [name @ ''-vernemq-data'', name @ ''-rabbitmq-data'', name @ ''-cfssl-data'', name @ ''-cassandra-data'']"

text \<open>Only the reading of the claims and the priority classes can make it fail.\<close>

definition FinalizeAstarte :: "env \<Rightarrow> string \<Rightarrow> string \<Rightarrow> unit io" where
  "FinalizeAstarte E name namespace =
     bnd (on_result (Get E OSecret namespace (name @ ''-cfssl-ca'')) (\<lambda>r.
       case r of
         Inl _ \<Rightarrow> ret ()
       | Inr theSecret \<Rightarrow> on_result (DeleteObj E theSecret) (\<lambda>_. ret ()))) (\<lambda>_.
     bnd (on_result (ListObjs E OPVC (Some namespace) []) (\<lambda>r.
       case r of
         Inl e \<Rightarrow> if e \<noteq> ErrNotFound then fail e else ret ()
       | Inr pvcs \<Rightarrow>
           for_each (\<lambda>pvc.
             if list_ex (\<lambda>prefix. HasPrefix (om_Name (obj_meta pvc)) prefix) (erasePVCPrefixes name)
             then on_result (DeleteObj E pvc) (\<lambda>_. ret ()) else ret ()) pvcs)) (\<lambda>_.
       finalizePriorityClasses E))"

definition astarteFinalizer :: string where
  "astarteFinalizer = ''astarte.astarte-platform.org/finalizer''"

definition remove_all :: "string list \<Rightarrow> string \<Rightarrow> string list" where
  "remove_all list s = filter (\<lambda>t. t \<noteq> s) list"

definition with_finalizers :: "string list \<Rightarrow> Astarte \<Rightarrow> Astarte" where
  "with_finalizers fs cr = cr\<lparr>ast_Meta := (ast_Meta cr)\<lparr>om_Finalizers := fs\<rparr>\<rparr>"

definition handleFinalization :: "env \<Rightarrow> Astarte \<Rightarrow> reconcile_result io" where
  "handleFinalization E instnc =
     (if astarteFinalizer \<in> set (om_Finalizers (ast_Meta instnc)) then
        or_return (FinalizeAstarte E (cr_Name instnc) (cr_Namespace instnc)) (\<lambda>_.
        or_return (UpdateObj E (KAstarte (with_finalizers
                     (remove_all (om_Finalizers (ast_Meta instnc)) astarteFinalizer) instnc))) (\<lambda>_.
          ret (NoRequeue, None)))
      else ret (NoRequeue, None))"

text \<open>An update leaves in the caller's copy what the server returned.\<close>

definition addFinalizer :: "env \<Rightarrow> Astarte \<Rightarrow> Astarte io" where
  "addFinalizer E cr =
     bnd (UpdateObj E (KAstarte (with_finalizers (om_Finalizers (ast_Meta cr) @ [astarteFinalizer]) cr))) (\<lambda>x.
       lift (as_astarte x))"

section \<open>The handler\<close>

text \<open>The switch on the version of the status: whether an upgrade has to be checked.\<close>

definition check_upgrade :: "env \<Rightarrow> Astarte \<Rightarrow> reconcile_result io" where
  "check_upgrade E instnc =
     (if status_AstarteVersion (ast_Status instnc) = '''' then
        bnd (Recorder_Event ''Normal'' (event_String AstarteResourceEventStatus)) (\<lambda>_. ret (NoRequeue, None))
      else if status_AstarteVersion (ast_Status instnc) = SnapshotVersion then ret (NoRequeue, None)
      else if status_AstarteVersion (ast_Status instnc) \<noteq> spec_Version (ast_Spec instnc)
      then CheckAndPerformUpgrade E instnc
      else ret (NoRequeue, None))"

text \<open>From the switch on: upgrade check, reconciliation, status.\<close>

definition reconcile_checked :: "('v, 'c) world \<Rightarrow> string \<Rightarrow> string \<Rightarrow> Astarte \<Rightarrow> reconcile_result io" where
  "reconcile_checked W ns name instnc =
     (let E = w_env W in
      bnd (check_upgrade E instnc) (\<lambda>(result, err).
        if err \<noteq> None then ret (result, err)
        else
          or_return (ReconcileAstarteResources W instnc) (\<lambda>_.
          or_return (RetryOnConflict E (update_astarte_status E ns name)) (\<lambda>_.
            ret (NoRequeue, None)))))"

text \<open>A resource that is not being deleted: coherent status and finalizer first.\<close>

definition reconcile_live :: "('v, 'c) world \<Rightarrow> string \<Rightarrow> string \<Rightarrow> Astarte \<Rightarrow> reconcile_result io" where
  "reconcile_live W ns name instnc =
     (let E = w_env W in
      bnd (EnsureStatusCoherency E instnc ns name) (\<lambda>(result, err, instnc1).
        if err \<noteq> None then ret (result, err)
        else
          or_return (if astarteFinalizer \<notin> set (om_Finalizers (ast_Meta instnc1))
                     then addFinalizer E instnc1 else ret instnc1) (\<lambda>instnc2.
            reconcile_checked W ns name instnc2)))"

definition astarte_Reconcile :: "('v, 'c) world \<Rightarrow> string \<Rightarrow> string \<Rightarrow> reconcile_result io" where
  "astarte_Reconcile W ns name =
     (let E = w_env W in
      on_result (GetAstarte E ns name) (\<lambda>r.
       case r of
         Inl e \<Rightarrow> ret (NoRequeue, if e = ErrNotFound then None else Some e)
       | Inr instnc \<Rightarrow>
          if spec_ManualMaintenanceMode (ast_Spec instnc) then
            or_return (RetryOnConflict E (update_astarte_status E ns name)) (\<lambda>_. ret (NoRequeue, None))
          else
            on_result (lift (GetAstarteSemanticVersionFrom (lib_semver (w_libs W)) (spec_Version (ast_Spec instnc)))) (\<lambda>r.
              case r of
                Inl e \<Rightarrow>
                  bnd (Recorder_Event ''Warning'' (event_String AstarteResourceEventInconsistentVersion)) (\<lambda>_.
                    ret (\<lparr>cr_Requeue = False, cr_RequeueAfter = 60\<rparr>, Some e))
              | Inr newAstarteSemVersion \<Rightarrow>
                  if om_Deleting (ast_Meta instnc) then handleFinalization E instnc
                  else reconcile_live W ns name instnc)))"

text \<open>
  Updates of a watched resource are relevant when its generation changes; a change of a secret or of
  a config map leads to every Astarte resource of the namespace.
\<close>

definition astarte_update_relevant :: "object_meta \<Rightarrow> object_meta \<Rightarrow> bool" where
  "astarte_update_relevant old new \<longleftrightarrow> om_Generation old \<noteq> om_Generation new"

definition genericToAstarteReconcileRequestFunc :: "env \<Rightarrow> object_meta \<Rightarrow> (string \<times> string) list io" where
  "genericToAstarteReconcileRequestFunc E obj =
     on_result (ListObjs E OAstarte (Some (om_Namespace obj)) []) (\<lambda>r.
       ret (case r of
              Inl _ \<Rightarrow> []
            | Inr items \<Rightarrow> map (\<lambda>x. (om_Name (obj_meta x), om_Namespace (obj_meta x))) items))"

end
