(* ===== verification/Flow_Blocks.thy ===== *)
theory Flow_Blocks
  imports Ingress
begin

text \<open>
  Astarte Flow: the deployment of a flow's blocks (\<open>internal/flow/block.go\<close>) and the controller of
  the Flow resource (\<open>internal/controller/flow/flow_controller.go\<close>). The library that merges maps
  (\<open>mergo\<close>) is the parameter \<open>merge\<close>, with the destination first.
\<close>

section \<open>Names and configuration\<close>

text \<open>Both names are returned as they are, also past the limit of 253 characters.\<close>

definition GenerateBlockName :: "Flow \<Rightarrow> ContainerBlockSpec \<Rightarrow> Astarte \<Rightarrow> string" where
  "GenerateBlockName cr block astarte =
     (let workerName = cr_Name astarte @ ''-flow-'' @ flow_Name cr @ ''-block-'' @ cb_BlockID block
      in if 253 < length workerName then workerName else workerName)"

definition generateWorkerName :: "Flow \<Rightarrow> ContainerBlockSpec \<Rightarrow> BlockWorker \<Rightarrow> Astarte \<Rightarrow> string" where
  "generateWorkerName cr block worker astarte =
     (let workerName = cr_Name astarte @ ''-flow-'' @ flow_Name cr @ ''-block-'' @ cb_BlockID block
                       @ ''-'' @ bw_WorkerID worker
      in if 253 < length workerName then workerName else workerName)"

definition generateDefaultRabbitMQConfiguration :: "env \<Rightarrow> Astarte \<Rightarrow> RabbitMQConfig io" where
  "generateDefaultRabbitMQConfiguration E astarte =
     bnd (GetRabbitMQCredentialsFor E astarte) (\<lambda>(_, _, username, password).
     bnd (lift (GetRabbitMQHostnameAndPort astarte)) (\<lambda>(host, port).
       ret \<lparr>frc_Host = host, frc_Port = port, frc_SSL = Some False,
            frc_Username = username, frc_Password = password\<rparr>))"

definition rabbitmq_config_json :: "RabbitMQConfig \<Rightarrow> json" where
  "rabbitmq_config_json c =
     JObj ([(''host'', JStr (frc_Host c))]
           @ (if frc_Port c \<noteq> 0 then [(''port'', JNum (frc_Port c))] else [])
           @ (case frc_SSL c of None \<Rightarrow> [] | Some b \<Rightarrow> [(''ssl'', JBool b)])
           @ [(''username'', JStr (frc_Username c)), (''password'', JStr (frc_Password c))])"

definition rabbitmq_exchange_json :: "RabbitMQExchange \<Rightarrow> json" where
  "rabbitmq_exchange_json x =
     JObj [(''name'', JStr (fre_Name x)), (''routingKey'', JStr (fre_RoutingKey x))]"

definition rabbitmq_provider_json :: "RabbitMQDataProvider \<Rightarrow> json" where
  "rabbitmq_provider_json p =
     JObj ((if frd_Queues p \<noteq> [] then [(''queues'', JArr (map JStr (frd_Queues p)))] else [])
           @ (case frd_Exchange p of None \<Rightarrow> [] | Some x \<Rightarrow> [(''exchange'', rabbitmq_exchange_json x)])
           @ (case frd_RabbitMQConfig p of None \<Rightarrow> [] | Some c \<Rightarrow> [(''rabbitmq'', rabbitmq_config_json c)]))"

definition generateWorkerConfigurationFor :: "BlockWorker \<Rightarrow> RabbitMQConfig \<Rightarrow> smap" where
  "generateWorkerConfigurationFor worker defaultRmqConfig =
     (case dp_RabbitMQ (bw_DataProvider worker) of
        None \<Rightarrow> []
      | Some p \<Rightarrow>
         (let rmqConfig = (if frd_RabbitMQConfig p = None
                           then p\<lparr>frd_RabbitMQConfig := Some defaultRmqConfig\<rparr> else p)
          in [(''rabbitmq.conf'', json_text (rabbitmq_provider_json rmqConfig))]))"

section \<open>Containers and volumes\<close>

definition worker_volume :: "BlockWorker \<Rightarrow> string" where
  "worker_volume w = ''worker-'' @ bw_WorkerID w @ ''-config''"

definition ensureWorkerContainer :: "ContainerBlockSpec \<Rightarrow> BlockWorker \<Rightarrow> container" where
  "ensureWorkerContainer block worker =
     \<lparr>c_Name = bw_WorkerID worker,
      c_Image = cb_Image block,
      c_ImagePullPolicy = ''Always'',
      c_Ports = [],
      c_VolumeMounts =
        [\<lparr>vm_Name = ''block-config'', vm_MountPath = ''/config/block'', vm_ReadOnly = True\<rparr>,
         \<lparr>vm_Name = worker_volume worker, vm_MountPath = ''/config/worker'', vm_ReadOnly = True\<rparr>],
      c_Env = cb_Environment block,
      c_Resources = cb_Resources block,
      c_ReadinessProbe = None, c_LivenessProbe = None, c_StartupProbe = None,
      c_SecurityContext = Some \<lparr>sc_Privileged = Some False, sc_RunAsNonRoot = Some False,
        sc_AllowPrivilegeEscalation = Some False, sc_ReadOnlyRootFilesystem = Some False\<rparr>\<rparr>"

definition generateVolumesFor :: "Flow \<Rightarrow> ContainerBlockSpec \<Rightarrow> Astarte \<Rightarrow> volume list" where
  "generateVolumesFor cr block astarte =
     [\<lparr>vol_Name = ''block-config'', vol_Source = VolSecret (GenerateBlockName cr block astarte) [] None\<rparr>]
     @ map (\<lambda>w. \<lparr>vol_Name = worker_volume w, vol_Source = VolSecret (generateWorkerName cr block w astarte) [] None\<rparr>)
         (cb_Workers block)"

section \<open>Reconciling a block\<close>

type_synonym merger = "smap \<Rightarrow> smap \<Rightarrow> err + smap"

text \<open>Objects by name, as the map built from a list: a later object replaces an earlier one.\<close>

definition by_name :: "kobj list \<Rightarrow> (string \<times> kobj) list" where
  "by_name xs = fold (\<lambda>x m. AList.update (om_Name (obj_meta x)) x m) xs []"

fun getFlowWorkerContainers ::
    "env \<Rightarrow> merger \<Rightarrow> (string \<times> kobj) list \<Rightarrow> smap \<Rightarrow> RabbitMQConfig \<Rightarrow> Flow \<Rightarrow> ContainerBlockSpec \<Rightarrow> Astarte \<Rightarrow>
     BlockWorker list \<Rightarrow> ((string \<times> kobj) list \<times> container list) io" where
  "getFlowWorkerContainers E merge existing baseLabels rmq cr block astarte [] = ret (existing, [])"
| "getFlowWorkerContainers E merge existing baseLabels rmq cr block astarte (w # ws) =
     (let workerName = generateWorkerName cr block w astarte in
      bnd (lift (merge [(''flow-component'', ''worker''), (''flow-configuration-type'', ''worker-configuration''),
                        (''flow-worker'', bw_WorkerID w)] baseLabels)) (\<lambda>workerLabels.
      bnd (ReconcileSecretStringWithLabels E workerName (generateWorkerConfigurationFor w rmq) workerLabels (KFlow cr)) (\<lambda>_.
      bnd (getFlowWorkerContainers E merge (AList.delete workerName existing) baseLabels rmq cr block astarte ws)
        (\<lambda>(left, containers). ret (left, ensureWorkerContainer block w # containers)))))"

definition block_base_labels :: "Flow \<Rightarrow> ContainerBlockSpec \<Rightarrow> smap" where
  "block_base_labels cr block =
     [(''component'', ''astarte-flow''), (''flow-block'', cb_BlockID block), (''flow-name'', flow_Name cr)]"

definition EnsureBlock :: "env \<Rightarrow> merger \<Rightarrow> Flow \<Rightarrow> ContainerBlockSpec \<Rightarrow> Astarte \<Rightarrow> unit io" where
  "EnsureBlock E merge cr block astarte =
     (let baseLabels = block_base_labels cr block; blockName = GenerateBlockName cr block astarte in
      bnd (lift (merge [(''flow-component'', ''block''), (''flow-configuration-type'', ''block-configuration'')] baseLabels)) (\<lambda>blockSecretLabels.
      bnd (ReconcileSecretStringWithLabels E blockName [(''config.json'', cb_Configuration block)] baseLabels (KFlow cr)) (\<lambda>_.
      bnd (generateDefaultRabbitMQConfiguration E astarte) (\<lambda>defaultRmqConfig.
      bnd (lift (merge [(''flow-component'', ''worker''), (''flow-configuration-type'', ''worker-configuration'')] baseLabels)) (\<lambda>baseWorkerLabels.
      bnd (ListObjs E OSecret (Some (flow_Namespace cr)) baseWorkerLabels) (\<lambda>secrets.
      bnd (getFlowWorkerContainers E merge (by_name secrets) baseLabels defaultRmqConfig cr block astarte (cb_Workers block)) (\<lambda>(existing, workerContainers).
      bnd (CreateOrUpdate E (NewDeployment blockName (flow_Namespace cr)) (\<lambda>x.
             bnd (SetControllerReference E (KFlow cr) x) (\<lambda>x1.
             bnd (lift (merge [(''flow-component'', ''block'')] baseLabels)) (\<lambda>blockLabels.
               ret (on_deployment (\<lambda>d. d\<lparr>d_Meta := (d_Meta d)\<lparr>om_Labels := blockLabels\<rparr>,
                 d_Spec := \<lparr>dp_Selector = blockLabels, dp_Strategy = StrategyOf ''Recreate'',
                   dp_Template = \<lparr>pt_Labels = blockLabels, pt_Annotations = [],
                     pt_Spec = EmptyPodSpec\<lparr>ps_Containers := workerContainers,
                       ps_Volumes := generateVolumesFor cr block astarte,
                       ps_ImagePullSecrets := cb_ImagePullSecrets block\<rparr>\<rparr>,
                   dp_Replicas = Some 1\<rparr>\<rparr>) x1))))) (\<lambda>_.
        for_each (\<lambda>(_, secret). DeleteObj E secret) existing))))))))"

section \<open>The state of a flow\<close>

text \<open>One container that has terminated, or waits with a reason that starts with \<open>Err\<close>, fails its block.\<close>

definition failing_states :: "container_state list \<Rightarrow> container_state list" where
  "failing_states cs =
     filter (\<lambda>(terminated, waiting). terminated \<noteq> None \<or>
        (case waiting of None \<Rightarrow> False | Some reason \<Rightarrow> HasPrefix reason ''Err'')) cs"

definition computePodsFailureForBlock :: "pod list \<Rightarrow> bool \<times> container_state list" where
  "computePodsFailureForBlock podList =
     (let failures = concat (map (\<lambda>p. failing_states (pod_ContainerStates p))
                               (filter (\<lambda>p. pod_Phase p \<noteq> ''Running'') podList))
      in (failures \<noteq> [], failures))"

record blocks_state =
  bs_Total :: int
  bs_Ready :: int
  bs_Failing :: int
  bs_Cpu :: quantity
  bs_Memory :: quantity
  bs_Failures :: "container_state list"

definition add_requests :: "quantity_lib \<Rightarrow> container list \<Rightarrow> blocks_state \<Rightarrow> blocks_state" where
  "add_requests ql cs st =
     foldl (\<lambda>s c. s\<lparr>bs_Cpu := ql_Add ql (bs_Cpu s) (ql_Cpu ql (rr_Requests (c_Resources c))),
                    bs_Memory := ql_Add ql (bs_Memory s) (ql_Memory ql (rr_Requests (c_Resources c)))\<rparr>) st cs"

definition pods_of :: "kobj list \<Rightarrow> pod list" where
  "pods_of xs = concat (map (\<lambda>x. case x of KPod p \<Rightarrow> [p] | _ \<Rightarrow> []) xs)"

definition deployments_of :: "kobj list \<Rightarrow> deployment list" where
  "deployments_of xs = concat (map (\<lambda>x. case x of KDeployment d \<Rightarrow> [d] | _ \<Rightarrow> []) xs)"

text \<open>The pods of a block that is not ready are looked at; if they cannot be read, it is skipped.\<close>

definition block_step :: "env \<Rightarrow> quantity_lib \<Rightarrow> Flow \<Rightarrow> deployment \<Rightarrow> blocks_state \<Rightarrow> blocks_state io" where
  "block_step E ql instnc b st =
     (let st1 = add_requests ql (ps_Containers (pt_Spec (dp_Template (d_Spec b)))) (st\<lparr>bs_Total := bs_Total st + 1\<rparr>)
      in if d_ReadyReplicas b = d_StatusReplicas b then ret (st1\<lparr>bs_Ready := bs_Ready st1 + 1\<rparr>)
         else on_result (ListObjs E OPod (Some (flow_Namespace instnc))
                [(''flow-block'', PtrValue (map_of (om_Labels (d_Meta b)) ''flow-block'') '''')]) (\<lambda>r.
           case r of
             Inl _ \<Rightarrow> ret st1
           | Inr pods \<Rightarrow>
              (let (podsFailure, failures) = computePodsFailureForBlock (pods_of pods) in
               ret (if podsFailure
                    then st1\<lparr>bs_Failing := bs_Failing st1 + 1, bs_Failures := bs_Failures st1 @ failures\<rparr>
                    else st1))))"

fun blocks_loop :: "env \<Rightarrow> quantity_lib \<Rightarrow> Flow \<Rightarrow> deployment list \<Rightarrow> blocks_state \<Rightarrow> blocks_state io" where
  "blocks_loop E ql instnc [] st = ret st"
| "blocks_loop E ql instnc (b # bs) st = bnd (block_step E ql instnc b st) (\<lambda>st1. blocks_loop E ql instnc bs st1)"

definition computeBlocksState :: "env \<Rightarrow> quantity_lib \<Rightarrow> deployment list \<Rightarrow> Flow \<Rightarrow> blocks_state io" where
  "computeBlocksState E ql blockList instnc =
     blocks_loop E ql instnc blockList
       \<lparr>bs_Total = 0, bs_Ready = 0, bs_Failing = 0,
        bs_Cpu = ql_Cpu ql (fs_NativeBlocksResources (flow_Spec instnc)),
        bs_Memory = ql_Memory ql (fs_NativeBlocksResources (flow_Spec instnc)), bs_Failures = []\<rparr>"

definition getAllBlocksDeploymentsForFlow :: "env \<Rightarrow> Flow \<Rightarrow> kobj list io" where
  "getAllBlocksDeploymentsForFlow E instnc =
     ListObjs E ODeployment (Some (flow_Namespace instnc))
       [(''component'', ''astarte-flow''), (''flow-component'', ''block''), (''flow-name'', flow_Name instnc)]"

definition getAllBlocksForFlow :: "env \<Rightarrow> Flow \<Rightarrow> (string \<times> kobj) list io" where
  "getAllBlocksForFlow E instnc = bnd (getAllBlocksDeploymentsForFlow E instnc) (\<lambda>xs. ret (by_name xs))"

text \<open>
  The new status takes the figures; its resources list the CPU sum under both names. The state is
  computed from the old figures and assigned to the old status, which the caller then replaces.
\<close>

definition flow_state_of :: "FlowStatus \<Rightarrow> FlowState" where
  "flow_state_of s =
     (if ft_TotalContainerBlocks s = 0 then FlowStateUnknown
      else if 0 < ft_FailingContainerBlocks s then FlowStateUnhealthy
      else if ft_TotalContainerBlocks s \<noteq> ft_ReadyContainerBlocks s then FlowStateUnstable
      else FlowStateFlowing)"

definition computeFlowStatusResource :: "env \<Rightarrow> quantity_lib \<Rightarrow> Flow \<Rightarrow> (FlowStatus \<times> Flow) io" where
  "computeFlowStatusResource E ql instnc =
     bnd (getAllBlocksDeploymentsForFlow E instnc) (\<lambda>blockList.
     bnd (computeBlocksState E ql (deployments_of blockList) instnc) (\<lambda>st.
       let newStatus = (flow_Status instnc)\<lparr>
             ft_TotalContainerBlocks := bs_Total st, ft_ReadyContainerBlocks := bs_Ready st,
             ft_FailingContainerBlocks := bs_Failing st,
             ft_Resources := [(''cpu'', bs_Cpu st), (''memory'', bs_Cpu st)],
             ft_UnrecoverableFailures := bs_Failures st\<rparr>
       in ret (newStatus,
               instnc\<lparr>flow_Status := (flow_Status instnc)\<lparr>ft_State := flow_state_of (flow_Status instnc)\<rparr>\<rparr>)))"

section \<open>The controller\<close>

definition as_flow :: "kobj \<Rightarrow> err + Flow" where
  "as_flow x = (case x of KFlow a \<Rightarrow> Inr a | _ \<Rightarrow> Inl (ErrApi ''unexpected kind''))"

definition GetFlow :: "env \<Rightarrow> string \<Rightarrow> string \<Rightarrow> Flow io" where
  "GetFlow E ns n = bnd (Get E OFlow ns n) (\<lambda>x. lift (as_flow x))"

definition getResourcesForReconciliationFor ::
    "env \<Rightarrow> Flow \<Rightarrow> (reconcile_result + Astarte \<times> (string \<times> kobj) list) io" where
  "getResourcesForReconciliationFor E instnc =
     on_result (GetAstarte E (flow_Namespace instnc) (fs_Astarte (flow_Spec instnc))) (\<lambda>r.
       case r of
         Inl e \<Rightarrow>
           ret (Inl (if e = ErrNotFound
                     then (\<lparr>cr_Requeue = True, cr_RequeueAfter = 30\<rparr>,
                           Some (ErrGo (''The Astarte Instance {'' @ fs_Astarte (flow_Spec instnc)
                                        @ ''} associated to this Flow cannot be found'')))
                     else (NoRequeue, Some e)))
       | Inr astarte \<Rightarrow>
           on_result (getAllBlocksForFlow E instnc) (\<lambda>r.
             ret (case r of Inl e \<Rightarrow> Inl (NoRequeue, Some e) | Inr blocks \<Rightarrow> Inr (astarte, blocks))))"

text \<open>All blocks in order; what is left of the existing blocks after removing theirs is returned.\<close>

fun ensure_blocks ::
    "env \<Rightarrow> merger \<Rightarrow> Flow \<Rightarrow> Astarte \<Rightarrow> ContainerBlockSpec list \<Rightarrow> (string \<times> kobj) list \<Rightarrow> (string \<times> kobj) list io" where
  "ensure_blocks E merge instnc astarte [] existing = ret existing"
| "ensure_blocks E merge instnc astarte (b # bs) existing =
     bnd (EnsureBlock E merge instnc b astarte) (\<lambda>_.
       ensure_blocks E merge instnc astarte bs (AList.delete (GenerateBlockName instnc b astarte) existing))"

definition update_flow_status :: "env \<Rightarrow> quantity_lib \<Rightarrow> string \<Rightarrow> string \<Rightarrow> unit io" where
  "update_flow_status E ql ns name =
     bnd (GetFlow E ns name) (\<lambda>instnc.
     bnd (computeFlowStatusResource E ql instnc) (\<lambda>(status, instnc1).
       StatusUpdate E (KFlow (instnc1\<lparr>flow_Status := status\<rparr>))))"

definition flow_Reconcile :: "env \<Rightarrow> quantity_lib \<Rightarrow> merger \<Rightarrow> string \<Rightarrow> string \<Rightarrow> reconcile_result io" where
  "flow_Reconcile E ql merge ns name =
     on_result (GetFlow E ns name) (\<lambda>r.
       case r of
         Inl e \<Rightarrow> ret (NoRequeue, if e = ErrNotFound then None else Some e)
       | Inr instnc \<Rightarrow>
           bnd (getResourcesForReconciliationFor E instnc) (\<lambda>found.
             case found of
               Inl result \<Rightarrow> ret result
             | Inr (astarte, existingBlocks) \<Rightarrow>
                 or_return (ensure_blocks E merge instnc astarte (fs_ContainerBlocks (flow_Spec instnc)) existingBlocks) (\<lambda>left.
                 or_return (for_each (\<lambda>(_, b). DeleteObj E b) left) (\<lambda>_.
                 or_return (RetryOnConflict E (update_flow_status E ql ns name)) (\<lambda>_.
                   ret (NoRequeue, None))))))"

end
