(* ===== verification/Webhooks.thy ===== *)
theory Webhooks
  imports Kube_Api Ingress Pod_Parts
begin

text \<open>
  The validating webhooks: \<open>api/api/v2alpha1/astarte_webhook.go\<close> and
  \<open>api/ingress/v2alpha1/astartedefaultingress_webhook.go\<close>. A validation returns the errors it
  found; reads of the API server go through the environment. \<open>net/url\<close>'s \<open>Parse\<close>, of which
  only success or failure matters, is the parameter \<open>urlOk\<close>.
\<close>

section \<open>Field errors\<close>

datatype field_error_type = FieldInvalid | FieldNotFound | FieldRequired | FieldInternal

text \<open>The detail of an error is a text, or the error of \<open>strconv.Atoi\<close> on a text.\<close>

datatype field_detail = Detail string | AtoiDetail string atoi_error

record field_error =
  fe_Type :: field_error_type
  fe_Field :: "string list"
  fe_Value :: string
  fe_Detail :: field_detail

definition quote :: string where "quote = [CHR 0x27]"

definition Invalid :: "string list \<Rightarrow> string \<Rightarrow> string \<Rightarrow> field_error" where
  "Invalid path v detail = \<lparr>fe_Type = FieldInvalid, fe_Field = path, fe_Value = v, fe_Detail = Detail detail\<rparr>"

definition NotFound :: "string list \<Rightarrow> string \<Rightarrow> field_error" where
  "NotFound path v = \<lparr>fe_Type = FieldNotFound, fe_Field = path, fe_Value = v, fe_Detail = Detail ''''\<rparr>"

definition Required :: "string list \<Rightarrow> string \<Rightarrow> field_error" where
  "Required path detail = \<lparr>fe_Type = FieldRequired, fe_Field = path, fe_Value = '''', fe_Detail = Detail detail\<rparr>"

section \<open>Priority classes\<close>

text \<open>The three values are pointers: reading one that is not set is a panic.\<close>

definition validatePriorityClassesValues :: "AstartePodPrioritiesSpec \<Rightarrow> err + field_error option" where
  "validatePriorityClassesValues p =
     rbind (deref (prio_AstarteHighPriority p)) (\<lambda>highPriorityValue.
     rbind (deref (prio_AstarteMidPriority p)) (\<lambda>midPriorityValue.
     rbind (deref (prio_AstarteLowPriority p)) (\<lambda>lowPriorityValue.
       Inr (if midPriorityValue \<ge> highPriorityValue \<or> lowPriorityValue \<ge> midPriorityValue
            then Some (Invalid [''spec'', ''features'', ''astarte{Low|Medium|High}Priority''] ''''
                         ''Astarte PriorityClass values are incoherent'')
            else None))))"

definition validateAstartePriorityClasses :: "Astarte \<Rightarrow> err + field_error option" where
  "validateAstartePriorityClasses r =
     (case feat_AstartePodPriorities (spec_Features (ast_Spec r)) of
        None \<Rightarrow> Inr None
      | Some p \<Rightarrow> if IsEnabled (Some p) then validatePriorityClassesValues p else Inr None)"

section \<open>Pod labels\<close>

definition reserved_label :: "string \<Rightarrow> bool" where
  "reserved_label k \<longleftrightarrow>
     k = ''component'' \<or> k = ''app'' \<or> HasPrefix k ''astarte-'' \<or> HasPrefix k ''flow-''"

definition validatePodLabelsForClusteredResource :: "('r \<Rightarrow> smap) \<Rightarrow> 'r \<Rightarrow> field_error list" where
  "validatePodLabelsForClusteredResource getLabels r =
     map (\<lambda>(k, v). Invalid [''podLabels''] k
            (''invalid label key: can'' @ quote @ ''t be any of '' @ quote @ ''app'' @ quote @ '', '' @ quote @ ''component'' @ quote @ '', '' @ quote @ ''astarte-*'' @ quote @ '', '' @ quote @ ''flow-*'' @ quote))
       (filter (\<lambda>(k, v). reserved_label k) (getLabels r))"

text \<open>AppEngine API is not among the resources whose labels are checked.\<close>

definition validatePodLabelsForClusteredResources :: "Astarte \<Rightarrow> field_error list" where
  "validatePodLabelsForClusteredResources r =
     (let spec = ast_Spec r; cs = spec_Components spec in
      concat (map (validatePodLabelsForClusteredResource gcr_GetPodLabels)
        [vmq_Generic (spec_VerneMQ spec), gac_Generic (comp_Flow cs), gac_Generic (comp_Housekeeping cs),
         gac_Generic (comp_RealmManagement cs), gac_Generic (comp_Pairing cs),
         dup_Generic (comp_DataUpdaterPlant cs), te_Generic (comp_TriggerEngine cs),
         dash_Generic (comp_Dashboard cs)])
      @ validatePodLabelsForClusteredResource cfssl_GetPodLabels (spec_CFSSL spec))"

section \<open>Autoscaling\<close>

fun first_autoscaled :: "AstarteGenericClusteredResource list \<Rightarrow> field_error option" where
  "first_autoscaled [] = None"
| "first_autoscaled (v # vs) =
     (case gcr_Autoscale v of
        Some a \<Rightarrow>
          if autoscaler_Horizontal a \<noteq> ''''
          then Some (Invalid [''''] ''''
                 ''invalid autoscaler: cannot autoscale horizontally RabbitMQ, DataUpdaterPlant or Cassandra'')
          else first_autoscaled vs
      | None \<Rightarrow> first_autoscaled vs)"

definition validateAutoscalerForClusteredResourcesExcluding ::
    "Astarte \<Rightarrow> AstarteGenericClusteredResource list \<Rightarrow> field_error option" where
  "validateAutoscalerForClusteredResourcesExcluding r excluded =
     (if feat_Autoscaling (spec_Features (ast_Spec r)) then first_autoscaled excluded else None)"

definition validateAutoscalerForClusteredResources :: "Astarte \<Rightarrow> field_error option" where
  "validateAutoscalerForClusteredResources r =
     validateAutoscalerForClusteredResourcesExcluding r
       [dup_Generic (comp_DataUpdaterPlant (spec_Components (ast_Spec r)))]"

section \<open>The system keyspace\<close>

definition keyspace_path :: "string \<Rightarrow> string list" where
  "keyspace_path f = [''spec'', ''cassandra'', ''astarteSystemKeyspace'', f]"

text \<open>
  One entry of the replication map. The factor of a text that is no integer is 0, which is even, so
  that it is reported twice.
\<close>

definition validate_replication :: "string \<Rightarrow> field_error list" where
  "validate_replication dr =
     (let path = keyspace_path ''dataCenterReplication'' in
      case Split CHR '':'' dr of
        [dc, replication] \<Rightarrow>
          (let (dcReplication, err) = Atoi replication in
           (case err of
              Some e \<Rightarrow> [\<lparr>fe_Type = FieldInvalid, fe_Field = path, fe_Value = Join [dc, replication] '':'',
                          fe_Detail = AtoiDetail replication e\<rparr>]
            | None \<Rightarrow> [])
           @ (if go_mod dcReplication 2 = 0
              then [Invalid path (Join [dc, replication] '':'') ''invalid datacenter replication: replication must be odd'']
              else []))
      | parts \<Rightarrow> [Invalid path (Join parts '':'') ''invalid datacenter replication: wrong format''])"

text \<open>A map from strings to integers always has a JSON text: the last check never fails.\<close>

definition validateCreateAstarteSystemKeyspace :: "Astarte \<Rightarrow> field_error list" where
  "validateCreateAstarteSystemKeyspace r =
     (let ask = cass_AstarteSystemKeyspace (spec_Cassandra (ast_Spec r)) in
      if ask_ReplicationStrategy ask = ''SimpleStrategy''
      then (if go_mod (ask_ReplicationFactor ask) 2 = 0
            then [Invalid (keyspace_path ''replicationFactor'') (Itoa (ask_ReplicationFactor ask))
                    ''invalid replication factor: it must be odd'']
            else [])
      else concat (map validate_replication (Split CHR '','' (ask_DataCenterReplication ask))))"

definition validateUpdateAstarteSystemKeyspace :: "Astarte \<Rightarrow> Astarte \<Rightarrow> field_error option" where
  "validateUpdateAstarteSystemKeyspace r oldAstarte =
     (if cass_AstarteSystemKeyspace (spec_Cassandra (ast_Spec r))
         \<noteq> cass_AstarteSystemKeyspace (spec_Cassandra (ast_Spec oldAstarte))
      then Some (Invalid [''spec'', ''cassandra'', ''astarteSystemKeyspace''] ''''
                   ''Once Astarte is created, the astarteSystemKeyspace cannot be modified'')
      else None)"

section \<open>Instance, listener, CFSSL\<close>

definition validateCreateAstarteInstanceID :: "env \<Rightarrow> Astarte \<Rightarrow> field_error option io" where
  "validateCreateAstarteInstanceID E r =
     on_result (ListObjs E OAstarte None []) (\<lambda>res.
       ret (case res of
              Inl _ \<Rightarrow> Some \<lparr>fe_Type = FieldInternal, fe_Field = [''''], fe_Value = '''',
                            fe_Detail = Detail ''cannot list astarte instances in the cluster. Please retry.''\<rparr>
            | Inr items \<Rightarrow>
                if list_ex (\<lambda>x. case x of KAstarte other \<Rightarrow>
                       spec_AstarteInstanceID (ast_Spec r) = spec_AstarteInstanceID (ast_Spec other) | _ \<Rightarrow> False) items
                then Some (Invalid [''spec'', ''astarteInstanceID''] (spec_AstarteInstanceID (ast_Spec r))
                             ''invalid astarteInstanceID: the chosen ID is already in use'')
                else None))"

definition validateUpdateAstarteInstanceID :: "Astarte \<Rightarrow> Astarte \<Rightarrow> field_error option" where
  "validateUpdateAstarteInstanceID r oldAstarte =
     (if spec_AstarteInstanceID (ast_Spec r) \<noteq> spec_AstarteInstanceID (ast_Spec oldAstarte)
      then Some (Invalid [''spec'', ''astarteInstanceID''] (spec_AstarteInstanceID (ast_Spec r))
             ''the astarteInstanceId cannot be updated since it is immutable for your Astarte instance'')
      else None)"

definition validateSSLListener :: "env \<Rightarrow> Astarte \<Rightarrow> field_error list io" where
  "validateSSLListener E r =
     (let vmq = spec_VerneMQ (ast_Spec r);
          fldPath = [''spec'', ''vernemq'', ''sslListenerCertSecretName''];
          secretName = vmq_SSLListenerCertSecretName vmq
      in if PtrValue (vmq_SSLListener vmq) False then
           (if secretName = '''' then ret [Invalid fldPath secretName ''must be set when sslListener is true'']
            else on_result (Get E OSecret (cr_Namespace r) secretName) (\<lambda>res.
                   ret (case res of Inl _ \<Rightarrow> [NotFound fldPath secretName] | Inr _ \<Rightarrow> [])))
         else ret [])"

definition validateCFSSLDefinition :: "(string \<Rightarrow> bool) \<Rightarrow> Astarte \<Rightarrow> field_error option" where
  "validateCFSSLDefinition urlOk r =
     (let cfssl = spec_CFSSL (ast_Spec r); fldPath = [''spec'', ''cfssl'', ''url''] in
      if PtrValue (cfssl_Deploy cfssl) True then None
      else if cfssl_URL cfssl = ''''
      then Some (Invalid fldPath (cfssl_URL cfssl) (''When not deploying CFSSL, the '' @ quote @ ''url'' @ quote @ '' must be specified''))
      else if \<not> urlOk (cfssl_URL cfssl)
      then Some (Invalid fldPath (cfssl_URL cfssl) ''The provided URL is not valid'')
      else None)"

section \<open>The whole validation\<close>

definition opt_list :: "'a option \<Rightarrow> 'a list" where
  "opt_list p = (case p of None \<Rightarrow> [] | Some x \<Rightarrow> [x])"

definition validateAstarte :: "env \<Rightarrow> (string \<Rightarrow> bool) \<Rightarrow> Astarte \<Rightarrow> field_error list io" where
  "validateAstarte E urlOk r =
     bnd (validateSSLListener E r) (\<lambda>ssl.
     bnd (lift (validateAstartePriorityClasses r)) (\<lambda>prio.
       ret (ssl @ opt_list prio @ validatePodLabelsForClusteredResources r
            @ opt_list (validateAutoscalerForClusteredResources r) @ opt_list (validateCFSSLDefinition urlOk r))))"

definition ValidateCreate :: "env \<Rightarrow> (string \<Rightarrow> bool) \<Rightarrow> Astarte \<Rightarrow> field_error list io" where
  "ValidateCreate E urlOk r =
     bnd (validateCreateAstarteInstanceID E r) (\<lambda>instance_id.
     let keyspace = validateCreateAstarteSystemKeyspace r
     in bnd (validateAstarte E urlOk r) (\<lambda>errs.
       ret (opt_list instance_id @ keyspace @ errs)))"

definition ValidateUpdate :: "env \<Rightarrow> (string \<Rightarrow> bool) \<Rightarrow> Astarte \<Rightarrow> Astarte \<Rightarrow> field_error list io" where
  "ValidateUpdate E urlOk r oldAstarte =
     bnd (validateAstarte E urlOk r) (\<lambda>errs.
       ret (opt_list (validateUpdateAstarteInstanceID r oldAstarte)
            @ opt_list (validateUpdateAstarteSystemKeyspace r oldAstarte) @ errs))"

section \<open>AstarteDefaultIngress\<close>

definition validateReferencedAstarte :: "env \<Rightarrow> AstarteDefaultIngress \<Rightarrow> (field_error + Astarte) io" where
  "validateReferencedAstarte E r =
     on_result (GetAstarte E (adi_Namespace r) (adis_Astarte (adi_Spec r))) (\<lambda>res.
       ret (case res of Inl _ \<Rightarrow> Inl (NotFound [''spec'', ''astarte''] (adis_Astarte (adi_Spec r))) | Inr a \<Rightarrow> Inr a))"

definition validateBrokerTLSConfig :: "AstarteDefaultIngress \<Rightarrow> Astarte \<Rightarrow> field_error option" where
  "validateBrokerTLSConfig r astarte =
     (if \<not> PtrValue (vmq_SSLListener (spec_VerneMQ (ast_Spec astarte))) False
         \<and> PtrValue (adib_Deploy (adis_Broker (adi_Spec r))) True
      then Some (Invalid [''spec'', ''broker'', ''deploy'']
             (vmq_SSLListenerCertSecretName (spec_VerneMQ (ast_Spec astarte)))
             ''When deploying Broker Ingress, VerneMQ SSLListener must be enabled in the main Astarte resource.'')
      else None)"

definition validateDashboardTLSConfig :: "AstarteDefaultIngress \<Rightarrow> field_error option" where
  "validateDashboardTLSConfig r =
     (let dash = adis_Dashboard (adi_Spec r) in
      if adis_TLSSecret (adi_Spec r) = '''' \<and> PtrValue (adid_SSL dash) True
         \<and> PtrValue (adid_Deploy dash) True \<and> adid_TLSSecret dash = ''''
      then Some (Required [''spec'', ''dashboard'', ''tlsSecret'']
                   ''Requested SSL support for Dashboard, but no TLS Secret provided'')
      else None)"

definition validateAPITLSConfig :: "AstarteDefaultIngress \<Rightarrow> Astarte \<Rightarrow> field_error option" where
  "validateAPITLSConfig r astarte =
     (let api = adis_API (adi_Spec r) in
      if PtrValue (api_SSL (spec_API (ast_Spec astarte))) True \<and> adis_TLSSecret (adi_Spec r) = ''''
         \<and> adia_TLSSecret api = '''' \<and> PtrValue (adia_Deploy api) True
      then Some (Required [''spec'', ''api'', ''tlsSecret'']
                   ''Requested SSL support for API, but no TLS Secret provided'')
      else None)"

definition getSecret :: "env \<Rightarrow> string \<Rightarrow> string \<Rightarrow> string list \<Rightarrow> field_error list io" where
  "getSecret E secretName namespace fldPath =
     on_result (Get E OSecret namespace secretName) (\<lambda>res.
       ret (case res of Inl _ \<Rightarrow> [NotFound fldPath secretName] | Inr _ \<Rightarrow> []))"

definition validateTLSSecretExistence :: "env \<Rightarrow> AstarteDefaultIngress \<Rightarrow> field_error list io" where
  "validateTLSSecretExistence E r =
     (let spec = adi_Spec r; api = adis_API spec; dash = adis_Dashboard spec;
          dashSSL = (PtrValue (adid_SSL dash) True \<and> PtrValue (adid_Deploy dash) True)
      in bnd (if adis_TLSSecret spec \<noteq> '''' \<and> (adia_TLSSecret api = '''' \<or> dashSSL \<and> adid_TLSSecret dash = '''')
              then getSecret E (adis_TLSSecret spec) (adi_Namespace r) [''spec'', ''tlsSecret'']
              else ret []) (\<lambda>errs1.
         bnd (if adia_TLSSecret api \<noteq> ''''
              then getSecret E (adia_TLSSecret api) (adi_Namespace r) [''spec'', ''api'', ''tlsSecret'']
              else ret []) (\<lambda>errs2.
         bnd (if dashSSL \<and> adid_TLSSecret dash \<noteq> ''''
              then getSecret E (adid_TLSSecret dash) (adi_Namespace r) [''spec'', ''dashboard'', ''tlsSecret'']
              else ret []) (\<lambda>errs3.
           ret (errs1 @ errs2 @ errs3)))))"

definition validateIngressControllerSelectorAnnotation :: "AstarteDefaultIngress \<Rightarrow> field_error option" where
  "validateIngressControllerSelectorAnnotation r =
     (case nil_map_lookup (om_Annotations (adi_Meta r)) AnnotationIngressControllerSelector of
        None \<Rightarrow> None
      | Some ingressSelector \<Rightarrow>
         if ingressSelector \<noteq> NGINXSelectorValue \<and> ingressSelector \<noteq> HAProxySelectorValue
         then Some (Invalid [''metadata'', ''annotations'', AnnotationIngressControllerSelector] ingressSelector
                (''Unsupported Ingress Controller selector. Supported values are '' @ quote @ ''nginx.ingress.kubernetes.io'' @ quote @ '' and '' @ quote @ ''haproxy.org'' @ quote @ ''.''))
         else None)"

definition validateAstarteDefaultIngress :: "env \<Rightarrow> AstarteDefaultIngress \<Rightarrow> field_error list io" where
  "validateAstarteDefaultIngress E r =
     bnd (validateReferencedAstarte E r) (\<lambda>found.
     bnd (validateTLSSecretExistence E r) (\<lambda>secrets.
       ret ((case found of
               Inl e \<Rightarrow> [e]
             | Inr astarte \<Rightarrow> opt_list (validateBrokerTLSConfig r astarte) @ opt_list (validateAPITLSConfig r astarte))
            @ opt_list (validateDashboardTLSConfig r)
            @ secrets
            @ opt_list (validateIngressControllerSelectorAnnotation r))))"

end
