(* ===== verification/Keyspace.thy ===== *)
theory Keyspace
  imports Webhooks Env_Vars
begin

text \<open>
  The replication of the system keyspace, from the validating webhook
  (\<open>validateCreateAstarteSystemKeyspace\<close>) to the environment of Housekeeping
  (\<open>appendAstarteKeyspaceEnvVars\<close>): what the webhook lets through, stated as a grammar, and what
  the operator makes of it.
\<close>

section \<open>What a replication map looks like\<close>

text \<open>
  Data centres with their factors, separated by commas, in each a name and an odd number separated
  by a colon.
\<close>

type_synonym replication = "(string \<times> string) list"

definition replication_text :: "replication \<Rightarrow> string" where
  "replication_text es = Join (map (\<lambda>(dc, f). dc @ '':'' @ f) es) '',''"

definition replication_entry_ok :: "string \<times> string \<Rightarrow> bool" where
  "replication_entry_ok e \<longleftrightarrow>
     CHR '':'' \<notin> set (fst e) \<and> CHR '','' \<notin> set (fst e) \<and> CHR '':'' \<notin> set (snd e) \<and> CHR '','' \<notin> set (snd e) \<and>
     snd (Atoi (snd e)) = None \<and> odd (fst (Atoi (snd e)))"

definition keyspace_ok :: "AstarteSystemKeyspaceSpec \<Rightarrow> bool" where
  "keyspace_ok ask \<longleftrightarrow>
     (if ask_ReplicationStrategy ask = ''SimpleStrategy'' then odd (ask_ReplicationFactor ask)
      else \<exists>es. es \<noteq> [] \<and> list_all replication_entry_ok es \<and> ask_DataCenterReplication ask = replication_text es)"

lemma Split_two:
  "Split c s = [a, b] \<longleftrightarrow> s = a @ c # b \<and> c \<notin> set a \<and> c \<notin> set b"
proof
  assume s: "Split c s = [a, b]"
  then have "c \<notin> set a" "c \<notin> set b"
    using Split_pieces [of _ c s] by auto
  moreover have "s = a @ c # b"
    using Join_Split [of c s] s by simp
  ultimately show "s = a @ c # b \<and> c \<notin> set a \<and> c \<notin> set b"
    by blast
qed (simp add: Split_append Split_no_sep)

lemma validate_replication_ok:
  "validate_replication dr = [] \<longleftrightarrow>
     (\<exists>dc f. Split CHR '':'' dr = [dc, f] \<and> snd (Atoi f) = None \<and> odd (fst (Atoi f)))"
  by (auto simp: validate_replication_def Let_def go_mod_even split: list.splits prod.splits option.splits if_splits)

text \<open>The pieces of a replication map are its entries.\<close>

lemma replication_pieces:
  assumes "es \<noteq> []" "list_all replication_entry_ok es"
  shows "Split CHR '','' (replication_text es) = map (\<lambda>(dc, f). dc @ '':'' @ f) es"
    and "(dc, f) \<in> set es \<Longrightarrow> Split CHR '':'' (dc @ '':'' @ f) = [dc, f]"
proof -
  show "Split CHR '','' (replication_text es) = map (\<lambda>(dc, f). dc @ '':'' @ f) es"
    unfolding replication_text_def using assms
    by (intro Split_Join) (auto simp: list_all_iff replication_entry_ok_def)
  show "(dc, f) \<in> set es \<Longrightarrow> Split CHR '':'' (dc @ '':'' @ f) = [dc, f]"
    using assms(2) by (auto simp: Split_two list_all_iff replication_entry_ok_def)
qed

lemma replication_of_valid:
  assumes "\<And>p. p \<in> set ps \<Longrightarrow> validate_replication p = []" and "\<And>p. p \<in> set ps \<Longrightarrow> CHR '','' \<notin> set p"
  shows "\<exists>es. ps = map (\<lambda>(dc, f). dc @ '':'' @ f) es \<and> list_all replication_entry_ok es"
  using assms
proof (induction ps)
  case (Cons p ps)
  then obtain es where es: "ps = map (\<lambda>(dc, f). dc @ '':'' @ f) es" "list_all replication_entry_ok es"
    by auto
  from Cons.prems(1) [of p] obtain dc f where
    "p = dc @ '':'' @ f" "CHR '':'' \<notin> set dc" "CHR '':'' \<notin> set f" "snd (Atoi f) = None" "odd (fst (Atoi f))"
    by (auto simp: validate_replication_ok Split_two)
  with Cons.prems(2) [of p] es show ?case
    by (intro exI [of _ "(dc, f) # es"]) (simp add: replication_entry_ok_def [of "(dc, f)"])
qed simp

lemma replication_map_valid:
  "(\<forall>p \<in> set (Split CHR '','' s). validate_replication p = []) \<longleftrightarrow>
     (\<exists>es. es \<noteq> [] \<and> list_all replication_entry_ok es \<and> s = replication_text es)" (is "?l \<longleftrightarrow> ?r")
proof
  assume ?l
  then obtain es where es: "Split CHR '','' s = map (\<lambda>(dc, f). dc @ '':'' @ f) es" "list_all replication_entry_ok es"
    using replication_of_valid [of "Split CHR '','' s"] Split_pieces by blast
  moreover have "es \<noteq> []"
    using es(1) Split_nonempty [of "CHR '',''" s] by auto
  moreover have "s = replication_text es"
    unfolding replication_text_def es(1) [symmetric] by (simp add: Join_Split)
  ultimately show ?r
    by blast
next
  assume ?r
  then obtain es where es: "es \<noteq> []" "list_all replication_entry_ok es" "s = replication_text es"
    by blast
  show ?l
    unfolding es(3) replication_pieces(1) [OF es(1,2)] using replication_pieces(2) [OF es(1,2)] es(2)
    by (auto simp: validate_replication_ok list_all_iff replication_entry_ok_def)
qed

lemma keyspace_accepted:
  "validateCreateAstarteSystemKeyspace cr = [] \<longleftrightarrow>
     keyspace_ok (cass_AstarteSystemKeyspace (spec_Cassandra (ast_Spec cr)))"
  by (simp add: validateCreateAstarteSystemKeyspace_def keyspace_ok_def Let_def go_mod_even
      replication_map_valid [symmetric])

text \<open>C37: what the webhook accepts as the replication of the system keyspace.

  A new resource's keyspace passes \<open>validateCreateAstarteSystemKeyspace\<close> exactly when the
  replication factor is odd, for the simple strategy, or the replication map is a non-empty comma
  separated list of \<open>datacenter:factor\<close> entries whose factors are integers that \<open>Atoi\<close> reads
  without error and that are odd, for any other.\<close>

theorem keyspace_validation_exact:
  "validateCreateAstarteSystemKeyspace cr = [] \<longleftrightarrow>
     keyspace_ok (cass_AstarteSystemKeyspace (spec_Cassandra (ast_Spec cr)))"
  by (rule keyspace_accepted)

section \<open>What the operator makes of it\<close>

definition replication_step :: "string \<times> string \<Rightarrow> (string \<times> int) list \<Rightarrow> (string \<times> int) list" where
  "replication_step e m = AList.update (fst e) (fst (Atoi (snd e))) m"

lemma keyspace_pairs_ok:
  assumes "\<And>dc f. (dc, f) \<in> set es \<Longrightarrow> Split CHR '':'' (dc @ '':'' @ f) = [dc, f]"
  shows "keyspace_pairs m (map (\<lambda>(dc, f). dc @ '':'' @ f) es) =
     Inr (fold replication_step es m)"
  using assms by (induction es arbitrary: m) (auto simp: keyspace_pair_def replication_step_def)

lemma replication_step_map:
  "map_of (fold replication_step es m) k = Some v \<Longrightarrow>
   map_of m k = Some v \<or> (\<exists>f. (k, f) \<in> set es \<and> v = fst (Atoi f))"
  by (induction es arbitrary: m) (fastforce simp: replication_step_def update_conv' split: if_splits)+

lemma replication_step_distinct:
  "distinct (map fst m) \<Longrightarrow> distinct (map fst (fold replication_step es m))"
  by (induction es arbitrary: m) (simp_all add: replication_step_def distinct_update)

lemma replication_step_keys:
  "fst ` set (fold replication_step es m) = fst ` set m \<union> fst ` set es"
  by (induction es arbitrary: m) (auto simp: replication_step_def dom_update)

text \<open>C36: the replication map Housekeeping is given.

  For a validated keyspace that does not use the simple strategy the environment is computed
  without a panic: the strategy as it is, and the JSON object of a map with exactly the data centres
  of the resource, each once, whose factors are odd and among those the resource gives it.\<close>

theorem keyspace_env_of_valid:
  assumes "validateCreateAstarteSystemKeyspace cr = []"
    and "ask_ReplicationStrategy (cass_AstarteSystemKeyspace (spec_Cassandra (ast_Spec cr))) \<noteq> ''SimpleStrategy''"
  shows "\<exists>es m. ask_DataCenterReplication (cass_AstarteSystemKeyspace (spec_Cassandra (ast_Spec cr))) = replication_text es \<and>
     appendAstarteKeyspaceEnvVars cr = Inr
       [EnvValue ''HOUSEKEEPING_ASTARTE_KEYSPACE_REPLICATION_STRATEGY''
          (ask_ReplicationStrategy (cass_AstarteSystemKeyspace (spec_Cassandra (ast_Spec cr)))),
        EnvValue ''HOUSEKEEPING_ASTARTE_KEYSPACE_NETWORK_REPLICATION_MAP'' (json_text (json_int_map m))] \<and>
     distinct (map fst m) \<and> fst ` set m = fst ` set es \<and>
     (\<forall>(dc, v) \<in> set m. odd v \<and> (\<exists>f. (dc, f) \<in> set es \<and> Atoi f = (v, None)))"
proof -
  let ?ask = "cass_AstarteSystemKeyspace (spec_Cassandra (ast_Spec cr))"
  obtain es where es: "es \<noteq> []" "list_all replication_entry_ok es" "ask_DataCenterReplication ?ask = replication_text es"
    using assms
    by (auto simp: validateCreateAstarteSystemKeyspace_def Let_def replication_map_valid)
  let ?m = "fold replication_step es []"
  have run: "keyspace_pairs [] (Split CHR '','' (ask_DataCenterReplication ?ask)) = Inr ?m"
    unfolding es(3) replication_pieces(1) [OF es(1,2)]
    by (rule keyspace_pairs_ok) (rule replication_pieces(2) [OF es(1,2)])
  have "\<forall>(dc, v) \<in> set ?m. odd v \<and> (\<exists>f. (dc, f) \<in> set es \<and> Atoi f = (v, None))"
  proof (clarify)
    fix dc v
    assume "(dc, v) \<in> set ?m"
    then obtain f where f: "(dc, f) \<in> set es" "v = fst (Atoi f)"
      using replication_step_map [of es "[]" dc v] replication_step_distinct [of "[]" es] by auto
    with es(2) have "odd v" "Atoi f = (v, None)"
      by (auto simp: list_all_iff replication_entry_ok_def prod_eq_iff)
    with f show "odd v \<and> (\<exists>f. (dc, f) \<in> set es \<and> Atoi f = (v, None))"
      by blast
  qed
  with es(3) assms(2) run replication_step_distinct [of "[]" es] replication_step_keys [of es "[]"] show ?thesis
    by (intro exI [of _ es] exI [of _ ?m]) (simp add: appendAstarteKeyspaceEnvVars_def Let_def)
qed

text \<open>The example's keyspace is valid.\<close>

lemma ex_keyspace_valid: "validateCreateAstarteSystemKeyspace ex_astarte = []"
  by code_simp

theorem keyspace_env_of_valid_witness:
  "\<exists>es m. ''dc1:3,dc2:5'' = replication_text es \<and>
     appendAstarteKeyspaceEnvVars ex_astarte = Inr
       [EnvValue ''HOUSEKEEPING_ASTARTE_KEYSPACE_REPLICATION_STRATEGY'' ''NetworkTopologyStrategy'',
        EnvValue ''HOUSEKEEPING_ASTARTE_KEYSPACE_NETWORK_REPLICATION_MAP'' (json_text (json_int_map m))] \<and>
     fst ` set m = fst ` set es"
proof -
  have "ask_ReplicationStrategy (cass_AstarteSystemKeyspace (spec_Cassandra (ast_Spec ex_astarte))) = ''NetworkTopologyStrategy''"
    "ask_DataCenterReplication (cass_AstarteSystemKeyspace (spec_Cassandra (ast_Spec ex_astarte))) = ''dc1:3,dc2:5''"
    by (simp_all add: ex_defs)
  with keyspace_env_of_valid [OF ex_keyspace_valid] show ?thesis
    by auto
qed

end
