(* ===== verification/Pod_Properties.thy ===== *)
theory Pod_Properties
  imports Keyspace VerneMQ_Pods
begin

text \<open>
  Properties of the pods the operator builds: when building one panics, for which versions of
  Astarte it does not, and which volumes its mounts name.
\<close>

section \<open>The pod of a component\<close>

text \<open>
  The pod specification the reconciliation of each component asks for, with the component's part of
  the resource; \<open>i\<close> and \<open>r\<close> are the index and the number of the replicas of Data Updater Plant.
\<close>

definition component_api :: "Astarte \<Rightarrow> AstarteComponent \<Rightarrow> AstarteGenericAPIComponentSpec" where
  "component_api cr c =
     (let cs = spec_Components (ast_Spec cr) in
      case c of
        AppEngineAPI \<Rightarrow> ae_GenericAPI (comp_AppengineAPI cs)
      | FlowComponent \<Rightarrow> comp_Flow cs
      | Housekeeping \<Rightarrow> comp_Housekeeping cs
      | Pairing \<Rightarrow> comp_Pairing cs
      | _ \<Rightarrow> comp_RealmManagement cs)"

definition component_pod ::
    "('v, 'c) libs \<Rightarrow> string \<Rightarrow> int \<Rightarrow> int \<Rightarrow> Astarte \<Rightarrow> AstarteComponent \<Rightarrow> err + pod_spec" where
  "component_pod L name i r cr c =
     (if c = DataUpdaterPlant \<or> c = TriggerEngine
      then getAstarteGenericBackendPodSpec L name i r cr (component_resource cr c) c
      else if c = Dashboard
      then getAstarteDashboardPodSpec L cr (comp_Dashboard (spec_Components (ast_Spec cr)))
      else getAstarteGenericAPIPodSpec L name cr (component_api cr c) c)"

lemma component_resource_api:
  "c \<notin> {DataUpdaterPlant, TriggerEngine, Dashboard} \<Longrightarrow> gac_Generic (component_api cr c) = component_resource cr c"
  by (cases c) (simp_all add: component_api_def component_resource_def Let_def)

lemma component_resource_dashboard:
  "dash_Generic (comp_Dashboard (spec_Components (ast_Spec cr))) = component_resource cr Dashboard"
  by (simp add: component_resource_def)

section \<open>Panics\<close>

definition pull_policy_known :: "Astarte \<Rightarrow> AstarteGenericClusteredResource \<Rightarrow> bool" where
  "pull_policy_known cr r \<longleftrightarrow> gcr_ImagePullPolicy r \<noteq> None \<or> spec_ImagePullPolicy (ast_Spec cr) \<noteq> None"

text \<open>The clustered components compare the version with 1.2.0, parsing both.\<close>

definition version_parses :: "('v, 'c) semver \<Rightarrow> Astarte \<Rightarrow> bool" where
  "version_parses sv cr \<longleftrightarrow>
     spec_Version (ast_Spec cr) = '''' \<or>
     isOK (sv_NewVersion sv (spec_Version (ast_Spec cr))) \<and> isOK (sv_NewVersion sv ''1.2.0'')"

definition clustered :: "AstarteComponent \<Rightarrow> bool" where
  "clustered c \<longleftrightarrow> c \<in> {AppEngineAPI, DataUpdaterPlant, RealmManagement, Pairing}"

definition keyspace_readable :: "Astarte \<Rightarrow> bool" where
  "keyspace_readable cr \<longleftrightarrow> isOK (appendAstarteKeyspaceEnvVars cr)"

lemma isOK_rbind_const: "(\<And>x. isOK (f x) = b) \<Longrightarrow> isOK (rbind m f) \<longleftrightarrow> isOK m \<and> b"
  by (cases m) simp_all

lemma rbind_Inl_const: "isOK m \<Longrightarrow> rbind m (\<lambda>_. Inl e) = Inl e"
  by (cases m) simp_all

lemma isOK_MustParse [simp]: "isOK (MustParse sv s) = isOK (sv_NewVersion sv s)"
  by (simp add: MustParse_def split: sum.split)

lemma isOK_getImagePullPolicy [simp]: "isOK (getImagePullPolicy cr r) = pull_policy_known cr r"
  by (auto simp: getImagePullPolicy_def pull_policy_known_def split: option.split)

lemma isOK_volumes [simp]:
  "isOK (getAstarteCommonVolumes cr) \<longleftrightarrow>
     rabbitmq_connected cr \<and> cass_Connection (spec_Cassandra (ast_Spec cr)) \<noteq> None"
  by (simp add: getAstarteCommonVolumes_def Let_def isOK_rbind_const rabbitmq_connected_def)

lemma isOK_mounts [simp]:
  "isOK (getAstarteCommonVolumeMounts cr) \<longleftrightarrow>
     rabbitmq_connected cr \<and> cass_Connection (spec_Cassandra (ast_Spec cr)) \<noteq> None"
  by (simp add: getAstarteCommonVolumeMounts_def Let_def isOK_rbind_const rabbitmq_connected_def)

text \<open>Both connection readers guard the pointer, so that they never panic.\<close>

lemma isOK_appendRabbitMQ [simp]: "isOK (appendRabbitMQConnectionEnvVars es p cr)"
  by (auto simp: appendRabbitMQConnectionEnvVars_def Let_def isOK_rbind GetRabbitMQHostnameAndPort_def
      GetRabbitMQUserCredentialsSecret_def rbind_eq_Inr split: option.split)

lemma isOK_appendCassandra [simp]: "isOK (appendCassandraConnectionEnvVars es cr)"
  by (auto simp: appendCassandraConnectionEnvVars_def Let_def isOK_rbind GetCassandraUserCredentialsSecret_def
      rbind_eq_Inr split: option.split)

lemma isOK_getCassandraNodes [simp]: "isOK (getCassandraNodes cr) \<longleftrightarrow> cassandra_connected cr"
  by (cases "cass_Connection (spec_Cassandra (ast_Spec cr))")
    (simp_all add: getCassandraNodes_def cassandra_connected_def isOK_rbind isOK_iff [symmetric] isOK_rmapM
      list_all_iff)

lemma isOK_getAstarteCommonEnvVars [simp]:
  "isOK (getAstarteCommonEnvVars sv name cr c) \<longleftrightarrow> (clustered c \<longrightarrow> version_parses sv cr)"
  by (auto simp: getAstarteCommonEnvVars_def clustered_def version_parses_def Let_def isOK_rbind_const)

lemma isOK_appendEvents [simp]: "isOK (appendAstarteEventsProducerEnvVars es cr)"
  by (simp add: appendAstarteEventsProducerEnvVars_def isOK_rbind_const Let_def)

lemma isOK_component_api_env:
  "isOK (component_api_env cr c) \<longleftrightarrow>
     (c = Housekeeping \<longrightarrow> keyspace_readable cr) \<and>
     (c \<in> {Housekeeping, FlowComponent, AppEngineAPI} \<longrightarrow> cassandra_connected cr)"
  by (cases c)
    (auto simp: component_api_env_def getAstarteHousekeepingEnvVars_def getAstartePairingEnvVars_def
      getAstarteFlowEnvVars_def getAstarteAppEngineAPIEnvVars_def getAstarteRealmManagementEnvVars_def
      isOK_rbind_const Let_def keyspace_readable_def)

lemma cassandra_connected_Some:
  "cassandra_connected cr \<Longrightarrow> cass_Connection (spec_Cassandra (ast_Spec cr)) \<noteq> None"
  by (auto simp: cassandra_connected_def split: option.splits)

lemma isOK_api_env:
  "isOK (getAstarteGenericAPIEnvVars sv name cr api c) \<longleftrightarrow>
     (clustered c \<longrightarrow> version_parses sv cr) \<and> cassandra_connected cr \<and> (c = Housekeeping \<longrightarrow> keyspace_readable cr)"
  by (auto simp: getAstarteGenericAPIEnvVars_def isOK_rbind_const isOK_component_api_env Let_def)

lemma isOK_backend_env:
  "isOK (getAstarteGenericBackendEnvVars sv name i r cr b c) \<longleftrightarrow>
     (clustered c \<longrightarrow> version_parses sv cr) \<and> cassandra_connected cr"
  by (auto simp: getAstarteGenericBackendEnvVars_def getAstarteDataUpdaterPlantBackendEnvVars_def
      getTriggerEngineBackendEnvVars_def isOK_rbind_const Let_def)

lemma isOK_keyspace_pairs:
  "isOK (keyspace_pairs m ps) \<longleftrightarrow> list_all (\<lambda>e. CHR '':'' \<in> set e) ps"
proof (induction ps arbitrary: m)
  case (Cons p ps)
  have "isOK (keyspace_pair m p) \<longleftrightarrow> CHR '':'' \<in> set p"
  proof (cases "CHR '':'' \<in> set p")
    case True
    then obtain a b where "p = a @ CHR '':'' # b" "CHR '':'' \<notin> set a"
      by (metis split_list_first)
    then show ?thesis
      by (cases "Split CHR '':'' b") (simp_all add: keyspace_pair_def Split_append)
  next
    case False
    then show ?thesis
      by (simp add: keyspace_pair_def Split_no_sep)
  qed
  then show ?case
    by (simp add: isOK_rbind_const [OF Cons.IH])
qed simp

lemma keyspace_readable_iff:
  "keyspace_readable cr \<longleftrightarrow>
     ask_ReplicationStrategy (cass_AstarteSystemKeyspace (spec_Cassandra (ast_Spec cr))) = ''SimpleStrategy'' \<or>
     list_all (\<lambda>e. CHR '':'' \<in> set e)
       (Split CHR '','' (ask_DataCenterReplication (cass_AstarteSystemKeyspace (spec_Cassandra (ast_Spec cr)))))"
  by (auto simp: keyspace_readable_def appendAstarteKeyspaceEnvVars_def Let_def isOK_rbind_const isOK_keyspace_pairs)

lemma isOK_component_pod:
  "isOK (component_pod L name i r cr c) \<longleftrightarrow>
     pull_policy_known cr (component_resource cr c) \<and>
     (c \<noteq> Dashboard \<longrightarrow>
        rabbitmq_connected cr \<and> cassandra_connected cr \<and>
        (clustered c \<longrightarrow> version_parses (lib_semver L) cr) \<and>
        (c = Housekeeping \<longrightarrow> keyspace_readable cr))"
proof (cases "c \<in> {DataUpdaterPlant, TriggerEngine, Dashboard}")
  case True
  then show ?thesis
    using component_resource_dashboard [of cr]
    by (auto simp: component_pod_def getAstarteGenericBackendPodSpec_def getAstarteDashboardPodSpec_def
        getAstarteGenericBackendVolumes_def getAstarteGenericBackendVolumeMounts_def isOK_rbind_const isOK_backend_env
        dest: cassandra_connected_Some)
next
  case False
  then show ?thesis
    using component_resource_api [of c cr]
    by (auto simp: component_pod_def getAstarteGenericAPIPodSpec_def getAstarteGenericAPIComponentVolumes_def
        getAstarteGenericAPIComponentVolumeMounts_def isOK_rbind_const isOK_api_env dest: cassandra_connected_Some)
qed

text \<open>C32: exactly when building a component's pod panics.

  The pod of a component is built unless one of these is missing: a pull policy of the component or
  of the resource; and, for every component but the dashboard, the RabbitMQ connection, the
  Cassandra connection with a port for every node, for a clustered component a version that parses,
  and for Housekeeping a replication map each entry of which has a colon.\<close>

theorem component_pod_built_iff:
  "isOK (component_pod L name i r cr c) \<longleftrightarrow>
     pull_policy_known cr (component_resource cr c) \<and>
     (c \<noteq> Dashboard \<longrightarrow>
        rabbitmq_connected cr \<and> cassandra_connected cr \<and>
        (clustered c \<longrightarrow> version_parses (lib_semver L) cr) \<and>
        (c = Housekeeping \<longrightarrow>
           ask_ReplicationStrategy (cass_AstarteSystemKeyspace (spec_Cassandra (ast_Spec cr))) = ''SimpleStrategy'' \<or>
           list_all (\<lambda>e. CHR '':'' \<in> set e)
             (Split CHR '','' (ask_DataCenterReplication (cass_AstarteSystemKeyspace (spec_Cassandra (ast_Spec cr)))))))"
    unfolding keyspace_readable_iff [symmetric] by (rule isOK_component_pod)

section \<open>Supported versions\<close>

lemma isOK_vernemq_cassandra:
  "isOK (appendVerneMQCassandraConnectionEnvVars es cr) \<longleftrightarrow> cassandra_connected cr"
  by (simp add: appendVerneMQCassandraConnectionEnvVars_def isOK_rbind_const)

lemma isOK_getVerneMQPodSpec:
  assumes "isOK (sv_Check sv (ptr_of (sv_NewConstraint sv ''>= 1.2.0-0'')) (ptr_of (sv_NewVersion sv (spec_Version (ast_Spec cr)))))"
    and "cassandra_connected cr" "pull_policy_known cr (vmq_Generic (spec_VerneMQ (ast_Spec cr)))"
  shows "isOK (getVerneMQPodSpec sv name v cr)"
proof -
  have "isOK (rbind (if b then appendVerneMQCassandraConnectionEnvVars es cr else Inr es) (\<lambda>x. Inr (f x)))" for b es f
    using assms(2) by (simp add: isOK_rbind_const isOK_vernemq_cassandra)
  with assms(1,3) show ?thesis
    by (simp add: getVerneMQPodSpec_def getVerneMQEnvVars_def Let_def isOK_rbind_const)
qed

lemma keyspace_valid_readable:
  assumes "validateCreateAstarteSystemKeyspace cr = []"
  shows "keyspace_readable cr"
proof (cases "ask_ReplicationStrategy (cass_AstarteSystemKeyspace (spec_Cassandra (ast_Spec cr))) = ''SimpleStrategy''")
  case False
  with assms have "\<forall>p \<in> set (Split CHR '','' (ask_DataCenterReplication (cass_AstarteSystemKeyspace (spec_Cassandra (ast_Spec cr))))).
      validate_replication p = []"
    by (simp add: validateCreateAstarteSystemKeyspace_def Let_def)
  then show ?thesis
    unfolding keyspace_readable_iff by (auto simp: list_all_iff validate_replication_ok Split_two)
qed (simp add: keyspace_readable_iff)

text \<open>
  What a resource needs besides a supported version: connections, a pull policy and a valid keyspace.
\<close>

definition complete_resource :: "Astarte \<Rightarrow> bool" where
  "complete_resource cr \<longleftrightarrow>
     rabbitmq_connected cr \<and> cassandra_connected cr \<and> spec_ImagePullPolicy (ast_Spec cr) \<noteq> None \<and>
     validateCreateAstarteSystemKeyspace cr = []"

lemma supported_pods:
  assumes "semver_laws (lib_semver L) core" "CanManageVersion (lib_semver L) (spec_Version (ast_Spec cr)) = Inr True"
    and "spec_Version (ast_Spec cr) \<noteq> SnapshotVersion" "complete_resource cr"
  shows "(\<forall>name i r c. isOK (component_pod L name i r cr c)) \<and>
     (\<forall>name v. isOK (getVerneMQPodSpec (lib_semver L) name v cr)) \<and>
     (\<forall>name s. isOK (getCFSSLPodSpec name s cr))"
proof -
  note laws = semver_laws.supported_parses [OF assms(1)] semver_laws.clustering_version [OF assms(1)]
    semver_laws.vernemq_constraint [OF assms(1)]
  obtain v where v: "sv_NewVersion (lib_semver L) (spec_Version (ast_Spec cr)) = Inr v"
    using laws(1) [OF assms(2,3)] by blast
  have pull: "pull_policy_known cr r" for r
    using assms(4) by (simp add: complete_resource_def pull_policy_known_def)
  have "isOK (component_pod L name i r cr c)" for name i r c
    using assms(4) laws(2) v pull
    by (auto simp: complete_resource_def isOK_component_pod version_parses_def keyspace_valid_readable)
  moreover have "isOK (getVerneMQPodSpec (lib_semver L) name w cr)" for name w
    using assms(4) laws(3) v pull by (intro isOK_getVerneMQPodSpec) (auto simp: complete_resource_def)
  moreover have "isOK (getCFSSLPodSpec name s cr)" for name s
    using pull by (simp add: getCFSSLPodSpec_def Let_def isOK_rbind_const)
  ultimately show ?thesis
    by blast
qed

text \<open>C33: the pods of a supported version are all built.

  For a complete resource whose version passes the operator's gate and is not the snapshot, no pod
  specification panics: not those of the eight components, whatever the replica, nor VerneMQ's or
  CFSSL's. The hypotheses on the semver library are those of \<open>semver_laws\<close>.\<close>

theorem supported_pods_built:
  assumes "semver_laws (lib_semver L) core" "CanManageVersion (lib_semver L) (spec_Version (ast_Spec cr)) = Inr True"
    and "spec_Version (ast_Spec cr) \<noteq> SnapshotVersion" "complete_resource cr"
  shows "(\<forall>name i r c. isOK (component_pod L name i r cr c)) \<and>
     (\<forall>name v. isOK (getVerneMQPodSpec (lib_semver L) name v cr)) \<and>
     (\<forall>name s. isOK (getCFSSLPodSpec name s cr))"
  using supported_pods [OF assms] .

lemma ex_complete: "complete_resource ex_astarte"
  by (simp add: complete_resource_def ex_keyspace_valid) (simp add: rabbitmq_connected_def cassandra_connected_def ex_defs)

definition ex_libs :: "(strict_version, strict_bound list) libs" where
  "ex_libs = \<lparr>lib_semver = strict_semver, lib_quantity = plain_quantities\<rparr>"

lemma ex_libs_simps [simp]:
  "lib_semver ex_libs = strict_semver" "lib_quantity ex_libs = plain_quantities"
  by (simp_all add: ex_libs_def)

theorem component_pod_built_iff_witness:
  "isOK (component_pod ex_libs ''example-housekeeping'' 0 1 ex_astarte Housekeeping)"
proof -
  have "pull_policy_known ex_astarte (component_resource ex_astarte Housekeeping)"
    "rabbitmq_connected ex_astarte" "cassandra_connected ex_astarte" "version_parses strict_semver ex_astarte"
    "list_all (\<lambda>e. CHR '':'' \<in> set e)
       (Split CHR '','' (ask_DataCenterReplication (cass_AstarteSystemKeyspace (spec_Cassandra (ast_Spec ex_astarte)))))"
    by code_simp+
  with component_pod_built_iff [of ex_libs "''example-housekeeping''" 0 1 ex_astarte Housekeeping] show ?thesis
    by simp
qed

lemma ex_supported: "CanManageVersion strict_semver (spec_Version (ast_Spec ex_astarte)) = Inr True"
  by code_simp

theorem supported_pods_built_witness:
  "isOK (component_pod ex_libs ''dup-2'' 2 3 ex_astarte DataUpdaterPlant) \<and>
   isOK (getVerneMQPodSpec strict_semver ''vernemq'' ''data'' ex_astarte)"
  using supported_pods_built [of ex_libs fst ex_astarte] strict.semver_laws_axioms ex_supported ex_complete
  by (auto simp: SnapshotVersion_def ex_defs)

text \<open>C34: the snapshot passes the gate and has no pods.

  The gate lets the version \<open>snapshot\<close> through, since the operator's own version is a prerelease;
  but the pods of the four clustered components are then never built: \<open>MustParse\<close> panics on it.\<close>

theorem snapshot_pods_panic:
  assumes "semver_laws (lib_semver L) core" "spec_Version (ast_Spec cr) = SnapshotVersion"
    and "clustered c" "complete_resource cr"
  shows "CanManageVersion (lib_semver L) (spec_Version (ast_Spec cr)) = Inr True \<and>
     component_pod L name i r cr c = Inl (GoPanic ''MustParse'')"
proof
  note laws = semver_laws.can_manage_version [OF assms(1)] semver_laws.must_parse_snapshot [OF assms(1)]
  show "CanManageVersion (lib_semver L) (spec_Version (ast_Spec cr)) = Inr True"
    by (simp add: laws(1) assms(2))
  have env: "getAstarteCommonEnvVars (lib_semver L) name cr c = Inl (GoPanic ''MustParse'')"
    using assms(2,3) laws(2) by (auto simp: getAstarteCommonEnvVars_def clustered_def Let_def SnapshotVersion_def)
  have ok: "isOK (getAstarteCommonVolumeMounts cr)" "isOK (getImagePullPolicy cr g)" for g
    using assms(4) by (auto simp: complete_resource_def pull_policy_known_def dest: cassandra_connected_Some)
  show "component_pod L name i r cr c = Inl (GoPanic ''MustParse'')"
    using assms(3) env ok
    by (auto simp: rbind_Inl_const rbind_assoc component_pod_def clustered_def getAstarteGenericBackendPodSpec_def getAstarteGenericAPIPodSpec_def
        getAstarteGenericBackendVolumeMounts_def getAstarteGenericAPIComponentVolumeMounts_def
        getAstarteGenericBackendEnvVars_def getAstarteGenericAPIEnvVars_def)
qed

definition ex_snapshot :: Astarte where
  "ex_snapshot = ex_astarte\<lparr>ast_Spec := ex_spec\<lparr>spec_Version := SnapshotVersion\<rparr>\<rparr>"

lemma ex_snapshot_complete: "complete_resource ex_snapshot"
  using ex_keyspace_valid
  by (simp add: complete_resource_def ex_snapshot_def validateCreateAstarteSystemKeyspace_def)
    (simp add: rabbitmq_connected_def cassandra_connected_def ex_defs)

theorem snapshot_pods_panic_witness:
  "component_pod ex_libs ''dup'' 0 1 ex_snapshot DataUpdaterPlant = Inl (GoPanic ''MustParse'')"
  using snapshot_pods_panic [of ex_libs fst ex_snapshot DataUpdaterPlant] strict.semver_laws_axioms ex_snapshot_complete
  by (simp add: clustered_def ex_snapshot_def)

section \<open>Volumes and mounts\<close>

text \<open>Mounts are derived from the same conditions as volumes, so that they name the same volumes.\<close>

lemma common_mounts_resolved:
  assumes "getAstarteCommonVolumes cr = Inr vs" "getAstarteCommonVolumeMounts cr = Inr ms"
  shows "vm_Name ` set ms = vol_Name ` set vs"
  using assms by (cases "rmq_Connection (spec_RabbitMQ (ast_Spec cr))"; cases "cass_Connection (spec_Cassandra (ast_Spec cr))")
    (auto simp: getAstarteCommonVolumes_def getAstarteCommonVolumeMounts_def Let_def)

text \<open>A pod of one container: what it mounts, its volumes and its environment.\<close>

definition pod_parts :: "pod_spec \<Rightarrow> container \<Rightarrow> volume list \<Rightarrow> bool" where
  "pod_parts ps c vs \<longleftrightarrow> ps_Containers ps = [c] \<and> ps_Volumes ps = vs"

lemma backend_pod_parts:
  assumes "getAstarteGenericBackendPodSpec L name i r cr b component = Inr ps"
  obtains c vs where "pod_parts ps c vs" "getAstarteCommonVolumes cr = Inr vs"
    "getAstarteCommonVolumeMounts cr = Inr (c_VolumeMounts c)"
    "getAstarteGenericBackendEnvVars (lib_semver L) name i r cr b component = Inr (c_Env c)"
  using assms
  by (fastforce simp: getAstarteGenericBackendPodSpec_def getAstarteGenericBackendVolumes_def
      getAstarteGenericBackendVolumeMounts_def rbind_eq_Inr pod_parts_def)

lemma api_pod_parts:
  assumes "getAstarteGenericAPIPodSpec L name cr api component = Inr ps"
  obtains c vs where "pod_parts ps c vs" "getAstarteGenericAPIComponentVolumes cr component = Inr vs"
    "getAstarteGenericAPIComponentVolumeMounts cr component = Inr (c_VolumeMounts c)"
    "getAstarteGenericAPIEnvVars (lib_semver L) name cr api component = Inr (c_Env c)"
  using assms by (fastforce simp: getAstarteGenericAPIPodSpec_def rbind_eq_Inr pod_parts_def)

lemma mounts_resolved_parts:
  "pod_parts ps c vs \<Longrightarrow>
   mounts_resolved claims ps \<longleftrightarrow> vm_Name ` set (c_VolumeMounts c) \<subseteq> vol_Name ` set vs \<union> set claims"
  by (auto simp: pod_parts_def mounts_resolved_def list_all_iff)

lemma component_mounts_resolved:
  assumes "component_pod L name i r cr c = Inr ps"
  shows "mounts_resolved [] ps"
proof -
  consider "c = DataUpdaterPlant \<or> c = TriggerEngine" | "c = Dashboard"
    | "c \<notin> {DataUpdaterPlant, TriggerEngine, Dashboard}"
    by blast
  then show ?thesis
  proof cases
    case 1
    with assms have "getAstarteGenericBackendPodSpec L name i r cr (component_resource cr c) c = Inr ps"
      by (auto simp: component_pod_def)
    then obtain k vs where k: "pod_parts ps k vs" "getAstarteCommonVolumes cr = Inr vs"
      "getAstarteCommonVolumeMounts cr = Inr (c_VolumeMounts k)"
      by (rule backend_pod_parts)
    with common_mounts_resolved [OF k(2,3)] show ?thesis
      by (simp add: mounts_resolved_parts [OF k(1)])
  next
    case 2
    with assms show ?thesis
      by (auto simp: component_pod_def getAstarteDashboardPodSpec_def rbind_eq_Inr mounts_resolved_def
          getAstarteDashboardVolumeMounts_def getAstarteDashboardVolumes_def)
  next
    case 3
    with assms have "getAstarteGenericAPIPodSpec L name cr (component_api cr c) c = Inr ps"
      by (auto simp: component_pod_def)
    then obtain k vs where k: "pod_parts ps k vs" "getAstarteGenericAPIComponentVolumes cr c = Inr vs"
      "getAstarteGenericAPIComponentVolumeMounts cr c = Inr (c_VolumeMounts k)"
      by (rule api_pod_parts)
    then obtain vs0 ms0 where c: "getAstarteCommonVolumes cr = Inr vs0" "getAstarteCommonVolumeMounts cr = Inr ms0"
      by (auto simp: getAstarteGenericAPIComponentVolumes_def getAstarteGenericAPIComponentVolumeMounts_def rbind_eq_Inr)
    let ?m = "\<lparr>vm_Name = ''jwtpubkey'', vm_MountPath = ''/jwtpubkey'', vm_ReadOnly = True\<rparr>"
    have "(if c = Housekeeping then ms0 @ [?m] else ms0) = c_VolumeMounts k"
      using k(3) c(2) by (simp add: getAstarteGenericAPIComponentVolumeMounts_def)
    from this [symmetric]
    have "vm_Name ` set (c_VolumeMounts k) = vm_Name ` set ms0 \<union> (if c = Housekeeping then {''jwtpubkey''} else {})"
      by simp
    moreover have "vol_Name ` set vs = vol_Name ` set vs0 \<union> (if c = Housekeeping then {''jwtpubkey''} else {})"
      using k(2) c(1) by (auto simp: getAstarteGenericAPIComponentVolumes_def)
    ultimately show ?thesis
      using common_mounts_resolved [OF c] by (simp add: mounts_resolved_parts [OF k(1)])
  qed
qed

text \<open>
  VerneMQ mounts a data volume of the name \<open>computePersistentVolumeClaim\<close> returns: the claim's,
  or the one of the user's volume definition.
\<close>

lemma claim_name:
  "computePersistentVolumeClaim n q storage cr = (v, claim) \<Longrightarrow>
   (case claim of Some p \<Rightarrow> om_Name (pvc_Meta p) = v \<and> v = n
    | None \<Rightarrow> \<exists>s d. storage = Some s \<and> storage_VolumeDefinition s = Some d \<and> v = vol_Name d)"
  by (auto simp: computePersistentVolumeClaim_def Let_def split: option.splits)

lemma vernemq_pod_parts:
  assumes "getVerneMQPodSpec sv name v cr = Inr ps"
  obtains c where "pod_parts ps c (getVerneMQVolumes cr)" "c_VolumeMounts c = getVerneMQVolumeMounts v cr"
    "getVerneMQEnvVars sv name cr = Inr (c_Env c)"
  using assms by (fastforce simp: getVerneMQPodSpec_def rbind_eq_Inr pod_parts_def Let_def)

text \<open>C29: every mount has its volume, with one exception.

  In the pods of the eight components, of CFSSL and of VerneMQ every mount names a volume of the pod
  or the claim template of the stateful set; except that VerneMQ with a volume definition in its
  storage mounts a volume nobody adds (unless it happens to have the certificate's name).\<close>

theorem pod_mounts_resolved:
  "(\<forall>name i r c ps. component_pod L name i r cr c = Inr ps \<longrightarrow> mounts_resolved [] ps) \<and>
   (\<forall>name s ps. getCFSSLPodSpec name s cr = Inr ps \<longrightarrow> mounts_resolved [] ps) \<and>
   (\<forall>sv name v claim ps. getVerneMQPodSpec sv name v cr = Inr ps \<longrightarrow>
      computePersistentVolumeClaim n q (vmq_Storage (spec_VerneMQ (ast_Spec cr))) cr = (v, claim) \<longrightarrow>
      (mounts_resolved (case claim of None \<Rightarrow> [] | Some p \<Rightarrow> [om_Name (pvc_Meta p)]) ps \<longleftrightarrow>
         claim \<noteq> None \<or> shouldVerneHandleSSLTermination cr \<and> v = vmq_SSLListenerCertSecretName (spec_VerneMQ (ast_Spec cr))))"
proof (intro conjI allI impI)
  fix name i r c ps
  assume "component_pod L name i r cr c = Inr ps"
  then show "mounts_resolved [] ps"
    by (rule component_mounts_resolved)
next
  fix name s ps
  assume "getCFSSLPodSpec name s cr = Inr ps"
  then show "mounts_resolved [] ps"
    by (auto simp: getCFSSLPodSpec_def Let_def rbind_eq_Inr mounts_resolved_def)
next
  fix sv name v claim ps
  assume "getVerneMQPodSpec sv name v cr = Inr ps"
  then obtain k where k: "pod_parts ps k (getVerneMQVolumes cr)" "c_VolumeMounts k = getVerneMQVolumeMounts v cr"
    by (rule vernemq_pod_parts)
  assume "computePersistentVolumeClaim n q (vmq_Storage (spec_VerneMQ (ast_Spec cr))) cr = (v, claim)"
  from claim_name [OF this]
  show "mounts_resolved (case claim of None \<Rightarrow> [] | Some p \<Rightarrow> [om_Name (pvc_Meta p)]) ps \<longleftrightarrow>
      claim \<noteq> None \<or> shouldVerneHandleSSLTermination cr \<and> v = vmq_SSLListenerCertSecretName (spec_VerneMQ (ast_Spec cr))"
    by (auto simp: mounts_resolved_parts [OF k(1)] k(2) getVerneMQVolumeMounts_def getVerneMQVolumes_def Let_def
        shouldVerneHandleSSLTermination_def split: option.splits)
qed

definition ex_volume_definition :: Astarte where
  "ex_volume_definition = ex_astarte\<lparr>ast_Spec := ex_spec\<lparr>spec_VerneMQ := ex_vernemq\<lparr>vmq_Storage :=
     Some \<lparr>storage_Size = None, storage_ClassName = '''',
           storage_VolumeDefinition = Some \<lparr>vol_Name = ''my-disk'', vol_Source = VolOther ''nfs''\<rparr>\<rparr>\<rparr>\<rparr>\<rparr>"

theorem pod_mounts_resolved_witness:
  "(\<exists>ps. component_pod ex_libs ''pairing'' 0 1 ex_astarte Pairing = Inr ps \<and> mounts_resolved [] ps) \<and>
   (\<exists>ps. getVerneMQPodSpec strict_semver ''vernemq'' ''my-disk'' ex_volume_definition = Inr ps \<and> \<not> mounts_resolved [] ps)"
proof
  have "isOK (component_pod ex_libs ''pairing'' 0 1 ex_astarte Pairing)"
    by (simp add: isOK_component_pod) code_simp
  then show "\<exists>ps. component_pod ex_libs ''pairing'' 0 1 ex_astarte Pairing = Inr ps \<and> mounts_resolved [] ps"
    using pod_mounts_resolved [where cr = ex_astarte and L = ex_libs, THEN conjunct1] by (auto simp: isOK_iff)
next
  have "isOK (getVerneMQPodSpec strict_semver ''vernemq'' ''my-disk'' ex_volume_definition)"
    by (rule isOK_getVerneMQPodSpec; code_simp)
  moreover have "computePersistentVolumeClaim ''data'' (Quantity []) (vmq_Storage (spec_VerneMQ (ast_Spec ex_volume_definition)))
      ex_volume_definition = (''my-disk'', None)"
    by code_simp
  moreover have "vmq_SSLListenerCertSecretName (spec_VerneMQ (ast_Spec ex_volume_definition)) \<noteq> ''my-disk''"
    by code_simp
  ultimately show "\<exists>ps. getVerneMQPodSpec strict_semver ''vernemq'' ''my-disk'' ex_volume_definition = Inr ps \<and>
      \<not> mounts_resolved [] ps"
    using pod_mounts_resolved [where cr = ex_volume_definition, THEN conjunct2, THEN conjunct2, rule_format]
    by (fastforce simp: isOK_iff)
qed

end
