(* ===== verification/Pod_Environment.thy ===== *)
theory Pod_Environment
  imports Pod_Properties
begin

text \<open>
  What the containers of the pods see and what the pods are selected by: the order in which
  environments grow, the user's variables, the certificate files the variables name, and the
  labels.
\<close>

section \<open>Environments grow at the end\<close>

text \<open>
  The functions that extend an environment share a contract: what they add does not depend on the
  environment they are given, and goes behind it.
\<close>

locale env_appender =
  fixes app :: "env_var list \<Rightarrow> err + env_var list"
  assumes appends: "app es = rmap (\<lambda>added. es @ added) (app [])"
begin

lemma isOK_app: "isOK (app es) = isOK (app [])"
  by (subst appends) simp

lemma keeps: "app es = Inr es' \<Longrightarrow> set es \<subseteq> set es'"
  by (subst (asm) appends) (auto simp: rmap_eq_Inr)

lemma adds: "app es = Inr es' \<Longrightarrow> \<exists>added. app [] = Inr added \<and> es' = es @ added"
  by (subst (asm) appends) (auto simp: rmap_eq_Inr)

text \<open>A later entry hides an earlier one.\<close>

lemma added_wins:
  assumes "app es = Inr es'" "app [] = Inr added" "env_lookup added n = Some e"
  shows "env_lookup es' n = Some e"
  using adds [OF assms(1)] assms(2,3) by (auto simp: env_lookup_append)

end

interpretation rabbitmq_env: env_appender "\<lambda>es. appendRabbitMQConnectionEnvVars es p cr"
  by unfold_locales
    (auto simp: appendRabbitMQConnectionEnvVars_def Let_def GetRabbitMQHostnameAndPort_def
      GetRabbitMQUserCredentialsSecret_def split: option.splits)

interpretation cassandra_env: env_appender "\<lambda>es. appendCassandraConnectionEnvVars es cr"
  by unfold_locales
    (auto simp: appendCassandraConnectionEnvVars_def Let_def GetCassandraUserCredentialsSecret_def split: option.splits)

interpretation events_env: env_appender "\<lambda>es. appendAstarteEventsProducerEnvVars es cr"
proof
  fix es
  show "appendAstarteEventsProducerEnvVars es cr =
      rmap (\<lambda>added. es @ added) (appendAstarteEventsProducerEnvVars [] cr)"
    unfolding appendAstarteEventsProducerEnvVars_def
    by (subst rabbitmq_env.appends) (cases "appendRabbitMQConnectionEnvVars [] ''ASTARTE_EVENTS_PRODUCER_AMQP'' cr";
      simp add: Let_def)
qed

interpretation fdo_env: env_appender "\<lambda>es. Inr (appendAstarteFDOEnvVars es cr)"
  by unfold_locales (auto simp: appendAstarteFDOEnvVars_def Let_def split: option.splits)

interpretation vernemq_env: env_appender "\<lambda>es. appendVerneMQCassandraConnectionEnvVars es cr"
  by unfold_locales (cases "appendCassandraConnectionEnvVars [] cr"; cases "getCassandraNodes cr";
    simp add: appendVerneMQCassandraConnectionEnvVars_def)

section \<open>The user's variables\<close>

lemma env_lookup_last: "env_lookup ys n = Some e \<Longrightarrow> env_lookup (xs @ ys) n = Some e"
  by (simp add: env_lookup_append)

text \<open>A computation whose environment ends in the given one.\<close>

definition ends_in :: "env_var list \<Rightarrow> err + env_var list \<Rightarrow> bool" where
  "ends_in extra m \<longleftrightarrow> (\<forall>es. m = Inr es \<longrightarrow> (\<exists>es0. es = es0 @ extra))"

lemma ends_in_rbind: "(\<And>x. ends_in extra (f x)) \<Longrightarrow> ends_in extra (rbind m f)"
  by (cases m) (auto simp: ends_in_def)

lemma ends_in_if: "ends_in extra (Inr (if extra \<noteq> [] then es @ extra else es))"
  by (simp add: ends_in_def)

lemma component_env_ends:
  "ends_in (gcr_AdditionalEnv b) (getAstarteGenericBackendEnvVars sv name i r cr b c)"
  "ends_in (gcr_AdditionalEnv (gac_Generic api)) (getAstarteGenericAPIEnvVars sv name cr api c)"
  "ends_in (gcr_AdditionalEnv (vmq_Generic (spec_VerneMQ (ast_Spec cr)))) (getVerneMQEnvVars sv name cr)"
  unfolding getAstarteGenericBackendEnvVars_def getAstarteGenericAPIEnvVars_def getVerneMQEnvVars_def Let_def
  by (intro ends_in_rbind ends_in_if)+


definition ex_pairing_pod :: "err + pod_spec" where
  "ex_pairing_pod = component_pod ex_libs ''example-pairing'' 0 1 ex_astarte Pairing"


section \<open>Certificates the variables name\<close>

text \<open>
  A container that is told, by a variable, of the file \<open>ca.crt\<close> in a directory, and that finds it
  there: it mounts there a volume that projects the file from the secret.
\<close>

definition finds_ca :: "pod_spec \<Rightarrow> string \<Rightarrow> string \<Rightarrow> string \<Rightarrow> bool" where
  "finds_ca ps var dir secret \<longleftrightarrow>
     list_all (\<lambda>k. EnvValue var (dir @ ''/ca.crt'') \<in> set (c_Env k) \<and>
         list_ex (\<lambda>m. vm_MountPath m = dir \<and>
           list_ex (\<lambda>v. vol_Name v = vm_Name m \<and> vol_Source v = VolSecret secret [(''ca.crt'', ''ca.crt'')] None)
             (ps_Volumes ps)) (c_VolumeMounts k)) (ps_Containers ps)"

definition ca_secret :: "GenericSSLConfigurationSpec \<Rightarrow> string option" where
  "ca_secret ssl = (if ssl_Enable ssl \<and> ssl_CustomCASecret ssl \<noteq> '''' then Some (ssl_CustomCASecret ssl) else None)"

definition rabbitmq_ca :: "Astarte \<Rightarrow> string option" where
  "rabbitmq_ca cr =
     Option.bind (rmq_Connection (spec_RabbitMQ (ast_Spec cr))) (\<lambda>c. ca_secret (conn_SSLConfiguration (rmqc_Generic c)))"

definition cassandra_ca :: "Astarte \<Rightarrow> string option" where
  "cassandra_ca cr =
     Option.bind (cass_Connection (spec_Cassandra (ast_Spec cr))) (\<lambda>c. ca_secret (conn_SSLConfiguration (cassc_Generic c)))"

lemma rabbitmq_ca_env:
  "appendRabbitMQConnectionEnvVars es p cr = Inr es' \<Longrightarrow> rabbitmq_ca cr = Some s \<Longrightarrow>
   EnvValue (p @ ''_SSL_CA_FILE'') ''/rabbitmq-ssl/ca.crt'' \<in> set es'"
  by (auto simp: appendRabbitMQConnectionEnvVars_def rabbitmq_ca_def ca_secret_def Let_def rbind_eq_Inr
      split: option.splits if_splits)

lemma cassandra_ca_env:
  "appendCassandraConnectionEnvVars es cr = Inr es' \<Longrightarrow> cassandra_ca cr = Some s \<Longrightarrow>
   EnvValue ''CASSANDRA_SSL_CA_FILE'' ''/cassandra-ssl/ca.crt'' \<in> set es'"
  by (auto simp: appendCassandraConnectionEnvVars_def cassandra_ca_def ca_secret_def Let_def rbind_eq_Inr
      split: option.splits if_splits)

lemma common_env_ca:
  assumes "getAstarteCommonEnvVars sv name cr c = Inr es" "rabbitmq_ca cr = Some s"
  shows "EnvValue ''RPC_AMQP_CONNECTION_SSL_CA_FILE'' ''/rabbitmq-ssl/ca.crt'' \<in> set es"
  using assms rabbitmq_ca_env [where p = "''RPC_AMQP_CONNECTION''", simplified]
  unfolding getAstarteCommonEnvVars_def Let_def by (auto simp: rbind_eq_Inr simp del: rbind_simps)

lemma common_volumes_ca:
  assumes "getAstarteCommonVolumes cr = Inr vs"
  shows "rabbitmq_ca cr = Some s \<Longrightarrow>
      \<lparr>vol_Name = ''rabbitmq-ssl-ca'', vol_Source = VolSecret s [(''ca.crt'', ''ca.crt'')] None\<rparr> \<in> set vs"
    and "cassandra_ca cr = Some s \<Longrightarrow>
      \<lparr>vol_Name = ''cassandra-ssl-ca'', vol_Source = VolSecret s [(''ca.crt'', ''ca.crt'')] None\<rparr> \<in> set vs"
  using assms by (auto simp: getAstarteCommonVolumes_def rabbitmq_ca_def cassandra_ca_def ca_secret_def Let_def
      rbind_eq_Inr bind_eq_Some_conv split: if_splits)

lemma common_mounts_ca:
  assumes "getAstarteCommonVolumeMounts cr = Inr ms"
  shows "rabbitmq_ca cr = Some s \<Longrightarrow>
      \<lparr>vm_Name = ''rabbitmq-ssl-ca'', vm_MountPath = ''/rabbitmq-ssl'', vm_ReadOnly = True\<rparr> \<in> set ms"
    and "cassandra_ca cr = Some s \<Longrightarrow>
      \<lparr>vm_Name = ''cassandra-ssl-ca'', vm_MountPath = ''/cassandra-ssl'', vm_ReadOnly = True\<rparr> \<in> set ms"
  using assms by (auto simp: getAstarteCommonVolumeMounts_def rabbitmq_ca_def cassandra_ca_def ca_secret_def Let_def
      rbind_eq_Inr bind_eq_Some_conv split: if_splits)

definition has_entry :: "env_var \<Rightarrow> err + env_var list \<Rightarrow> bool" where
  "has_entry e m \<longleftrightarrow> (\<forall>es. m = Inr es \<longrightarrow> e \<in> set es)"

lemma has_entryD: "has_entry e m \<Longrightarrow> m = Inr es \<Longrightarrow> e \<in> set es"
  by (simp add: has_entry_def)

lemma has_entry_rbind:
  "has_entry e m \<Longrightarrow> (\<And>x. e \<in> set x \<Longrightarrow> has_entry e (f x)) \<Longrightarrow> has_entry e (rbind m f)"
  by (cases m) (auto simp: has_entry_def)

lemma has_entry_skip: "(\<And>x. has_entry e (f x)) \<Longrightarrow> has_entry e (rbind m f)"
  by (cases m) (auto simp: has_entry_def)

lemma has_entry_common:
  "rabbitmq_ca cr = Some s \<Longrightarrow>
   has_entry (EnvValue ''RPC_AMQP_CONNECTION_SSL_CA_FILE'' ''/rabbitmq-ssl/ca.crt'') (getAstarteCommonEnvVars sv name cr c)"
  by (auto simp: has_entry_def common_env_ca)

lemma has_entry_cassandra:
  "cassandra_ca cr = Some s \<Longrightarrow>
   has_entry (EnvValue ''CASSANDRA_SSL_CA_FILE'' ''/cassandra-ssl/ca.crt'') (appendCassandraConnectionEnvVars es cr)"
  by (auto simp: has_entry_def cassandra_ca_env)

lemma has_entry_kept: "e \<in> set es \<Longrightarrow> has_entry e (appendCassandraConnectionEnvVars es cr)"
  using cassandra_env.keeps by (auto simp: has_entry_def)

lemma backend_env_kept:
  assumes "e \<in> set acc"
  shows "has_entry e
    (rbind (getCassandraNodes cr) (\<lambda>nodes. rbind
       (if c1 then rmap (\<lambda>es. (if c0 then (acc @ xs nodes) @ ys else acc @ xs nodes) @ es) m1
        else if c2 then rmap (\<lambda>es. (if c0 then (acc @ xs nodes) @ ys else acc @ xs nodes) @ es) m2
        else Inr (if c0 then (acc @ xs nodes) @ ys else acc @ xs nodes))
       (\<lambda>r3. Inr (if zs \<noteq> [] then r3 @ zs else r3))))"
  by (rule has_entry_skip, rule has_entry_rbind) (use assms in \<open>auto simp: has_entry_def rmap_eq_Inr\<close>)

lemma backend_env_ca:
  "rabbitmq_ca cr = Some s \<Longrightarrow>
   has_entry (EnvValue ''RPC_AMQP_CONNECTION_SSL_CA_FILE'' ''/rabbitmq-ssl/ca.crt'')
     (getAstarteGenericBackendEnvVars sv name i r cr b c)"
  unfolding getAstarteGenericBackendEnvVars_def Let_def
  by (rule has_entry_rbind [OF has_entry_common], assumption, rule has_entry_rbind [OF has_entry_kept], assumption,
    rule backend_env_kept)

lemma backend_env_ca_cassandra:
  "cassandra_ca cr = Some s \<Longrightarrow>
   has_entry (EnvValue ''CASSANDRA_SSL_CA_FILE'' ''/cassandra-ssl/ca.crt'')
     (getAstarteGenericBackendEnvVars sv name i r cr b c)"
  unfolding getAstarteGenericBackendEnvVars_def Let_def
  by (rule has_entry_skip, rule has_entry_rbind [OF has_entry_cassandra], assumption, rule backend_env_kept)

lemma api_env_kept:
  assumes "e \<in> set acc"
  shows "has_entry e
    (rbind (getCassandraNodes cr) (\<lambda>nodes. rbind m (\<lambda>es.
       Inr (if zs \<noteq> [] then ((if c0 then (acc @ xs nodes) @ ys else acc @ xs nodes) @ es) @ zs
            else (if c0 then (acc @ xs nodes) @ ys else acc @ xs nodes) @ es))))"
  by (intro has_entry_skip) (use assms in \<open>auto simp: has_entry_def\<close>)

lemma api_env_ca:
  "rabbitmq_ca cr = Some s \<Longrightarrow>
   has_entry (EnvValue ''RPC_AMQP_CONNECTION_SSL_CA_FILE'' ''/rabbitmq-ssl/ca.crt'')
     (getAstarteGenericAPIEnvVars sv name cr api c)"
  unfolding getAstarteGenericAPIEnvVars_def Let_def
  by (rule has_entry_rbind [OF has_entry_common], assumption, rule has_entry_rbind [OF has_entry_kept],
    simp, rule api_env_kept)

lemma api_env_ca_cassandra:
  "cassandra_ca cr = Some s \<Longrightarrow>
   has_entry (EnvValue ''CASSANDRA_SSL_CA_FILE'' ''/cassandra-ssl/ca.crt'')
     (getAstarteGenericAPIEnvVars sv name cr api c)"
  unfolding getAstarteGenericAPIEnvVars_def Let_def
  by (rule has_entry_skip, rule has_entry_rbind [OF has_entry_cassandra], assumption, rule api_env_kept)

lemma finds_ca_parts:
  assumes "pod_parts ps k vs" "EnvValue var (dir @ ''/ca.crt'') \<in> set (c_Env k)"
    and "m \<in> set (c_VolumeMounts k)" "vm_MountPath m = dir"
    and "v \<in> set vs" "vol_Name v = vm_Name m" "vol_Source v = VolSecret secret [(''ca.crt'', ''ca.crt'')] None"
  shows "finds_ca ps var dir secret"
  using assms by (auto simp: finds_ca_def pod_parts_def list_ex_iff)

lemma api_volumes_extend:
  "getAstarteGenericAPIComponentVolumes cr c = Inr vs \<Longrightarrow>
   \<exists>vs0. getAstarteCommonVolumes cr = Inr vs0 \<and> set vs0 \<subseteq> set vs"
  by (auto simp: getAstarteGenericAPIComponentVolumes_def rbind_eq_Inr split: if_splits)

lemma api_mounts_extend:
  "getAstarteGenericAPIComponentVolumeMounts cr c = Inr ms \<Longrightarrow>
   \<exists>ms0. getAstarteCommonVolumeMounts cr = Inr ms0 \<and> set ms0 \<subseteq> set ms"
  by (auto simp: getAstarteGenericAPIComponentVolumeMounts_def rbind_eq_Inr split: if_splits)


lemma ex_pairing_ok: "isOK ex_pairing_pod"
  unfolding ex_pairing_pod_def by (simp add: isOK_component_pod) code_simp


text \<open>VerneMQ is told of the file as well, but nothing is ever mounted at its directory.\<close>

lemma has_entry_more: "e \<in> set es \<Longrightarrow> has_entry e (appendRabbitMQConnectionEnvVars es p cr)"
  "e \<in> set es \<Longrightarrow> has_entry e (appendVerneMQCassandraConnectionEnvVars es cr)"
  by (auto simp: has_entry_def dest: subsetD [OF rabbitmq_env.keeps] subsetD [OF vernemq_env.keeps])

lemma vernemq_env_kept:
  "e \<in> set acc \<Longrightarrow>
   has_entry e (if ok then appendVerneMQCassandraConnectionEnvVars (acc @ xs) cr else Inr (acc @ xs))"
  using has_entry_more(2) [of e "acc @ xs" cr] by (simp add: has_entry_def)

lemma vernemq_ca_not_mounted:
  assumes "getVerneMQPodSpec sv name v cr = Inr ps" "rabbitmq_ca cr = Some s" "k \<in> set (ps_Containers ps)"
  shows "EnvValue ''RPC_AMQP_CONNECTION_SSL_CA_FILE'' ''/rabbitmq-ssl/ca.crt'' \<in> set (c_Env k) \<and>
     (\<forall>m \<in> set (c_VolumeMounts k). vm_MountPath m \<noteq> ''/rabbitmq-ssl'')"
proof
  have told: "has_entry (EnvValue ''RPC_AMQP_CONNECTION_SSL_CA_FILE'' ''/rabbitmq-ssl/ca.crt'')
      (appendRabbitMQConnectionEnvVars es ''RPC_AMQP_CONNECTION'' cr)" for es
    using rabbitmq_ca_env [where p = "''RPC_AMQP_CONNECTION''"] assms(2) by (auto simp: has_entry_def)
  have "has_entry (EnvValue ''RPC_AMQP_CONNECTION_SSL_CA_FILE'' ''/rabbitmq-ssl/ca.crt'') (getVerneMQEnvVars sv name cr)"
    unfolding getVerneMQEnvVars_def Let_def
    by (rule has_entry_skip, rule has_entry_rbind [OF told], rule has_entry_skip, rule has_entry_rbind,
      erule vernemq_env_kept) (simp add: has_entry_def)
  with assms(1,3) show "EnvValue ''RPC_AMQP_CONNECTION_SSL_CA_FILE'' ''/rabbitmq-ssl/ca.crt'' \<in> set (c_Env k)"
    by (auto elim!: vernemq_pod_parts simp: pod_parts_def has_entry_def)
  show "\<forall>m \<in> set (c_VolumeMounts k). vm_MountPath m \<noteq> ''/rabbitmq-ssl''"
    using assms(1,3) by (auto elim!: vernemq_pod_parts simp: pod_parts_def getVerneMQVolumeMounts_def)
qed

section \<open>Labels\<close>

lemma fold_update_absent:
  "k \<notin> fst ` set ls \<Longrightarrow> map_of (fold (\<lambda>(k, v) m. AList.update k v m) ls m) k = map_of m k"
  by (induction ls arbitrary: m) (auto simp: update_conv')

lemma fold_update_present:
  assumes "distinct (map fst ls)" "(k, v) \<in> set ls"
  shows "map_of (fold (\<lambda>(k, v) m. AList.update k v m) ls m) k = Some v"
  using assms
proof (induction ls arbitrary: m)
  case (Cons l ls)
  then show ?case
    by (cases "l = (k, v)") (auto simp: fold_update_absent update_conv')
qed simp

text \<open>
  The interface \<open>PodLabelsGetter\<close>: resources that have labels for their pods. The webhook accepts a
  resource if none of its labels is reserved; this is what its clients rely on.
\<close>

locale pod_labels_getter =
  fixes getLabels :: "'r \<Rightarrow> smap" and accepted :: "'r \<Rightarrow> bool"
  assumes accepted_unreserved: "accepted r \<Longrightarrow> (k, v) \<in> set (getLabels r) \<Longrightarrow> \<not> reserved_label k"
begin

text \<open>A reserved label of the operator survives the labels of an accepted resource.\<close>

lemma label_survives:
  assumes "accepted r" "distinct (map fst labels)" "(k, v) \<in> set labels" "reserved_label k"
  shows "map_of (computePodLabels getLabels r labels) k = Some v"
proof -
  have absent: "k \<notin> fst ` set (getLabels r)"
    using accepted_unreserved [OF assms(1)] assms(4) by auto
  show ?thesis
    unfolding computePodLabels_def using absent
    by (simp add: fold_update_absent fold_update_present [OF assms(2,3)])
qed

end

lemma labels_validated:
  "validatePodLabelsForClusteredResource getLabels r = [] \<Longrightarrow> (k, v) \<in> set (getLabels r) \<Longrightarrow> \<not> reserved_label k"
  by (auto simp: validatePodLabelsForClusteredResource_def filter_empty_conv)

interpretation clustered_labels: pod_labels_getter gcr_GetPodLabels
  "\<lambda>r. validatePodLabelsForClusteredResource gcr_GetPodLabels r = []"
  by unfold_locales (rule labels_validated)

interpretation cfssl_labels: pod_labels_getter cfssl_GetPodLabels
  "\<lambda>r. validatePodLabelsForClusteredResource cfssl_GetPodLabels r = []"
  by unfold_locales (rule labels_validated)

text \<open>
  The webhook's check of one resource at a time: whichever part of the resource a pod takes its
  labels from, it has been checked, except AppEngine API's.
\<close>

lemma validated_component:
  assumes "validatePodLabelsForClusteredResources cr = []" "c \<noteq> AppEngineAPI"
  shows "validatePodLabelsForClusteredResource gcr_GetPodLabels (component_resource cr c) = []"
  using assms by (cases c) (simp_all add: validatePodLabelsForClusteredResources_def component_resource_def Let_def)

lemma validated_vernemq:
  "validatePodLabelsForClusteredResources cr = [] \<Longrightarrow>
   validatePodLabelsForClusteredResource gcr_GetPodLabels (vmq_Generic (spec_VerneMQ (ast_Spec cr))) = []"
  by (simp add: validatePodLabelsForClusteredResources_def Let_def)

end
