(* ===== verification/Reconcile_Footprint.thy ===== *)
theory Reconcile_Footprint
  imports Controllers Pod_Environment
begin

text \<open>
  The footprint of the reconciliation of an Astarte resource: which objects it reads, writes and
  deletes, who owns what it writes, and that its workloads select their own pods. Each operation is
  a sequence of calls; the statements hold whatever the API server answers.
\<close>

section \<open>The footprint\<close>

definition own_name :: "Astarte \<Rightarrow> string \<Rightarrow> bool" where
  "own_name cr n \<longleftrightarrow> HasPrefix n (cr_Name cr @ ''-'')"

lemma own_name_simps [simp]: "own_name cr (cr_Name cr @ CHR ''-'' # n)"
  by (auto simp: own_name_def HasPrefix_iff)

text \<open>Priority classes belong to the cluster; everything else to the namespace and the name of the resource.\<close>

fun own_key :: "Astarte \<Rightarrow> okey \<Rightarrow> bool" where
  "own_key cr (k, ns, n) =
     (if k = OPriorityClass then n \<in> set priority_class_names
      else ns = cr_Namespace cr \<and> own_name cr n)"

text \<open>A workload's selector is matched by the pods of its template.\<close>

fun selects_own_pods :: "kobj \<Rightarrow> bool" where
  "selects_own_pods (KDeployment d) =
     (\<forall>(l, v) \<in> set (dp_Selector (d_Spec d)). map_of (pt_Labels (dp_Template (d_Spec d))) l = Some v)"
| "selects_own_pods (KStatefulSet s) =
     (\<forall>(l, v) \<in> set (ssp_Selector (ss_Spec s)). map_of (pt_Labels (ssp_Template (ss_Spec s))) l = Some v)"
| "selects_own_pods _ = True"

text \<open>The labels of every component are free of reserved ones, AppEngine API's included.\<close>

definition labels_unreserved :: "Astarte \<Rightarrow> bool" where
  "labels_unreserved cr \<longleftrightarrow>
     validatePodLabelsForClusteredResources cr = [] \<and>
     validatePodLabelsForClusteredResource gcr_GetPodLabels (component_resource cr AppEngineAPI) = []"

definition reconciled :: "Astarte \<Rightarrow> kobj \<Rightarrow> bool" where
  "reconciled cr x \<longleftrightarrow>
     own_key cr (obj_key x) \<and>
     (obj_kind x \<noteq> OPriorityClass \<longrightarrow> om_Controller (obj_meta x) = Some (owner_ref_of (KAstarte cr))) \<and>
     (labels_unreserved cr \<longrightarrow> selects_own_pods x)"

fun reconcile_event :: "Astarte \<Rightarrow> event \<Rightarrow> bool" where
  "reconcile_event cr (EvGet k) = (fst (snd k) = cr_Namespace cr)"
| "reconcile_event cr (EvList k ns ls) = (ns = Some (cr_Namespace cr))"
| "reconcile_event cr (EvCreate x) = reconciled cr x"
| "reconcile_event cr (EvUpdate x) = False"
| "reconcile_event cr (EvStatusUpdate x) = False"
| "reconcile_event cr (EvDelete k) = own_key cr k"
| "reconcile_event cr (EvDeleteAll k ns ls) =
     (ns = cr_Namespace cr \<and>
      (k = ODeployment \<and> ls = [(''astarte-component'', ''data-updater-plant'')] \<or>
       k = OPod \<and> ls = [(''app'', GetVerneMQStatefulSetName cr)]))"
| "reconcile_event cr (EvLoad k) = own_key cr k"
| "reconcile_event cr (EvStore x) = reconciled cr x"
| "reconcile_event cr (EvRandom n) = True"
| "reconcile_event cr EvGenerateKey = True"
| "reconcile_event cr EvGenerateCA = True"
| "reconcile_event cr (EvRecord t r) = True"

section \<open>Objects of a kind\<close>

lemma kind_simps [simp]:
  "obj_kind x = ODeployment \<longleftrightarrow> (\<exists>d. x = KDeployment d)"
  "obj_kind x = OStatefulSet \<longleftrightarrow> (\<exists>s. x = KStatefulSet s)"
  "obj_kind x = OService \<longleftrightarrow> (\<exists>s. x = KService s)"
  "obj_kind x = OSecret \<longleftrightarrow> (\<exists>s. x = KSecret s)"
  "obj_kind x = OConfigMap \<longleftrightarrow> (\<exists>c. x = KConfigMap c)"
  "obj_kind x = OServiceAccount \<longleftrightarrow> (\<exists>s. x = KServiceAccount s)"
  "obj_kind x = ORole \<longleftrightarrow> (\<exists>r. x = KRole r)"
  "obj_kind x = ORoleBinding \<longleftrightarrow> (\<exists>r. x = KRoleBinding r)"
  "obj_kind x = OPriorityClass \<longleftrightarrow> (\<exists>p. x = KPriorityClass p)"
  by (cases x; simp)+

lemmas on_kind_defs =
  on_secret_def on_config_map_def on_service_def on_role_def on_role_binding_def on_priority_class_def
  on_deployment_def on_stateful_set_def

lemma obj_key_eq [simp]:
  "obj_key x = (k, ns, n) \<longleftrightarrow> obj_kind x = k \<and> om_Namespace (obj_meta x) = ns \<and> om_Name (obj_meta x) = n"
  by (simp add: obj_key_def)

lemma obj_key_simps [simp]:
  "obj_key (KDeployment d) = (ODeployment, om_Namespace (d_Meta d), om_Name (d_Meta d))"
  "obj_key (KStatefulSet t) = (OStatefulSet, om_Namespace (ss_Meta t), om_Name (ss_Meta t))"
  "obj_key (KService v) = (OService, om_Namespace (svc_Meta v), om_Name (svc_Meta v))"
  "obj_key (KSecret s) = (OSecret, om_Namespace (sec_Meta s), om_Name (sec_Meta s))"
  "obj_key (KConfigMap c) = (OConfigMap, om_Namespace (cm_Meta c), om_Name (cm_Meta c))"
  "obj_key (KServiceAccount a) = (OServiceAccount, om_Namespace (sa_Meta a), om_Name (sa_Meta a))"
  "obj_key (KRole r) = (ORole, om_Namespace (role_Meta r), om_Name (role_Meta r))"
  "obj_key (KRoleBinding b) = (ORoleBinding, om_Namespace (rb_Meta b), om_Name (rb_Meta b))"
  "obj_key (KPriorityClass p) = (OPriorityClass, om_Namespace (pc_Meta p), om_Name (pc_Meta p))"
  by (simp_all add: obj_key_def)

section \<open>Rules for the operator's calls\<close>

context kube_api begin

lemma emits_on_Get:
  assumes "P (EvGet (k, ns, n))" "\<And>e. emits P (f (Inl e))" "\<And>x. obj_key x = (k, ns, n) \<Longrightarrow> emits P (f (Inr x))"
  shows "emits P (on_result (Get E k ns n) f)"
proof (rule io_spec_on_result [where R = "\<lambda>r. \<forall>x. r = Inr x \<longrightarrow> obj_key x = (k, ns, n)"])
  show "io_spec P (Get E k ns n) (\<lambda>r. \<forall>x. r = Inr x \<longrightarrow> obj_key x = (k, ns, n))"
    unfolding Get_def using assms(1) get_key by (intro io_spec_call) auto
  show "emits P (f r)" if "\<forall>x. r = Inr x \<longrightarrow> obj_key x = (k, ns, n)" for r
    using that assms(2,3) by (cases r) auto
qed simp

lemma emits_delete_if_present [emit_intros]:
  assumes "ns = cr_Namespace cr" "own_key cr (k, ns, n)"
  shows "emits (reconcile_event cr) (delete_if_present E k ns n)"
  unfolding delete_if_present_def using assms
  by (intro emits_on_Get) (auto intro!: emit_intros simp: obj_key_def)

lemma emits_owned [emit_intros]:
  assumes "own_key cr (obj_key x)"
    and "\<And>x0. obj_key x0 = obj_key x \<Longrightarrow> om_Controller (obj_meta x0) = Some (owner_ref_of (KAstarte cr)) \<Longrightarrow>
           reconciled cr (f x0)"
  shows "emits (reconcile_event cr) (CreateOrUpdate E x (owned E (KAstarte cr) f))"
  using assms by (intro emits_CreateOrUpdate_owned) auto

end

section \<open>Config maps, secrets, services, RBAC\<close>

lemma cr_simps [simp]:
  "obj_Namespace (KAstarte cr) = cr_Namespace cr"
  by (simp_all add: obj_Namespace_def)

context kube_api begin

lemma emits_ReconcileConfigMap [emit_intros]:
  "own_name cr n \<Longrightarrow> emits (reconcile_event cr) (ReconcileConfigMap E n data (KAstarte cr))"
  unfolding ReconcileConfigMap_def by (intro emit_intros) (auto simp: reconciled_def on_kind_defs)

lemma emits_ReconcileTLSSecret [emit_intros]:
  "own_name cr n \<Longrightarrow> emits (reconcile_event cr) (ReconcileTLSSecret E n c k (KAstarte cr))"
  unfolding ReconcileTLSSecret_def by (intro emit_intros) (auto simp: reconciled_def on_kind_defs)

lemma emits_ReconcileSecret [emit_intros]:
  "own_name cr n \<Longrightarrow> emits (reconcile_event cr) (ReconcileSecret E n data (KAstarte cr))"
  unfolding ReconcileSecret_def by (intro emit_intros) (auto simp: reconciled_def on_kind_defs)

lemma emits_ReconcileSecretString [emit_intros]:
  "own_name cr n \<Longrightarrow> emits (reconcile_event cr) (ReconcileSecretString E n data (KAstarte cr))"
  unfolding ReconcileSecretString_def ReconcileSecretStringWithLabels_def
  by (intro emit_intros) (auto simp: reconciled_def on_kind_defs)

lemma emits_createOrUpdateService [emit_intros]:
  "w_env W = E \<Longrightarrow> own_name cr n \<Longrightarrow> emits (reconcile_event cr) (createOrUpdateService W cr n ms ls)"
  unfolding createOrUpdateService_def Let_def by (simp, intro emit_intros) (auto simp: reconciled_def on_kind_defs)

lemma emits_standard_rbac [emit_intros]:
  "w_env W = E \<Longrightarrow> own_name cr n \<Longrightarrow> emits (reconcile_event cr) (reconcileStandardRBACForClusteringForApp W n rules cr)"
  unfolding reconcileStandardRBACForClusteringForApp_def Let_def
  by (simp, intro emit_intros) (auto simp: reconciled_def on_kind_defs obj_key_def)

lemma emits_flow_rbac [emit_intros]:
  "w_env W = E \<Longrightarrow> own_name cr n \<Longrightarrow> emits (reconcile_event cr) (reconcileRBACForFlow W n cr)"
  unfolding reconcileRBACForFlow_def Let_def
  by (simp, intro emit_intros) (auto simp: reconciled_def on_kind_defs obj_key_def)

lemma emits_create_owned [emit_intros]:
  assumes "\<And>m. om_Controller m = Some (owner_ref_of (KAstarte cr)) \<Longrightarrow> om_Namespace m = om_Namespace (obj_meta x) \<Longrightarrow>
      om_Name m = om_Name (obj_meta x) \<Longrightarrow> reconciled cr (set_meta m x)"
  shows "emits (reconcile_event cr) (bnd (SetControllerReference E (KAstarte cr) x) (\<lambda>y. CreateObj E y))"
  by (rule io_spec_bnd [OF SetControllerReference_spec]) (auto intro!: emit_intros assms)

lemma emits_cookie [emit_intros]:
  assumes "w_env W = E" "own_name cr n"
  shows "emits (reconcile_event cr) (ensureErlangCookieSecret W n cr)"
  unfolding ensureErlangCookieSecret_def Let_def assms(1) using assms(2)
  by (intro emits_on_Get) (auto intro!: emits_case_sum emits_if emits_bnd [of _ "RandRead E 32"] emits_create_owned
      emit_intros simp: reconciled_def)

end

section \<open>Workloads\<close>

text \<open>The selector of a component's deployment survives the user's labels.\<close>

lemma component_selector:
  assumes "validatePodLabelsForClusteredResource gcr_GetPodLabels b = []"
    and "distinct (map fst (component_labels n c @ ls))"
  shows "map_of (computePodLabels gcr_GetPodLabels b (component_labels n c @ ls)) ''app'' = Some n"
  by (rule clustered_labels.label_survives [OF assms]) (simp_all add: component_labels_def reserved_label_def)

context kube_api begin

lemma emits_bnd_read [emit_intros]:
  "emits (reconcile_event cr) (getReplicaCountForResource E r cr)"
  unfolding getReplicaCountForResource_def getHPAStatusForResource_def
  by (auto intro!: emit_intros split: option.split)

lemma emits_set_deployment:
  assumes "own_key cr (obj_key x)" "obj_kind x = ODeployment" "emits (reconcile_event cr) replicas"
    and "labels_unreserved cr \<Longrightarrow> \<forall>(l, v) \<in> set (dp_Selector spec). map_of (pt_Labels (dp_Template spec)) l = Some v"
  shows "emits (reconcile_event cr) (CreateOrUpdate E x (set_deployment E cr labels spec replicas))"
proof (rule emits_CreateOrUpdate)
  show "reconcile_event cr (EvLoad (obj_key x))"
    using assms(1) by simp
  fix x0
  assume k: "obj_key x0 = obj_key x"
  let ?f = "on_deployment (\<lambda>d. d\<lparr>d_Meta := (d_Meta d)\<lparr>om_Labels := labels\<rparr>, d_Spec := spec\<rparr>)"
  show "io_spec (reconcile_event cr) (set_deployment E cr labels spec replicas x0)
      (\<lambda>r. \<forall>y. r = Inr y \<longrightarrow> reconcile_event cr (EvStore y))"
    unfolding set_deployment_def
  proof (rule io_spec_bnd [OF owned_spec])
    fix x1
    assume "\<forall>y. (Inr x1 :: err + kobj) = Inr y \<longrightarrow>
        y = ?f (set_meta ((obj_meta x0)\<lparr>om_Controller := Some (owner_ref_of (KAstarte cr))\<rparr>) x0)"
    with k assms(2) obtain d where d: "x1 = KDeployment d" "obj_key x1 = obj_key x" "d_Spec d = spec"
      "om_Controller (d_Meta d) = Some (owner_ref_of (KAstarte cr))"
      by (cases x) (auto simp: on_deployment_def)
    have "reconciled cr (on_deployment (\<lambda>d. d\<lparr>d_Spec := (d_Spec d)\<lparr>dp_Replicas := n\<rparr>\<rparr>) x1)" for n
      using d assms(1,4) by (auto simp: reconciled_def on_deployment_def)
    then show "io_spec (reconcile_event cr)
        (bnd replicas (\<lambda>n. ret (on_deployment (\<lambda>d. d\<lparr>d_Spec := (d_Spec d)\<lparr>dp_Replicas := n\<rparr>\<rparr>) x1)))
        (\<lambda>r. \<forall>y. r = Inr y \<longrightarrow> reconcile_event cr (EvStore y))"
      by (intro io_spec_bnd [OF assms(3)]) (auto intro!: io_spec_ret)
  qed simp
qed

lemma emits_ensure_deployment [emit_intros]:
  assumes "w_env W = E" "own_name cr n" "emits (reconcile_event cr) replicas"
    and "labels_unreserved cr \<Longrightarrow> \<forall>(l, v) \<in> set (dp_Selector spec). map_of (pt_Labels (dp_Template spec)) l = Some v"
  shows "emits (reconcile_event cr) (ensure_deployment W cr n labels spec replicas)"
  unfolding ensure_deployment_def Let_def assms(1) using assms(2-4)
  by (intro emits_bnd emits_set_deployment emits_ret) (auto simp: NewDeployment_def)

end

section \<open>The operations\<close>

text \<open>The selector of a deployment of the given component, in the form the operations build it.\<close>

lemma selector_matched:
  assumes "validatePodLabelsForClusteredResource gcr_GetPodLabels b = []"
    and "distinct (map fst (component_labels n c @ ls))"
  shows "\<forall>(l, v) \<in> set (dp_Selector
      \<lparr>dp_Selector = [(''app'', n)], dp_Strategy = st,
       dp_Template = \<lparr>pt_Labels = computePodLabels gcr_GetPodLabels b (component_labels n c @ ls),
                      pt_Annotations = as, pt_Spec = ps\<rparr>, dp_Replicas = r\<rparr>).
    map_of (pt_Labels (dp_Template
      \<lparr>dp_Selector = [(''app'', n)], dp_Strategy = st,
       dp_Template = \<lparr>pt_Labels = computePodLabels gcr_GetPodLabels b (component_labels n c @ ls),
                      pt_Annotations = as, pt_Spec = ps\<rparr>, dp_Replicas = r\<rparr>)) l = Some v"
  using component_selector [OF assms] by simp

lemma distinct_component_labels: "distinct (map fst (component_labels n c @ []))"
  by (simp add: component_labels_def)

lemmas selector_matched0 = selector_matched [OF _ distinct_component_labels, unfolded append_Nil2]

context kube_api begin

lemma emits_backend [emit_intros]:
  assumes "w_env W = E" "labels_unreserved cr \<Longrightarrow> validatePodLabelsForClusteredResource gcr_GetPodLabels b = []"
  shows "emits (reconcile_event cr) (EnsureAstarteGenericBackend W cr b c)"
  unfolding EnsureAstarteGenericBackend_def Let_def assms(1)
  by (intro emit_intros assms selector_matched0) simp_all

lemma emits_api [emit_intros]:
  assumes "w_env W = E" "labels_unreserved cr \<Longrightarrow> validatePodLabelsForClusteredResource gcr_GetPodLabels (gac_Generic a) = []"
  shows "emits (reconcile_event cr) (EnsureAstarteGenericAPIComponent W cr a c)"
proof -
  have "emits (reconcile_event cr) (checkShouldDeploy W (cr_Name cr @ ''-'' @ DashedString c) cr a c)"
    unfolding checkShouldDeploy_def Let_def assms(1)
    by (intro emit_intros emits_on_Get) (auto intro!: emit_intros)
  then show ?thesis
    unfolding EnsureAstarteGenericAPIComponent_def Let_def assms(1)
    by (intro emits_bnd [of _ "checkShouldDeploy W n cr a c" for n] emit_intros assms selector_matched0) simp_all
qed

lemma emits_indexed_dup [emit_intros]:
  assumes "w_env W = E" "labels_unreserved cr \<Longrightarrow> validatePodLabelsForClusteredResource gcr_GetPodLabels (dup_Generic dup) = []"
  shows "emits (reconcile_event cr) (createIndexedDataUpdaterPlantDeployment W i n cr dup)"
  unfolding createIndexedDataUpdaterPlantDeployment_def Let_def
  by (intro emit_intros assms selector_matched) (auto simp: component_labels_def)

lemma emits_dup [emit_intros]:
  assumes "w_env W = E" "labels_unreserved cr \<Longrightarrow> validatePodLabelsForClusteredResource gcr_GetPodLabels (dup_Generic dup) = []"
  shows "emits (reconcile_event cr) (EnsureAstarteDataUpdaterPlant W cr dup)"
  unfolding EnsureAstarteDataUpdaterPlant_def Let_def assms(1)
  by (intro emit_intros assms) (simp_all add: DashedString_table)

lemma emits_dashboard [emit_intros]:
  assumes "w_env W = E" "labels_unreserved cr \<Longrightarrow> validatePodLabelsForClusteredResource gcr_GetPodLabels (dash_Generic d) = []"
  shows "emits (reconcile_event cr) (EnsureAstarteDashboard W cr d)"
proof -
  have l: "[(''app'', n), (''component'', ''astarte''), (''astarte-component'', ''dashboard'')] = component_labels n Dashboard" for n
    by (simp add: component_labels_def DashedString_table)
  show ?thesis
    unfolding EnsureAstarteDashboard_def Let_def assms(1) l
    by (intro emit_intros assms selector_matched0) (auto simp: reconciled_def on_kind_defs)
qed

end

context kube_api begin

lemma emits_housekeeping_key [emit_intros]:
  assumes "w_env W = E"
  shows "emits (reconcile_event cr) (EnsureHousekeepingKey W cr)"
proof -
  have inner: "emits (reconcile_event cr)
      (on_result (Get E OSecret (cr_Namespace cr) (cr_Name cr @ ''-housekeeping-private-key'')) (\<lambda>r.
         case r of Inr theSecret \<Rightarrow> DeleteObj E theSecret
         | Inl err \<Rightarrow> if err \<noteq> ErrNotFound then fail err else ret ()))"
    by (intro emits_on_Get) (auto intro!: emit_intros)
  show ?thesis
    unfolding EnsureHousekeepingKey_def Let_def assms storePrivateKeyInSecret_def storePublicKeyInSecret_def
      generateKeyPair_def housekeeping_public_name_def housekeeping_private_name_def
    by (intro emits_on_Get) (auto intro!: inner emit_intros)
qed

lemma emits_secret_key_base [emit_intros]:
  assumes "w_env W = E"
  shows "emits (reconcile_event cr) (EnsureSecretKeyBase W cr)"
  unfolding EnsureSecretKeyBase_def Let_def assms by (intro emit_intros) simp_all

lemma emits_erlang [emit_intros]:
  assumes "w_env W = E"
  shows "emits (reconcile_event cr) (EnsureGenericErlangConfiguration W cr)"
    and "emits (reconcile_event cr) (EnsureErlangClusteringCookie W cr)"
  unfolding EnsureGenericErlangConfiguration_def EnsureErlangClusteringCookie_def assms
  by (intro emit_intros assms; simp)+

lemma emits_priority_class_step [emit_intros]:
  assumes "n \<in> set priority_class_names"
  shows "emits (reconcile_event cr) (priority_class_step E n v d)"
  unfolding priority_class_step_def
proof (rule emits_CreateOrUpdate)
  show "reconcile_event cr (EvLoad (obj_key (NewPriorityClass n)))"
    using assms by (simp add: NewPriorityClass_def)
  fix x0
  assume k: "obj_key x0 = obj_key (NewPriorityClass n)"
  let ?f = "\<lambda>v. on_priority_class (\<lambda>p. p\<lparr>pc_GlobalDefault := False, pc_PreemptionPolicy := Some ''Never'',
      pc_Value := go_int32 v, pc_Description := d\<rparr>) x0"
  have "reconciled cr (?f v)" for v
    using k assms by (auto simp: NewPriorityClass_def reconciled_def on_kind_defs)
  then show "io_spec (reconcile_event cr) (bnd (lift (deref v)) (\<lambda>v. ret (?f v)))
      (\<lambda>r. \<forall>y. r = Inr y \<longrightarrow> reconcile_event cr (EvStore y))"
    by (intro io_spec_bnd [OF emits_lift] io_spec_ret) auto
qed

lemma emits_priority_classes [emit_intros]:
  assumes "w_env W = E"
  shows "emits (reconcile_event cr) (EnsureAstartePriorityClasses W cr)"
  unfolding EnsureAstartePriorityClasses_def Let_def assms
  by (intro emit_intros) (simp_all add: priority_class_names_def)

lemma emits_cfssl [emit_intros]:
  assumes "w_env W = E"
  shows "emits (reconcile_event cr) (EnsureCFSSL W cr)"
  unfolding EnsureCFSSL_def ensureCFSSLCommonSidecars_def ensureCFSSLCASecret_def createCFSSLCASecret_def
    ensureCFSSLCAProxySecret_def Let_def assms
  by (intro emit_intros) (auto simp: reconciled_def on_kind_defs)

lemma emits_vernemq_pods [emit_intros]:
  assumes "w_env W = E"
  shows "emits (reconcile_event cr) (maybeDeleteVerneMQPods W cr)"
  unfolding maybeDeleteVerneMQPods_def Let_def assms by (intro emit_intros) simp_all

text \<open>The mutation of the stateful set, with the replicas read inside it.\<close>

lemma vernemq_mutation:
  assumes "obj_key x0 = (OStatefulSet, cr_Namespace cr, GetVerneMQStatefulSetName cr)"
    and "labels_unreserved cr \<Longrightarrow> \<forall>(l, v) \<in> set (ssp_Selector spec). map_of (pt_Labels (ssp_Template spec)) l = Some v"
  shows "io_spec (reconcile_event cr)
     (bnd (owned E (KAstarte cr) (on_stateful_set (\<lambda>s. s\<lparr>ss_Meta := (ss_Meta s)\<lparr>om_Labels := ls\<rparr>, ss_Spec := spec\<rparr>)) x0) (\<lambda>x1.
      bnd (getReplicaCountForResource E r cr) (\<lambda>n.
        ret (on_stateful_set (\<lambda>s. s\<lparr>ss_Spec := (ss_Spec s)\<lparr>ssp_Replicas := n\<rparr>\<rparr>) x1))))
     (\<lambda>r. \<forall>y. r = Inr y \<longrightarrow> reconcile_event cr (EvStore y))"
    (is "io_spec _ (bnd (owned E _ ?f x0) ?rest) _")
proof (rule io_spec_bnd [OF owned_spec])
  fix x1
  assume "\<forall>y. (Inr x1 :: err + kobj) = Inr y \<longrightarrow>
      y = ?f (set_meta ((obj_meta x0)\<lparr>om_Controller := Some (owner_ref_of (KAstarte cr))\<rparr>) x0)"
  with assms(1) obtain s where s: "x1 = KStatefulSet s" "om_Namespace (ss_Meta s) = cr_Namespace cr"
    "om_Name (ss_Meta s) = GetVerneMQStatefulSetName cr" "ss_Spec s = spec"
    "om_Controller (ss_Meta s) = Some (owner_ref_of (KAstarte cr))"
    by (auto simp: on_stateful_set_def)
  have "reconciled cr (on_stateful_set (\<lambda>s. s\<lparr>ss_Spec := (ss_Spec s)\<lparr>ssp_Replicas := n\<rparr>\<rparr>) x1)" for n
    using s assms(2) by (auto simp: reconciled_def on_stateful_set_def GetVerneMQStatefulSetName_def)
  then show "io_spec (reconcile_event cr) (?rest x1) (\<lambda>r. \<forall>y. r = Inr y \<longrightarrow> reconcile_event cr (EvStore y))"
    by (intro io_spec_bnd [OF emits_bnd_read] io_spec_ret) auto
qed simp

lemma vernemq_selector:
  assumes "labels_unreserved cr"
  shows "map_of (computePodLabels gcr_GetPodLabels (vmq_Generic (spec_VerneMQ (ast_Spec cr))) [(''app'', n)]) ''app'' = Some n"
  by (rule clustered_labels.label_survives [OF validated_vernemq])
    (use assms in \<open>simp_all add: labels_unreserved_def reserved_label_def\<close>)

lemma emits_vernemq [emit_intros]:
  assumes "w_env W = E"
  shows "emits (reconcile_event cr) (EnsureVerneMQ W cr)"
proof -
  have n: "own_name cr (GetVerneMQStatefulSetName cr)"
    by (simp add: GetVerneMQStatefulSetName_def)
  have store: "emits (reconcile_event cr) (CreateOrUpdate E (NewStatefulSet (GetVerneMQStatefulSetName cr) (cr_Namespace cr)) (\<lambda>x.
      bnd (owned E (KAstarte cr) (on_stateful_set (\<lambda>s. s\<lparr>ss_Meta := (ss_Meta s)\<lparr>om_Labels := ls\<rparr>, ss_Spec := spec\<rparr>)) x) (\<lambda>x1.
      bnd (getReplicaCountForResource E r cr) (\<lambda>n.
        ret (on_stateful_set (\<lambda>s. s\<lparr>ss_Spec := (ss_Spec s)\<lparr>ssp_Replicas := n\<rparr>\<rparr>) x1)))))"
    if "labels_unreserved cr \<Longrightarrow> \<forall>(l, v) \<in> set (ssp_Selector spec). map_of (pt_Labels (ssp_Template spec)) l = Some v" for ls spec r
    by (rule emits_CreateOrUpdate) (use n in simp, rule vernemq_mutation [OF _ that], simp_all)
  show ?thesis
    unfolding EnsureVerneMQ_def Let_def assms
    by (intro emit_intros store assms n) (auto simp: reconciled_def on_kind_defs n vernemq_selector)
qed

lemma emits_in_order [emit_intros]: "(\<And>m. m \<in> set ms \<Longrightarrow> emits P m) \<Longrightarrow> emits P (in_order ms)"
  by (induction ms) (auto intro!: emit_intros)

lemma accepted_components:
  assumes "labels_unreserved cr"
  shows "validatePodLabelsForClusteredResource gcr_GetPodLabels (component_resource cr c) = []"
  using assms validated_component [of cr c] by (cases "c = AppEngineAPI") (auto simp: labels_unreserved_def)

lemma accepted_parts:
  assumes "labels_unreserved cr"
  shows "validatePodLabelsForClusteredResource gcr_GetPodLabels (gac_Generic (comp_Housekeeping (spec_Components (ast_Spec cr)))) = []"
    "validatePodLabelsForClusteredResource gcr_GetPodLabels (gac_Generic (comp_RealmManagement (spec_Components (ast_Spec cr)))) = []"
    "validatePodLabelsForClusteredResource gcr_GetPodLabels (gac_Generic (comp_Pairing (spec_Components (ast_Spec cr)))) = []"
    "validatePodLabelsForClusteredResource gcr_GetPodLabels (gac_Generic (comp_Flow (spec_Components (ast_Spec cr)))) = []"
    "validatePodLabelsForClusteredResource gcr_GetPodLabels (gac_Generic (ae_GenericAPI (comp_AppengineAPI (spec_Components (ast_Spec cr))))) = []"
    "validatePodLabelsForClusteredResource gcr_GetPodLabels (te_Generic (comp_TriggerEngine (spec_Components (ast_Spec cr)))) = []"
    "validatePodLabelsForClusteredResource gcr_GetPodLabels (dup_Generic (comp_DataUpdaterPlant (spec_Components (ast_Spec cr)))) = []"
    "validatePodLabelsForClusteredResource gcr_GetPodLabels (dash_Generic (comp_Dashboard (spec_Components (ast_Spec cr)))) = []"
  using accepted_components [OF assms, of Housekeeping]
    accepted_components [OF assms, of RealmManagement]
    accepted_components [OF assms, of Pairing]
    accepted_components [OF assms, of FlowComponent]
    accepted_components [OF assms, of AppEngineAPI]
    accepted_components [OF assms, of TriggerEngine]
    accepted_components [OF assms, of DataUpdaterPlant]
    accepted_components [OF assms, of Dashboard]
  by (simp_all add: component_resource_def Let_def)

lemma emits_microservices [emit_intros]:
  assumes "w_env W = E"
  shows "emits (reconcile_event cr) (EnsureAstarteMicroservices W cr)"
  unfolding EnsureAstarteMicroservices_def Let_def in_order.simps
  by (intro emits_bnd emits_api emits_backend emits_dup emits_ret assms accepted_parts)

text \<open>The whole sequence keeps to the footprint.\<close>

lemma emits_reconcile [emit_intros]:
  assumes "w_env W = E"
  shows "emits (reconcile_event cr) (ReconcileAstarteResources W cr)"
  unfolding ReconcileAstarteResources_def in_order.simps by (intro emit_intros assms accepted_parts)

end

end
