(* ===== verification/Controller_Footprint.thy ===== *)
theory Controller_Footprint
  imports Reconcile_Footprint
begin

text \<open>
  The footprint of the handler \<open>Reconcile\<close> of the Astarte controller, with health, status, upgrade
  check and finalization around the reconciliation.
\<close>

section \<open>The handler's footprint\<close>

definition astarte_ref :: "string \<Rightarrow> owner_ref" where
  "astarte_ref name = \<lparr>or_Kind = ''Astarte'', or_Name = name\<rparr>"

lemma owner_ref_of_astarte: "owner_ref_of (KAstarte cr) = astarte_ref (cr_Name cr)"
  by (simp add: owner_ref_of_def astarte_ref_def)

text \<open>
  Objects at home with the resource of a name: those of its namespace whose names begin with its name
  and a dash, and the three priority classes.
\<close>

fun at_home :: "string \<Rightarrow> string \<Rightarrow> okey \<Rightarrow> bool" where
  "at_home ns name (k, ns', n) =
     (if k = OPriorityClass then n \<in> set priority_class_names
      else ns' = ns \<and> HasPrefix n (name @ ''-''))"

definition written_at_home :: "string \<Rightarrow> string \<Rightarrow> kobj \<Rightarrow> bool" where
  "written_at_home ns name x \<longleftrightarrow>
     at_home ns name (obj_key x) \<and>
     (obj_kind x \<noteq> OPriorityClass \<longrightarrow> om_Controller (obj_meta x) = Some (astarte_ref name))"

fun handler_event :: "string \<Rightarrow> string \<Rightarrow> event \<Rightarrow> bool" where
  "handler_event ns name (EvGet k) = (fst (snd k) = ns)"
| "handler_event ns name (EvList k nso ls) = (nso = Some ns \<or> k = OPriorityClass)"
| "handler_event ns name (EvCreate x) = written_at_home ns name x"
| "handler_event ns name (EvUpdate x) = (obj_key x = (OAstarte, ns, name))"
| "handler_event ns name (EvStatusUpdate x) = (obj_key x = (OAstarte, ns, name))"
| "handler_event ns name (EvDelete k) = at_home ns name k"
| "handler_event ns name (EvDeleteAll k ns' ls) =
     (ns' = ns \<and>
      (k = ODeployment \<and> ls = [(''astarte-component'', ''data-updater-plant'')] \<or>
       k = OPod \<and> ls = [(''app'', name @ ''-vernemq'')]))"
| "handler_event ns name (EvLoad k) = at_home ns name k"
| "handler_event ns name (EvStore x) = written_at_home ns name x"
| "handler_event ns name (EvRandom n) = True"
| "handler_event ns name EvGenerateKey = True"
| "handler_event ns name EvGenerateCA = True"
| "handler_event ns name (EvRecord t r) = True"

lemma own_key_at_home: "own_key cr k = at_home (cr_Namespace cr) (cr_Name cr) k"
  by (cases k) (simp add: own_name_def)

lemma reconcile_event_handled:
  "reconcile_event cr e \<Longrightarrow> handler_event (cr_Namespace cr) (cr_Name cr) e"
  by (cases e) (auto simp: own_key_at_home reconciled_def written_at_home_def owner_ref_of_astarte
      GetVerneMQStatefulSetName_def simp del: own_key.simps at_home.simps)

text \<open>Reading the cluster: the calls of health checks and status.\<close>

fun reads_only :: "string \<Rightarrow> event \<Rightarrow> bool" where
  "reads_only ns (EvGet k) = (fst (snd k) = ns)"
| "reads_only ns (EvList k nso ls) = (nso = Some ns)"
| "reads_only ns (EvRecord t r) = True"
| "reads_only ns e = False"

lemma reads_only_handled: "reads_only ns e \<Longrightarrow> handler_event ns name e"
  by (cases e) auto

lemma emits_handled: "emits (reads_only ns) m \<Longrightarrow> emits (handler_event ns name) m"
  by (erule io_spec_weaken) (auto intro: reads_only_handled)

context kube_api begin

lemma Get_spec:
  "P (EvGet (k, ns, n)) \<Longrightarrow> io_spec P (Get E k ns n) (\<lambda>r. \<forall>x. r = Inr x \<longrightarrow> obj_key x = (k, ns, n))"
  unfolding Get_def using get_key by (intro io_spec_call) auto

lemma ListObjs_spec:
  "P (EvList k ns ls) \<Longrightarrow>
   io_spec P (ListObjs E k ns ls) (\<lambda>r. \<forall>xs. r = Inr xs \<longrightarrow> (\<forall>x \<in> set xs. selected k ns ls x))"
  unfolding ListObjs_def using list_selected by (intro io_spec_call) auto

lemma GetAstarte_spec:
  assumes "P (EvGet (OAstarte, ns, n))"
  shows "io_spec P (GetAstarte E ns n) (\<lambda>r. \<forall>a. r = Inr a \<longrightarrow> cr_Namespace a = ns \<and> cr_Name a = n)"
  unfolding GetAstarte_def
proof (rule io_spec_bnd [OF Get_spec [where P = P, OF assms]])
  fix x
  assume x: "\<forall>y. (Inr x :: err + kobj) = Inr y \<longrightarrow> obj_key y = (OAstarte, ns, n)"
  show "io_spec P (lift (as_astarte x)) (\<lambda>r. \<forall>a. r = Inr a \<longrightarrow> cr_Namespace a = ns \<and> cr_Name a = n)"
    by (rule io_spec_lift) (use x in \<open>cases x; auto simp: as_astarte_def\<close>)
qed simp

lemma emits_health [emit_intros]:
  "emits (reads_only (cr_Namespace cr)) (ComputeClusterHealth E cr)"
  unfolding ComputeClusterHealth_def vernemq_health_def computeCFSSLHealth_def by (intro emit_intros) simp_all

lemma emits_status [emit_intros]:
  "emits (reads_only (cr_Namespace cr)) (ComputeAstarteStatusResource E cr)"
  unfolding ComputeAstarteStatusResource_def Let_def by (intro emit_intros) simp_all

lemma emits_upgrade [emit_intros]:
  "emits (reads_only (cr_Namespace cr)) (CheckAndPerformUpgrade E cr)"
  unfolding CheckAndPerformUpgrade_def by (intro emit_intros) simp_all

text \<open>The status is written on the resource that was just read.\<close>

lemma emits_update_status:
  "emits (\<lambda>e. reads_only ns e \<or> (\<exists>x. e = EvStatusUpdate x \<and> obj_key x = (OAstarte, ns, name)))
     (RetryOnConflict E (update_astarte_status E ns name))" (is "emits ?P _")
proof (rule emits_retry)
  show "emits ?P (update_astarte_status E ns name)"
    unfolding update_astarte_status_def
  proof (rule io_spec_bnd [OF GetAstarte_spec])
    fix a
    assume "\<forall>b. (Inr a :: err + Astarte) = Inr b \<longrightarrow> cr_Namespace b = ns \<and> cr_Name b = name"
    then have a: "cr_Namespace a = ns" "cr_Name a = name"
      by simp_all
    have "emits ?P (ComputeAstarteStatusResource E a)"
      by (rule io_spec_weaken [OF emits_status]) (auto simp: a)
    then show "emits ?P (bnd (ComputeAstarteStatusResource E a) (\<lambda>st. StatusUpdate E (KAstarte (a\<lparr>ast_Status := st\<rparr>))))"
      by (rule emits_bnd) (auto intro!: emit_intros simp: a obj_key_def)
  qed simp_all
qed

end

section \<open>Status coherency and finalization\<close>

lemma erase_prefix_home:
  "HasPrefix n p \<Longrightarrow> p \<in> set (erasePVCPrefixes name) \<Longrightarrow> HasPrefix n (name @ ''-'')"
  by (auto simp: erasePVCPrefixes_def HasPrefix_iff)

context kube_api begin

lemma emits_or_return [emit_intros]:
  "emits P m \<Longrightarrow> (\<And>x. emits P (f x)) \<Longrightarrow> emits P (or_return m f)"
  unfolding or_return_def by (intro emit_intros)

lemma or_return_spec:
  "io_spec P m R \<Longrightarrow> (\<And>x. R (Inr x) \<Longrightarrow> emits P (f x)) \<Longrightarrow> emits P (or_return m f)"
  unfolding or_return_def
  by (rule io_spec_on_result [where R = R]) (auto split: sum.split intro!: emit_intros)

lemma GetAstarte_bnd:
  assumes "P (EvGet (OAstarte, ns, n))"
    and "\<And>a. cr_Namespace a = ns \<Longrightarrow> cr_Name a = n \<Longrightarrow> io_spec P (f a) Q" and "\<And>e. Q (Inl e)"
  shows "io_spec P (bnd (GetAstarte E ns n) f) Q"
  by (rule io_spec_bnd [OF GetAstarte_spec [where P = P, OF assms(1)]]) (use assms in auto)

lemma emits_restore_version:
  "emits (handler_event ns name) (RetryOnConflict E (restore_version E ns name v))"
  unfolding restore_version_def
  by (rule emits_retry, rule GetAstarte_bnd) (auto intro!: emit_intros simp: obj_key_def)

text \<open>The resource the handler goes on with has the same name.\<close>

lemma coherency_spec:
  assumes "cr_Namespace cr = ns" "cr_Name cr = name"
  shows "io_spec (handler_event ns name) (EnsureStatusCoherency E cr ns name)
     (\<lambda>r. \<forall>res err a. r = Inr (res, err, a) \<longrightarrow> cr_Namespace a = ns \<and> cr_Name a = name)"
    (is "io_spec ?P _ ?Q")
proof -
  have q: "?Q (Inr (res, err, cr))" "?Q (Inr (res, err, rebuilt_status cr))" "?Q (Inl e)" for res err e
    using assms by (simp_all add: rebuilt_status_def)
  have get: "io_spec ?P (GetAstarte E ns name) (\<lambda>_. True)"
    by (rule io_spec_emits [OF GetAstarte_spec]) simp
  show ?thesis
    unfolding EnsureStatusCoherency_def Let_def
    by (auto simp: assms intro!: io_spec_ret io_spec_on_result [OF emits_calls(1)] io_spec_bnd [OF emits_calls(9)]
        io_spec_bnd [OF emits_lift] io_spec_on_result [OF emits_restore_version] io_spec_on_result [OF get] q
        split: sum.split)
qed

lemma emits_finalize_pvcs:
  assumes "selected OPVC (Some ns) [] x"
  shows "emits (handler_event ns name)
     (if list_ex (\<lambda>prefix. HasPrefix (om_Name (obj_meta x)) prefix) (erasePVCPrefixes name)
      then on_result (DeleteObj E x) (\<lambda>_. ret ()) else ret ())"
  using assms erase_prefix_home [of "om_Name (obj_meta x)" _ name]
  by (auto intro!: emit_intros simp: selected_def obj_key_def list_ex_iff)

lemma emits_finalize [emit_intros]: "emits (handler_event ns name) (FinalizeAstarte E name ns)"
proof -
  let ?P = "handler_event ns name"
  have secret: "emits ?P (on_result (Get E OSecret ns (name @ ''-cfssl-ca'')) (\<lambda>r.
      case r of Inl _ \<Rightarrow> ret () | Inr s \<Rightarrow> on_result (DeleteObj E s) (\<lambda>_. ret ())))"
    by (rule emits_on_Get) (auto intro!: emit_intros simp: HasPrefix_iff obj_key_def)
  have pvcs: "emits ?P (on_result (ListObjs E OPVC (Some ns) []) (\<lambda>r.
      case r of
        Inl e \<Rightarrow> if e \<noteq> ErrNotFound then fail e else ret ()
      | Inr pvcs \<Rightarrow> for_each (\<lambda>pvc.
          if list_ex (\<lambda>prefix. HasPrefix (om_Name (obj_meta pvc)) prefix) (erasePVCPrefixes name)
          then on_result (DeleteObj E pvc) (\<lambda>_. ret ()) else ret ()) pvcs))"
    by (rule io_spec_on_result [OF ListObjs_spec])
      (auto split: sum.split intro!: emits_for_each emits_finalize_pvcs emits_fail emits_ret)
  have classes: "emits ?P (finalizePriorityClasses E)"
    unfolding finalizePriorityClasses_def
    by (rule io_spec_on_result [OF ListObjs_spec])
      (auto split: sum.split intro!: emits_for_each emits_calls emits_fail emits_ret
        simp: selected_def obj_key_def priority_class_names_def)
  show ?thesis
    unfolding FinalizeAstarte_def by (intro emits_bnd secret pvcs classes)
qed

lemma emits_finalization:
  assumes "cr_Namespace cr = ns" "cr_Name cr = name"
  shows "emits (handler_event ns name) (handleFinalization E cr)"
  unfolding handleFinalization_def using assms
  by (intro emit_intros) (auto simp: with_finalizers_def obj_key_def intro: emits_finalize)

lemma addFinalizer_spec:
  assumes "cr_Namespace cr = ns" "cr_Name cr = name"
  shows "io_spec (handler_event ns name) (addFinalizer E cr)
     (\<lambda>r. \<forall>a. r = Inr a \<longrightarrow> cr_Namespace a = ns \<and> cr_Name a = name)"
proof -
  have "io_spec (handler_event ns name)
      (UpdateObj E (KAstarte (with_finalizers (om_Finalizers (ast_Meta cr) @ [astarteFinalizer]) cr)))
      (\<lambda>r. \<forall>x. r = Inr x \<longrightarrow> obj_key x = (OAstarte, ns, name))"
    unfolding UpdateObj_def
    by (rule io_spec_call) (use assms in \<open>auto simp: with_finalizers_def obj_key_def dest!: update_key\<close>)
  then show ?thesis
    unfolding addFinalizer_def
    by (rule io_spec_bnd) (auto intro!: io_spec_lift simp: as_astarte_def split: kobj.splits)
qed

lemma emits_checked:
  assumes "w_env W = E" "cr_Namespace cr = ns" "cr_Name cr = name"
  shows "emits (handler_event ns name) (reconcile_checked W ns name cr)"
proof -
  have "emits (handler_event ns name) (RetryOnConflict E (update_astarte_status E ns name))"
    by (rule io_spec_weaken [OF emits_update_status]) (auto intro: reads_only_handled)
  moreover have "emits (handler_event ns name) (ReconcileAstarteResources W cr)"
    using reconcile_event_handled assms(2,3) by (intro io_spec_weaken [OF emits_reconcile [OF assms(1)]]) auto
  moreover have "emits (handler_event ns name) (check_upgrade E cr)"
    unfolding check_upgrade_def using emits_handled [OF emits_upgrade [of cr]] assms(2)
    by (auto intro!: emit_intros)
  ultimately show ?thesis
    unfolding reconcile_checked_def Let_def assms(1)
    by (intro emits_bnd emits_case_prod emits_if emits_or_return emits_ret)
qed

lemma emits_live:
  assumes "w_env W = E" "cr_Namespace cr = ns" "cr_Name cr = name"
  shows "emits (handler_event ns name) (reconcile_live W ns name cr)"
  unfolding reconcile_live_def Let_def assms(1)
proof (rule io_spec_bnd [OF coherency_spec [OF assms(2,3)]], clarify)
  fix res :: ctrl_result and err :: "err option" and b :: Astarte
  assume "\<forall>res' err' a. (Inr (res, err, b) :: err + ctrl_result \<times> err option \<times> Astarte) = Inr (res', err', a) \<longrightarrow> cr_Namespace a = ns \<and> cr_Name a = name"
  then have b: "cr_Namespace b = ns" "cr_Name b = name"
    by simp_all
  have "io_spec (handler_event ns name)
      (if astarteFinalizer \<notin> set (om_Finalizers (ast_Meta b)) then addFinalizer E b else ret b)
      (\<lambda>r. \<forall>a. r = Inr a \<longrightarrow> cr_Namespace a = ns \<and> cr_Name a = name)"
    using addFinalizer_spec [OF b] b by (auto intro!: io_spec_ret)
  then have "emits (handler_event ns name)
      (or_return (if astarteFinalizer \<notin> set (om_Finalizers (ast_Meta b)) then addFinalizer E b else ret b)
        (reconcile_checked W ns name))"
    by (rule or_return_spec) (auto intro!: emits_checked [OF assms(1)])
  then show "emits (handler_event ns name) (if err \<noteq> None then ret (res, err)
      else or_return (if astarteFinalizer \<notin> set (om_Finalizers (ast_Meta b)) then addFinalizer E b else ret b)
        (reconcile_checked W ns name))"
    by (auto intro!: emit_intros)
qed simp

text \<open>All that a run of the handler does stays at home.\<close>

lemma emits_handler:
  assumes "w_env W = E"
  shows "emits (handler_event ns name) (astarte_Reconcile W ns name)"
  unfolding astarte_Reconcile_def Let_def assms
proof (rule io_spec_on_result [OF GetAstarte_spec])
  fix r :: "err + Astarte"
  assume "\<forall>a. r = Inr a \<longrightarrow> cr_Namespace a = ns \<and> cr_Name a = name"
  moreover have "emits (handler_event ns name) (RetryOnConflict E (update_astarte_status E ns name))"
    by (rule io_spec_weaken [OF emits_update_status]) (auto intro: reads_only_handled)
  ultimately show "emits (handler_event ns name) (case r of
      Inl e \<Rightarrow> ret (NoRequeue, if e = ErrNotFound then None else Some e)
    | Inr instnc \<Rightarrow>
        if spec_ManualMaintenanceMode (ast_Spec instnc)
        then or_return (RetryOnConflict E (update_astarte_status E ns name)) (\<lambda>_. ret (NoRequeue, None))
        else on_result (lift (GetAstarteSemanticVersionFrom (lib_semver (w_libs W)) (spec_Version (ast_Spec instnc)))) (\<lambda>r.
          case r of
            Inl e \<Rightarrow> bnd (Recorder_Event ''Warning'' (event_String AstarteResourceEventInconsistentVersion)) (\<lambda>_.
              ret (\<lparr>cr_Requeue = False, cr_RequeueAfter = 60\<rparr>, Some e))
          | Inr v \<Rightarrow> if om_Deleting (ast_Meta instnc) then handleFinalization E instnc
                     else reconcile_live W ns name instnc))"
    by (cases r) (auto intro!: emits_finalization emits_live [OF assms] emits_or_return emits_on_result emit_intros)
qed simp_all

end

end
