(* ===== verification/Kube_State.thy ===== *)
theory Kube_State
  imports Kube_Api
begin

text \<open>
  The API server as a state. A call of the operator changes the map from keys to objects as
  \<open>step_state\<close> says; the locale \<open>sole_client\<close> is a server that answers from that map, with nobody
  else writing. \<open>converges\<close> states of a program on such a server that it succeeds, establishes its
  goal, touches only its own keys, and changes nothing once the goal holds.
\<close>

section \<open>The state\<close>

type_synonym kstate = "okey \<Rightarrow> kobj option"

fun step_state :: "event \<Rightarrow> kstate \<Rightarrow> kstate" where
  "step_state (EvCreate x) s = (if s (obj_key x) = None then s(obj_key x \<mapsto> x) else s)"
| "step_state (EvUpdate x) s = (if s (obj_key x) = None then s else s(obj_key x \<mapsto> x))"
| "step_state (EvStatusUpdate x) s = (if s (obj_key x) = None then s else s(obj_key x \<mapsto> x))"
| "step_state (EvStore x) s = s(obj_key x \<mapsto> x)"
| "step_state (EvDelete k) s = s(k := None)"
| "step_state (EvDeleteAll k ns ls) s =
     (\<lambda>key. case s key of None \<Rightarrow> None | Some x \<Rightarrow> if selected k (Some ns) ls x then None else Some x)"
| "step_state (EvGet k) s = s"
| "step_state (EvList k ns ls) s = s"
| "step_state (EvLoad k) s = s"
| "step_state (EvRandom n) s = s"
| "step_state EvGenerateKey s = s"
| "step_state EvGenerateCA s = s"
| "step_state (EvRecord t r) s = s"

definition state_of :: "env \<Rightarrow> hist \<Rightarrow> kstate" where
  "state_of E h k = (case e_get E h k of Inl e \<Rightarrow> None | Inr x \<Rightarrow> Some x)"

section \<open>Convergence\<close>

text \<open>States that agree on every key outside \<open>W\<close>.\<close>

definition agree :: "okey set \<Rightarrow> kstate \<Rightarrow> kstate \<Rightarrow> bool" where
  "agree W s s' \<longleftrightarrow> (\<forall>k. k \<notin> W \<longrightarrow> s' k = s k)"

lemma agree_at: "agree W s s' \<Longrightarrow> k \<notin> W \<Longrightarrow> s' k = s k"
  unfolding agree_def by blast

lemma agree_refl [simp]: "agree W s s"
  by (simp add: agree_def)

lemma agree_upd: "k \<in> W \<Longrightarrow> agree W s (s(k := v))"
  by (auto simp add: agree_def)

lemma agree_mono: "agree W s s' \<Longrightarrow> W \<subseteq> W' \<Longrightarrow> agree W' s s'"
  unfolding agree_def by blast

lemma agree_trans: "agree W s s1 \<Longrightarrow> agree W' s1 s2 \<Longrightarrow> agree (W \<union> W') s s2"
  unfolding agree_def by simp

lemma agree_eq: "agree W s s' \<Longrightarrow> (\<And>k. k \<in> W \<Longrightarrow> s' k = s k) \<Longrightarrow> s' = s"
  unfolding agree_def by blast

text \<open>
  \<open>I\<close> is an invariant, \<open>A\<close> an assumption on the state before, \<open>W\<close> the keys that may be written, and
  \<open>P\<close> the goal.
\<close>

definition converges ::
    "env \<Rightarrow> (kstate \<Rightarrow> bool) \<Rightarrow> (kstate \<Rightarrow> bool) \<Rightarrow> okey set \<Rightarrow> (kstate \<Rightarrow> bool) \<Rightarrow> 'a io \<Rightarrow> bool" where
  "converges E I A W P m \<longleftrightarrow>
     (\<forall>h. I (state_of E h) \<longrightarrow> A (state_of E h) \<longrightarrow>
        (\<exists>x h'. m h = (Inr x, h') \<and> I (state_of E h') \<and> P (state_of E h') \<and>
           agree W (state_of E h) (state_of E h') \<and>
           (P (state_of E h) \<longrightarrow> state_of E h' = state_of E h)))"

lemma convergesE:
  assumes "converges E I A W P m" "I (state_of E h)" "A (state_of E h)"
  obtains x h' where "m h = (Inr x, h')" "I (state_of E h')" "P (state_of E h')"
    "agree W (state_of E h) (state_of E h')" "P (state_of E h) \<Longrightarrow> state_of E h' = state_of E h"
  using assms unfolding converges_def by metis

lemma convergesI:
  assumes "\<And>h. I (state_of E h) \<Longrightarrow> A (state_of E h) \<Longrightarrow>
    \<exists>x h'. m h = (Inr x, h') \<and> I (state_of E h') \<and> P (state_of E h') \<and>
      agree W (state_of E h) (state_of E h') \<and> (P (state_of E h) \<longrightarrow> state_of E h' = state_of E h)"
  shows "converges E I A W P m"
  using assms unfolding converges_def by simp

text \<open>A program that only reads, and the value it returns.\<close>

definition reads :: "env \<Rightarrow> (kstate \<Rightarrow> bool) \<Rightarrow> 'a io \<Rightarrow> (kstate \<Rightarrow> 'a) \<Rightarrow> bool" where
  "reads E A m v \<longleftrightarrow>
     (\<forall>h. A (state_of E h) \<longrightarrow>
        (\<exists>h'. m h = (Inr (v (state_of E h)), h') \<and> state_of E h' = state_of E h))"

lemma readsE:
  assumes "reads E A m v" "A (state_of E h)"
  obtains h' where "m h = (Inr (v (state_of E h)), h')" "state_of E h' = state_of E h"
  using assms unfolding reads_def by metis

text \<open>A goal that changes to the keys \<open>W\<close> do not affect.\<close>

definition unaffected :: "okey set \<Rightarrow> (kstate \<Rightarrow> bool) \<Rightarrow> bool" where
  "unaffected W P \<longleftrightarrow> (\<forall>s s'. agree W s s' \<longrightarrow> P s \<longrightarrow> P s')"

lemma unaffectedD: "unaffected W P \<Longrightarrow> agree W s s' \<Longrightarrow> P s \<Longrightarrow> P s'"
  unfolding unaffected_def by blast

lemma unaffectedI: "(\<And>s s'. agree W s s' \<Longrightarrow> P s \<Longrightarrow> P s') \<Longrightarrow> unaffected W P"
  unfolding unaffected_def by blast

text \<open>An object that is there and that a mutation would leave as it is.\<close>

definition settled :: "okey \<Rightarrow> (kstate \<Rightarrow> kobj \<Rightarrow> kobj) \<Rightarrow> kstate \<Rightarrow> bool" where
  "settled k g s \<longleftrightarrow> (\<exists>y. s k = Some y \<and> g s y = y)"

definition present :: "okey \<Rightarrow> kstate \<Rightarrow> bool" where
  "present k s \<longleftrightarrow> s k \<noteq> None"

definition absent :: "okey \<Rightarrow> kstate \<Rightarrow> bool" where
  "absent k s \<longleftrightarrow> s k = None"

named_theorems unaffected_intros \<open>goals that a set of keys does not affect\<close>

lemma unaffected_True [unaffected_intros]: "unaffected W (\<lambda>s. True)"
  by (simp add: unaffected_def)

lemma unaffected_conj [unaffected_intros]:
  "unaffected W P \<Longrightarrow> unaffected W Q \<Longrightarrow> unaffected W (\<lambda>s. P s \<and> Q s)"
  unfolding unaffected_def by blast

lemma unaffected_ball [unaffected_intros]:
  "(\<And>x. x \<in> X \<Longrightarrow> unaffected W (P x)) \<Longrightarrow> unaffected W (\<lambda>s. \<forall>x \<in> X. P x s)"
  unfolding unaffected_def by blast

lemma unaffected_if [unaffected_intros]:
  "(b \<Longrightarrow> unaffected W P) \<Longrightarrow> (\<not> b \<Longrightarrow> unaffected W Q) \<Longrightarrow> unaffected W (\<lambda>s. if b then P s else Q s)"
  by (cases b) simp_all

lemma unaffected_imp [unaffected_intros]:
  "(b \<Longrightarrow> unaffected W P) \<Longrightarrow> unaffected W (\<lambda>s. b \<longrightarrow> P s)"
  by (cases b) (simp_all add: unaffected_True)

lemma unaffected_present [unaffected_intros]: "k \<notin> W \<Longrightarrow> unaffected W (present k)"
  by (rule unaffectedI) (simp add: present_def agree_at)

lemma unaffected_absent [unaffected_intros]: "k \<notin> W \<Longrightarrow> unaffected W (absent k)"
  by (rule unaffectedI) (simp add: absent_def agree_at)

lemma unaffected_settled_reading:
  assumes "k \<notin> W" "\<And>s s'. agree W s s' \<Longrightarrow> g s' = g s"
  shows "unaffected W (settled k g)"
  by (rule unaffectedI) (auto simp add: settled_def agree_at [OF _ assms(1)] assms(2))

lemma unaffected_settled [unaffected_intros]: "k \<notin> W \<Longrightarrow> unaffected W (settled k (\<lambda>s. g))"
  by (rule unaffected_settled_reading) simp_all

lemma unaffected_mono: "unaffected W P \<Longrightarrow> W' \<subseteq> W \<Longrightarrow> unaffected W' P"
  unfolding unaffected_def using agree_mono by blast

lemma unaffected_Union:
  assumes "finite Y" "\<And>y. y \<in> Y \<Longrightarrow> unaffected (W y) P"
  shows "unaffected (\<Union>y \<in> Y. W y) P"
  using assms
proof (induction Y rule: finite_induct)
  case empty
  then show ?case
    by (auto intro!: unaffectedI dest!: agree_eq)
next
  case (insert y Y)
  show ?case
  proof (rule unaffectedI)
    fix s s'
    assume *: "agree (\<Union>y \<in> insert y Y. W y) s s'" "P s"
    let ?t = "\<lambda>k. if k \<in> W y then s' k else s k"
    have "agree (W y) s ?t" "agree (\<Union>y \<in> Y. W y) ?t s'"
      using *(1) unfolding agree_def by auto
    moreover have "unaffected (\<Union>y \<in> Y. W y) P"
      by (rule insert.IH) (rule insert.prems, simp)
    moreover have "unaffected (W y) P"
      by (rule insert.prems) simp
    ultimately show "P s'"
      using unaffectedD *(2) by blast
  qed
qed

section \<open>Rules that hold of any server\<close>

lemma converges_ret: "(\<And>s. I s \<Longrightarrow> A s \<Longrightarrow> P s) \<Longrightarrow> converges E I A W P (ret x)"
  by (simp add: converges_def ret_def)

lemma converges_weaken:
  assumes "converges E I A W P m" "W \<subseteq> W'"
    and "\<And>s. I s \<Longrightarrow> A' s \<Longrightarrow> A s" "\<And>s. I s \<Longrightarrow> P' s \<longleftrightarrow> P s"
  shows "converges E I A' W' P' m"
proof (rule convergesI)
  fix h
  assume h: "I (state_of E h)" "A' (state_of E h)"
  then obtain x h' where "m h = (Inr x, h')" "I (state_of E h')" "P (state_of E h')"
      "agree W (state_of E h) (state_of E h')" "P (state_of E h) \<Longrightarrow> state_of E h' = state_of E h"
    using convergesE [OF assms(1)] assms(3) by metis
  with h(1) show "\<exists>x h'. m h = (Inr x, h') \<and> I (state_of E h') \<and> P' (state_of E h') \<and>
      agree W' (state_of E h) (state_of E h') \<and> (P' (state_of E h) \<longrightarrow> state_of E h' = state_of E h)"
    using assms(2,4) agree_mono by metis
qed

lemma converges_cong:
  assumes "converges E I A W P m"
    and "\<And>s s'. I s \<Longrightarrow> A s \<Longrightarrow> I s' \<Longrightarrow> agree W s s' \<Longrightarrow> P' s' \<longleftrightarrow> P s'"
  shows "converges E I A W P' m"
proof (rule convergesI)
  fix h
  assume h: "I (state_of E h)" "A (state_of E h)"
  then show "\<exists>x h'. m h = (Inr x, h') \<and> I (state_of E h') \<and> P' (state_of E h') \<and>
      agree W (state_of E h) (state_of E h') \<and> (P' (state_of E h) \<longrightarrow> state_of E h' = state_of E h)"
    using convergesE [OF assms(1) h] assms(2) [OF h] agree_refl by metis
qed

lemma converges_already:
  assumes "converges E I A W P m" "\<And>s. I s \<Longrightarrow> A' s \<Longrightarrow> A s \<and> P s"
  shows "converges E I A' {} P m"
proof (rule convergesI)
  fix h
  assume h: "I (state_of E h)" "A' (state_of E h)"
  with assms(2) have "A (state_of E h)" "P (state_of E h)"
    by blast+
  then show "\<exists>x h'. m h = (Inr x, h') \<and> I (state_of E h') \<and> P (state_of E h') \<and>
      agree {} (state_of E h) (state_of E h') \<and> (P (state_of E h) \<longrightarrow> state_of E h' = state_of E h)"
    using convergesE [OF assms(1) h(1)] agree_refl by metis
qed

lemma converges_vacuous: "(\<And>s. I s \<Longrightarrow> A s \<Longrightarrow> False) \<Longrightarrow> converges E I A W P m"
  unfolding converges_def by blast

lemma converges_seq:
  assumes m: "converges E I A W1 P1 m" and f: "\<And>x. converges E I A2 W2 P2 (f x)"
    and A2: "\<And>s s'. I s \<Longrightarrow> A s \<Longrightarrow> I s' \<Longrightarrow> P1 s' \<Longrightarrow> agree W1 s s' \<Longrightarrow> A2 s'"
    and u: "unaffected W2 P1"
  shows "converges E I A (W1 \<union> W2) (\<lambda>s. P1 s \<and> P2 s) (bnd m f)"
proof (rule convergesI)
  fix h
  assume h: "I (state_of E h)" "A (state_of E h)"
  obtain x h1 where 1: "m h = (Inr x, h1)" "I (state_of E h1)" "P1 (state_of E h1)"
      "agree W1 (state_of E h) (state_of E h1)" "P1 (state_of E h) \<Longrightarrow> state_of E h1 = state_of E h"
    using convergesE [OF m h] by metis
  have "A2 (state_of E h1)"
    by (rule A2 [OF h 1(2-4)])
  with 1(2) obtain y h2 where 2: "f x h1 = (Inr y, h2)" "I (state_of E h2)" "P2 (state_of E h2)"
      "agree W2 (state_of E h1) (state_of E h2)" "P2 (state_of E h1) \<Longrightarrow> state_of E h2 = state_of E h1"
    using convergesE [OF f] by metis
  have "P1 (state_of E h2)"
    by (rule unaffectedD [OF u 2(4) 1(3)])
  moreover have "bnd m f h = (Inr y, h2)"
    using 1(1) 2(1) by (simp add: bnd_def)
  ultimately show "\<exists>x h'. bnd m f h = (Inr x, h') \<and> I (state_of E h') \<and> (P1 (state_of E h') \<and> P2 (state_of E h')) \<and>
      agree (W1 \<union> W2) (state_of E h) (state_of E h') \<and>
      (P1 (state_of E h) \<and> P2 (state_of E h) \<longrightarrow> state_of E h' = state_of E h)"
    using 1 2 agree_trans [OF 1(4) 2(4)] by metis
qed

lemma converges_reads:
  assumes "reads E (\<lambda>s. I s \<and> A s) m v" "\<And>x. converges E I (\<lambda>s. A s \<and> v s = x) W P (f x)"
  shows "converges E I A W P (bnd m f)"
proof (rule convergesI)
  fix h
  assume h: "I (state_of E h)" "A (state_of E h)"
  obtain h1 where 1: "m h = (Inr (v (state_of E h)), h1)" "state_of E h1 = state_of E h"
    using readsE [OF assms(1)] h by metis
  obtain y h2 where "f (v (state_of E h)) h1 = (Inr y, h2)" "I (state_of E h2)" "P (state_of E h2)"
      "agree W (state_of E h1) (state_of E h2)" "P (state_of E h1) \<Longrightarrow> state_of E h2 = state_of E h1"
    using convergesE [OF assms(2) [of "v (state_of E h)"], of h1] h 1(2) by metis
  with 1 show "\<exists>x h'. bnd m f h = (Inr x, h') \<and> I (state_of E h') \<and> P (state_of E h') \<and>
      agree W (state_of E h) (state_of E h') \<and> (P (state_of E h) \<longrightarrow> state_of E h' = state_of E h)"
    by (intro exI [of _ y] exI [of _ h2]) (simp add: bnd_def)
qed

lemma converges_lift:
  assumes "r = Inr x" "converges E I A W P (f x)"
  shows "converges E I A W P (bnd (lift r) f)"
  using assms by (simp add: converges_def bnd_def lift_def)

lemma bnd_Inr_ret: "m h = (Inr x, h') \<Longrightarrow> bnd m (\<lambda>x. ret (g x)) h = (Inr (g x), h')"
  by (simp add: bnd_def ret_def)

lemma converges_bnd_ret:
  assumes "converges E I A W P m"
  shows "converges E I A W P (bnd m (\<lambda>x. ret (g x)))"
proof (rule convergesI)
  fix h
  assume "I (state_of E h)" "A (state_of E h)"
  from convergesE [OF assms this] show "\<exists>x h'. bnd m (\<lambda>x. ret (g x)) h = (Inr x, h') \<and> I (state_of E h') \<and>
      P (state_of E h') \<and> agree W (state_of E h) (state_of E h') \<and> (P (state_of E h) \<longrightarrow> state_of E h' = state_of E h)"
    by (metis bnd_Inr_ret)
qed

lemma converges_if:
  "(b \<Longrightarrow> converges E I A W P m) \<Longrightarrow> (\<not> b \<Longrightarrow> converges E I A W P m') \<Longrightarrow>
   converges E I A W P (if b then m else m')"
  by simp

lemma converges_do_when:
  "(b \<Longrightarrow> converges E I A W P m) \<Longrightarrow> converges E I A W (\<lambda>s. b \<longrightarrow> P s) (do_when b m)"
  by (cases b) (simp_all add: do_when_def converges_ret)

lemma converges_for_each:
  assumes "\<And>x. x \<in> set xs \<Longrightarrow> converges E I A (W x) (P x) (f x)"
    and "\<And>x y. x \<in> set xs \<Longrightarrow> y \<in> set xs \<Longrightarrow> x \<noteq> y \<Longrightarrow> unaffected (W y) (P x)"
    and "\<And>x. x \<in> set xs \<Longrightarrow> unaffected (W x) A" "distinct xs"
  shows "converges E I A (\<Union>x \<in> set xs. W x) (\<lambda>s. \<forall>x \<in> set xs. P x s) (for_each f xs)"
  using assms
proof (induction xs)
  case Nil
  then show ?case
    by (simp add: converges_ret)
next
  case (Cons x xs)
  have "unaffected (\<Union>y \<in> set xs. W y) (P x)"
    by (rule unaffected_Union) (use Cons.prems in auto)
  then have "converges E I A (W x \<union> (\<Union>y \<in> set xs. W y)) (\<lambda>s. P x s \<and> (\<forall>y \<in> set xs. P y s))
      (bnd (f x) (\<lambda>_. for_each f xs))"
    by (intro converges_seq [of E I A "W x" "P x" _ A])
      (use Cons in \<open>auto intro: unaffectedD [OF Cons.prems(3) [of x]]\<close>)
  then show ?case
    by simp
qed

lemma reads_ret: "(\<And>s. A s \<Longrightarrow> v s = x) \<Longrightarrow> reads E A (ret x) v"
  by (auto simp: reads_def ret_def)

lemma reads_lift: "(\<And>s. A s \<Longrightarrow> r = Inr (v s)) \<Longrightarrow> reads E A (lift r) v"
  by (auto simp: reads_def lift_def)

lemma reads_bnd:
  assumes "reads E A m u" "\<And>x. reads E (\<lambda>s. A s \<and> u s = x) (f x) v"
  shows "reads E A (bnd m f) v"
  unfolding reads_def
proof (intro allI impI)
  fix h
  assume h: "A (state_of E h)"
  obtain h1 where 1: "m h = (Inr (u (state_of E h)), h1)" "state_of E h1 = state_of E h"
    using readsE [OF assms(1) h] by metis
  obtain h2 where "f (u (state_of E h)) h1 = (Inr (v (state_of E h1)), h2)" "state_of E h2 = state_of E h1"
    using readsE [OF assms(2) [of "u (state_of E h)"], of h1] h 1(2) by metis
  with 1 show "\<exists>h'. bnd m f h = (Inr (v (state_of E h)), h') \<and> state_of E h' = state_of E h"
    by (simp add: bnd_def)
qed

text \<open>Success and a postcondition, without the claim about a second run.\<close>

definition brings ::
    "env \<Rightarrow> (kstate \<Rightarrow> bool) \<Rightarrow> (kstate \<Rightarrow> bool) \<Rightarrow> okey set \<Rightarrow> (kstate \<Rightarrow> bool) \<Rightarrow> 'a io \<Rightarrow> bool" where
  "brings E I A W P m \<longleftrightarrow>
     (\<forall>h. I (state_of E h) \<longrightarrow> A (state_of E h) \<longrightarrow>
        (\<exists>x h'. m h = (Inr x, h') \<and> I (state_of E h') \<and> P (state_of E h') \<and> agree W (state_of E h) (state_of E h')))"

lemma bringsE:
  assumes "brings E I A W P m" "I (state_of E h)" "A (state_of E h)"
  obtains x h' where "m h = (Inr x, h')" "I (state_of E h')" "P (state_of E h')"
    "agree W (state_of E h) (state_of E h')"
  using assms unfolding brings_def by metis

lemma converges_brings: "converges E I A W P m \<Longrightarrow> brings E I A W P m"
  unfolding converges_def brings_def by blast

lemma brings_converges:
  assumes "brings E I A W P m" "\<And>s. I s \<Longrightarrow> A s \<Longrightarrow> \<not> P s"
  shows "converges E I A W P m"
  using assms unfolding converges_def brings_def by blast

lemma brings_seq:
  assumes "brings E I A W1 P1 m" "\<And>x. brings E I P1 W2 P2 (f x)"
  shows "brings E I A (W1 \<union> W2) P2 (bnd m f)"
  unfolding brings_def
proof (intro allI impI)
  fix h
  assume "I (state_of E h)" "A (state_of E h)"
  then obtain x h1 where 1: "m h = (Inr x, h1)" "I (state_of E h1)" "P1 (state_of E h1)" "agree W1 (state_of E h) (state_of E h1)"
    using bringsE [OF assms(1)] by metis
  then obtain y h2 where 2: "f x h1 = (Inr y, h2)" "I (state_of E h2)" "P2 (state_of E h2)"
      "agree W2 (state_of E h1) (state_of E h2)"
    using bringsE [OF assms(2)] by metis
  moreover have "bnd m f h = (Inr y, h2)"
    using 1(1) 2(1) by (simp add: bnd_def)
  ultimately show "\<exists>x h'. bnd m f h = (Inr x, h') \<and> I (state_of E h') \<and> P2 (state_of E h') \<and>
      agree (W1 \<union> W2) (state_of E h) (state_of E h')"
    using agree_trans [OF 1(4) 2(4)] by metis
qed

lemma brings_weaken:
  assumes "brings E I A W P m" "W \<subseteq> W'" "\<And>s. I s \<Longrightarrow> A' s \<Longrightarrow> A s" "\<And>s. I s \<Longrightarrow> P s \<Longrightarrow> P' s"
  shows "brings E I A' W' P' m"
  unfolding brings_def
proof (intro allI impI)
  fix h
  assume h: "I (state_of E h)" "A' (state_of E h)"
  then obtain x h' where "m h = (Inr x, h')" "I (state_of E h')" "P (state_of E h')" "agree W (state_of E h) (state_of E h')"
    using bringsE [OF assms(1)] assms(3) by metis
  with assms(2,4) show "\<exists>x h'. m h = (Inr x, h') \<and> I (state_of E h') \<and> P' (state_of E h') \<and>
      agree W' (state_of E h) (state_of E h')"
    using agree_mono by metis
qed

section \<open>A server with one client\<close>

text \<open>The owner reference a mutation sets first, and the objects it can be set on.\<close>

definition owned_by :: "kobj \<Rightarrow> kobj \<Rightarrow> kobj" where
  "owned_by owner x = set_meta ((obj_meta x)\<lparr>om_Controller := Some (owner_ref_of owner)\<rparr>) x"

definition free_for :: "kobj \<Rightarrow> object_meta \<Rightarrow> bool" where
  "free_for owner m \<longleftrightarrow> om_Controller m = None \<or> om_Controller m = Some (owner_ref_of owner)"

lemma owned_by_simps [simp]:
  "obj_key (owned_by owner x) = obj_key x"
  "obj_kind (owned_by owner x) = obj_kind x"
  "om_Controller (obj_meta (owned_by owner x)) = Some (owner_ref_of owner)"
  by (simp_all add: owned_by_def obj_key_def)

locale sole_client = kube_api +
  assumes get_total: "e_get E h key = Inl e \<Longrightarrow> e = ErrNotFound"
    and step: "state_of E (h @ [ev]) = step_state ev (state_of E h)"
    and list_state: "\<exists>xs. e_list E h kind nso ls = Inr xs \<and> distinct xs \<and>
           (\<forall>x. x \<in> set xs \<longleftrightarrow> state_of E h (obj_key x) = Some x \<and> selected kind nso ls x)"
    and create_fresh: "state_of E h (obj_key x) = None \<Longrightarrow> e_create E h x = Inr ()"
    and delete_present: "state_of E h key \<noteq> None \<Longrightarrow> e_delete E h key = Inr ()"
    and update_present: "state_of E h (obj_key x) \<noteq> None \<Longrightarrow> e_update E h x = Inr x"
    and status_present: "state_of E h (obj_key x) \<noteq> None \<Longrightarrow> e_status_update E h x = Inr ()"
    and delete_all: "e_delete_all E h kind n ls = Inr ()"
    and load_state: "e_load E h x = Inr (case state_of E h (obj_key x) of None \<Rightarrow> x | Some y \<Rightarrow> y)"
    and store_done: "\<exists>r. e_store E h x = Inr r"
    and owner_free: "free_for owner m \<Longrightarrow> \<exists>m'. e_owner E owner m = Inr m'"
    and random_done: "\<exists>b. e_random E h i = Inr b"
    and key_done: "\<exists>b. e_generate_key E h = Inr b"
    and ca_done: "\<exists>p. e_initca E h req = Inr p"
begin

lemma state_key: "state_of E h k = Some x \<Longrightarrow> obj_key x = k"
  by (auto simp: state_of_def dest: get_key split: sum.splits)

lemma get_cases:
  "e_get E h k = (case state_of E h k of None \<Rightarrow> Inl ErrNotFound | Some x \<Rightarrow> Inr x)"
  by (auto simp: state_of_def dest: get_total split: sum.splits)

lemma owner_set: "free_for owner m \<Longrightarrow> e_owner E owner m = Inr (m\<lparr>om_Controller := Some (owner_ref_of owner)\<rparr>)"
  using owner_free owner_only by blast

lemma call_run: "call ev answer h = (answer h, h @ [ev]) \<and> state_of E (h @ [ev]) = step_state ev (state_of E h)"
  by (simp add: call_def step)

lemma converges_Get:
  assumes "\<And>s. I s \<Longrightarrow> A s \<Longrightarrow> s (k, n, i) \<noteq> None"
    and "\<And>x. obj_key x = (k, n, i) \<Longrightarrow> converges E I (\<lambda>s. A s \<and> s (k, n, i) = Some x) W P (f x)"
  shows "converges E I A W P (bnd (Get E k n i) f)"
proof (rule convergesI)
  fix h
  assume h: "I (state_of E h)" "A (state_of E h)"
  then obtain x where x: "state_of E h (k, n, i) = Some x"
    using assms(1) by blast
  let ?h = "h @ [EvGet (k, n, i)]"
  have s: "state_of E ?h = state_of E h"
    by (simp add: step)
  have "bnd (Get E k n i) f h = f x ?h"
    using x by (simp add: bnd_def Get_def call_def get_cases)
  then show "\<exists>x h'. bnd (Get E k n i) f h = (Inr x, h') \<and> I (state_of E h') \<and> P (state_of E h') \<and>
      agree W (state_of E h) (state_of E h') \<and> (P (state_of E h) \<longrightarrow> state_of E h' = state_of E h)"
    using convergesE [OF assms(2) [OF state_key [OF x]], of ?h] h x unfolding s by metis
qed

lemma converges_on_Get:
  assumes "converges E I (\<lambda>s. A s \<and> s (k, n, i) = None) W P (f (Inl ErrNotFound))"
    and "\<And>x. obj_key x = (k, n, i) \<Longrightarrow> converges E I (\<lambda>s. A s \<and> s (k, n, i) = Some x) W P (f (Inr x))"
  shows "converges E I A W P (on_result (Get E k n i) f)"
proof (rule convergesI)
  fix h
  assume h: "I (state_of E h)" "A (state_of E h)"
  let ?h = "h @ [EvGet (k, n, i)]"
  have s: "state_of E ?h = state_of E h"
    by (simp add: step)
  show "\<exists>x h'. on_result (Get E k n i) f h = (Inr x, h') \<and> I (state_of E h') \<and> P (state_of E h') \<and>
      agree W (state_of E h) (state_of E h') \<and> (P (state_of E h) \<longrightarrow> state_of E h' = state_of E h)"
  proof (cases "state_of E h (k, n, i)")
    case None
    then have "on_result (Get E k n i) f h = f (Inl ErrNotFound) ?h"
      by (simp add: on_result_def Get_def call_def get_cases)
    with None show ?thesis
      using convergesE [OF assms(1), of ?h] h unfolding s by metis
  next
    case (Some x)
    then have "on_result (Get E k n i) f h = f (Inr x) ?h"
      by (simp add: on_result_def Get_def call_def get_cases)
    with Some show ?thesis
      using convergesE [OF assms(2) [OF state_key [OF Some]], of ?h] h unfolding s by metis
  qed
qed

text \<open>One writing call.\<close>

lemma converges_write:
  assumes "\<And>h. I (state_of E h) \<Longrightarrow> A (state_of E h) \<Longrightarrow> \<exists>x. answer h = Inr x"
    and "\<And>s. I s \<Longrightarrow> A s \<Longrightarrow> I (step_state ev s) \<and> P (step_state ev s) \<and> agree W s (step_state ev s)"
    and "\<And>s. I s \<Longrightarrow> A s \<Longrightarrow> P s \<Longrightarrow> step_state ev s = s"
  shows "converges E I A W P (call ev answer)"
  using assms by (intro convergesI) (auto simp: call_def step)

lemma converges_read:
  assumes "\<And>h. \<exists>x. answer h = Inr x" "\<And>s. step_state ev s = s" "\<And>x. converges E I A W P (f x)"
  shows "converges E I A W P (bnd (call ev answer) f)"
proof (rule convergesI)
  fix h
  assume h: "I (state_of E h)" "A (state_of E h)"
  obtain x where "answer h = Inr x"
    using assms(1) by blast
  moreover have s: "state_of E (h @ [ev]) = state_of E h"
    by (simp add: step assms(2))
  ultimately show "\<exists>x h'. bnd (call ev answer) f h = (Inr x, h') \<and> I (state_of E h') \<and> P (state_of E h') \<and>
      agree W (state_of E h) (state_of E h') \<and> (P (state_of E h) \<longrightarrow> state_of E h' = state_of E h)"
    using convergesE [OF assms(3), of "h @ [ev]" x] h unfolding s by (simp add: bnd_def call_def) metis
qed

lemma brings_read:
  assumes "\<And>h. \<exists>x. answer h = Inr x" "\<And>s. step_state ev s = s" "\<And>x. brings E I A W P (f x)"
  shows "brings E I A W P (bnd (call ev answer) f)"
  unfolding brings_def
proof (intro allI impI)
  fix h
  assume h: "I (state_of E h)" "A (state_of E h)"
  obtain x where "answer h = Inr x"
    using assms(1) by blast
  moreover have s: "state_of E (h @ [ev]) = state_of E h"
    by (simp add: step assms(2))
  ultimately show "\<exists>x h'. bnd (call ev answer) f h = (Inr x, h') \<and> I (state_of E h') \<and> P (state_of E h') \<and>
      agree W (state_of E h) (state_of E h')"
    using bringsE [OF assms(3), of "h @ [ev]" x] h unfolding s by (simp add: bnd_def call_def) metis
qed

lemma converges_RandRead: "(\<And>b. converges E I A W P (f b)) \<Longrightarrow> converges E I A W P (bnd (RandRead E i) f)"
  unfolding RandRead_def by (rule converges_read) (simp_all add: random_done)

lemma converges_ListObjs:
  assumes "\<And>xs. distinct xs \<Longrightarrow>
     converges E I (\<lambda>s. A s \<and> (\<forall>k x. s k = Some x \<longrightarrow> obj_key x = k) \<and>
       (\<forall>x. x \<in> set xs \<longleftrightarrow> s (obj_key x) = Some x \<and> selected k ns ls x)) W P (f xs)"
  shows "converges E I A W P (bnd (ListObjs E k ns ls) f)"
proof (rule convergesI)
  fix h
  assume h: "I (state_of E h)" "A (state_of E h)"
  let ?h = "h @ [EvList k ns ls]"
  have s: "state_of E ?h = state_of E h"
    by (simp add: step)
  obtain xs where xs: "e_list E h k ns ls = Inr xs" "distinct xs"
    "\<forall>x. x \<in> set xs \<longleftrightarrow> state_of E h (obj_key x) = Some x \<and> selected k ns ls x"
    using list_state by blast
  then have "bnd (ListObjs E k ns ls) f h = f xs ?h"
    by (simp add: bnd_def ListObjs_def call_def)
  then show "\<exists>x h'. bnd (ListObjs E k ns ls) f h = (Inr x, h') \<and> I (state_of E h') \<and> P (state_of E h') \<and>
      agree W (state_of E h) (state_of E h') \<and> (P (state_of E h) \<longrightarrow> state_of E h' = state_of E h)"
    using convergesE [OF assms [OF xs(2)], of ?h] h xs(3) state_key unfolding s by metis
qed

lemma converges_SetControllerReference:
  assumes "free_for owner (obj_meta x)" "converges E I A W P (f (owned_by owner x))"
  shows "converges E I A W P (bnd (SetControllerReference E owner x) f)"
proof -
  have "SetControllerReference E owner x = lift (Inr (owned_by owner x))"
    using owner_set [OF assms(1)] by (simp add: SetControllerReference_def owned_by_def bnd_def lift_def ret_def fun_eq_iff)
  with assms(2) show ?thesis
    by (simp add: converges_lift)
qed

text \<open>
  Creating or updating an object settles it, when the mutation reads the state but does not write it,
  and changes nothing the second time.
\<close>

lemma converges_CreateOrUpdate:
  assumes "\<And>s x0. I s \<Longrightarrow> A s \<Longrightarrow> s (obj_key x) = Some x0 \<Longrightarrow> ok x0" "ok x"
    and "\<And>x0. obj_key x0 = obj_key x \<Longrightarrow> ok x0 \<Longrightarrow> reads E (\<lambda>s. I s \<and> A s) (mutate x0) (\<lambda>s. g s x0)"
    and "\<And>s x0. obj_key x0 = obj_key x \<Longrightarrow> obj_key (g s x0) = obj_key x"
    and "\<And>s x0. obj_key x0 = obj_key x \<Longrightarrow> I s \<Longrightarrow> A s \<Longrightarrow> ok x0 \<Longrightarrow> I (s(obj_key x \<mapsto> g s x0))"
    and "\<And>s x0 y. obj_key x0 = obj_key x \<Longrightarrow> I s \<Longrightarrow> A s \<Longrightarrow> g (s(obj_key x \<mapsto> y)) (g s x0) = g s x0"
  shows "converges E I A {obj_key x} (settled (obj_key x) g) (CreateOrUpdate E x mutate)"
proof (rule convergesI)
  fix h
  assume h: "I (state_of E h)" "A (state_of E h)"
  let ?s = "state_of E h" and ?k = "obj_key x" and ?h = "h @ [EvLoad (obj_key x)]"
  define x0 where "x0 = (case ?s ?k of None \<Rightarrow> x | Some y \<Rightarrow> y)"
  have s: "state_of E ?h = ?s"
    by (simp add: step)
  have x0: "obj_key x0 = ?k" "ok x0"
    using assms(1) [OF h] assms(2) state_key by (auto simp: x0_def split: option.split)
  obtain h1 where h1: "mutate x0 ?h = (Inr (g ?s x0), h1)" "state_of E h1 = ?s"
    using readsE [OF assms(3) [OF x0], of ?h] h unfolding s by metis
  obtain r where r: "e_store E h1 (g ?s x0) = Inr r"
    using store_done by blast
  have run: "CreateOrUpdate E x mutate h = (Inr r, h1 @ [EvStore (g ?s x0)])"
    using h1(1) r by (simp add: CreateOrUpdate_def bnd_def call_def load_state x0_def)
  have new: "state_of E (h1 @ [EvStore (g ?s x0)]) = ?s(?k \<mapsto> g ?s x0)"
    using h1(2) assms(4) [OF x0(1)] by (simp add: step)
  moreover have "?s(?k \<mapsto> g ?s x0) = ?s" if "settled ?k g ?s"
    using that by (auto simp: settled_def x0_def)
  moreover have "settled ?k g (?s(?k \<mapsto> g ?s x0))"
    using assms(6) [OF x0(1) h] by (simp add: settled_def)
  moreover have "agree {?k} ?s (?s(?k \<mapsto> g ?s x0))"
    by (rule agree_upd) simp
  ultimately show "\<exists>y h'. CreateOrUpdate E x mutate h = (Inr y, h') \<and> I (state_of E h') \<and>
      settled ?k g (state_of E h') \<and> agree {?k} ?s (state_of E h') \<and>
      (settled ?k g ?s \<longrightarrow> state_of E h' = ?s)"
    using run assms(5) [OF x0(1) h x0(2)] by (intro exI [of _ r] exI [of _ "h1 @ [EvStore (g ?s x0)]"]) auto
qed

lemma reads_owned:
  assumes "free_for owner (obj_meta x)"
  shows "reads E A (owned E owner f x) (\<lambda>s. f (owned_by owner x))"
proof -
  have "SetControllerReference E owner x = lift (Inr (owned_by owner x))"
    using owner_set [OF assms(1)] by (simp add: SetControllerReference_def owned_by_def bnd_def lift_def ret_def fun_eq_iff)
  then show ?thesis
    by (simp add: reads_def owned_def bnd_def lift_def ret_def)
qed

lemma converges_owned:
  assumes "\<And>s x0. I s \<Longrightarrow> A s \<Longrightarrow> s (obj_key x) = Some x0 \<Longrightarrow> free_for owner (obj_meta x0)" "free_for owner (obj_meta x)"
    and "\<And>x0. obj_key x0 = obj_key x \<Longrightarrow> obj_key (f (owned_by owner x0)) = obj_key x"
    and "\<And>s x0. obj_key x0 = obj_key x \<Longrightarrow> I s \<Longrightarrow> A s \<Longrightarrow> I (s(obj_key x \<mapsto> f (owned_by owner x0)))"
    and "\<And>x0. obj_key x0 = obj_key x \<Longrightarrow> f (owned_by owner (f (owned_by owner x0))) = f (owned_by owner x0)"
  shows "converges E I A {obj_key x} (settled (obj_key x) (\<lambda>s x0. f (owned_by owner x0))) (CreateOrUpdate E x (owned E owner f))"
  by (rule converges_CreateOrUpdate [where ok = "\<lambda>x. free_for owner (obj_meta x)"])
    (use assms reads_owned in auto)

end

end
