(* ===== verification/Kube_Server.thy ===== *)
theory Kube_Server
  imports Kube_State
begin

text \<open>
  An API server in memory: the simplest environment with the promised behaviour. Its state is the
  store that the calls made so far leave behind. The witnesses of theorems about programs run them
  against it.
\<close>

type_synonym store = "(okey \<times> kobj) list"

definition store_put :: "kobj \<Rightarrow> store \<Rightarrow> store" where
  "store_put x s = AList.update (obj_key x) x s"

fun apply_event :: "event \<Rightarrow> store \<Rightarrow> store" where
  "apply_event (EvCreate x) s = (if map_of s (obj_key x) = None then store_put x s else s)"
| "apply_event (EvUpdate x) s = (if map_of s (obj_key x) = None then s else store_put x s)"
| "apply_event (EvStatusUpdate x) s = (if map_of s (obj_key x) = None then s else store_put x s)"
| "apply_event (EvStore x) s = store_put x s"
| "apply_event (EvDelete k) s = AList.delete k s"
| "apply_event (EvDeleteAll k ns ls) s = filter (\<lambda>(key, x). \<not> selected k (Some ns) ls x) s"
| "apply_event (EvGet k) s = s"
| "apply_event (EvList k ns ls) s = s"
| "apply_event (EvLoad k) s = s"
| "apply_event (EvRandom n) s = s"
| "apply_event EvGenerateKey s = s"
| "apply_event EvGenerateCA s = s"
| "apply_event (EvRecord t r) s = s"

definition store_of :: "kobj list \<Rightarrow> hist \<Rightarrow> store" where
  "store_of xs h = fold apply_event h (fold store_put xs [])"

lemma store_of_snoc [simp]: "store_of xs (h @ [e]) = apply_event e (store_of xs h)"
  by (simp add: store_of_def)

text \<open>Every object is stored once, under its own key.\<close>

definition keyed :: "store \<Rightarrow> bool" where
  "keyed s \<longleftrightarrow> distinct (map fst s) \<and> (\<forall>(k, x) \<in> set s. obj_key x = k)"

lemma keyed_put: "keyed s \<Longrightarrow> keyed (store_put x s)"
proof -
  assume "keyed s"
  then have "distinct (map fst (store_put x s))"
    unfolding store_put_def by (intro distinct_update) (simp add: keyed_def)
  moreover have "obj_key y = k" if "(k, y) \<in> set (store_put x s)" for k y
    using that \<open>keyed s\<close> unfolding store_put_def keyed_def by (induction s) (auto split: if_splits)
  ultimately show ?thesis
    by (auto simp: keyed_def)
qed

lemma keyed_filter: "keyed s \<Longrightarrow> keyed (filter p s)"
  by (auto simp: keyed_def distinct_map_filter)

lemma keyed_step: "keyed s \<Longrightarrow> keyed (apply_event e s)"
  by (cases e) (simp_all add: keyed_put keyed_filter AList.delete_eq)

lemma keyed_store_of: "keyed (store_of xs h)"
proof -
  have "keyed s \<Longrightarrow> keyed (fold store_put xs s)" for s
    by (induction xs arbitrary: s) (simp_all add: keyed_put)
  moreover have "keyed s \<Longrightarrow> keyed (fold apply_event h s)" for s
    by (induction h arbitrary: s) (simp_all add: keyed_step)
  moreover have "keyed []"
    by (simp add: keyed_def)
  ultimately show ?thesis
    unfolding store_of_def by blast
qed

lemma lookup_keyed: "keyed s \<Longrightarrow> map_of s k = Some x \<Longrightarrow> obj_key x = k"
  by (auto simp: keyed_def dest: map_of_SomeD)

lemma in_store:
  assumes "keyed s"
  shows "x \<in> snd ` set s \<longleftrightarrow> map_of s (obj_key x) = Some x"
proof
  assume "x \<in> snd ` set s"
  then obtain k where "(k, x) \<in> set s"
    by auto
  moreover from this have "obj_key x = k"
    using assms by (auto simp: keyed_def)
  ultimately show "map_of s (obj_key x) = Some x"
    using assms by (simp add: keyed_def)
next
  assume "map_of s (obj_key x) = Some x"
  then have "(obj_key x, x) \<in> set s"
    by (rule map_of_SomeD)
  then show "x \<in> snd ` set s"
    by (metis image_eqI snd_conv)
qed


lemma distinct_objects:
  assumes "keyed s"
  shows "distinct (map snd s)"
proof -
  have "map obj_key (map snd s) = map fst s"
    using assms by (auto simp: keyed_def)
  moreover have "distinct (map fst s)"
    using assms by (simp add: keyed_def)
  ultimately show ?thesis
    by (metis distinct_map)
qed

text \<open>The list of pairs implements the map from keys to objects.\<close>

lemma map_of_filtered:
  "distinct (map fst s) \<Longrightarrow>
   map_of (filter (\<lambda>(k, x). \<not> p x) s) k = (case map_of s k of None \<Rightarrow> None | Some x \<Rightarrow> if p x then None else Some x)"
  by (induction s) (auto split: option.splits simp: rev_image_eqI map_of_eq_None_iff)

lemma map_of_put [simp]: "map_of (store_put x s) = (map_of s)(obj_key x \<mapsto> x)"
  by (simp add: store_put_def update_conv')

lemma map_of_step: "keyed s \<Longrightarrow> map_of (apply_event e s) = step_state e (map_of s)"
  by (cases e) (auto simp: delete_conv' map_of_filtered keyed_def)

definition found :: "'a option \<Rightarrow> err + 'a" where
  "found p = (case p of None \<Rightarrow> Inl ErrNotFound | Some x \<Rightarrow> Inr x)"

lemma found_simps [simp]:
  "found None = Inl ErrNotFound" "found (Some x) = Inr x"
  "found p = Inr y \<longleftrightarrow> p = Some y"
  by (simp_all add: found_def split: option.split)

text \<open>A reference to another controller is not overwritten.\<close>

definition take_ownership :: "kobj \<Rightarrow> object_meta \<Rightarrow> err + object_meta" where
  "take_ownership owner m =
     (if om_Controller m = None \<or> om_Controller m = Some (owner_ref_of owner)
      then Inr (m\<lparr>om_Controller := Some (owner_ref_of owner)\<rparr>)
      else Inl (ErrGo ''already owned by another controller''))"

definition memory_server :: "kobj list \<Rightarrow> env" where
  "memory_server xs =
     \<lparr>e_get = (\<lambda>h k. found (map_of (store_of xs h) k)),
      e_list = (\<lambda>h k ns ls. Inr (filter (selected k ns ls) (map snd (store_of xs h)))),
      e_create = (\<lambda>h x. if map_of (store_of xs h) (obj_key x) = None then Inr () else Inl (ErrApi ''AlreadyExists'')),
      e_update = (\<lambda>h x. if map_of (store_of xs h) (obj_key x) = None then Inl ErrNotFound else Inr x),
      e_status_update = (\<lambda>h x. if map_of (store_of xs h) (obj_key x) = None then Inl ErrNotFound else Inr ()),
      e_delete = (\<lambda>h k. if map_of (store_of xs h) k = None then Inl ErrNotFound else Inr ()),
      e_delete_all = (\<lambda>h k ns ls. Inr ()),
      e_load = (\<lambda>h x. Inr (PtrValue (map_of (store_of xs h) (obj_key x)) x)),
      e_store = (\<lambda>h x. Inr (if map_of (store_of xs h) (obj_key x) = None then OperationResultCreated
                            else OperationResultUpdated)),
      e_owner = take_ownership,
      e_random = (\<lambda>h n. Inr (replicate (nat n) CHR ''r'')),
      e_generate_key = (\<lambda>h. Inr ''key''),
      e_initca = (\<lambda>h req. Inr (''certificate'', ''key'')),
      e_retry_steps = 5\<rparr>"

lemma memory_state: "state_of (memory_server xs) h = map_of (store_of xs h)"
  by (rule ext) (simp add: state_of_def memory_server_def found_def split: option.split)

interpretation memory: sole_client "memory_server xs"
proof
  show "obj_key x = key" if "e_get (memory_server xs) h key = Inr x" for h key x
    using that by (auto simp: memory_server_def intro: lookup_keyed [OF keyed_store_of])
  show "selected k ns labels x" if "e_list (memory_server xs) h k ns labels = Inr ys" "x \<in> set ys" for h k ns labels ys x
    using that by (auto simp: memory_server_def)
  show "obj_key y = obj_key x" if "e_load (memory_server xs) h x = Inr y" for h x y
    using that by (auto simp: memory_server_def PtrValue_def intro: lookup_keyed [OF keyed_store_of] split: option.splits)
  show "obj_key y = obj_key x" if "e_update (memory_server xs) h x = Inr y" for h x y
    using that by (auto simp: memory_server_def split: if_splits)
  show "m' = m\<lparr>om_Controller := Some (owner_ref_of owner)\<rparr>" if "e_owner (memory_server xs) owner m = Inr m'" for owner m m'
    using that by (auto simp: memory_server_def take_ownership_def split: if_splits)
  show "0 < e_retry_steps (memory_server xs)"
    by (simp add: memory_server_def)
  show "e = ErrNotFound" if "e_get (memory_server xs) h k = Inl e" for h k e
    using that by (auto simp: memory_server_def found_def split: option.splits)
  show "state_of (memory_server xs) (h @ [ev]) = step_state ev (state_of (memory_server xs) h)" for h ev
    by (simp add: memory_state map_of_step keyed_store_of)
  show "\<exists>ys. e_list (memory_server xs) h k ns ls = Inr ys \<and> distinct ys \<and>
      (\<forall>x. x \<in> set ys \<longleftrightarrow> state_of (memory_server xs) h (obj_key x) = Some x \<and> selected k ns ls x)" for h k ns ls
    using in_store [OF keyed_store_of] distinct_objects [OF keyed_store_of]
    by (auto simp: memory_server_def memory_state [unfolded memory_server_def] intro: distinct_filter)
  show "e_create (memory_server xs) h x = Inr ()" if "state_of (memory_server xs) h (obj_key x) = None" for h x
    using that unfolding memory_state by (simp add: memory_server_def)
  show "e_delete (memory_server xs) h k = Inr ()" if "state_of (memory_server xs) h k \<noteq> None" for h k
    using that unfolding memory_state by (simp add: memory_server_def)
  show "e_update (memory_server xs) h x = Inr x" if "state_of (memory_server xs) h (obj_key x) \<noteq> None" for h x
    using that unfolding memory_state by (simp add: memory_server_def)
  show "e_status_update (memory_server xs) h x = Inr ()" if "state_of (memory_server xs) h (obj_key x) \<noteq> None" for h x
    using that unfolding memory_state by (simp add: memory_server_def)
  show "e_load (memory_server xs) h x =
      Inr (case state_of (memory_server xs) h (obj_key x) of None \<Rightarrow> x | Some y \<Rightarrow> y)" for h x
    unfolding memory_state by (simp add: memory_server_def PtrValue_def split: option.split)
  show "\<exists>m'. e_owner (memory_server xs) owner m = Inr m'" if "free_for owner m" for owner m
    using that by (auto simp: memory_server_def take_ownership_def free_for_def)
qed (auto simp: memory_server_def)

end
