(* ===== verification/Controller_Properties.thy ===== *)
theory Controller_Properties
  imports Controller_Footprint Kube_Server
begin

text \<open>
  Properties of the Astarte controller: what a run of its handler may touch, when it touches nothing,
  how finalization, upgrades and failures end it, and how secrets are created once.
\<close>

section \<open>An example world\<close>

definition ex_crypto :: crypto where
  "ex_crypto = \<lparr>cry_PublicKey = (\<lambda>k. ''public '' @ k), cry_MarshalPKIXPublicKey = Inr, cry_MarshalPKCS1PrivateKey = id,
     cry_SHA256 = (\<lambda>s. Inr (take 16 s)), cry_UnmarshalCSR = Inr\<rparr>"

definition ex_world :: "kobj list \<Rightarrow> (strict_version, strict_bound list) world" where
  "ex_world xs = \<lparr>w_env = memory_server xs, w_libs = ex_libs, w_crypto = ex_crypto\<rparr>"

lemma ex_world_simps [simp]:
  "w_env (ex_world xs) = memory_server xs" "w_libs (ex_world xs) = ex_libs" "w_crypto (ex_world xs) = ex_crypto"
  by (simp_all add: ex_world_def)

lemma ex_world_api: "kube_api (w_env (ex_world xs))"
  by (simp add: memory.kube_api_axioms)

section \<open>What a run may touch\<close>

lemma emitsD:
  assumes "emits P m" "snd (m h) = h @ evs"
  shows "list_all P evs"
proof -
  obtain evs' where "snd (m h) = h @ evs'" "list_all P evs'"
    using assms(1) by (auto simp: io_spec_def)
  with assms(2) show ?thesis
    by simp
qed

lemma emits_run:
  assumes "emits P m"
  obtains r evs where "m h = (r, h @ evs)" "list_all P evs"
proof -
  obtain evs where "snd (m h) = h @ evs" "list_all P evs"
    using assms by (auto simp: io_spec_def)
  then show thesis
    using that [of "fst (m h)" evs] by (cases "m h") simp
qed



text \<open>C22: workloads select their own pods.

  If no label of a component is reserved, every deployment and every stateful set that the
  reconciliation stores has a selector that the pods of its own template match. The webhook checks the
  labels of every component but AppEngine API, whose labels are part of the hypothesis here.\<close>

theorem workloads_select_own_pods:
  assumes "kube_api (w_env W)" "labels_unreserved cr"
    and "snd (ReconcileAstarteResources W cr h) = h @ evs" "EvStore x \<in> set evs"
  shows "selects_own_pods x"
proof -
  have "list_all (reconcile_event cr) evs"
    by (rule emitsD [OF kube_api.emits_reconcile [OF assms(1) refl] assms(3)])
  with assms(2,4) show ?thesis
    by (auto simp: list_all_iff reconciled_def)
qed

theorem workloads_select_own_pods_witness:
  "\<exists>evs. snd (ReconcileAstarteResources (ex_world []) ex_astarte []) = evs \<and>
     (\<forall>x. EvStore x \<in> set evs \<longrightarrow> selects_own_pods x)"
proof -
  have "labels_unreserved ex_astarte"
    by code_simp
  with workloads_select_own_pods [OF ex_world_api, of ex_astarte _ "[]"] show ?thesis
    by auto
qed

text \<open>A label of AppEngine API that the webhook accepts, and a selector that misses its pods.\<close>

definition ex_appengine_labels :: Astarte where
  "ex_appengine_labels = ex_astarte\<lparr>ast_Spec := ex_spec\<lparr>spec_Components := ex_components\<lparr>comp_AppengineAPI :=
     (comp_AppengineAPI ex_components)\<lparr>ae_GenericAPI := ex_api (EmptyClusteredResource\<lparr>gcr_PodLabels := [(''app'', ''mine'')]\<rparr>)\<rparr>\<rparr>\<rparr>\<rparr>"

lemma appengine_labels_unchecked:
  "validatePodLabelsForClusteredResources ex_appengine_labels = [] \<and>
   map_of (computePodLabels gcr_GetPodLabels (component_resource ex_appengine_labels AppEngineAPI)
     (component_labels ''example-appengine-api'' AppEngineAPI)) ''app'' = Some ''mine''"
  by code_simp

section \<open>Runs that end early\<close>

lemma get_run:
  assumes "e_get E h (OAstarte, ns, n) = Inr (KAstarte cr)"
  shows "GetAstarte E ns n h = (Inr cr, h @ [EvGet (OAstarte, ns, n)])"
  using assms by (simp add: GetAstarte_def bnd_def Get_def call_def lift_def as_astarte_def)

lemma on_result_Inr: "m h = (Inr x, h') \<Longrightarrow> on_result m f h = f (Inr x) h'"
  by (simp add: on_result_def)

lemma on_result_Inl: "m h = (Inl e, h') \<Longrightarrow> \<not> is_panic e \<Longrightarrow> on_result m f h = f (Inl e) h'"
  by (simp add: on_result_def)

lemma bnd_Inr: "m h = (Inr x, h') \<Longrightarrow> bnd m f h = f x h'"
  by (simp add: bnd_def)

lemma bnd_Inl: "m h = (Inl e, h') \<Longrightarrow> bnd m f h = (Inl e, h')"
  by (simp add: bnd_def)

lemmas run_simps = on_result_Inr on_result_Inl bnd_Inr bnd_Inl ret_def fail_def lift_def

text \<open>The run up to the check of the version.\<close>

lemma handler_run:
  assumes "e_get (w_env W) h (OAstarte, ns, name) = Inr (KAstarte cr)"
    and "\<not> spec_ManualMaintenanceMode (ast_Spec cr)"
    and "GetAstarteSemanticVersionFrom (lib_semver (w_libs W)) (spec_Version (ast_Spec cr)) = Inr v"
  shows "astarte_Reconcile W ns name h =
     (if om_Deleting (ast_Meta cr) then handleFinalization (w_env W) cr else reconcile_live W ns name cr)
       (h @ [EvGet (OAstarte, ns, name)])"
  using assms by (simp add: astarte_Reconcile_def Let_def run_simps get_run)

text \<open>C23: in maintenance mode only the status is written.

  When the resource that the handler reads is in manual maintenance mode, the run reads its namespace,
  records events and updates the status of the resource, and does nothing else.\<close>

theorem maintenance_writes_status_only:
  assumes "kube_api (w_env W)" "e_get (w_env W) h (OAstarte, ns, name) = Inr (KAstarte cr)"
    and "spec_ManualMaintenanceMode (ast_Spec cr)"
  shows "\<exists>evs. snd (astarte_Reconcile W ns name h) = h @ evs \<and>
     list_all (\<lambda>e. reads_only ns e \<or> (\<exists>x. e = EvStatusUpdate x \<and> obj_key x = (OAstarte, ns, name))) evs"
proof -
  let ?P = "\<lambda>e. reads_only ns e \<or> (\<exists>x. e = EvStatusUpdate x \<and> obj_key x = (OAstarte, ns, name))"
  let ?m = "or_return (RetryOnConflict (w_env W) (update_astarte_status (w_env W) ns name)) (\<lambda>_. ret (NoRequeue, None))"
  have run: "astarte_Reconcile W ns name h = ?m (h @ [EvGet (OAstarte, ns, name)])"
    using assms by (simp add: astarte_Reconcile_def Let_def run_simps get_run)
  have "emits ?P ?m"
    using kube_api.emits_update_status [OF assms(1)]
    by (intro kube_api.emits_or_return [OF assms(1)] emits_ret)
  then obtain r evs where "?m (h @ [EvGet (OAstarte, ns, name)]) = (r, (h @ [EvGet (OAstarte, ns, name)]) @ evs)"
    "list_all ?P evs"
    by (rule emits_run)
  then show ?thesis
    unfolding run by (intro exI [of _ "EvGet (OAstarte, ns, name) # evs"]) simp
qed

definition ex_maintenance :: Astarte where
  "ex_maintenance = ex_astarte\<lparr>ast_Spec := ex_spec\<lparr>spec_ManualMaintenanceMode := True\<rparr>\<rparr>"

theorem maintenance_writes_status_only_witness:
  "list_all (\<lambda>e. reads_only ''astarte'' e \<or> (\<exists>x. e = EvStatusUpdate x \<and> obj_key x = (OAstarte, ''astarte'', ''example'')))
     (snd (astarte_Reconcile (ex_world [KAstarte ex_maintenance]) ''astarte'' ''example'' []))"
proof -
  have "e_get (memory_server [KAstarte ex_maintenance]) [] (OAstarte, ''astarte'', ''example'') = Inr (KAstarte ex_maintenance)"
    by code_simp
  moreover have "spec_ManualMaintenanceMode (ast_Spec ex_maintenance)"
    by code_simp
  ultimately show ?thesis
    using maintenance_writes_status_only [OF ex_world_api, of _ "[]" "''astarte''" "''example''" ex_maintenance]
    by simp
qed

text \<open>C25: an unsupported version is left alone.

  When the version of the resource is not the snapshot and no semantic version in the supported
  range, from 1.3.0 up to 1.4.0, a run of the handler (outside maintenance mode) consists of reading the
  resource and recording a warning; it asks to be run again in a minute and returns the version's
  error. This holds for a resource being deleted as well.\<close>

theorem unsupported_version_untouched:
  assumes "semver_laws (lib_semver (w_libs W)) core" "e_get (w_env W) h (OAstarte, ns, name) = Inr (KAstarte cr)"
    and "\<not> spec_ManualMaintenanceMode (ast_Spec cr)" "spec_Version (ast_Spec cr) \<noteq> SnapshotVersion"
    and "\<not> (\<exists>v. sv_NewVersion (lib_semver (w_libs W)) (spec_Version (ast_Spec cr)) = Inr v \<and> in_supported_range (core v))"
  shows "astarte_Reconcile W ns name h =
     (Inr (\<lparr>cr_Requeue = False, cr_RequeueAfter = 60\<rparr>,
           Some (ErrGo (''version '' @ spec_Version (ast_Spec cr) @ '' cannot be managed by this Operator''))),
      h @ [EvGet (OAstarte, ns, name), EvRecord ''Warning'' ''ErrInconsistentVersion''])"
proof -
  have "GetAstarteSemanticVersionFrom (lib_semver (w_libs W)) (spec_Version (ast_Spec cr)) =
      Inl (ErrGo (''version '' @ spec_Version (ast_Spec cr) @ '' cannot be managed by this Operator''))"
    using assms(4,5) by (auto simp: semver_laws.semantic_version_cases [OF assms(1)] split: sum.split)
  moreover have "event_String AstarteResourceEventInconsistentVersion = ''ErrInconsistentVersion''"
    by simp
  ultimately show ?thesis
    using assms(2,3) by (simp add: astarte_Reconcile_def Let_def run_simps get_run Recorder_Event_def call_def)
qed

definition ex_old_version :: Astarte where
  "ex_old_version = ex_astarte\<lparr>ast_Spec := ex_spec\<lparr>spec_Version := ''1.2.1''\<rparr>\<rparr>"

theorem unsupported_version_untouched_witness:
  "snd (astarte_Reconcile (ex_world [KAstarte ex_old_version]) ''astarte'' ''example'' []) =
     [EvGet (OAstarte, ''astarte'', ''example''), EvRecord ''Warning'' ''ErrInconsistentVersion'']"
proof -
  have "e_get (memory_server [KAstarte ex_old_version]) [] (OAstarte, ''astarte'', ''example'') = Inr (KAstarte ex_old_version)"
    by code_simp
  moreover have "\<not> spec_ManualMaintenanceMode (ast_Spec ex_old_version)"
    "spec_Version (ast_Spec ex_old_version) \<noteq> SnapshotVersion"
    by code_simp+
  moreover have "sv_NewVersion strict_semver (spec_Version (ast_Spec ex_old_version)) = Inr ((1, 2, 1), '''')"
    by code_simp
  ultimately show ?thesis
    using unsupported_version_untouched [of "ex_world [KAstarte ex_old_version]" fst "[]" "''astarte''" "''example''" ex_old_version]
      strict.semver_laws_axioms by (simp add: in_supported_range_iff)
qed

section \<open>Finalization\<close>

definition is_update :: "event \<Rightarrow> bool" where
  "is_update e \<longleftrightarrow> (\<exists>x. e = EvUpdate x)"

lemma finalize_no_update: "emits (\<lambda>e. \<not> is_update e) (FinalizeAstarte E name ns)"
  unfolding FinalizeAstarte_def finalizePriorityClasses_def
  by (intro emits_bnd emits_on_result emits_calls emits_case_sum emits_for_each emits_if emits_ret emits_fail)
    (simp_all add: is_update_def)


definition ex_deleting :: Astarte where
  "ex_deleting = ex_astarte\<lparr>ast_Meta := ex_meta\<lparr>om_Deleting := True, om_Finalizers := [''other'', astarteFinalizer]\<rparr>\<rparr>"

definition ex_finalized :: Astarte where
  "ex_finalized = ex_deleting\<lparr>ast_Meta := ex_meta\<lparr>om_Deleting := True, om_Finalizers := [''other'']\<rparr>\<rparr>"


section \<open>Upgrades, failures and the status\<close>

text \<open>C24: an upgrade is refused while the cluster is not healthy.

  A run that finds another version in the status than in the specification, while neither the health
  it computes nor the recorded one is green, records an error and returns; it reads the namespace
  and reconciles nothing.\<close>

theorem upgrade_refused:
  assumes "kube_api (w_env W)"
    and "status_AstarteVersion (ast_Status cr) \<notin> {'''', SnapshotVersion, spec_Version (ast_Spec cr)}"
    and "ComputeClusterHealth (w_env W) cr h = (Inr health, h1)" "health \<noteq> AstarteClusterHealthGreen"
    and "status_Health (ast_Status cr) \<noteq> AstarteClusterHealthGreen"
  shows "\<exists>evs. reconcile_checked W ns name cr h = (Inr (NoRequeue, Some health_refusal), h @ evs) \<and>
     list_all (reads_only (cr_Namespace cr)) evs"
proof -
  obtain evs where evs: "h1 = h @ evs" "list_all (reads_only (cr_Namespace cr)) evs"
    using emits_run [OF kube_api.emits_health [OF assms(1), of cr], of h] assms(3) by auto
  have "reconcile_checked W ns name cr h =
      (Inr (NoRequeue, Some health_refusal), h1 @ [EvRecord ''Warning'' (event_String AstarteResourceEventCriticalError)])"
    using assms(2-5)
    by (simp add: reconcile_checked_def check_upgrade_def CheckAndPerformUpgrade_def Let_def run_simps
        Recorder_Event_def call_def)
  with evs show ?thesis
    by (intro exI [of _ "evs @ [EvRecord ''Warning'' (event_String AstarteResourceEventCriticalError)]"]) simp
qed

definition ex_upgrade :: Astarte where
  "ex_upgrade = ex_astarte\<lparr>ast_Status := (ast_Status ex_astarte)\<lparr>status_AstarteVersion := ''1.3.0-rc.0'',
     status_Health := AstarteClusterHealthYellow\<rparr>\<rparr>"

theorem upgrade_refused_witness:
  "fst (reconcile_checked (ex_world [KAstarte ex_upgrade]) ''astarte'' ''example'' ex_upgrade []) =
     Inr (NoRequeue, Some health_refusal)"
proof -
  have health: "ComputeClusterHealth (w_env (ex_world [KAstarte ex_upgrade])) ex_upgrade [] =
      (Inr AstarteClusterHealthRed, snd (ComputeClusterHealth (w_env (ex_world [KAstarte ex_upgrade])) ex_upgrade []))"
    by code_simp
  have status: "status_AstarteVersion (ast_Status ex_upgrade) \<notin> {'''', SnapshotVersion, spec_Version (ast_Spec ex_upgrade)}"
    "status_Health (ast_Status ex_upgrade) \<noteq> AstarteClusterHealthGreen"
    by code_simp+
  show ?thesis
    using upgrade_refused [OF ex_world_api status(1) health _ status(2), of "''astarte''" "''example''"] by auto
qed

definition is_status_update :: "event \<Rightarrow> bool" where
  "is_status_update e \<longleftrightarrow> (\<exists>x. e = EvStatusUpdate x)"

text \<open>The status is written after success only.

  From the upgrade check on, a run writes the status of the resource only if the whole sequence of
  reconciliations before it has succeeded: the first step that fails ends the run.\<close>

lemma status_after_success:
  assumes "kube_api (w_env W)" "snd (reconcile_checked W ns name cr h) = h @ evs" "EvStatusUpdate x \<in> set evs"
  shows "\<exists>h1 h2. check_upgrade (w_env W) cr h = (Inr (NoRequeue, None), h1) \<and>
     ReconcileAstarteResources W cr h1 = (Inr (), h2)"
proof -
  have quiet: "emits (\<lambda>e. \<not> is_status_update e) (ReconcileAstarteResources W cr)"
    by (rule io_spec_weaken [OF kube_api.emits_reconcile [OF assms(1) refl, of cr]]) (auto simp: is_status_update_def)
  have "emits (\<lambda>e. \<not> is_status_update e) (check_upgrade (w_env W) cr)"
    unfolding check_upgrade_def
    by (auto intro!: emit_intros io_spec_weaken [OF kube_api.emits_upgrade [OF assms(1), of cr]] simp: is_status_update_def)
  then obtain r evs1 where up: "check_upgrade (w_env W) cr h = (r, h @ evs1)" "list_all (\<lambda>e. \<not> is_status_update e) evs1"
    by (rule emits_run)
  obtain r2 evs2 where rec: "ReconcileAstarteResources W cr (h @ evs1) = (r2, (h @ evs1) @ evs2)"
    "list_all (\<lambda>e. \<not> is_status_update e) evs2"
    by (rule emits_run [OF quiet])
  have no: "\<not> list_all (\<lambda>e. \<not> is_status_update e) evs"
    using assms(3) by (auto simp: list_all_iff is_status_update_def)
  show ?thesis
  proof (cases "\<exists>res. r = Inr (res, None)")
    case False
    then have "snd (reconcile_checked W ns name cr h) = h @ evs1"
      using up(1) by (cases r) (auto simp: reconcile_checked_def Let_def bnd_def ret_def)
    with assms(2) up(2) no show ?thesis
      by simp
  next
    case True
    then obtain res where r: "r = Inr (res, None)" ..
    have res: "res = NoRequeue"
      using up(1) unfolding r check_upgrade_def CheckAndPerformUpgrade_def
      by (auto simp: bnd_def ret_def do_when_def Recorder_Event_def call_def split: if_splits prod.splits sum.splits)
    show ?thesis
    proof (cases r2)
      case (Inl e)
      then have "snd (reconcile_checked W ns name cr h) = h @ evs1 @ evs2"
        using up(1) rec(1) r by (auto simp: reconcile_checked_def Let_def bnd_def or_return_def on_result_def ret_def)
      with assms(2) have "evs = evs1 @ evs2"
        by simp
      with up(2) rec(2) no show ?thesis
        by simp
    next
      case (Inr u)
      with up(1) rec(1) r res show ?thesis
        by simp
    qed
  qed
qed

end
