(* ===== verification/Convergence.thy ===== *)
theory Convergence
  imports Reconcile_Footprint Kube_State
begin

text \<open>
  What a run of the reconciliation brings about on a server that nobody else writes to: the goal of
  each Ensure operation as a predicate on the state, and that the operation converges to it.
\<close>

section \<open>Parts of the resource's name space\<close>

text \<open>
  The names an Astarte resource gives to its objects begin with its own name; what follows says which
  operation they belong to.
\<close>

definition part_names :: "string list" where
  "part_names =
     [''housekeeping-public-key'', ''housekeeping-private-key'', ''secret-key-base'', ''generic-erlang-configuration'',
      ''erlang-clustering-cookie'', ''cfssl'', ''devices-ca'', ''housekeeping'', ''realm-management'', ''pairing'', ''flow'',
      ''trigger-engine'', ''data-updater-plant'', ''appengine-api'', ''vernemq'', ''dashboard'']"

fun part :: "Astarte \<Rightarrow> okey \<Rightarrow> string" where
  "part cr (k, ns, n) =
     (if k = OPriorityClass then ''priority'' else if k = OPod then ''pods'' else if k = OHPA then ''autoscaler''
      else PtrValue (find (\<lambda>p. HasPrefix n (cr_Name cr @ ''-'' @ p)) part_names) '''')"

definition region :: "Astarte \<Rightarrow> string list \<Rightarrow> okey set" where
  "region cr ps = {k. part cr k \<in> set ps}"

lemma HasPrefix_same [simp]: "HasPrefix (n @ a) (n @ b) \<longleftrightarrow> HasPrefix a b"
  by (auto simp: HasPrefix_iff)

lemma in_region: "k \<in> region cr ps \<longleftrightarrow> part cr k \<in> set ps"
  by (simp add: region_def)

lemmas region_simps =
  in_region part_names_def HasPrefix_def PtrValue_def DashedString_table ServiceName_def GetVerneMQStatefulSetName_def

section \<open>Admissible states\<close>

text \<open>The kinds of object a run writes with an owner.\<close>

definition managed_kinds :: "okind set" where
  "managed_kinds =
     {ODeployment, OStatefulSet, OService, OSecret, OConfigMap, OServiceAccount, ORole, ORoleBinding}"

text \<open>The deployments that carry the label of the Data Updater Plant, and the names its deployments have.\<close>

definition dup_selector :: smap where
  "dup_selector = [(''astarte-component'', ''data-updater-plant'')]"

definition dup_name :: "Astarte \<Rightarrow> nat \<Rightarrow> string" where
  "dup_name cr i = (cr_Name cr @ ''-data-updater-plant'') @ (if 0 < i then ''-'' @ Itoa (int i) else '''')"

definition dup_replicas :: "Astarte \<Rightarrow> int" where
  "dup_replicas cr = PtrValue (gcr_Replicas (dup_Generic (comp_DataUpdaterPlant (spec_Components (ast_Spec cr))))) 1"

definition dup_wanted :: "Astarte \<Rightarrow> string set" where
  "dup_wanted cr = dup_name cr ` {..<nat (dup_replicas cr)}"

definition labelled :: "Astarte \<Rightarrow> kstate \<Rightarrow> string set" where
  "labelled cr s = {n. \<exists>x. s (ODeployment, cr_Namespace cr, n) = Some x \<and>
     selected ODeployment (Some (cr_Namespace cr)) dup_selector x}"

text \<open>
  Nobody else controls the objects of the resource, and the label of the Data Updater Plant is on its
  deployments only: on the wanted ones, or on more than are wanted (and then the run deletes them all).
\<close>

definition admissible :: "Astarte \<Rightarrow> kstate \<Rightarrow> bool" where
  "admissible cr s \<longleftrightarrow>
     (\<forall>k x. s k = Some x \<longrightarrow> fst k \<in> managed_kinds \<longrightarrow> own_key cr k \<longrightarrow> free_for (KAstarte cr) (obj_meta x)) \<and>
     labelled cr s \<subseteq> range (dup_name cr) \<and>
     (int (card (labelled cr s)) \<le> dup_replicas cr \<longrightarrow> labelled cr s \<subseteq> dup_wanted cr)"

lemma finite_dup_wanted [simp]: "finite (dup_wanted cr)"
  by (simp add: dup_wanted_def)

lemma labelled_cong:
  "(\<And>n. s' (ODeployment, cr_Namespace cr, n) = s (ODeployment, cr_Namespace cr, n)) \<Longrightarrow> labelled cr s' = labelled cr s"
  by (simp add: labelled_def)

lemma labelled_upd:
  "labelled cr (s(k \<mapsto> y)) =
     (if fst k = ODeployment \<and> fst (snd k) = cr_Namespace cr
      then (if selected ODeployment (Some (cr_Namespace cr)) dup_selector y then insert (snd (snd k)) (labelled cr s)
            else labelled cr s - {snd (snd k)})
      else labelled cr s)"
  by (cases k) (auto simp: labelled_def)

lemma labelled_del:
  "labelled cr (s(k := None)) =
     (if fst k = ODeployment \<and> fst (snd k) = cr_Namespace cr then labelled cr s - {snd (snd k)} else labelled cr s)"
  by (cases k) (auto simp: labelled_def)

lemma admissible_upd:
  assumes "admissible cr s"
    and "fst k \<in> managed_kinds \<Longrightarrow> om_Controller (obj_meta y) = Some (owner_ref_of (KAstarte cr))"
    and "fst k = ODeployment \<Longrightarrow>
          snd (snd k) \<notin> range (dup_name cr) \<and> \<not> selected ODeployment (Some (cr_Namespace cr)) dup_selector y \<or>
          snd (snd k) \<in> dup_wanted cr \<and> selected ODeployment (Some (cr_Namespace cr)) dup_selector y"
  shows "admissible cr (s(k \<mapsto> y))"
proof -
  let ?L = "labelled cr s" and ?L' = "labelled cr (s(k \<mapsto> y))"
  have r: "?L \<subseteq> range (dup_name cr)" "int (card ?L) \<le> dup_replicas cr \<longrightarrow> ?L \<subseteq> dup_wanted cr"
    using assms(1) by (simp_all add: admissible_def)
  have w: "dup_wanted cr \<subseteq> range (dup_name cr)"
    by (auto simp: dup_wanted_def)
  consider "?L' = ?L" | "?L' = insert (snd (snd k)) ?L" "snd (snd k) \<in> dup_wanted cr"
  proof (cases "fst k = ODeployment \<and> fst (snd k) = cr_Namespace cr")
    case True
    have "?L - {snd (snd k)} = ?L" if "snd (snd k) \<notin> range (dup_name cr)"
      using that r(1) by blast
    with True assms(3) that show thesis
      by (auto simp: labelled_upd)
  next
    case False
    show thesis
      by (rule that(1)) (use False in \<open>auto simp: labelled_upd\<close>)
  qed
  then have "?L' \<subseteq> range (dup_name cr) \<and> (int (card ?L') \<le> dup_replicas cr \<longrightarrow> ?L' \<subseteq> dup_wanted cr)"
  proof cases
    case 2
    have "?L \<subseteq> dup_wanted cr" if "int (card ?L') \<le> dup_replicas cr"
    proof (cases "finite ?L")
      case True
      then have "card ?L \<le> card ?L'"
        unfolding 2 by (simp add: card_insert_le)
      with that r(2) show ?thesis
        by linarith
    next
      case False
      then have "card ?L = 0" "card ?L' = 0"
        by (simp_all add: 2)
      with that r(2) show ?thesis
        by simp
    qed
    with 2 r(1) w show ?thesis
      by auto
  qed (use r in simp)
  then show ?thesis
    using assms(1,2) by (auto simp: admissible_def free_for_def)
qed

lemma admissible_del:
  assumes "admissible cr s" "fst k = ODeployment \<Longrightarrow> snd (snd k) \<notin> range (dup_name cr)"
  shows "admissible cr (s(k := None))"
proof -
  have "labelled cr (s(k := None)) = labelled cr s"
    using assms by (auto simp: labelled_del admissible_def)
  with assms(1) show ?thesis
    by (simp add: admissible_def)
qed

lemma admissible_free:
  "admissible cr s \<Longrightarrow> s k = Some x \<Longrightarrow> fst k \<in> managed_kinds \<Longrightarrow> own_key cr k \<Longrightarrow> free_for (KAstarte cr) (obj_meta x)"
  unfolding admissible_def by blast

text \<open>A name with another beginning is not one of the Data Updater Plant.\<close>

lemma not_dup_name:
  "\<not> HasPrefix n (cr_Name cr @ ''-data-updater-plant'') \<Longrightarrow> n \<notin> range (dup_name cr)"
proof
  assume "\<not> HasPrefix n (cr_Name cr @ ''-data-updater-plant'')" "n \<in> range (dup_name cr)"
  then obtain i where "n = dup_name cr i"
    by blast
  then have "HasPrefix n (cr_Name cr @ ''-data-updater-plant'')"
    unfolding dup_name_def by (simp only: HasPrefix_append)
  then show False
    using \<open>\<not> HasPrefix n _\<close> by contradiction
qed

section \<open>Objects kept\<close>

text \<open>An object whose owner is the resource and that the mutation \<open>f\<close> leaves as it is.\<close>

definition kept :: "Astarte \<Rightarrow> okey \<Rightarrow> (kobj \<Rightarrow> kobj) \<Rightarrow> kstate \<Rightarrow> bool" where
  "kept cr k f = settled k (\<lambda>s x0. f (owned_by (KAstarte cr) x0))"

lemma unaffected_kept [unaffected_intros]: "k \<notin> W \<Longrightarrow> unaffected W (kept cr k f)"
  unfolding kept_def by (rule unaffected_settled)

definition settling :: "Astarte \<Rightarrow> okind \<Rightarrow> (kobj \<Rightarrow> kobj) \<Rightarrow> bool" where
  "settling cr k f \<longleftrightarrow>
     (\<forall>x. obj_kind x = k \<longrightarrow>
        obj_key (f (owned_by (KAstarte cr) x)) = obj_key x \<and>
        om_Controller (obj_meta (f (owned_by (KAstarte cr) x))) = Some (owner_ref_of (KAstarte cr)) \<and>
        f (owned_by (KAstarte cr) (f (owned_by (KAstarte cr) x))) = f (owned_by (KAstarte cr) x))"

named_theorems settling_intros \<open>mutations that can be repeated\<close>

lemma settling_config_map [settling_intros]:
  "settling cr OConfigMap (on_config_map (\<lambda>c. c\<lparr>cm_Data := d\<rparr>))"
  by (auto simp: settling_def owned_by_def on_kind_defs)

lemma settling_tls_secret [settling_intros]:
  "settling cr OSecret (on_secret (\<lambda>s. s\<lparr>sec_Type := t, sec_StringData := d\<rparr>))"
  by (auto simp: settling_def owned_by_def on_kind_defs)

lemma settling_secret [settling_intros]:
  "settling cr OSecret (on_secret (\<lambda>s. s\<lparr>sec_Type := t, sec_Data := d\<rparr>))"
  by (auto simp: settling_def owned_by_def on_kind_defs)

lemma settling_service [settling_intros]:
  "settling cr OService (on_service (\<lambda>s. s\<lparr>svc_Meta := (svc_Meta s)\<lparr>om_Labels := l\<rparr>, svc_Type := t,
     svc_ClusterIP := i, svc_Ports := p, svc_Selector := m\<rparr>))"
  "settling cr OService (on_service (\<lambda>s. s\<lparr>svc_Type := t, svc_ClusterIP := i, svc_Ports := p, svc_Selector := m\<rparr>))"
  "settling cr OService (on_service (\<lambda>s. s\<lparr>svc_Type := t, svc_Ports := p, svc_Selector := m\<rparr>))"
  by (auto simp: settling_def owned_by_def on_kind_defs)

lemma settling_rbac [settling_intros]:
  "settling cr OServiceAccount id"
  "settling cr ORole (on_role (\<lambda>r. r\<lparr>role_Rules := p\<rparr>))"
  "settling cr ORoleBinding (on_role_binding (\<lambda>b. b\<lparr>rb_Subjects := u, rb_RoleRef := r\<rparr>))"
  by (auto simp: settling_def owned_by_def on_kind_defs)

lemma settling_deployment [settling_intros]:
  "settling cr ODeployment (on_deployment (\<lambda>d. d\<lparr>d_Spec := p\<rparr>))"
  by (auto simp: settling_def owned_by_def on_kind_defs)

abbreviation carries :: "Astarte \<Rightarrow> kobj \<Rightarrow> bool" where
  "carries cr \<equiv> selected ODeployment (Some (cr_Namespace cr)) dup_selector"

lemma carries_simps [simp]:
  "carries cr (owned_by o1 x) \<longleftrightarrow> carries cr x"
  "obj_kind x \<noteq> ODeployment \<Longrightarrow> \<not> carries cr x"
  by (simp_all add: selected_def owned_by_def)

lemma not_labelled:
  "admissible cr s \<Longrightarrow> s (ODeployment, cr_Namespace cr, n) = Some x \<Longrightarrow> n \<notin> range (dup_name cr) \<Longrightarrow> \<not> carries cr x"
  unfolding admissible_def labelled_def by blast

lemma new_free [simp]:
  "free_for o1 (obj_meta (NewSecret n ns ls))" "free_for o1 (obj_meta (NewConfigMap n ns))"
  "free_for o1 (obj_meta (NewService n ns))" "free_for o1 (obj_meta (NewDeployment n ns))"
  "free_for o1 (obj_meta (NewStatefulSet n ns))" "free_for o1 (NewMeta n ns)"
  by (simp_all add: free_for_def NewSecret_def NewConfigMap_def NewService_def NewDeployment_def NewStatefulSet_def NewMeta_def)

context sole_client begin

abbreviation conv :: "Astarte \<Rightarrow> (kstate \<Rightarrow> bool) \<Rightarrow> okey set \<Rightarrow> (kstate \<Rightarrow> bool) \<Rightarrow> 'a io \<Rightarrow> bool" where
  "conv cr \<equiv> converges E (admissible cr)"

lemma conv_owned:
  assumes "settling cr k f" "obj_key x = (k, ns, n)" "k \<in> managed_kinds" "own_key cr (k, ns, n)" "free_for (KAstarte cr) (obj_meta x)"
    and "k = ODeployment \<Longrightarrow> n \<notin> range (dup_name cr) \<and> \<not> carries cr x \<and>
      (\<forall>y. \<not> carries cr y \<longrightarrow> \<not> carries cr (f (owned_by (KAstarte cr) y)))"
  shows "conv cr A {(k, ns, n)} (kept cr (k, ns, n) f) (CreateOrUpdate E x (owned E (KAstarte cr) f))"
proof -
  have ns: "k = ODeployment \<Longrightarrow> ns = cr_Namespace cr"
    using assms(4) by simp
  let ?o = "owned_by (KAstarte cr)"
  have f: "obj_key (f (?o x0)) = obj_key x" "om_Controller (obj_meta (f (?o x0))) = Some (owner_ref_of (KAstarte cr))"
    "f (?o (f (?o x0))) = f (?o x0)" if "obj_key x0 = obj_key x" for x0
  proof -
    have "obj_kind x0 = k"
      using that assms(2) by (simp only: obj_key_def prod.inject)
    then show "obj_key (f (?o x0)) = obj_key x" "om_Controller (obj_meta (f (?o x0))) = Some (owner_ref_of (KAstarte cr))"
      "f (?o (f (?o x0))) = f (?o x0)"
      using assms(1) that unfolding settling_def by metis+
  qed
  have upd: "admissible cr (s(obj_key x \<mapsto> f (?o x0)))"
    if "admissible cr s" "obj_key x0 = obj_key x" "k = ODeployment \<longrightarrow> \<not> carries cr x0" for s x0
    using assms(6) that f(2) [OF that(2)] unfolding assms(2) by (intro admissible_upd) auto
  have "conv cr A {obj_key x} (settled (obj_key x) (\<lambda>s x0. f (owned_by (KAstarte cr) x0)))
      (CreateOrUpdate E x (owned E (KAstarte cr) f))"
  proof (rule converges_CreateOrUpdate
      [where ok = "\<lambda>x. free_for (KAstarte cr) (obj_meta x) \<and> (k = ODeployment \<longrightarrow> \<not> carries cr x)"])
    show "free_for (KAstarte cr) (obj_meta x0) \<and> (k = ODeployment \<longrightarrow> \<not> carries cr x0)"
      if "admissible cr s" "A s" "s (obj_key x) = Some x0" for s x0
      using that assms(2-4,6) not_labelled [of cr s n x0] admissible_free [of cr s "(k, ns, n)" x0] ns by auto
    show "reads E (\<lambda>s. admissible cr s \<and> A s) (owned E (KAstarte cr) f x0) (\<lambda>s. f (owned_by (KAstarte cr) x0))"
      if "free_for (KAstarte cr) (obj_meta x0) \<and> (k = ODeployment \<longrightarrow> \<not> carries cr x0)" for x0
      using that by (intro reads_owned) simp
    show "free_for (KAstarte cr) (obj_meta x) \<and> (k = ODeployment \<longrightarrow> \<not> carries cr x)"
      using assms(5,6) by blast
  qed (use f upd in blast)+
  then show ?thesis
    by (simp only: kept_def assms(2))
qed

end

section \<open>Parts of the operations\<close>

lemma converges_then:
  assumes "converges E I (\<lambda>s. True) W1 P1 m" "\<And>x. converges E I (\<lambda>s. True) W2 P2 (f x)" "unaffected W2 P1"
  shows "converges E I (\<lambda>s. True) (W1 \<union> W2) (\<lambda>s. P1 s \<and> P2 s) (bnd m f)"
  by (rule converges_seq [OF assms(1,2) _ assms(3)]) simp

definition rbac_goal :: "Astarte \<Rightarrow> string \<Rightarrow> policy_rule list \<Rightarrow> kstate \<Rightarrow> bool" where
  "rbac_goal cr n rules s \<longleftrightarrow>
     kept cr (OServiceAccount, cr_Namespace cr, n) id s \<and>
     kept cr (ORole, cr_Namespace cr, n) (on_role (\<lambda>r. r\<lparr>role_Rules := rules\<rparr>)) s \<and>
     kept cr (ORoleBinding, cr_Namespace cr, n) (on_role_binding (\<lambda>b. b\<lparr>rb_Subjects := [(''ServiceAccount'', n)],
       rb_RoleRef := (''rbac.authorization.k8s.io'', ''Role'', n)\<rparr>)) s"

definition service_goal :: "Astarte \<Rightarrow> string \<Rightarrow> smap \<Rightarrow> smap \<Rightarrow> int \<Rightarrow> kstate \<Rightarrow> bool" where
  "service_goal cr n matchLabels labels port =
     kept cr (OService, cr_Namespace cr, n) (on_service (\<lambda>s. s\<lparr>svc_Meta := (svc_Meta s)\<lparr>om_Labels := labels\<rparr>,
       svc_Type := ''ClusterIP'', svc_ClusterIP := noneClusterIP, svc_Ports := [http_service_port port],
       svc_Selector := matchLabels\<rparr>))"

definition cookie_goal :: "Astarte \<Rightarrow> string \<Rightarrow> kstate \<Rightarrow> bool" where
  "cookie_goal cr n = present (OSecret, cr_Namespace cr, n)"

text \<open>The replicas the autoscaler wants, once there is one and it wants any.\<close>

definition replica_count :: "Astarte \<Rightarrow> AstarteGenericClusteredResource \<Rightarrow> kstate \<Rightarrow> int option" where
  "replica_count cr r s =
     (case gcr_Autoscale r of
        None \<Rightarrow> gcr_Replicas r
      | Some a \<Rightarrow>
          if \<not> feat_Autoscaling (spec_Features (ast_Spec cr)) then gcr_Replicas r
          else (case s (OHPA, cr_Namespace cr, autoscaler_Horizontal a) of
                  Some (KHPA h) \<Rightarrow> if hpa_DesiredReplicas h = 0 then gcr_Replicas r else Some (hpa_DesiredReplicas h)
                | _ \<Rightarrow> gcr_Replicas r))"

definition deployment_goal ::
    "Astarte \<Rightarrow> string \<Rightarrow> smap \<Rightarrow> deployment_spec \<Rightarrow> (kstate \<Rightarrow> int option) \<Rightarrow> kstate \<Rightarrow> bool" where
  "deployment_goal cr n labels spec replicas =
     settled (ODeployment, cr_Namespace cr, n) (\<lambda>s x.
       on_deployment (\<lambda>d. d\<lparr>d_Spec := (d_Spec d)\<lparr>dp_Replicas := replicas s\<rparr>\<rparr>)
         (on_deployment (\<lambda>d. d\<lparr>d_Meta := (d_Meta d)\<lparr>om_Labels := labels\<rparr>, d_Spec := spec\<rparr>)
           (owned_by (KAstarte cr) x)))"

lemma unaffected_parts [unaffected_intros]:
  "(OServiceAccount, cr_Namespace cr, n) \<notin> W \<Longrightarrow> (ORole, cr_Namespace cr, n) \<notin> W \<Longrightarrow>
     (ORoleBinding, cr_Namespace cr, n) \<notin> W \<Longrightarrow> unaffected W (rbac_goal cr n rules)"
  "(OService, cr_Namespace cr, n) \<notin> W \<Longrightarrow> unaffected W (service_goal cr n m l p)"
  "(OSecret, cr_Namespace cr, n) \<notin> W \<Longrightarrow> unaffected W (cookie_goal cr n)"
  unfolding rbac_goal_def service_goal_def cookie_goal_def by (intro unaffected_intros; assumption)+

text \<open>Autoscalers are never written.\<close>

definition no_autoscaler :: "okey set \<Rightarrow> bool" where
  "no_autoscaler W \<longleftrightarrow> (\<forall>k \<in> W. fst k \<noteq> OHPA)"

lemma no_autoscaler_simps [simp]:
  "no_autoscaler {}" "no_autoscaler (insert k W) \<longleftrightarrow> fst k \<noteq> OHPA \<and> no_autoscaler W"
  "no_autoscaler (W \<union> W') \<longleftrightarrow> no_autoscaler W \<and> no_autoscaler W'"
  by (auto simp: no_autoscaler_def)

lemma unaffected_deployment [unaffected_intros]:
  assumes "(ODeployment, cr_Namespace cr, n) \<notin> W"
    and "\<And>s s'. agree W s s' \<Longrightarrow> replicas s' = replicas s"
  shows "unaffected W (deployment_goal cr n labels spec replicas)"
  unfolding deployment_goal_def by (rule unaffected_settled_reading) (simp_all add: assms)

lemma replica_count_agree:
  assumes "agree W s s'" "no_autoscaler W"
  shows "replica_count cr r s' = replica_count cr r s"
proof -
  have "s' (OHPA, n) = s (OHPA, n)" for n
    using assms(2) by (intro agree_at [OF assms(1)]) (auto simp: no_autoscaler_def)
  then show ?thesis
    by (simp add: replica_count_def split: option.split)
qed

context sole_client begin

lemma conv_rbac:
  assumes "w_env W = E" "own_name cr n"
  shows "conv cr (\<lambda>s. True)
     ({(OServiceAccount, cr_Namespace cr, n)} \<union> ({(ORole, cr_Namespace cr, n)} \<union> {(ORoleBinding, cr_Namespace cr, n)}))
     (rbac_goal cr n rules) (reconcileStandardRBACForClusteringForApp W n rules cr)"
  unfolding reconcileStandardRBACForClusteringForApp_def Let_def assms(1) rbac_goal_def
  using assms(2)
  by (intro converges_then converges_bnd_ret conv_owned settling_intros unaffected_intros)
    (auto simp: managed_kinds_def obj_key_def)

lemma conv_flow_rbac:
  assumes "w_env W = E" "own_name cr n"
  shows "conv cr (\<lambda>s. True)
     ({(OServiceAccount, cr_Namespace cr, n)} \<union> ({(ORole, cr_Namespace cr, n)} \<union> {(ORoleBinding, cr_Namespace cr, n)}))
     (rbac_goal cr n flow_policy_rules) (reconcileRBACForFlow W n cr)"
  unfolding reconcileRBACForFlow_def Let_def assms(1) rbac_goal_def
  using assms(2)
  by (intro converges_then converges_bnd_ret conv_owned settling_intros unaffected_intros)
    (auto simp: managed_kinds_def obj_key_def)

lemma conv_service:
  assumes "w_env W = E" "own_name cr n"
  shows "conv cr A {(OService, cr_Namespace cr, n)} (service_goal cr n m l astarteServicesPort) (createOrUpdateService W cr n m l)"
  unfolding createOrUpdateService_def Let_def assms(1) service_goal_def
  using assms(2)
  by (intro converges_bnd_ret conv_owned settling_intros) (auto simp: managed_kinds_def)

lemma conv_ReconcileConfigMap:
  "own_name cr n \<Longrightarrow> conv cr A {(OConfigMap, cr_Namespace cr, n)}
     (kept cr (OConfigMap, cr_Namespace cr, n) (on_config_map (\<lambda>c. c\<lparr>cm_Data := d\<rparr>))) (ReconcileConfigMap E n d (KAstarte cr))"
  unfolding ReconcileConfigMap_def by (intro conv_owned settling_intros) (auto simp: managed_kinds_def)

lemma conv_secret_present:
  assumes "conv cr A W (kept cr k f) m"
  shows "conv cr (\<lambda>s. A s \<and> s k = None) W (present k) m"
proof (rule convergesI)
  fix h
  assume h: "admissible cr (state_of E h)" "A (state_of E h) \<and> state_of E h k = None"
  then show "\<exists>x h'. m h = (Inr x, h') \<and> admissible cr (state_of E h') \<and> present k (state_of E h') \<and>
      agree W (state_of E h) (state_of E h') \<and> (present k (state_of E h) \<longrightarrow> state_of E h' = state_of E h)"
    using convergesE [OF assms, of h] by (metis kept_def option.distinct(1) present_def settled_def)
qed

lemma conv_ReconcileSecretString:
  "own_name cr n \<Longrightarrow> conv cr A {(OSecret, cr_Namespace cr, n)}
     (kept cr (OSecret, cr_Namespace cr, n) (on_secret (\<lambda>s. s\<lparr>sec_Type := ''Opaque'', sec_StringData := d\<rparr>)))
     (ReconcileSecretString E n d (KAstarte cr))"
  unfolding ReconcileSecretString_def ReconcileSecretStringWithLabels_def
  by (intro conv_owned settling_intros) (auto simp: managed_kinds_def)

lemma conv_create:
  assumes "obj_key x = k" "fst k \<in> managed_kinds - {ODeployment}" "free_for (KAstarte cr) (obj_meta x)"
  shows "conv cr (\<lambda>s. A s \<and> s k = None) {k} (present k)
     (bnd (SetControllerReference E (KAstarte cr) x) (\<lambda>y. CreateObj E y))"
  unfolding CreateObj_def
proof (intro converges_SetControllerReference converges_write)
  let ?y = "owned_by (KAstarte cr) x"
  have k: "obj_key ?y = k"
    using assms(1) by simp
  show "\<exists>u. e_create E h ?y = Inr u" if "A (state_of E h) \<and> state_of E h k = None" for h
    using that create_fresh [of h ?y] k by simp
  show "admissible cr (step_state (EvCreate ?y) s) \<and> present k (step_state (EvCreate ?y) s) \<and>
      agree {k} s (step_state (EvCreate ?y) s)" if "admissible cr s" "A s \<and> s k = None" for s
    using that assms(2) k admissible_upd [of cr s k ?y] by (simp add: present_def agree_upd)
  show "step_state (EvCreate ?y) s = s" if "A s \<and> s k = None" "present k s" for s
    using that by (simp add: present_def)
qed (rule assms(3))

lemma conv_cookie:
  assumes "w_env W = E" "own_name cr n"
  shows "conv cr A {(OSecret, cr_Namespace cr, n)} (cookie_goal cr n) (ensureErlangCookieSecret W n cr)"
  unfolding ensureErlangCookieSecret_def Let_def assms(1) cookie_goal_def
proof (rule converges_on_Get)
  show "conv cr (\<lambda>s. A s \<and> s (OSecret, cr_Namespace cr, n) = None) {(OSecret, cr_Namespace cr, n)}
     (present (OSecret, cr_Namespace cr, n))
     (case Inl ErrNotFound of
        Inr u \<Rightarrow> ret ()
      | Inl err \<Rightarrow> if err = ErrNotFound then
          bnd (RandRead E 32) (\<lambda>cookie.
          bnd (SetControllerReference E (KAstarte cr)
              (KSecret \<lparr>sec_Meta = NewMeta n (cr_Namespace cr), sec_Type = '''', sec_Data = [],
                        sec_StringData = [(''erlang-cookie'', base32_encode cookie)]\<rparr>)) (\<lambda>cookieSecret.
            CreateObj E cookieSecret))
        else fail err)"
    by (simp, intro converges_RandRead conv_create) (auto simp: managed_kinds_def NewMeta_def free_for_def)
qed (auto intro!: converges_ret simp: present_def)

lemma conv_replicas: "reads E A (getReplicaCountForResource E r cr) (replica_count cr r)"
  unfolding reads_def getReplicaCountForResource_def getHPAStatusForResource_def replica_count_def
  by (auto simp: ret_def on_result_def Get_def call_def get_cases fail_def step state_key
      split: option.split kobj.split dest: state_key)

lemma conv_ensure_deployment:
  assumes "w_env W = E" "own_name cr n" "\<And>A. reads E A m v"
    and "\<And>s s'. agree {(ODeployment, cr_Namespace cr, n)} s s' \<Longrightarrow> v s' = v s"
    and "if map_of labels ''astarte-component'' = Some ''data-updater-plant'' then n \<in> dup_wanted cr
         else n \<notin> range (dup_name cr)"
  shows "conv cr A {(ODeployment, cr_Namespace cr, n)} (deployment_goal cr n labels spec v)
     (ensure_deployment W cr n labels spec m)"
proof -
  let ?k = "(ODeployment, cr_Namespace cr, n)"
  let ?f = "on_deployment (\<lambda>d. d\<lparr>d_Meta := (d_Meta d)\<lparr>om_Labels := labels\<rparr>, d_Spec := spec\<rparr>)"
  let ?r = "\<lambda>n. on_deployment (\<lambda>d. d\<lparr>d_Spec := (d_Spec d)\<lparr>dp_Replicas := n\<rparr>\<rparr>)"
  let ?g = "\<lambda>s x. ?r (v s) (?f (owned_by (KAstarte cr) x))"
  have k: "obj_key (NewDeployment n (cr_Namespace cr)) = ?k"
    by simp
  have "conv cr A {?k} (settled ?k ?g)
      (CreateOrUpdate E (NewDeployment n (cr_Namespace cr)) (set_deployment E cr labels spec m))"
    unfolding k [symmetric]
  proof (rule converges_CreateOrUpdate [where ok = "\<lambda>x. free_for (KAstarte cr) (obj_meta x)"])
    show "free_for (KAstarte cr) (obj_meta x0)" if "admissible cr s" "s (obj_key (NewDeployment n (cr_Namespace cr))) = Some x0" for s x0
      using that assms(2) admissible_free [of cr s ?k x0] by (simp add: managed_kinds_def)
    fix x0
    assume x0: "obj_key x0 = obj_key (NewDeployment n (cr_Namespace cr))"
    then obtain d where d: "x0 = KDeployment d" "om_Namespace (d_Meta d) = cr_Namespace cr" "om_Name (d_Meta d) = n"
      by auto
    show "reads E (\<lambda>s. admissible cr s \<and> A s) (set_deployment E cr labels spec m x0) (\<lambda>s. ?g s x0)"
      if "free_for (KAstarte cr) (obj_meta x0)"
      unfolding set_deployment_def
      by (rule reads_bnd [OF reads_owned [OF that]], rule reads_bnd [OF assms(3)], rule reads_ret) auto
    show "obj_key (?g s x0) = obj_key (NewDeployment n (cr_Namespace cr))" for s
      using d by (simp add: on_deployment_def owned_by_def)
    have "carries cr (?g s x0) \<longleftrightarrow> map_of labels ''astarte-component'' = Some ''data-updater-plant''" for s
      using d by (simp add: on_deployment_def owned_by_def selected_def dup_selector_def)
    then show "admissible cr (s(obj_key (NewDeployment n (cr_Namespace cr)) \<mapsto> ?g s x0))" if "admissible cr s" for s
      using that assms(5) d unfolding k
      by (intro admissible_upd) (auto simp: on_deployment_def owned_by_def split: if_splits)
    show "?g (s(obj_key (NewDeployment n (cr_Namespace cr)) \<mapsto> y)) (?g s x0) = ?g s x0" for s y
      using d assms(4) [of s "s(?k \<mapsto> y)"] unfolding k by (simp add: agree_upd on_deployment_def owned_by_def)
  qed simp
  then show ?thesis
    unfolding ensure_deployment_def Let_def assms(1) deployment_goal_def by (rule converges_bnd_ret)
qed

end

lemma lift_Inr: "bnd (lift (Inr x)) f = f x"
  by (simp add: bnd_def lift_def fun_eq_iff)

lemma bnd_ret_left: "bnd (ret x) f = f x"
  by (simp add: bnd_def ret_def fun_eq_iff)

lemma bnd_assoc: "bnd (bnd m f) g = bnd m (\<lambda>x. bnd (f x) g)"
  by (simp add: bnd_def fun_eq_iff split: prod.split sum.split)

lemma converges_ignore:
  assumes "converges E I A W P m"
  shows "converges E I A W P (on_result m (\<lambda>_. ret u))"
proof (rule convergesI)
  fix h
  assume "I (state_of E h)" "A (state_of E h)"
  then obtain x h' where "m h = (Inr x, h')" "I (state_of E h')" "P (state_of E h')"
    "agree W (state_of E h) (state_of E h')" "P (state_of E h) \<Longrightarrow> state_of E h' = state_of E h"
    using convergesE [OF assms] by metis
  then show "\<exists>x h'. on_result m (\<lambda>_. ret u) h = (Inr x, h') \<and> I (state_of E h') \<and> P (state_of E h') \<and>
      agree W (state_of E h) (state_of E h') \<and> (P (state_of E h) \<longrightarrow> state_of E h' = state_of E h)"
    by (intro exI [of _ u] exI [of _ h']) (simp add: on_result_def ret_def)
qed

section \<open>Keys, cookies, configuration and priority classes\<close>

definition keys_goal :: "Astarte \<Rightarrow> kstate \<Rightarrow> bool" where
  "keys_goal cr = present (OSecret, cr_Namespace cr, housekeeping_public_name cr)"

definition base_goal :: "Astarte \<Rightarrow> kstate \<Rightarrow> bool" where
  "base_goal cr = present (OSecret, cr_Namespace cr, cr_Name cr @ ''-secret-key-base'')"

definition erlang_goal :: "Astarte \<Rightarrow> kstate \<Rightarrow> bool" where
  "erlang_goal cr = kept cr (OConfigMap, cr_Namespace cr, cr_Name cr @ ''-generic-erlang-configuration'')
     (on_config_map (\<lambda>c. c\<lparr>cm_Data := [(''vm.args'', vm_args)]\<rparr>))"

definition class_goal :: "string \<Rightarrow> int \<Rightarrow> string \<Rightarrow> kstate \<Rightarrow> bool" where
  "class_goal n v d = settled (OPriorityClass, [], n) (\<lambda>s.
     on_priority_class (\<lambda>p. p\<lparr>pc_GlobalDefault := False, pc_PreemptionPolicy := Some ''Never'',
       pc_Value := go_int32 v, pc_Description := d\<rparr>))"

definition classes_goal :: "Astarte \<Rightarrow> kstate \<Rightarrow> bool" where
  "classes_goal cr s \<longleftrightarrow>
     (case feat_AstartePodPriorities (spec_Features (ast_Spec cr)) of
        None \<Rightarrow> True
      | Some p \<Rightarrow> IsEnabled (Some p) \<longrightarrow>
          class_goal AstarteHighPriorityName (the (prio_AstarteHighPriority p))
            ''Astarte high-priority pods (e.g. RabbitMQ, VerneMQ, Astarte Data Updater Plant) should be in this priority class.'' s \<and>
          class_goal AstarteMidPriorityName (the (prio_AstarteMidPriority p))
            ''Astarte mid-priority pods should be in this priority class.'' s \<and>
          class_goal AstarteLowPriorityName (the (prio_AstarteLowPriority p))
            ''Astarte low-priority pods should be in this priority class.'' s)"

text \<open>With priorities enabled, their three values are given; defaults of the API make them so.\<close>

definition priorities_given :: "Astarte \<Rightarrow> bool" where
  "priorities_given cr \<longleftrightarrow>
     (case feat_AstartePodPriorities (spec_Features (ast_Spec cr)) of
        None \<Rightarrow> True
      | Some p \<Rightarrow> prio_AstarteHighPriority p \<noteq> None \<and> prio_AstarteMidPriority p \<noteq> None \<and> prio_AstarteLowPriority p \<noteq> None)"

lemma priority_class_names_distinct:
  "AstarteHighPriorityName \<noteq> AstarteMidPriorityName" "AstarteHighPriorityName \<noteq> AstarteLowPriorityName"
  "AstarteMidPriorityName \<noteq> AstarteLowPriorityName"
  by code_simp+

context sole_client begin

lemma conv_keys:
  assumes "w_env W = E" "\<And>k. isOK (cry_MarshalPKIXPublicKey (w_crypto W) k)"
  shows "conv cr (\<lambda>s. True) (region cr [''housekeeping-private-key'', ''housekeeping-public-key'']) (keys_goal cr)
     (EnsureHousekeepingKey W cr)"
proof -
  let ?pub = "(OSecret, cr_Namespace cr, housekeeping_public_name cr)"
  let ?priv = "(OSecret, cr_Namespace cr, housekeeping_private_name cr)"
  have own: "own_name cr (housekeeping_public_name cr)" "own_name cr (housekeeping_private_name cr)"
    by (simp_all add: housekeeping_public_name_def housekeeping_private_name_def)
  have del: "conv cr (\<lambda>s. True) {?priv} (absent ?priv)
      (on_result (Get E OSecret (cr_Namespace cr) (housekeeping_private_name cr)) (\<lambda>r.
         case r of Inr theSecret \<Rightarrow> DeleteObj E theSecret
         | Inl err \<Rightarrow> if err \<noteq> ErrNotFound then fail err else ret ()))"
    unfolding DeleteObj_def
    by (rule converges_on_Get)
      (auto intro!: converges_ret converges_write admissible_del agree_upd simp: absent_def delete_present)
  have priv: "brings E (admissible cr) A {?priv} (\<lambda>s. True) (storePrivateKeyInSecret W (housekeeping_private_name cr) key cr)" for A key
    unfolding storePrivateKeyInSecret_def assms(1)
    by (rule brings_weaken [OF converges_brings [OF converges_bnd_ret [OF conv_ReconcileSecretString [OF own(2)]]]]) simp_all
  have pub: "brings E (admissible cr) A {?pub} (keys_goal cr) (storePublicKeyInSecret W (housekeeping_public_name cr) key cr)" for A key
  proof -
    obtain p where "cry_MarshalPKIXPublicKey (w_crypto W) key = Inr p"
      using assms(2) [of key] by (auto simp: isOK_iff)
    then have "storePublicKeyInSecret W (housekeeping_public_name cr) key cr =
        bnd (ReconcileSecretString E (housekeeping_public_name cr) [(''public-key'', pem_encode ''PUBLIC KEY'' p)]
          (KAstarte cr)) (\<lambda>_. ret ())"
      by (simp add: storePublicKeyInSecret_def assms(1) lift_Inr)
    then show ?thesis
      by (simp only:, intro brings_weaken [OF converges_brings [OF converges_bnd_ret [OF conv_ReconcileSecretString [OF own(1)]]]])
        (auto simp: keys_goal_def kept_def settled_def present_def)
  qed
  have "conv cr (\<lambda>s. True \<and> s ?pub = None) ({?priv} \<union> ({?priv} \<union> {?pub})) (keys_goal cr)
      (bnd (on_result (Get E OSecret (cr_Namespace cr) (housekeeping_private_name cr)) (\<lambda>r.
           case r of Inr theSecret \<Rightarrow> DeleteObj E theSecret
           | Inl err \<Rightarrow> if err \<noteq> ErrNotFound then fail err else ret ())) (\<lambda>_.
        bnd (generateKeyPair W) (\<lambda>key.
        bnd (storePrivateKeyInSecret W (housekeeping_private_name cr) key cr) (\<lambda>_.
          storePublicKeyInSecret W (housekeeping_public_name cr) (cry_PublicKey (w_crypto W) key) cr))))"
    (is "conv cr ?A ?W _ ?m")
  proof (rule brings_converges)
    have "brings E (admissible cr) (\<lambda>s. True) ?W (keys_goal cr) ?m"
      unfolding generateKeyPair_def assms(1)
      by (rule brings_seq [OF converges_brings [OF del] brings_read], rule key_done, simp,
          rule brings_seq [OF priv pub])
    then show "brings E (admissible cr) ?A ?W (keys_goal cr) ?m"
      by (rule brings_weaken) simp_all
  qed (simp add: keys_goal_def present_def)
  then have "conv cr (\<lambda>s. True) ({?priv} \<union> ({?priv} \<union> {?pub})) (keys_goal cr) (EnsureHousekeepingKey W cr)"
    unfolding EnsureHousekeepingKey_def Let_def assms(1)
    by (intro converges_on_Get) (auto intro!: converges_ret simp: keys_goal_def present_def)
  then show ?thesis
    by (rule converges_weaken) (simp_all add: region_simps housekeeping_public_name_def housekeeping_private_name_def)
qed

lemma conv_base:
  assumes "w_env W = E"
  shows "conv cr (\<lambda>s. True) (region cr [''secret-key-base'']) (base_goal cr) (EnsureSecretKeyBase W cr)"
proof -
  let ?k = "(OSecret, cr_Namespace cr, cr_Name cr @ ''-secret-key-base'')"
  have "conv cr (\<lambda>s. True \<and> s ?k = None) {?k} (present ?k)
      (bnd (RandRead E 48) (\<lambda>b. bnd (ReconcileSecretString E (cr_Name cr @ ''-secret-key-base'')
         [(''key'', base64_encode b)] (KAstarte cr)) (\<lambda>_. ret ())))"
    by (intro converges_RandRead converges_bnd_ret conv_secret_present [OF conv_ReconcileSecretString]) simp
  then have "conv cr (\<lambda>s. True) {?k} (base_goal cr) (EnsureSecretKeyBase W cr)"
    unfolding EnsureSecretKeyBase_def Let_def assms base_goal_def
    by (intro converges_on_Get) (auto intro!: converges_ret simp: present_def)
  then show ?thesis
    by (rule converges_weaken) (simp_all add: region_simps)
qed

lemma conv_erlang:
  assumes "w_env W = E"
  shows "conv cr (\<lambda>s. True) (region cr [''generic-erlang-configuration'']) (erlang_goal cr) (EnsureGenericErlangConfiguration W cr)"
  unfolding EnsureGenericErlangConfiguration_def assms erlang_goal_def
  by (rule converges_weaken [OF converges_bnd_ret [OF conv_ReconcileConfigMap]]) (simp_all add: region_simps)

lemma conv_clustering_cookie:
  assumes "w_env W = E"
  shows "conv cr (\<lambda>s. True) (region cr [''erlang-clustering-cookie''])
     (cookie_goal cr (cr_Name cr @ ''-erlang-clustering-cookie'')) (EnsureErlangClusteringCookie W cr)"
  unfolding EnsureErlangClusteringCookie_def
  by (rule converges_weaken [OF conv_cookie [OF assms]]) (simp_all add: region_simps)

lemma conv_class:
  "conv cr A {(OPriorityClass, [], n)} (class_goal n v d) (priority_class_step E n (Some v) d)"
proof -
  have k: "obj_key (NewPriorityClass n) = (OPriorityClass, [], n)"
    by (simp add: NewPriorityClass_def NewMeta_def)
  show ?thesis
    unfolding class_goal_def priority_class_step_def k [symmetric]
  proof (rule converges_CreateOrUpdate [where ok = "\<lambda>x. True"])
    fix s x0
    assume "obj_key x0 = obj_key (NewPriorityClass n)"
    then obtain p where p: "x0 = KPriorityClass p" "om_Namespace (pc_Meta p) = []" "om_Name (pc_Meta p) = n"
      unfolding k by auto
    let ?f = "on_priority_class (\<lambda>p. p\<lparr>pc_GlobalDefault := False, pc_PreemptionPolicy := Some ''Never'',
      pc_Value := go_int32 v, pc_Description := d\<rparr>)"
    show "reads E (\<lambda>s. admissible cr s \<and> A s) (bnd (lift (deref (Some v))) (\<lambda>v. ret (on_priority_class
        (\<lambda>p. p\<lparr>pc_GlobalDefault := False, pc_PreemptionPolicy := Some ''Never'', pc_Value := go_int32 v,
           pc_Description := d\<rparr>) x0))) (\<lambda>s. ?f x0)"
      by (simp add: reads_def bnd_def lift_def ret_def)
    show "admissible cr (s(obj_key (NewPriorityClass n) \<mapsto> ?f x0))" if "admissible cr s"
      using that unfolding k by (rule admissible_upd) (simp_all add: managed_kinds_def)
    show "obj_key (?f x0) = obj_key (NewPriorityClass n)" "?f (?f x0) = ?f x0"
      unfolding k using p by (simp_all add: on_kind_defs)
  qed simp_all
qed

lemma conv_classes:
  assumes "w_env W = E" "priorities_given cr"
  shows "conv cr (\<lambda>s. True) (region cr [''priority'']) (classes_goal cr) (EnsureAstartePriorityClasses W cr)"
proof (cases "feat_AstartePodPriorities (spec_Features (ast_Spec cr))")
  case None
  then show ?thesis
    by (simp add: EnsureAstartePriorityClasses_def classes_goal_def converges_ret)
next
  case (Some p)
  then obtain a b c where v: "prio_AstarteHighPriority p = Some a" "prio_AstarteMidPriority p = Some b"
    "prio_AstarteLowPriority p = Some c"
    using assms(2) by (auto simp: priorities_given_def)
  have u: "(OPriorityClass, [], n) \<notin> W \<Longrightarrow> unaffected W (class_goal n i d)" for n W i d
    unfolding class_goal_def by (intro unaffected_intros)
  note seq = converges_then [OF conv_class converges_then [OF conv_class converges_bnd_ret [OF conv_class]]]
  show ?thesis
  proof (cases "IsEnabled (Some p)")
    case True
    with Some v assms(1) show ?thesis
      unfolding EnsureAstartePriorityClasses_def classes_goal_def Let_def
      by (simp, intro converges_weaken [OF seq])
        (auto intro!: u simp: priority_class_names_distinct region_simps)
  next
    case False
    with Some show ?thesis
      by (simp add: EnsureAstartePriorityClasses_def classes_goal_def converges_ret)
  qed
qed

end

section \<open>Components\<close>

text \<open>The specification of a component's deployment, given its pod.\<close>

definition component_deployment ::
    "Astarte \<Rightarrow> string \<Rightarrow> smap \<Rightarrow> AstarteGenericClusteredResource \<Rightarrow> AstarteComponent \<Rightarrow> pod_spec \<Rightarrow> deployment_spec" where
  "component_deployment cr n labels b c ps =
     \<lparr>dp_Selector = [(''app'', n)], dp_Strategy = getDeploymentStrategyForClusteredResource cr b c,
      dp_Template = \<lparr>pt_Labels = computePodLabels gcr_GetPodLabels b labels, pt_Annotations = [], pt_Spec = ps\<rparr>,
      dp_Replicas = None\<rparr>"

definition component_name :: "Astarte \<Rightarrow> AstarteComponent \<Rightarrow> string" where
  "component_name cr c = cr_Name cr @ ''-'' @ DashedString c"

definition backend_goal ::
    "('v, 'c) world \<Rightarrow> Astarte \<Rightarrow> AstarteGenericClusteredResource \<Rightarrow> AstarteComponent \<Rightarrow> kstate \<Rightarrow> bool" where
  "backend_goal W cr b c =
     (let n = component_name cr c; labels = component_labels n c in
      if \<not> PtrValue (gcr_Deploy b) True then absent (ODeployment, cr_Namespace cr, n)
      else (\<lambda>s. rbac_goal cr n GetAstarteClusteredServicePolicyRules s \<and> cookie_goal cr (n @ ''-cookie'') s \<and>
        service_goal cr n [(''app'', n)] labels astarteServicesPort s \<and>
        deployment_goal cr n labels
          (component_deployment cr n labels b c (projr (getAstarteGenericBackendPodSpec (w_libs W) n 0 0 cr b c)))
          (replica_count cr b) s))"

text \<open>The roles an API component needs: Flow's, the clustered ones', or none.\<close>

definition api_rbac_goal :: "Astarte \<Rightarrow> AstarteComponent \<Rightarrow> kstate \<Rightarrow> bool" where
  "api_rbac_goal cr c =
     (if c = FlowComponent then rbac_goal cr (component_name cr c) flow_policy_rules
      else if c = AppEngineAPI \<or> c = RealmManagement \<or> c = Pairing
      then rbac_goal cr (component_name cr c) GetAstarteClusteredServicePolicyRules
      else (\<lambda>s. True))"

definition api_goal ::
    "('v, 'c) world \<Rightarrow> Astarte \<Rightarrow> AstarteGenericAPIComponentSpec \<Rightarrow> AstarteComponent \<Rightarrow> kstate \<Rightarrow> bool" where
  "api_goal W cr a c =
     (let n = component_name cr c; labels = component_labels n c in
      if \<not> PtrValue (gcr_Deploy (gac_Generic a)) (c \<noteq> FlowComponent) then absent (ODeployment, cr_Namespace cr, n)
      else (\<lambda>s. cookie_goal cr (n @ ''-cookie'') s \<and> service_goal cr n [(''app'', n)] labels astarteServicesPort s \<and>
        api_rbac_goal cr c s \<and>
        deployment_goal cr n labels
          (component_deployment cr n labels (gac_Generic a) c (projr (getAstarteGenericAPIPodSpec (w_libs W) n cr a c)))
          (replica_count cr (gac_Generic a)) s))"

definition dashboard_goal :: "('v, 'c) world \<Rightarrow> Astarte \<Rightarrow> AstarteDashboardSpec \<Rightarrow> kstate \<Rightarrow> bool" where
  "dashboard_goal W cr d =
     (let n = component_name cr Dashboard; labels = component_labels n Dashboard in
      if \<not> PtrValue (gcr_Deploy (dash_Generic d)) True then absent (ODeployment, cr_Namespace cr, n)
      else (\<lambda>s.
        kept cr (OConfigMap, cr_Namespace cr, n @ ''-config'')
          (on_config_map (\<lambda>c. c\<lparr>cm_Data := getAstarteDashboardConfigMapData cr d\<rparr>)) s \<and>
        service_goal cr n [(''app'', n)] labels 80 s \<and>
        deployment_goal cr n labels
          (component_deployment cr n labels (dash_Generic d) Dashboard (projr (getAstarteDashboardPodSpec (w_libs W) cr d)))
          (replica_count cr (dash_Generic d)) s))"

lemma unaffected_api_rbac:
  "(OServiceAccount, cr_Namespace cr, component_name cr c) \<notin> W \<Longrightarrow> (ORole, cr_Namespace cr, component_name cr c) \<notin> W \<Longrightarrow>
   (ORoleBinding, cr_Namespace cr, component_name cr c) \<notin> W \<Longrightarrow> unaffected W (api_rbac_goal cr c)"
  by (cases c) (simp_all add: api_rbac_goal_def unaffected_parts unaffected_True)

lemma component_name_simps:
  "own_name cr (component_name cr c)"
  "own_name cr (component_name cr c @ x)"
  "c \<noteq> DataUpdaterPlant \<Longrightarrow> component_name cr c \<notin> range (dup_name cr)"
proof -
  have o: "own_name cr (component_name cr c @ x)" for x
    unfolding component_name_def own_name_def by (simp add: HasPrefix_def)
  from o [of x] o [of "[]"] show "own_name cr (component_name cr c @ x)" "own_name cr (component_name cr c)"
    by simp_all
  show "component_name cr c \<notin> range (dup_name cr)" if "c \<noteq> DataUpdaterPlant"
    using that by (intro not_dup_name) (cases c, simp_all add: component_name_def DashedString_table HasPrefix_def)
qed

lemma component_region:
  assumes "k \<notin> {OPriorityClass, OPod, OHPA}"
  shows "(k, ns, component_name cr c) \<in> region cr [DashedString c]"
    "(k, ns, component_name cr c @ ''-cookie'') \<in> region cr [DashedString c]"
    "(k, ns, component_name cr c @ ''-config'') \<in> region cr [DashedString c]"
  using assms by (cases c; simp add: component_name_def region_simps)+

text \<open>The objects of a backend component.\<close>

definition backend_keys :: "Astarte \<Rightarrow> AstarteComponent \<Rightarrow> okey set" where
  "backend_keys cr c =
     {(OServiceAccount, cr_Namespace cr, component_name cr c), (ORole, cr_Namespace cr, component_name cr c),
      (ORoleBinding, cr_Namespace cr, component_name cr c), (OSecret, cr_Namespace cr, component_name cr c @ ''-cookie''),
      (OService, cr_Namespace cr, component_name cr c), (ODeployment, cr_Namespace cr, component_name cr c)}"

lemma backend_keys_region: "backend_keys cr c \<subseteq> region cr [DashedString c]"
  by (simp add: backend_keys_def component_region)

lemma component_label: "map_of (component_labels n c) ''astarte-component'' = Some (DashedString c)"
  by (simp add: component_labels_def)

lemma DashedString_dup: "DashedString c = ''data-updater-plant'' \<longleftrightarrow> c = DataUpdaterPlant"
  by (cases c) (simp_all add: DashedString_table)

lemma replica_count_deployment:
  "agree {(ODeployment, ns, n)} s s' \<Longrightarrow> replica_count cr r s' = replica_count cr r s"
  by (rule replica_count_agree, assumption) simp

lemma isOK_projr: "isOK m \<Longrightarrow> m = Inr (projr m)"
  by (cases m) simp_all

context sole_client begin

lemma conv_DeleteObj:
  assumes "obj_key x = k" "fst k = ODeployment \<Longrightarrow> snd (snd k) \<notin> range (dup_name cr)"
  shows "conv cr (\<lambda>s. A s \<and> s k = Some x) {k} (absent k) (DeleteObj E x)"
  unfolding DeleteObj_def assms(1)
proof (rule converges_write)
  show "\<exists>u. e_delete E h k = Inr u" if "A (state_of E h) \<and> state_of E h k = Some x" for h
    using that by (simp add: delete_present)
  show "admissible cr (step_state (EvDelete k) s) \<and> absent k (step_state (EvDelete k) s) \<and> agree {k} s (step_state (EvDelete k) s)"
    if "admissible cr s" for s
    using admissible_del [OF that assms(2)] by (simp add: absent_def agree_upd)
  show "step_state (EvDelete k) s = s" if "A s \<and> s k = Some x" "absent k s" for s
    using that by (simp add: absent_def)
qed

lemma conv_delete_if_present:
  assumes "n \<notin> range (dup_name cr)"
  shows "conv cr A {(k, cr_Namespace cr, n)} (absent (k, cr_Namespace cr, n)) (delete_if_present E k (cr_Namespace cr) n)"
  unfolding delete_if_present_def
proof (rule converges_on_Get)
  show "conv cr (\<lambda>s. A s \<and> s (k, cr_Namespace cr, n) = Some x) {(k, cr_Namespace cr, n)} (absent (k, cr_Namespace cr, n))
      (case Inr x of Inl e \<Rightarrow> ret () | Inr x \<Rightarrow> DeleteObj E x)" if "obj_key x = (k, cr_Namespace cr, n)" for x
    using conv_DeleteObj [OF that] assms by simp
qed (auto intro!: converges_ret simp: absent_def)

text \<open>The deployment of a component other than the Data Updater Plant's replicas.\<close>

lemma conv_component_deployment:
  assumes "w_env W = E" "c = DataUpdaterPlant \<Longrightarrow> component_name cr c \<in> dup_wanted cr"
  shows "conv cr A {(ODeployment, cr_Namespace cr, component_name cr c)}
     (deployment_goal cr (component_name cr c) (component_labels (component_name cr c) c) spec (replica_count cr r))
     (ensure_deployment W cr (component_name cr c) (component_labels (component_name cr c) c) spec
        (getReplicaCountForResource E r cr))"
  using assms component_name_simps(3) [of c cr]
  by (intro conv_ensure_deployment conv_replicas component_name_simps(1) replica_count_deployment)
    (simp_all add: component_label DashedString_dup)

lemma conv_backend_deployed:
  assumes "w_env W = E" "PtrValue (gcr_Deploy b) True" "isOK (getAstarteGenericBackendPodSpec (w_libs W) (component_name cr c) 0 0 cr b c)"
    and "c = DataUpdaterPlant \<Longrightarrow> component_name cr c \<in> dup_wanted cr"
  shows "conv cr (\<lambda>s. True) (backend_keys cr c) (backend_goal W cr b c) (EnsureAstarteGenericBackend W cr b c)"
proof -
  obtain ps where ps: "getAstarteGenericBackendPodSpec (w_libs W) (component_name cr c) 0 0 cr b c = Inr ps"
    using assms(3) by (auto simp: isOK_iff)
  show ?thesis
    unfolding EnsureAstarteGenericBackend_def Let_def assms(1) backend_goal_def component_name_def [symmetric] ServiceName_def
      component_deployment_def
    using assms(2)
    by (simp add: ps lift_Inr, intro converges_weaken [OF converges_then [OF conv_rbac
        converges_then [OF conv_cookie converges_then [OF conv_service conv_component_deployment]]]])
      (use assms(4) in \<open>simp_all add: assms(1) component_name_simps unaffected_parts backend_keys_def\<close>)
qed

lemma conv_backend:
  assumes "w_env W = E" "c \<noteq> DataUpdaterPlant"
    and "PtrValue (gcr_Deploy b) True \<Longrightarrow> isOK (getAstarteGenericBackendPodSpec (w_libs W) (component_name cr c) 0 0 cr b c)"
  shows "conv cr (\<lambda>s. True) (region cr [DashedString c]) (backend_goal W cr b c) (EnsureAstarteGenericBackend W cr b c)"
proof (cases "PtrValue (gcr_Deploy b) True")
  case False
  have "component_name cr c \<notin> range (dup_name cr)"
    by (rule component_name_simps) fact
  with False show ?thesis
    unfolding EnsureAstarteGenericBackend_def Let_def assms(1) backend_goal_def component_name_def [symmetric]
    by (simp, intro converges_weaken [OF conv_delete_if_present]) (simp_all add: component_region)
next
  case True
  show ?thesis
    by (rule converges_weaken [OF conv_backend_deployed [OF assms(1) True assms(3) [OF True]]])
      (simp_all add: backend_keys_region assms(2))
qed

lemma conv_api_rbac:
  assumes "w_env W = E"
  shows "conv cr (\<lambda>s. True)
     ({(OServiceAccount, cr_Namespace cr, component_name cr c)} \<union> ({(ORole, cr_Namespace cr, component_name cr c)} \<union>
       {(ORoleBinding, cr_Namespace cr, component_name cr c)}))
     (api_rbac_goal cr c)
     (bnd (do_when (c = FlowComponent) (reconcileRBACForFlow W (component_name cr c) cr)) (\<lambda>_.
        do_when (c = AppEngineAPI \<or> c = RealmManagement \<or> c = Pairing)
          (reconcileStandardRBACForClusteringForApp W (component_name cr c) GetAstarteClusteredServicePolicyRules cr)))"
  using conv_rbac [OF assms component_name_simps(1)]
    converges_bnd_ret [OF conv_flow_rbac [OF assms component_name_simps(1)], of cr c "\<lambda>_. ()"]
  by (cases c) (simp_all add: api_rbac_goal_def do_when_def bnd_ret_left converges_ret)

text \<open>The check for deployment; then the API component itself.\<close>

lemma conv_api:
  assumes "w_env W = E" "c \<noteq> DataUpdaterPlant"
    and "PtrValue (gcr_Deploy (gac_Generic a)) (c \<noteq> FlowComponent) \<Longrightarrow>
      isOK (getAstarteGenericAPIPodSpec (w_libs W) (component_name cr c) cr a c)"
  shows "conv cr (\<lambda>s. True) (region cr [DashedString c]) (api_goal W cr a c) (EnsureAstarteGenericAPIComponent W cr a c)"
proof (cases "PtrValue (gcr_Deploy (gac_Generic a)) (c \<noteq> FlowComponent)")
  case False
  let ?k = "(ODeployment, cr_Namespace cr, component_name cr c)"
  have "conv cr (\<lambda>s. True) {?k} (absent ?k)
      (on_result (Get E ODeployment (cr_Namespace cr) (component_name cr c)) (\<lambda>r.
        case r of Inl e \<Rightarrow> ret () | Inr x \<Rightarrow> on_result (DeleteObj E x) (\<lambda>_. ret ())))"
  proof (rule converges_on_Get)
    fix x
    assume x: "obj_key x = ?k"
    have "conv cr (\<lambda>s. True \<and> s ?k = Some x) {?k} (absent ?k) (DeleteObj E x)"
      using component_name_simps(3) [OF assms(2), of cr] by (intro conv_DeleteObj [OF x]) simp
    then show "conv cr (\<lambda>s. True \<and> s ?k = Some x) {?k} (absent ?k)
        (case Inr x of Inl e \<Rightarrow> ret () | Inr x \<Rightarrow> on_result (DeleteObj E x) (\<lambda>_. ret ()))"
      by (simp add: converges_ignore)
  qed (auto intro!: converges_ret simp: absent_def)
  then have "conv cr (\<lambda>s. True) {?k} (absent ?k) (EnsureAstarteGenericAPIComponent W cr a c)"
    unfolding EnsureAstarteGenericAPIComponent_def checkShouldDeploy_def Let_def assms(1) component_name_def [symmetric]
    using False by (simp add: bnd_assoc bnd_ret_left converges_bnd_ret)
  then show ?thesis
    by (rule converges_weaken) (use False in \<open>simp_all add: api_goal_def Let_def component_region\<close>)
next
  case True
  then obtain ps where ps: "getAstarteGenericAPIPodSpec (w_libs W) (component_name cr c) cr a c = Inr ps"
    using assms(3) by (auto simp: isOK_iff)
  show ?thesis
    unfolding EnsureAstarteGenericAPIComponent_def checkShouldDeploy_def Let_def assms(1) api_goal_def
      component_name_def [symmetric] ServiceName_def component_deployment_def
    using True assms(2)
    by (simp add: ps lift_Inr bnd_ret_left bnd_assoc [symmetric, of "do_when b m" for b m],
        intro converges_weaken [OF converges_then [OF conv_cookie
        converges_then [OF conv_service converges_then [OF conv_api_rbac conv_component_deployment]]]])
      (simp_all add: assms component_name_simps unaffected_parts unaffected_api_rbac component_region)
qed

lemma conv_dashboard:
  assumes "w_env W = E" "PtrValue (gcr_Deploy (dash_Generic d)) True \<Longrightarrow> isOK (getAstarteDashboardPodSpec (w_libs W) cr d)"
  shows "conv cr (\<lambda>s. True) (region cr [''dashboard'']) (dashboard_goal W cr d) (EnsureAstarteDashboard W cr d)"
proof -
  have n: "cr_Name cr @ ''-dashboard'' = component_name cr Dashboard"
    by (simp add: component_name_def DashedString_table)
  have l: "[(''app'', m), (''component'', ''astarte''), (''astarte-component'', ''dashboard'')] = component_labels m Dashboard" for m
    by (simp add: component_labels_def DashedString_table)
  have service: "conv cr A {(OService, cr_Namespace cr, m)} (service_goal cr m ml ls p)
      (CreateOrUpdate E (NewService m (cr_Namespace cr)) (owned E (KAstarte cr) (on_service (\<lambda>s. s\<lparr>svc_Meta := (svc_Meta s)\<lparr>om_Labels := ls\<rparr>,
         svc_Type := ''ClusterIP'', svc_ClusterIP := noneClusterIP, svc_Ports := [http_service_port p], svc_Selector := ml\<rparr>))))"
    if "own_name cr m" for A m ml ls p
    unfolding service_goal_def using that by (intro conv_owned settling_intros) (auto simp: managed_kinds_def)
  have r: "region cr [''dashboard''] = region cr [DashedString Dashboard]"
    by (simp add: DashedString_table)
  show ?thesis
  proof (cases "PtrValue (gcr_Deploy (dash_Generic d)) True")
    case False
    have "component_name cr Dashboard \<notin> range (dup_name cr)"
      by (rule component_name_simps) simp
    with False show ?thesis
      unfolding EnsureAstarteDashboard_def Let_def assms(1) dashboard_goal_def n r
      by (simp, intro converges_weaken [OF conv_delete_if_present]) (simp_all add: component_region)
  next
    case True
    then obtain ps where ps: "getAstarteDashboardPodSpec (w_libs W) cr d = Inr ps"
      using assms(2) by (auto simp: isOK_iff)
    show ?thesis
      unfolding EnsureAstarteDashboard_def Let_def assms(1) dashboard_goal_def n r l component_deployment_def
      using True
      by (simp add: ps lift_Inr, intro converges_weaken [OF converges_then [OF conv_ReconcileConfigMap
          converges_then [OF service conv_component_deployment]]])
        (simp_all add: assms component_name_simps unaffected_parts unaffected_kept component_region)
  qed
qed

end

end
