(* ===== verification/Convergence_Run.thy ===== *)
theory Convergence_Run
  imports Convergence
begin

text \<open>
  Convergence of the operations that read what they depend on: CFSSL (configuration, certificates),
  VerneMQ (certificates, pods) and the Data Updater Plant (its current deployments), and of the whole
  sequence.
\<close>

section \<open>CFSSL\<close>

text \<open>The secret of the devices' CA, which the user may bring along.\<close>

definition ca_name :: "Astarte \<Rightarrow> string" where
  "ca_name cr =
     (if cfssl_CASecret (spec_CFSSL (ast_Spec cr)) \<noteq> '''' then cfssl_CASecret (spec_CFSSL (ast_Spec cr))
      else cr_Name cr @ ''-devices-ca'')"

definition cfssl_config :: "Astarte \<Rightarrow> smap" where
  "cfssl_config cr = projr (getCFSSLConfigMapData cr)"

definition cfssl_checksum :: "('v, 'c) world \<Rightarrow> Astarte \<Rightarrow> string" where
  "cfssl_checksum W cr =
     projr (getChecksumForConfigMap (cry_SHA256 (w_crypto W))
       \<lparr>cm_Meta = NewMeta (cr_Name cr @ ''-cfssl-config'') (cr_Namespace cr), cm_Data = cfssl_config cr\<rparr>)"

definition proxy_goal :: "Astarte \<Rightarrow> kstate \<Rightarrow> bool" where
  "proxy_goal cr = settled (OSecret, cr_Namespace cr, cr_Name cr @ ''-cfssl-ca'') (\<lambda>s x.
     on_secret (\<lambda>t. t\<lparr>sec_Type := ''Opaque'', sec_Data :=
        [(''ca.crt'', secret_data (the (s (OSecret, cr_Namespace cr, ca_name cr))) TLSCertKey)]\<rparr>) (owned_by (KAstarte cr) x))"

definition cfssl_deployment :: "('v, 'c) world \<Rightarrow> Astarte \<Rightarrow> deployment_spec" where
  "cfssl_deployment W cr =
     \<lparr>dp_Selector = [(''app'', cr_Name cr @ ''-cfssl'')], dp_Strategy = StrategyOf '''',
      dp_Template = \<lparr>pt_Labels = [(''app'', cr_Name cr @ ''-cfssl'')],
                     pt_Annotations = [(''checksum/config'', cfssl_checksum W cr)],
                     pt_Spec = projr (getCFSSLPodSpec (cr_Name cr @ ''-cfssl'') (ca_name cr) cr)\<rparr>,
      dp_Replicas = Some 1\<rparr>"

definition cfssl_goal :: "('v, 'c) world \<Rightarrow> Astarte \<Rightarrow> kstate \<Rightarrow> bool" where
  "cfssl_goal W cr =
     (let n = cr_Name cr @ ''-cfssl'' in
      if \<not> PtrValue (cfssl_Deploy (spec_CFSSL (ast_Spec cr))) True then absent (ODeployment, cr_Namespace cr, n)
      else (\<lambda>s.
        (kept cr (OService, cr_Namespace cr, n) (on_service (\<lambda>v. v\<lparr>svc_Type := ''ClusterIP'',
           svc_Ports := [http_service_port 80], svc_Selector := [(''app'', n)]\<rparr>)) s \<and>
         kept cr (OConfigMap, cr_Namespace cr, n @ ''-config'') (on_config_map (\<lambda>c. c\<lparr>cm_Data := cfssl_config cr\<rparr>)) s) \<and>
        (cfssl_CASecret (spec_CFSSL (ast_Spec cr)) = '''' \<longrightarrow> present (OSecret, cr_Namespace cr, ca_name cr) s) \<and>
        proxy_goal cr s \<and>
        kept cr (ODeployment, cr_Namespace cr, n) (on_deployment (\<lambda>d. d\<lparr>d_Spec := cfssl_deployment W cr\<rparr>)) s))"

text \<open>
  A secret of the user's: the CA, if named, is there; its name, and that of VerneMQ's certificate, is not
  one the operator itself gives to an object of this resource.
\<close>

definition foreign_secret :: "Astarte \<Rightarrow> string \<Rightarrow> bool" where
  "foreign_secret cr n \<longleftrightarrow> part cr (OSecret, cr_Namespace cr, n) = ''''"

definition ca_given :: "Astarte \<Rightarrow> kstate \<Rightarrow> bool" where
  "ca_given cr s \<longleftrightarrow>
     (cfssl_CASecret (spec_CFSSL (ast_Spec cr)) \<noteq> '''' \<longrightarrow> present (OSecret, cr_Namespace cr, ca_name cr) s)"

definition ca_foreign :: "Astarte \<Rightarrow> bool" where
  "ca_foreign cr \<longleftrightarrow>
     (cfssl_CASecret (spec_CFSSL (ast_Spec cr)) \<noteq> '''' \<longrightarrow> foreign_secret cr (cfssl_CASecret (spec_CFSSL (ast_Spec cr))))"

definition crypto_works :: "('v, 'c) world \<Rightarrow> bool" where
  "crypto_works W \<longleftrightarrow>
     (\<forall>k. isOK (cry_MarshalPKIXPublicKey (w_crypto W) k)) \<and> (\<forall>s. isOK (cry_SHA256 (w_crypto W) s)) \<and>
     (\<forall>s. isOK (cry_UnmarshalCSR (w_crypto W) s))"

lemma checksum_of_data:
  "cm_Data c = cm_Data c' \<Longrightarrow> getChecksumForConfigMap H c = getChecksumForConfigMap H c'"
  by (simp add: getChecksumForConfigMap_def)

lemma kept_config_data:
  assumes "kept cr (OConfigMap, ns, n) (on_config_map (\<lambda>c. c\<lparr>cm_Data := d\<rparr>)) s" "s (OConfigMap, ns, n) = Some x"
    and "obj_key x = (OConfigMap, ns, n)"
  shows "cm_Data (config_map_of x) = d"
proof -
  obtain c where c: "x = KConfigMap c"
    using assms(3) by auto
  have "on_config_map (\<lambda>c. c\<lparr>cm_Data := d\<rparr>) (owned_by (KAstarte cr) x) = x"
    using assms(1,2) by (simp only: kept_def settled_def option.inject) blast
  then obtain m where "c\<lparr>cm_Meta := m, cm_Data := d\<rparr> = c"
    unfolding c by (auto simp: on_config_map_def owned_by_def)
  then have "cm_Data (c\<lparr>cm_Meta := m, cm_Data := d\<rparr>) = cm_Data c"
    by (simp only:)
  then show ?thesis
    unfolding c by (simp add: config_map_of_def)
qed

lemma ca_name_cases:
  assumes "ca_foreign cr"
  shows "ca_name cr \<noteq> cr_Name cr @ ''-cfssl-ca''"
    and "part cr (OSecret, ns, ca_name cr) \<in> {'''', ''devices-ca''}"
proof -
  let ?c = "cfssl_CASecret (spec_CFSSL (ast_Spec cr))"
  have ns: "part cr (OSecret, ns, n) = part cr (OSecret, ns', n)" for ns ns' n
    by simp
  have own: "part cr (OSecret, ns, cr_Name cr @ ''-cfssl-ca'') = ''cfssl''" "part cr (OSecret, ns, cr_Name cr @ ''-devices-ca'') = ''devices-ca''"
    by (simp_all add: region_simps)
  have foreign: "part cr (OSecret, ns, ?c) = ''''" if "?c \<noteq> ''''"
    using assms that ns unfolding ca_foreign_def foreign_secret_def by metis
  show "ca_name cr \<noteq> cr_Name cr @ ''-cfssl-ca''"
  proof (cases "?c = ''''")
    case False
    then have "part cr (OSecret, ns, ?c) \<noteq> part cr (OSecret, ns, cr_Name cr @ ''-cfssl-ca'')"
      using foreign own by simp
    with False show ?thesis
      unfolding ca_name_def by metis
  qed (simp add: ca_name_def)
  show "part cr (OSecret, ns, ca_name cr) \<in> {'''', ''devices-ca''}"
    unfolding ca_name_def using foreign own by (simp del: part.simps)
qed

text \<open>
  The devices' CA as the run finds it, when there is one (\<open>z\<close>) and when there may be none, and what it
  then writes.
\<close>

definition ca_assumed :: "Astarte \<Rightarrow> bool \<Rightarrow> kstate \<Rightarrow> bool" where
  "ca_assumed cr z s \<longleftrightarrow>
     ca_given cr s \<and>
     (z \<longrightarrow> cfssl_CASecret (spec_CFSSL (ast_Spec cr)) = '''' \<longrightarrow> present (OSecret, cr_Namespace cr, ca_name cr) s)"

definition ca_written :: "Astarte \<Rightarrow> bool \<Rightarrow> okey set" where
  "ca_written cr z = (if z then {} else {(OSecret, cr_Namespace cr, cr_Name cr @ ''-devices-ca'')})"

lemma cfssl_name_simps:
  "own_name cr (cr_Name cr @ ''-cfssl'')" "(cr_Name cr @ ''-cfssl'') @ ''-config'' = cr_Name cr @ ''-cfssl-config''"
  "cr_Name cr @ ''-cfssl'' \<notin> range (dup_name cr)"
  using not_dup_name [of "cr_Name cr @ ''-cfssl''" cr] by (simp_all add: HasPrefix_def)

context sole_client begin

lemma conv_cfssl_sidecars:
  assumes "w_env W = E"
  shows "conv cr A ({(OService, cr_Namespace cr, cr_Name cr @ ''-cfssl'')} \<union> {(OConfigMap, cr_Namespace cr, cr_Name cr @ ''-cfssl-config'')})
     (\<lambda>s. kept cr (OService, cr_Namespace cr, cr_Name cr @ ''-cfssl'') (on_service (\<lambda>v. v\<lparr>svc_Type := ''ClusterIP'',
            svc_Ports := [http_service_port 80], svc_Selector := ls\<rparr>)) s \<and>
          kept cr (OConfigMap, cr_Namespace cr, cr_Name cr @ ''-cfssl-config'') (on_config_map (\<lambda>c. c\<lparr>cm_Data := cfssl_config cr\<rparr>)) s)
     (ensureCFSSLCommonSidecars W (cr_Name cr @ ''-cfssl'') ls cr)"
proof -
  have d: "getCFSSLConfigMapData cr = Inr (cfssl_config cr)"
    unfolding cfssl_config_def by (rule isOK_projr [OF getCFSSLConfigMapData_total])
  have "own_name cr (cr_Name cr @ ''-cfssl-config'')"
    by simp
  then show ?thesis
    unfolding ensureCFSSLCommonSidecars_def Let_def assms d lift_Inr
    by (intro converges_weaken [OF converges_then [OF conv_owned converges_bnd_ret [OF conv_ReconcileConfigMap]]] settling_intros)
      (auto intro!: unaffected_intros settling_intros simp: managed_kinds_def)
qed

lemma conv_cfssl_ca:
  assumes "w_env W = E" "crypto_works W" "own_name cr n"
  shows "conv cr A {(OSecret, cr_Namespace cr, n)} (present (OSecret, cr_Namespace cr, n)) (ensureCFSSLCASecret W n cr)"
  unfolding ensureCFSSLCASecret_def assms(1)
proof (rule converges_on_Get)
  have d: "getCFSSLConfigMapData cr = Inr (cfssl_config cr)"
    unfolding cfssl_config_def by (rule isOK_projr [OF getCFSSLConfigMapData_total])
  obtain req where req: "cry_UnmarshalCSR (w_crypto W) (PtrValue (map_of (cfssl_config cr) ''csr_root_ca.json'') '''') = Inr req"
    using assms(2) unfolding crypto_works_def isOK_iff by blast
  have tls: "conv cr A {(OSecret, cr_Namespace cr, n)} (kept cr (OSecret, cr_Namespace cr, n)
      (on_secret (\<lambda>s. s\<lparr>sec_Type := ''kubernetes.io/tls'', sec_StringData := [(TLSCertKey, c), (TLSPrivateKeyKey, k)]\<rparr>)))
      (ReconcileTLSSecret E n c k (KAstarte cr))" for A c k
    unfolding ReconcileTLSSecret_def using assms(3) by (intro conv_owned settling_intros) (auto simp: managed_kinds_def)
  have "conv cr (\<lambda>s. A s \<and> s (OSecret, cr_Namespace cr, n) = None) {(OSecret, cr_Namespace cr, n)}
      (present (OSecret, cr_Namespace cr, n))
      (bnd (call EvGenerateCA (\<lambda>h. e_initca E h req)) (\<lambda>(cert, key).
         bnd (ReconcileTLSSecret E n cert key (KAstarte cr)) (\<lambda>_. ret ())))"
    by (rule converges_read, rule ca_done, simp) (auto intro!: converges_bnd_ret conv_secret_present [OF tls])
  then show "conv cr (\<lambda>s. A s \<and> s (OSecret, cr_Namespace cr, n) = None) {(OSecret, cr_Namespace cr, n)}
      (present (OSecret, cr_Namespace cr, n))
      (case Inl ErrNotFound of Inr u \<Rightarrow> ret () | Inl err \<Rightarrow> if err \<noteq> ErrNotFound then fail err else createCFSSLCASecret W n cr)"
    unfolding createCFSSLCASecret_def Let_def assms(1) d lift_Inr by (simp add: req)
qed (auto intro!: converges_ret simp: present_def)

lemma conv_proxy:
  assumes "w_env W = E" "ca_foreign cr"
  shows "conv cr (present (OSecret, cr_Namespace cr, ca_name cr)) {(OSecret, cr_Namespace cr, cr_Name cr @ ''-cfssl-ca'')}
     (proxy_goal cr) (ensureCFSSLCAProxySecret W (ca_name cr) (cr_Name cr @ ''-cfssl-ca'') cr)"
  unfolding ensureCFSSLCAProxySecret_def Let_def assms(1)
proof (rule converges_Get)
  fix x
  let ?k = "(OSecret, cr_Namespace cr, cr_Name cr @ ''-cfssl-ca'')"
  let ?ca = "(OSecret, cr_Namespace cr, ca_name cr)"
  have "conv cr (\<lambda>s. present ?ca s \<and> s ?ca = Some x) {?k}
      (kept cr ?k (on_secret (\<lambda>t. t\<lparr>sec_Type := ''Opaque'', sec_Data := [(''ca.crt'', secret_data x TLSCertKey)]\<rparr>)))
      (bnd (ReconcileSecret E (cr_Name cr @ ''-cfssl-ca'') [(''ca.crt'', secret_data x TLSCertKey)] (KAstarte cr)) (\<lambda>_. ret ()))"
    unfolding ReconcileSecret_def by (intro converges_bnd_ret conv_owned settling_intros) (auto simp: managed_kinds_def)
  then show "conv cr (\<lambda>s. present ?ca s \<and> s ?ca = Some x) {?k} (proxy_goal cr)
      (bnd (ReconcileSecret E (cr_Name cr @ ''-cfssl-ca'') [(''ca.crt'', secret_data x TLSCertKey)] (KAstarte cr)) (\<lambda>_. ret ()))"
  proof (rule converges_cong)
    fix s s'
    assume "present ?ca s \<and> s ?ca = Some x" "agree {?k} s s'"
    moreover have "?ca \<notin> {?k}"
      using ca_name_cases(1) [OF assms(2)] by simp
    then have "s' ?ca = s ?ca"
      by (rule agree_at [rotated]) fact
    ultimately have "s' ?ca = Some x"
      by simp
    then show "proxy_goal cr s' \<longleftrightarrow> kept cr ?k (on_secret (\<lambda>t. t\<lparr>sec_Type := ''Opaque'',
        sec_Data := [(''ca.crt'', secret_data x TLSCertKey)]\<rparr>)) s'"
      by (simp only: proxy_goal_def kept_def settled_def option.sel)
  qed
qed (simp add: present_def)

end

context sole_client begin

lemma conv_cfssl_ca_step:
  assumes "w_env W = E" "crypto_works W"
  shows "conv cr (ca_assumed cr z) (ca_written cr z)
     (\<lambda>s. cfssl_CASecret (spec_CFSSL (ast_Spec cr)) = '''' \<longrightarrow> present (OSecret, cr_Namespace cr, ca_name cr) s)
     (do_when (cfssl_CASecret (spec_CFSSL (ast_Spec cr)) = '''') (ensureCFSSLCASecret W (ca_name cr) cr))"
proof (rule converges_do_when)
  assume c: "cfssl_CASecret (spec_CFSSL (ast_Spec cr)) = ''''"
  then have n: "ca_name cr = cr_Name cr @ ''-devices-ca''"
    by (simp add: ca_name_def)
  have m: "conv cr (ca_assumed cr z) {(OSecret, cr_Namespace cr, cr_Name cr @ ''-devices-ca'')}
      (present (OSecret, cr_Namespace cr, ca_name cr)) (ensureCFSSLCASecret W (ca_name cr) cr)"
    unfolding n using assms by (intro conv_cfssl_ca) simp_all
  show "conv cr (ca_assumed cr z) (ca_written cr z)
      (present (OSecret, cr_Namespace cr, ca_name cr)) (ensureCFSSLCASecret W (ca_name cr) cr)"
  proof (cases z)
    case True
    then show ?thesis
      using c converges_already [OF m, of "ca_assumed cr z"] by (simp add: ca_assumed_def ca_written_def)
  next
    case False
    with m show ?thesis
      by (simp add: ca_written_def)
  qed
qed

lemma ca_present_after:
  assumes "ca_foreign cr" "ca_assumed cr z s" "agree (ca_written cr z) s s'"
    and "cfssl_CASecret (spec_CFSSL (ast_Spec cr)) = '''' \<longrightarrow> present (OSecret, cr_Namespace cr, ca_name cr) s'"
  shows "present (OSecret, cr_Namespace cr, ca_name cr) s'"
proof (cases "cfssl_CASecret (spec_CFSSL (ast_Spec cr)) = ''''")
  case False
  have a: "agree {(OSecret, cr_Namespace cr, cr_Name cr @ ''-devices-ca'')} s s'"
    by (rule agree_mono [OF assms(3)]) (simp add: ca_written_def)
  from False
  have "part cr (OSecret, cr_Namespace cr, ca_name cr) \<noteq> part cr (OSecret, cr_Namespace cr, cr_Name cr @ ''-devices-ca'')"
    using assms(1) by (simp add: ca_foreign_def foreign_secret_def ca_name_def del: part.simps) (simp add: region_simps)
  then have "ca_name cr \<noteq> cr_Name cr @ ''-devices-ca''"
    by metis
  then have "s' (OSecret, cr_Namespace cr, ca_name cr) = s (OSecret, cr_Namespace cr, ca_name cr)"
    by (intro agree_at [OF a]) simp
  with assms(2) False show ?thesis
    by (simp add: ca_assumed_def ca_given_def present_def)
qed (use assms(4) in simp)

lemma conv_cfssl_deployment:
  assumes "spec = cfssl_deployment W cr"
  shows "conv cr A {(ODeployment, cr_Namespace cr, cr_Name cr @ ''-cfssl'')}
     (kept cr (ODeployment, cr_Namespace cr, cr_Name cr @ ''-cfssl'') (on_deployment (\<lambda>d. d\<lparr>d_Spec := cfssl_deployment W cr\<rparr>)))
     (CreateOrUpdate E (NewDeployment (cr_Name cr @ ''-cfssl'') (cr_Namespace cr))
       (owned E (KAstarte cr) (on_deployment (\<lambda>d. d\<lparr>d_Spec := spec\<rparr>))))"
proof -
  have "\<not> carries cr (NewDeployment n ns)" for n ns
    by (simp add: NewDeployment_def selected_def dup_selector_def NewMeta_def)
  moreover have "\<not> carries cr y \<Longrightarrow> \<not> carries cr (on_deployment (\<lambda>d. d\<lparr>d_Spec := spec\<rparr>) (owned_by (KAstarte cr) y))" for y
    by (cases y) (auto simp: selected_def on_deployment_def owned_by_def)
  ultimately show ?thesis
    unfolding assms [symmetric] using cfssl_name_simps [of cr]
    by (intro conv_owned settling_intros) (auto simp: managed_kinds_def)
qed

text \<open>
  From the certificates on, for the checksum that the configuration leads to.
\<close>

lemma conv_cfssl_workload:
  assumes "w_env W = E" "crypto_works W" "ca_foreign cr"
    and ps: "getCFSSLPodSpec (cr_Name cr @ ''-cfssl'') (ca_name cr) cr = Inr ps"
  shows "conv cr (ca_assumed cr z)
     (ca_written cr z \<union>
       ({(OSecret, cr_Namespace cr, cr_Name cr @ ''-cfssl-ca'')} \<union> {(ODeployment, cr_Namespace cr, cr_Name cr @ ''-cfssl'')}))
     (\<lambda>s. (cfssl_CASecret (spec_CFSSL (ast_Spec cr)) = '''' \<longrightarrow> present (OSecret, cr_Namespace cr, ca_name cr) s) \<and>
        proxy_goal cr s \<and>
        kept cr (ODeployment, cr_Namespace cr, cr_Name cr @ ''-cfssl'') (on_deployment (\<lambda>d. d\<lparr>d_Spec := cfssl_deployment W cr\<rparr>)) s)
     (bnd (do_when (cfssl_CASecret (spec_CFSSL (ast_Spec cr)) = '''') (ensureCFSSLCASecret W (ca_name cr) cr)) (\<lambda>_.
      bnd (ensureCFSSLCAProxySecret W (ca_name cr) (cr_Name cr @ ''-cfssl-ca'') cr) (\<lambda>_.
      bnd (lift (getCFSSLPodSpec (cr_Name cr @ ''-cfssl'') (ca_name cr) cr)) (\<lambda>podSpec.
      bnd (CreateOrUpdate E (NewDeployment (cr_Name cr @ ''-cfssl'') (cr_Namespace cr))
             (owned E (KAstarte cr) (on_deployment (\<lambda>d. d\<lparr>d_Spec :=
                \<lparr>dp_Selector = [(''app'', cr_Name cr @ ''-cfssl'')], dp_Strategy = StrategyOf '''',
                 dp_Template = \<lparr>pt_Labels = [(''app'', cr_Name cr @ ''-cfssl'')],
                                pt_Annotations = [(''checksum/config'', cfssl_checksum W cr)], pt_Spec = podSpec\<rparr>,
                 dp_Replicas = Some 1\<rparr>\<rparr>)))) (\<lambda>_. ret ())))))"
proof -
  let ?ca = "(OSecret, cr_Namespace cr, ca_name cr)"
  let ?proxy = "(OSecret, cr_Namespace cr, cr_Name cr @ ''-cfssl-ca'')"
  let ?dep = "(ODeployment, cr_Namespace cr, cr_Name cr @ ''-cfssl'')"
  have ca: "?ca \<notin> {?proxy}"
    using ca_name_cases(1) [OF assms(3)] by simp
  have proxy: "unaffected {?dep} (proxy_goal cr)"
    unfolding proxy_goal_def by (rule unaffected_settled_reading) (auto simp: agree_at)
  have u: "unaffected ({?proxy} \<union> {?dep}) (\<lambda>s. cfssl_CASecret (spec_CFSSL (ast_Spec cr)) = '''' \<longrightarrow> present ?ca s)"
    using ca by (intro unaffected_intros) simp
  have spec: "\<lparr>dp_Selector = [(''app'', cr_Name cr @ ''-cfssl'')], dp_Strategy = StrategyOf '''',
      dp_Template = \<lparr>pt_Labels = [(''app'', cr_Name cr @ ''-cfssl'')],
                     pt_Annotations = [(''checksum/config'', cfssl_checksum W cr)], pt_Spec = ps\<rparr>,
      dp_Replicas = Some 1\<rparr> = cfssl_deployment W cr"
    by (simp add: cfssl_deployment_def ps)
  show ?thesis
    unfolding ps lift_Inr spec
  proof (rule converges_seq [OF conv_cfssl_ca_step [OF assms(1,2)] _ _ u])
    show "conv cr (present ?ca) ({?proxy} \<union> {?dep})
      (\<lambda>s. proxy_goal cr s \<and> kept cr ?dep (on_deployment (\<lambda>d. d\<lparr>d_Spec := cfssl_deployment W cr\<rparr>)) s)
      (bnd (ensureCFSSLCAProxySecret W (ca_name cr) (cr_Name cr @ ''-cfssl-ca'') cr) (\<lambda>_.
       bnd (CreateOrUpdate E (NewDeployment (cr_Name cr @ ''-cfssl'') (cr_Namespace cr))
             (owned E (KAstarte cr) (on_deployment (\<lambda>d. d\<lparr>d_Spec := cfssl_deployment W cr\<rparr>)))) (\<lambda>_. ret ())))"
      by (rule converges_seq [OF conv_proxy [OF assms(1,3)] converges_bnd_ret [OF conv_cfssl_deployment [OF refl]] TrueI proxy])
  qed (rule ca_present_after [OF assms(3)])
qed

end

lemma cfssl_regions:
  "(OService, ns, cr_Name cr @ ''-cfssl'') \<in> region cr (''cfssl'' # ps)"
  "(OConfigMap, ns, cr_Name cr @ ''-cfssl-config'') \<in> region cr (''cfssl'' # ps)"
  "(OSecret, ns, cr_Name cr @ ''-devices-ca'') \<in> region cr [''cfssl'', ''devices-ca'']"
  "(OSecret, ns, cr_Name cr @ ''-cfssl-ca'') \<in> region cr (''cfssl'' # ps)"
  "(ODeployment, ns, cr_Name cr @ ''-cfssl'') \<in> region cr (''cfssl'' # ps)"
  by (simp_all add: region_simps)

context sole_client begin

lemma conv_cfssl_frozen:
  assumes "w_env W = E" "crypto_works W" "ca_foreign cr"
    and "isOK (getCFSSLPodSpec (cr_Name cr @ ''-cfssl'') (ca_name cr) cr)"
  shows "conv cr (ca_assumed cr z) (region cr [''cfssl''] \<union> ca_written cr z) (cfssl_goal W cr) (EnsureCFSSL W cr)"
proof (cases "PtrValue (cfssl_Deploy (spec_CFSSL (ast_Spec cr))) True")
  case False
  then show ?thesis
    unfolding EnsureCFSSL_def Let_def assms(1) cfssl_goal_def
    by (simp, intro converges_weaken [OF conv_delete_if_present [OF cfssl_name_simps(3)]]) (simp_all add: cfssl_regions)
next
  case True
  let ?n = "cr_Name cr @ ''-cfssl''" and ?b = "cfssl_CASecret (spec_CFSSL (ast_Spec cr)) = ''''"
  let ?svc = "kept cr (OService, cr_Namespace cr, ?n) (on_service (\<lambda>v. v\<lparr>svc_Type := ''ClusterIP'',
      svc_Ports := [http_service_port 80], svc_Selector := [(''app'', ?n)]\<rparr>))"
  let ?cmk = "(OConfigMap, cr_Namespace cr, cr_Name cr @ ''-cfssl-config'')"
  let ?cm = "kept cr ?cmk (on_config_map (\<lambda>c. c\<lparr>cm_Data := cfssl_config cr\<rparr>))"
  let ?W = "ca_written cr z \<union>
       ({(OSecret, cr_Namespace cr, cr_Name cr @ ''-cfssl-ca'')} \<union> {(ODeployment, cr_Namespace cr, ?n)})"
  let ?P = "\<lambda>s. (?b \<longrightarrow> present (OSecret, cr_Namespace cr, ca_name cr) s) \<and> proxy_goal cr s \<and>
      kept cr (ODeployment, cr_Namespace cr, ?n) (on_deployment (\<lambda>d. d\<lparr>d_Spec := cfssl_deployment W cr\<rparr>)) s"
  obtain ps where ps: "getCFSSLPodSpec ?n (ca_name cr) cr = Inr ps"
    using assms(4) by (auto simp: isOK_iff)
  have ca: "(if cfssl_CASecret (spec_CFSSL (ast_Spec cr)) \<noteq> '''' then cfssl_CASecret (spec_CFSSL (ast_Spec cr))
      else cr_Name cr @ ''-devices-ca'') = ca_name cr"
    by (simp add: ca_name_def)
  have "conv cr (\<lambda>s. ca_assumed cr z s \<and> ?cm s) ?W ?P
     (bnd (Get E OConfigMap (cr_Namespace cr) (cr_Name cr @ ''-cfssl-config'')) (\<lambda>theConfigMap.
      bnd (lift (getChecksumForConfigMap (cry_SHA256 (w_crypto W)) (config_map_of theConfigMap))) (\<lambda>configMapChecksum.
      bnd (do_when ?b (ensureCFSSLCASecret W (ca_name cr) cr)) (\<lambda>_.
      bnd (ensureCFSSLCAProxySecret W (ca_name cr) (cr_Name cr @ ''-cfssl-ca'') cr) (\<lambda>_.
      bnd (lift (getCFSSLPodSpec ?n (ca_name cr) cr)) (\<lambda>podSpec.
      bnd (CreateOrUpdate E (NewDeployment ?n (cr_Namespace cr))
             (owned E (KAstarte cr) (on_deployment (\<lambda>d. d\<lparr>d_Spec :=
                \<lparr>dp_Selector = [(''app'', ?n)], dp_Strategy = StrategyOf '''',
                 dp_Template = \<lparr>pt_Labels = [(''app'', ?n)], pt_Annotations = [(''checksum/config'', configMapChecksum)],
                                pt_Spec = podSpec\<rparr>,
                 dp_Replicas = Some 1\<rparr>\<rparr>)))) (\<lambda>_. ret ())))))))"
    (is "conv _ ?A _ _ (bnd _ ?f)")
  proof (rule converges_Get)
    fix x
    assume x: "obj_key x = ?cmk"
    show "conv cr (\<lambda>s. ?A s \<and> s ?cmk = Some x) ?W ?P (?f x)"
    proof (cases "cm_Data (config_map_of x) = cfssl_config cr")
      case False
      then show ?thesis
        using kept_config_data [OF _ _ x] by (intro converges_vacuous) blast
    next
      case data: True
      obtain sum where sum: "getChecksumForConfigMap (cry_SHA256 (w_crypto W)) (config_map_of x) = Inr sum"
        using assms(2) unfolding crypto_works_def getChecksumForConfigMap_def isOK_iff Let_def by blast
      have "sum = cfssl_checksum W cr"
        using sum checksum_of_data [of "config_map_of x" "\<lparr>cm_Meta = NewMeta (cr_Name cr @ ''-cfssl-config'') (cr_Namespace cr),
          cm_Data = cfssl_config cr\<rparr>" "cry_SHA256 (w_crypto W)"] data by (simp add: cfssl_checksum_def)
      then show ?thesis
        unfolding sum lift_Inr
        by (simp only:, intro converges_weaken [OF conv_cfssl_workload [OF assms(1-3) ps, of z]]) simp_all
    qed
  qed (auto simp: kept_def settled_def)
  moreover have "unaffected ?W (\<lambda>s. ?svc s \<and> ?cm s)"
    by (intro unaffected_intros) (simp_all add: ca_written_def)
  moreover have "ca_assumed cr z s' \<and> ?cm s'" if "ca_assumed cr z s" "?svc s' \<and> ?cm s'"
    "agree ({(OService, cr_Namespace cr, ?n)} \<union> {?cmk}) s s'" for s s'
    using that agree_at [OF that(3), of "(OSecret, cr_Namespace cr, ca_name cr)"]
    by (simp add: ca_assumed_def ca_given_def present_def)
  ultimately have "conv cr (ca_assumed cr z) (({(OService, cr_Namespace cr, ?n)} \<union> {?cmk}) \<union> ?W)
      (\<lambda>s. (?svc s \<and> ?cm s) \<and> ?P s) (EnsureCFSSL W cr)"
    unfolding EnsureCFSSL_def Let_def assms(1) ca cfssl_name_simps(2)
    using True by (simp only: not_True_eq_False if_False, intro converges_seq [OF conv_cfssl_sidecars [OF assms(1)]]) blast+
  then show ?thesis
    by (rule converges_weaken) (use True in \<open>auto simp add: cfssl_regions cfssl_goal_def Let_def\<close>)
qed

lemma conv_cfssl:
  assumes "w_env W = E" "crypto_works W" "ca_foreign cr"
    and "isOK (getCFSSLPodSpec (cr_Name cr @ ''-cfssl'') (ca_name cr) cr)"
  shows "conv cr (ca_given cr) (region cr [''cfssl'', ''devices-ca'']) (cfssl_goal W cr) (EnsureCFSSL W cr)"
  by (rule converges_weaken [OF conv_cfssl_frozen [OF assms, of False]])
    (use cfssl_regions(3) [of "cr_Namespace cr" cr] in
      \<open>auto simp add: ca_assumed_def ca_written_def in_region simp del: part.simps\<close>)

end

section \<open>VerneMQ\<close>

text \<open>With SSL termination in the broker and no certificate, none of its pods is left running.\<close>

definition pods_goal :: "Astarte \<Rightarrow> kstate \<Rightarrow> bool" where
  "pods_goal cr s \<longleftrightarrow>
     present (OSecret, cr_Namespace cr, vmq_SSLListenerCertSecretName (spec_VerneMQ (ast_Spec cr))) s \<or>
     (\<forall>n x. s (OPod, n) = Some x \<longrightarrow> \<not> selected OPod (Some (cr_Namespace cr)) [(''app'', GetVerneMQStatefulSetName cr)] x)"

definition stateful_set_goal ::
    "Astarte \<Rightarrow> string \<Rightarrow> smap \<Rightarrow> stateful_set_spec \<Rightarrow> (kstate \<Rightarrow> int option) \<Rightarrow> kstate \<Rightarrow> bool" where
  "stateful_set_goal cr n labels spec replicas =
     settled (OStatefulSet, cr_Namespace cr, n) (\<lambda>s x.
       on_stateful_set (\<lambda>t. t\<lparr>ss_Spec := (ss_Spec t)\<lparr>ssp_Replicas := replicas s\<rparr>\<rparr>)
         (on_stateful_set (\<lambda>t. t\<lparr>ss_Meta := (ss_Meta t)\<lparr>om_Labels := labels\<rparr>, ss_Spec := spec\<rparr>)
           (owned_by (KAstarte cr) x)))"

definition vernemq_claim :: "('v, 'c) world \<Rightarrow> Astarte \<Rightarrow> string \<times> persistent_volume_claim option" where
  "vernemq_claim W cr =
     computePersistentVolumeClaim (GetVerneMQStatefulSetName cr @ ''-data'')
       (ql_NewScaledQuantity (lib_quantity (w_libs W)) 4 scale_Giga) (vmq_Storage (spec_VerneMQ (ast_Spec cr))) cr"

definition vernemq_set :: "('v, 'c) world \<Rightarrow> Astarte \<Rightarrow> stateful_set_spec" where
  "vernemq_set W cr =
     (let n = GetVerneMQStatefulSetName cr; labels = [(''app'', n)] in
      \<lparr>ssp_ServiceName = n, ssp_Selector = labels,
       ssp_Template = \<lparr>pt_Labels = computePodLabels gcr_GetPodLabels (vmq_Generic (spec_VerneMQ (ast_Spec cr))) labels,
         pt_Annotations = [], pt_Spec = projr (getVerneMQPodSpec (lib_semver (w_libs W)) n (fst (vernemq_claim W cr)) cr)\<rparr>,
       ssp_VolumeClaimTemplates = (case snd (vernemq_claim W cr) of None \<Rightarrow> [] | Some c \<Rightarrow> [c]),
       ssp_Replicas = None\<rparr>)"

definition vernemq_goal :: "('v, 'c) world \<Rightarrow> Astarte \<Rightarrow> kstate \<Rightarrow> bool" where
  "vernemq_goal W cr =
     (let n = GetVerneMQStatefulSetName cr; vmq = vmq_Generic (spec_VerneMQ (ast_Spec cr)) in
      if \<not> PtrValue (gcr_Deploy vmq) True then absent (OStatefulSet, cr_Namespace cr, n)
      else (\<lambda>s. rbac_goal cr n getVerneMQPolicyRules s \<and>
        kept cr (OService, cr_Namespace cr, n) (on_service (\<lambda>v. v\<lparr>svc_Type := ''ClusterIP'', svc_ClusterIP := noneClusterIP,
          svc_Ports := [named_port ''mqtt'' 1883, named_port ''mqtt-reverse'' 1885, named_port ''webadmin'' 8888],
          svc_Selector := [(''app'', n)]\<rparr>)) s \<and>
        (shouldVerneHandleSSLTermination cr \<longrightarrow> pods_goal cr s) \<and>
        stateful_set_goal cr n [(''component'', ''astarte'')] (vernemq_set W cr) (replica_count cr vmq) s))"

lemma unaffected_pods:
  assumes "(OSecret, cr_Namespace cr, vmq_SSLListenerCertSecretName (spec_VerneMQ (ast_Spec cr))) \<notin> W"
    and "\<And>n. (OPod, n) \<notin> W"
  shows "unaffected W (pods_goal cr)"
  using assms by (intro unaffectedI) (simp add: pods_goal_def present_def agree_at)

lemma unaffected_stateful_set:
  assumes "(OStatefulSet, cr_Namespace cr, n) \<notin> W" "no_autoscaler W"
  shows "unaffected W (stateful_set_goal cr n labels spec (replica_count cr r))"
  unfolding stateful_set_goal_def
  by (rule unaffected_settled_reading) (simp_all add: assms replica_count_agree [OF _ assms(2)])

lemma admissible_pods:
  assumes "admissible cr s" "agree {k. fst k = OPod} s s'"
  shows "admissible cr s'"
proof -
  have s: "s' k = s k" if "fst k \<noteq> OPod" for k
    using that by (intro agree_at [OF assms(2)]) simp
  have l: "labelled cr s' = labelled cr s"
    by (rule labelled_cong) (simp add: s)
  have "free_for (KAstarte cr) (obj_meta x)" if "s' k = Some x" "fst k \<in> managed_kinds" "own_key cr k" for k x
    using that assms(1) s [of k] by (intro admissible_free [of cr s k x]) (auto simp: managed_kinds_def)
  then show ?thesis
    using assms(1) unfolding admissible_def l by blast
qed

context sole_client begin

lemma conv_vernemq_pods:
  assumes "w_env W = E"
  shows "conv cr A {k. fst k = OPod} (pods_goal cr) (maybeDeleteVerneMQPods W cr)"
  unfolding maybeDeleteVerneMQPods_def Let_def assms
proof (rule converges_ListObjs)
  fix xs :: "kobj list"
  let ?cert = "vmq_SSLListenerCertSecretName (spec_VerneMQ (ast_Spec cr))"
  let ?sel = "selected OPod (Some (cr_Namespace cr)) [(''app'', GetVerneMQStatefulSetName cr)]"
  let ?ev = "EvDeleteAll OPod (cr_Namespace cr) [(''app'', GetVerneMQStatefulSetName cr)]"
  let ?A = "\<lambda>s. A s \<and> (\<forall>k x. s k = Some x \<longrightarrow> obj_key x = k) \<and>
      (\<forall>x. x \<in> set xs \<longleftrightarrow> s (obj_key x) = Some x \<and> selected OSecret (Some (cr_Namespace cr)) [] x)"
  show "conv cr ?A {k. fst k = OPod} (pods_goal cr)
      (if list_ex (\<lambda>v. om_Name (obj_meta v) = ?cert) xs then ret ()
       else DeleteAllOf E OPod (cr_Namespace cr) [(''app'', GetVerneMQStatefulSetName cr)])"
  proof (rule converges_if)
    assume "list_ex (\<lambda>v. om_Name (obj_meta v) = ?cert) xs"
    then obtain v where v: "v \<in> set xs" "om_Name (obj_meta v) = ?cert"
      by (auto simp: list_ex_iff)
    show "conv cr ?A {k. fst k = OPod} (pods_goal cr) (ret ())"
    proof (rule converges_ret)
      fix s
      assume "?A s"
      with v(1) have "s (obj_key v) = Some v" "selected OSecret (Some (cr_Namespace cr)) [] v"
        by simp_all
      moreover from this v(2) have "obj_key v = (OSecret, cr_Namespace cr, ?cert)"
        by (simp add: selected_def)
      ultimately show "pods_goal cr s"
        by (simp only: pods_goal_def present_def) simp
    qed
  next
    assume none: "\<not> list_ex (\<lambda>v. om_Name (obj_meta v) = ?cert) xs"
    show "conv cr ?A {k. fst k = OPod} (pods_goal cr) (DeleteAllOf E OPod (cr_Namespace cr) [(''app'', GetVerneMQStatefulSetName cr)])"
      unfolding DeleteAllOf_def
    proof (rule converges_write)
      show "\<exists>u. e_delete_all E h OPod (cr_Namespace cr) [(''app'', GetVerneMQStatefulSetName cr)] = Inr u" for h
        by (simp add: delete_all)
      fix s
      assume adm: "admissible cr s" and A: "?A s"
      have "step_state ?ev s k = s k" if "fst k \<noteq> OPod" for k
        using that A by (cases k) (auto simp: selected_def split: option.split)
      then have agr: "agree {k. fst k = OPod} s (step_state ?ev s)"
        by (auto simp: agree_def)
      then show "admissible cr (step_state ?ev s) \<and> pods_goal cr (step_state ?ev s) \<and> agree {k. fst k = OPod} s (step_state ?ev s)"
        using admissible_pods [OF adm] by (auto simp: pods_goal_def split: option.splits)
      assume goal: "pods_goal cr s"
      have "s (OSecret, cr_Namespace cr, ?cert) = None"
      proof (cases "s (OSecret, cr_Namespace cr, ?cert)")
        case (Some x)
        moreover from this A have "obj_key x = (OSecret, cr_Namespace cr, ?cert)"
          by blast
        ultimately have "s (obj_key x) = Some x" "selected OSecret (Some (cr_Namespace cr)) [] x" "om_Name (obj_meta x) = ?cert"
          by (simp_all only:) (simp_all add: selected_def)
        then have "x \<in> set xs" "om_Name (obj_meta x) = ?cert"
          using A by blast+
        with none show ?thesis
          by (auto simp: list_ex_iff)
      qed
      with goal have "\<not> ?sel x" if "s k = Some x" for k x
        using that A by (cases k) (auto simp: pods_goal_def present_def selected_def)
      then show "step_state ?ev s = s"
        by (auto simp: fun_eq_iff split: option.split)
    qed
  qed
qed

lemma conv_stateful_set:
  assumes "own_name cr n" "\<And>A. reads E A m v"
    and "\<And>s s'. agree {(OStatefulSet, cr_Namespace cr, n)} s s' \<Longrightarrow> v s' = v s"
  shows "conv cr A {(OStatefulSet, cr_Namespace cr, n)} (stateful_set_goal cr n labels spec v)
     (CreateOrUpdate E (NewStatefulSet n (cr_Namespace cr)) (\<lambda>x.
        bnd (owned E (KAstarte cr) (on_stateful_set (\<lambda>t. t\<lparr>ss_Meta := (ss_Meta t)\<lparr>om_Labels := labels\<rparr>, ss_Spec := spec\<rparr>)) x) (\<lambda>x1.
        bnd m (\<lambda>n. ret (on_stateful_set (\<lambda>t. t\<lparr>ss_Spec := (ss_Spec t)\<lparr>ssp_Replicas := n\<rparr>\<rparr>) x1)))))"
proof -
  let ?k = "(OStatefulSet, cr_Namespace cr, n)"
  let ?f = "on_stateful_set (\<lambda>t. t\<lparr>ss_Meta := (ss_Meta t)\<lparr>om_Labels := labels\<rparr>, ss_Spec := spec\<rparr>)"
  let ?r = "\<lambda>n. on_stateful_set (\<lambda>t. t\<lparr>ss_Spec := (ss_Spec t)\<lparr>ssp_Replicas := n\<rparr>\<rparr>)"
  let ?g = "\<lambda>s x. ?r (v s) (?f (owned_by (KAstarte cr) x))"
  have k: "obj_key (NewStatefulSet n (cr_Namespace cr)) = ?k"
    by simp
  show ?thesis
    unfolding stateful_set_goal_def k [symmetric]
  proof (rule converges_CreateOrUpdate [where ok = "\<lambda>x. free_for (KAstarte cr) (obj_meta x)"])
    show "free_for (KAstarte cr) (obj_meta x0)" if "admissible cr s" "s (obj_key (NewStatefulSet n (cr_Namespace cr))) = Some x0" for s x0
      using that assms(1) admissible_free [of cr s ?k x0] by (simp add: managed_kinds_def)
    fix x0
    assume x0: "obj_key x0 = obj_key (NewStatefulSet n (cr_Namespace cr))"
    then obtain d where d: "x0 = KStatefulSet d" "om_Namespace (ss_Meta d) = cr_Namespace cr" "om_Name (ss_Meta d) = n"
      by auto
    show "reads E (\<lambda>s. admissible cr s \<and> A s) (bnd (owned E (KAstarte cr) ?f x0) (\<lambda>x1. bnd m (\<lambda>n. ret (?r n x1)))) (\<lambda>s. ?g s x0)"
      if "free_for (KAstarte cr) (obj_meta x0)"
      by (rule reads_bnd [OF reads_owned [OF that]], rule reads_bnd [OF assms(2)], rule reads_ret) auto
    show "obj_key (?g s x0) = obj_key (NewStatefulSet n (cr_Namespace cr))" for s
      using d by (simp add: on_stateful_set_def owned_by_def)
    show "admissible cr (s(obj_key (NewStatefulSet n (cr_Namespace cr)) \<mapsto> ?g s x0))" if "admissible cr s" for s
      using that d unfolding k by (intro admissible_upd) (auto simp: on_stateful_set_def owned_by_def)
    show "?g (s(obj_key (NewStatefulSet n (cr_Namespace cr)) \<mapsto> y)) (?g s x0) = ?g s x0" for s y
      using d assms(3) [of s "s(?k \<mapsto> y)"] unfolding k by (simp add: agree_upd on_stateful_set_def owned_by_def)
  qed simp
qed

lemma conv_vernemq:
  assumes "w_env W = E" "isOK (getVerneMQPodSpec (lib_semver (w_libs W)) (GetVerneMQStatefulSetName cr) (fst (vernemq_claim W cr)) cr)"
  shows "conv cr (\<lambda>s. True) (region cr [''vernemq'', ''pods'']) (vernemq_goal W cr) (EnsureVerneMQ W cr)"
proof -
  let ?n = "GetVerneMQStatefulSetName cr"
  have n: "own_name cr ?n" "?n \<notin> range (dup_name cr)"
    using not_dup_name [of ?n cr] by (simp_all add: GetVerneMQStatefulSetName_def HasPrefix_def)
  have reg: "k \<notin> {OPriorityClass, OPod, OHPA} \<Longrightarrow> (k, ns, ?n) \<in> region cr [''vernemq'', ''pods'']" for k ns
    by (simp add: region_simps)
  have pods: "{k. fst k = OPod} \<subseteq> region cr [''vernemq'', ''pods'']"
    by (auto simp: in_region)
  show ?thesis
  proof (cases "PtrValue (gcr_Deploy (vmq_Generic (spec_VerneMQ (ast_Spec cr)))) True")
    case False
    then show ?thesis
      unfolding EnsureVerneMQ_def Let_def assms(1) vernemq_goal_def
      by (simp, intro converges_weaken [OF conv_delete_if_present [OF n(2)]]) (simp_all add: reg)
  next
    case True
    obtain ps where ps: "getVerneMQPodSpec (lib_semver (w_libs W)) ?n (fst (vernemq_claim W cr)) cr = Inr ps"
      using assms(2) by (auto simp: isOK_iff)
    have svc: "conv cr A {(OService, cr_Namespace cr, ?n)}
        (kept cr (OService, cr_Namespace cr, ?n) (on_service (\<lambda>v. v\<lparr>svc_Type := ''ClusterIP'', svc_ClusterIP := noneClusterIP,
            svc_Ports := ports, svc_Selector := ls\<rparr>)))
        (CreateOrUpdate E (NewService ?n (cr_Namespace cr)) (owned E (KAstarte cr) (on_service (\<lambda>v. v\<lparr>svc_Type := ''ClusterIP'',
            svc_ClusterIP := noneClusterIP, svc_Ports := ports, svc_Selector := ls\<rparr>))))" for A ports ls
      using n by (intro conv_owned settling_intros) (auto simp: managed_kinds_def)
    have set: "conv cr (\<lambda>s. True) {(OStatefulSet, cr_Namespace cr, ?n)}
        (stateful_set_goal cr ?n ls spec (replica_count cr r))
        (bnd (CreateOrUpdate E (NewStatefulSet ?n (cr_Namespace cr)) (\<lambda>x.
           bnd (owned E (KAstarte cr) (on_stateful_set (\<lambda>t. t\<lparr>ss_Meta := (ss_Meta t)\<lparr>om_Labels := ls\<rparr>, ss_Spec := spec\<rparr>)) x) (\<lambda>x1.
           bnd (getReplicaCountForResource E r cr) (\<lambda>n. ret (on_stateful_set (\<lambda>t. t\<lparr>ss_Spec := (ss_Spec t)\<lparr>ssp_Replicas := n\<rparr>\<rparr>) x1)))))
         (\<lambda>_. ret ()))" for ls spec r
      using n by (intro converges_bnd_ret conv_stateful_set conv_replicas replica_count_agree) (auto simp: no_autoscaler_def)
    have claim: "(case computePersistentVolumeClaim (?n @ ''-data'') (ql_NewScaledQuantity (lib_quantity (w_libs W)) 4 scale_Giga)
          (vmq_Storage (spec_VerneMQ (ast_Spec cr))) cr of (a, b) \<Rightarrow> f a b) = f (fst (vernemq_claim W cr)) (snd (vernemq_claim W cr))" for f
      by (simp add: vernemq_claim_def split: prod.split)
    show ?thesis
      unfolding EnsureVerneMQ_def Let_def assms(1) vernemq_goal_def claim ps lift_Inr
      using True n(1)
      by (simp only: not_True_eq_False if_False,
          intro converges_weaken [OF converges_then [OF conv_rbac [OF assms(1) n(1)] converges_then [OF svc
            converges_then [OF converges_do_when [OF conv_vernemq_pods [OF assms(1)]] set]]]])
        (simp_all add: unaffected_parts unaffected_pods unaffected_imp unaffected_kept reg pods vernemq_set_def Let_def ps)
  qed
qed

end

section \<open>The Data Updater Plant\<close>

abbreviation dup_spec :: "Astarte \<Rightarrow> AstarteDataUpdaterPlantSpec" where
  "dup_spec cr \<equiv> comp_DataUpdaterPlant (spec_Components (ast_Spec cr))"

definition dup_deployed :: "Astarte \<Rightarrow> bool" where
  "dup_deployed cr = PtrValue (gcr_Deploy (dup_Generic (dup_spec cr))) True"

text \<open>No deployment of the Data Updater Plant but the wanted ones carries its label.\<close>

definition extras_goal :: "Astarte \<Rightarrow> kstate \<Rightarrow> bool" where
  "extras_goal cr s \<longleftrightarrow>
     (\<forall>i. dup_name cr i \<in> labelled cr s \<longrightarrow> dup_deployed cr \<and> dup_name cr i \<in> dup_wanted cr)"

definition dup_labels :: "Astarte \<Rightarrow> string \<Rightarrow> smap" where
  "dup_labels cr n = component_labels n DataUpdaterPlant @ [(''astarte-instance-name'', cr_Name cr)]"

text \<open>One replica of several: a deployment of one pod with its own cookie.\<close>

definition replica_goal :: "('v, 'c) world \<Rightarrow> Astarte \<Rightarrow> nat \<Rightarrow> kstate \<Rightarrow> bool" where
  "replica_goal W cr i s \<longleftrightarrow>
     (let n = dup_name cr i; b = dup_Generic (dup_spec cr) in
      cookie_goal cr (n @ ''-cookie'') s \<and>
      deployment_goal cr n (dup_labels cr n)
        (component_deployment cr n (dup_labels cr n) b DataUpdaterPlant
           (projr (getAstarteGenericBackendPodSpec (w_libs W) n (int i) (dup_replicas cr) cr b DataUpdaterPlant)))
        (\<lambda>s. Some 1) s)"

definition dup_goal :: "('v, 'c) world \<Rightarrow> Astarte \<Rightarrow> kstate \<Rightarrow> bool" where
  "dup_goal W cr s \<longleftrightarrow>
     extras_goal cr s \<and>
     (dup_deployed cr \<longrightarrow>
        (if dup_replicas cr = 1 then backend_goal W cr (dup_Generic (dup_spec cr)) DataUpdaterPlant s
         else
           service_goal cr (component_name cr DataUpdaterPlant)
             [(''astarte-component'', DashedString DataUpdaterPlant), (''astarte-instance-name'', cr_Name cr)]
             (dup_labels cr (component_name cr DataUpdaterPlant)) astarteServicesPort s \<and>
           (\<forall>i \<in> {..<nat (dup_replicas cr)}. replica_goal W cr i s)))"

definition dup_keys :: "Astarte \<Rightarrow> okey set" where
  "dup_keys cr = {(ODeployment, cr_Namespace cr, n) |n. n \<in> range (dup_name cr)}"

lemma dup_name_component: "dup_name cr 0 = component_name cr DataUpdaterPlant"
  by (simp add: dup_name_def component_name_def DashedString_table)

lemma dup_name_indexed:
  "(if 0 < int i then (cr_Name cr @ ''-'' @ DashedString DataUpdaterPlant) @ ''-'' @ Itoa (int i)
    else cr_Name cr @ ''-'' @ DashedString DataUpdaterPlant) = dup_name cr i"
  by (simp add: dup_name_def DashedString_table)

lemma dup_name_inj:
  assumes "i < nat (dup_replicas cr)" "j < nat (dup_replicas cr)" "dup_replicas cr < 2147483648" "dup_name cr i = dup_name cr j"
  shows "i = j"
proof -
  have "in_int (int i)" "in_int (int j)"
    using assms(1-3) by (simp_all add: in_int_def)
  with Itoa_inject [of "int i" "int j"] assms(4) show ?thesis
    by (auto simp: dup_name_def split: if_splits)
qed

lemma dup_name_own: "own_name cr (dup_name cr i)" "own_name cr (dup_name cr i @ x)"
  by (simp_all add: dup_name_def own_name_def HasPrefix_def)

lemma dup_region:
  "k \<notin> {OPriorityClass, OPod, OHPA} \<Longrightarrow> (k, ns, dup_name cr i) \<in> region cr [''data-updater-plant'']"
  "k \<notin> {OPriorityClass, OPod, OHPA} \<Longrightarrow> (k, ns, dup_name cr i @ x) \<in> region cr [''data-updater-plant'']"
  by (simp_all add: dup_name_def region_simps)

lemma dup_labels_simps [simp]:
  "map_of (dup_labels cr n) ''astarte-component'' = Some ''data-updater-plant''"
  by (simp add: dup_labels_def component_labels_def DashedString_table)

lemma carries_key: "carries cr x \<Longrightarrow> obj_key x = (ODeployment, cr_Namespace cr, om_Name (obj_meta x))"
  by (auto simp: selected_def)

lemma labelled_list:
  assumes "distinct xs" "\<forall>k x. s k = Some x \<longrightarrow> obj_key x = k"
    and "\<forall>x. x \<in> set xs \<longleftrightarrow> s (obj_key x) = Some x \<and> carries cr x"
  shows "card (labelled cr s) = length xs" "finite (labelled cr s)"
proof -
  have "labelled cr s = (\<lambda>x. om_Name (obj_meta x)) ` set xs"
  proof (intro equalityI subsetI)
    fix n
    assume "n \<in> labelled cr s"
    then obtain x where x: "s (ODeployment, cr_Namespace cr, n) = Some x" "carries cr x"
      by (auto simp: labelled_def)
    with assms(2) have key: "obj_key x = (ODeployment, cr_Namespace cr, n)"
      by blast
    with x(1) have "s (obj_key x) = Some x"
      by (simp only:)
    with x(2) assms(3) key have "x \<in> set xs" "om_Name (obj_meta x) = n"
      by (blast, simp)
    then show "n \<in> (\<lambda>x. om_Name (obj_meta x)) ` set xs"
      by blast
  next
    fix n
    assume "n \<in> (\<lambda>x. om_Name (obj_meta x)) ` set xs"
    then obtain x where "s (obj_key x) = Some x" "carries cr x" "n = om_Name (obj_meta x)"
      using assms(3) by blast
    then show "n \<in> labelled cr s"
      unfolding labelled_def by (intro CollectI exI [of _ x]) (auto simp: obj_key_def selected_def)
  qed
  moreover have "inj_on (\<lambda>x. om_Name (obj_meta x)) (set xs)"
  proof (rule inj_onI)
    fix x y
    assume "x \<in> set xs" "y \<in> set xs" "om_Name (obj_meta x) = om_Name (obj_meta y)"
    moreover from this assms(3) have "s (obj_key x) = Some x" "s (obj_key y) = Some y" "carries cr x" "carries cr y"
      by blast+
    ultimately show "x = y"
      using carries_key by (metis option.inject)
  qed
  ultimately show "card (labelled cr s) = length xs" "finite (labelled cr s)"
    using assms(1) by (simp_all add: card_image distinct_card)
qed

lemma step_delete_dup:
  assumes "\<forall>k x. s k = Some x \<longrightarrow> obj_key x = k" "admissible cr s"
  defines "s' \<equiv> step_state (EvDeleteAll ODeployment (cr_Namespace cr) dup_selector) s"
  shows "labelled cr s' = {}" "agree (dup_keys cr) s s'" "admissible cr s'" "labelled cr s = {} \<Longrightarrow> s' = s"
proof -
  have s': "s' k = (case s k of None \<Rightarrow> None | Some x \<Rightarrow> if carries cr x then None else Some x)" for k
    by (simp add: s'_def)
  show l: "labelled cr s' = {}"
    unfolding labelled_def s' by (auto split: option.splits if_splits)
  have sel: "k = (ODeployment, cr_Namespace cr, snd (snd k)) \<and> snd (snd k) \<in> labelled cr s" if "s k = Some x" "carries cr x" for k x
  proof -
    have "obj_key x = k"
      using that(1) assms(1) by blast
    then have "k = (ODeployment, cr_Namespace cr, snd (snd k))"
      using that(2) by (auto simp: selected_def)
    with that show ?thesis
      unfolding labelled_def by (metis (mono_tags) mem_Collect_eq)
  qed
  then show same: "labelled cr s = {} \<Longrightarrow> s' = s"
    unfolding fun_eq_iff s' by (auto split: option.split)
  show "agree (dup_keys cr) s s'"
    unfolding agree_def
  proof (intro allI impI)
    fix k
    assume k: "k \<notin> dup_keys cr"
    show "s' k = s k"
    proof (cases "s k")
      case (Some x)
      have "\<not> carries cr x"
        using sel [OF Some] k assms(2) unfolding admissible_def dup_keys_def by blast
      with Some show ?thesis
        by (simp add: s')
    qed (simp add: s')
  qed
  show "admissible cr s'"
    using assms(2) unfolding admissible_def l by (auto simp: s' split: option.splits if_splits)
qed

context sole_client begin

lemma conv_extras:
  fixes cr :: Astarte
  shows "conv cr (\<lambda>s. True) (dup_keys cr) (extras_goal cr)
     (bnd (ListObjs E ODeployment (Some (cr_Namespace cr)) dup_selector) (\<lambda>current.
        do_when (dup_replicas cr < int (length current) \<or> \<not> dup_deployed cr)
          (DeleteAllOf E ODeployment (cr_Namespace cr) dup_selector)))"
proof (rule converges_ListObjs)
  fix xs :: "kobj list"
  assume xs: "distinct xs"
  let ?A = "\<lambda>s. True \<and> (\<forall>k x. s k = Some x \<longrightarrow> obj_key x = k) \<and> (\<forall>x. x \<in> set xs \<longleftrightarrow> s (obj_key x) = Some x \<and> carries cr x)"
  let ?ev = "EvDeleteAll ODeployment (cr_Namespace cr) dup_selector"
  show "conv cr ?A (dup_keys cr) (extras_goal cr)
      (do_when (dup_replicas cr < int (length xs) \<or> \<not> dup_deployed cr) (DeleteAllOf E ODeployment (cr_Namespace cr) dup_selector))"
    unfolding do_when_def DeleteAllOf_def
  proof (rule converges_if)
    assume many: "dup_replicas cr < int (length xs) \<or> \<not> dup_deployed cr"
    show "conv cr ?A (dup_keys cr) (extras_goal cr) (call ?ev (\<lambda>h. e_delete_all E h ODeployment (cr_Namespace cr) dup_selector))"
    proof (rule converges_write)
      fix s
      assume adm: "admissible cr s" and A: "?A s"
      then have keyed: "\<forall>k x. s k = Some x \<longrightarrow> obj_key x = k"
        and l: "\<forall>x. x \<in> set xs \<longleftrightarrow> s (obj_key x) = Some x \<and> carries cr x"
        by blast+
      note del = step_delete_dup [OF keyed adm]
      note len = labelled_list [OF xs keyed l]
      show "admissible cr (step_state ?ev s) \<and> extras_goal cr (step_state ?ev s) \<and> agree (dup_keys cr) s (step_state ?ev s)"
        using del(1-3) by (simp add: extras_goal_def)
      assume "extras_goal cr s"
      with adm have sub: "labelled cr s \<subseteq> dup_wanted cr" "labelled cr s \<noteq> {} \<longrightarrow> dup_deployed cr"
        unfolding extras_goal_def admissible_def by blast+
      have "card (labelled cr s) \<le> card (dup_wanted cr)"
        using sub(1) by (intro card_mono) simp_all
      also have "\<dots> \<le> nat (dup_replicas cr)"
        unfolding dup_wanted_def by (rule order_trans [OF card_image_le]) simp_all
      finally have "length xs \<le> nat (dup_replicas cr)"
        using len by simp
      then have "dup_replicas cr < int (length xs) \<longrightarrow> length xs = 0"
        by linarith
      with many sub(2) len have "labelled cr s = {}"
        by auto
      with del(4) show "step_state ?ev s = s" .
    qed (simp add: delete_all)
  next
    assume few: "\<not> (dup_replicas cr < int (length xs) \<or> \<not> dup_deployed cr)"
    show "conv cr ?A (dup_keys cr) (extras_goal cr) (ret ())"
    proof (rule converges_ret)
      fix s
      assume adm: "admissible cr s" and A: "?A s"
      then have "int (card (labelled cr s)) \<le> dup_replicas cr"
        using labelled_list [OF xs, of s cr] few by (metis linorder_not_less)
      with adm few show "extras_goal cr s"
        unfolding admissible_def extras_goal_def by blast
    qed
  qed
qed

end

lemma unaffected_extras:
  assumes "\<And>i. (ODeployment, cr_Namespace cr, dup_name cr i) \<in> W \<Longrightarrow> dup_deployed cr \<and> dup_name cr i \<in> dup_wanted cr"
  shows "unaffected W (extras_goal cr)"
proof (rule unaffectedI)
  fix s s'
  assume *: "agree W s s'" "extras_goal cr s"
  show "extras_goal cr s'"
    unfolding extras_goal_def
  proof (intro allI impI)
    fix i
    assume i: "dup_name cr i \<in> labelled cr s'"
    show "dup_deployed cr \<and> dup_name cr i \<in> dup_wanted cr"
    proof (cases "(ODeployment, cr_Namespace cr, dup_name cr i) \<in> W")
      case False
      then have "dup_name cr i \<in> labelled cr s"
        using i agree_at [OF *(1)] unfolding labelled_def by simp
      with *(2) show ?thesis
        by (simp add: extras_goal_def)
    qed (rule assms)
  qed
qed

lemma for_each_map: "for_each f (map g xs) = for_each (\<lambda>x. f (g x)) xs"
  by (induction xs) simp_all

definition replica_keys :: "Astarte \<Rightarrow> nat \<Rightarrow> okey set" where
  "replica_keys cr i = {(OSecret, cr_Namespace cr, dup_name cr i @ ''-cookie''), (ODeployment, cr_Namespace cr, dup_name cr i)}"

lemma unaffected_replica:
  assumes "(OSecret, cr_Namespace cr, dup_name cr i @ ''-cookie'') \<notin> W" "(ODeployment, cr_Namespace cr, dup_name cr i) \<notin> W"
  shows "unaffected W (replica_goal W0 cr i)"
  unfolding replica_goal_def Let_def by (intro unaffected_intros assms) simp

context sole_client begin

lemma conv_replica:
  assumes "w_env W = E" "i < nat (dup_replicas cr)"
    and "isOK (getAstarteGenericBackendPodSpec (w_libs W) (dup_name cr i) (int i) (dup_replicas cr) cr (dup_Generic (dup_spec cr)) DataUpdaterPlant)"
  shows "conv cr (\<lambda>s. True) (replica_keys cr i) (replica_goal W cr i)
     (createIndexedDataUpdaterPlantDeployment W (int i) (dup_replicas cr) cr (dup_spec cr))"
proof -
  let ?n = "dup_name cr i" and ?l = "dup_labels cr (dup_name cr i)"
  let ?spec = "\<lambda>ps. component_deployment cr ?n ?l (dup_Generic (dup_spec cr)) DataUpdaterPlant ps"
  obtain ps where ps: "getAstarteGenericBackendPodSpec (w_libs W) ?n (int i) (dup_replicas cr) cr (dup_Generic (dup_spec cr)) DataUpdaterPlant = Inr ps"
    using assms(3) by (auto simp: isOK_iff)
  have wanted: "?n \<in> dup_wanted cr"
    using assms(2) by (simp add: dup_wanted_def)
  have dep: "conv cr (\<lambda>s. True) {(ODeployment, cr_Namespace cr, ?n)} (deployment_goal cr ?n ?l (?spec ps) (\<lambda>s. Some 1))
      (ensure_deployment W cr ?n ?l (?spec ps) (ret (Some 1)))"
    using wanted by (intro conv_ensure_deployment assms(1) dup_name_own reads_ret) simp_all
  have run: "createIndexedDataUpdaterPlantDeployment W (int i) (dup_replicas cr) cr (dup_spec cr) =
      bnd (ensureErlangCookieSecret W (?n @ ''-cookie'') cr) (\<lambda>_. ensure_deployment W cr ?n ?l (?spec ps) (ret (Some 1)))"
    unfolding createIndexedDataUpdaterPlantDeployment_def Let_def dup_name_indexed ps lift_Inr dup_labels_def component_deployment_def ..
  show ?thesis
    unfolding run replica_goal_def Let_def
    by (rule converges_weaken [OF converges_then [OF conv_cookie [OF assms(1) dup_name_own(2)] dep]])
      (simp_all add: unaffected_parts replica_keys_def ps)
qed

lemma conv_dup:
  assumes "w_env W = E" "dup_replicas cr < 2147483648"
    and "\<And>n i r. isOK (getAstarteGenericBackendPodSpec (w_libs W) n i r cr (dup_Generic (dup_spec cr)) DataUpdaterPlant)"
  shows "conv cr (\<lambda>s. True) (region cr [''data-updater-plant'']) (dup_goal W cr) (EnsureAstarteDataUpdaterPlant W cr (dup_spec cr))"
proof -
  let ?n = "component_name cr DataUpdaterPlant"
  let ?ml = "[(''astarte-component'', DashedString DataUpdaterPlant), (''astarte-instance-name'', cr_Name cr)]"
  let ?service = "createOrUpdateService W cr ?n ?ml (dup_labels cr ?n)"
  let ?each = "for_each (\<lambda>i. createIndexedDataUpdaterPlantDeployment W (int i) (dup_replicas cr) cr (dup_spec cr)) [0..<nat (dup_replicas cr)]"
  let ?rest = "if \<not> dup_deployed cr then ret ()
      else if dup_replicas cr = 1 then EnsureAstarteGenericBackend W cr (dup_Generic (dup_spec cr)) DataUpdaterPlant
      else bnd ?service (\<lambda>_. ?each)"
  let ?W = "if \<not> dup_deployed cr then {} else if dup_replicas cr = 1 then backend_keys cr DataUpdaterPlant
      else {(OService, cr_Namespace cr, ?n)} \<union> (\<Union>i \<in> set [0..<nat (dup_replicas cr)]. replica_keys cr i)"
  let ?P = "\<lambda>s. dup_deployed cr \<longrightarrow>
      (if dup_replicas cr = 1 then backend_goal W cr (dup_Generic (dup_spec cr)) DataUpdaterPlant s
       else service_goal cr ?n ?ml (dup_labels cr ?n) astarteServicesPort s \<and>
         (\<forall>i \<in> set [0..<nat (dup_replicas cr)]. replica_goal W cr i s))"
  have sel: "[(''astarte-component'', DashedString DataUpdaterPlant)] = dup_selector"
    by (simp add: dup_selector_def DashedString_table)
  have run: "EnsureAstarteDataUpdaterPlant W cr (dup_spec cr) =
      bnd (bnd (ListObjs E ODeployment (Some (cr_Namespace cr)) dup_selector) (\<lambda>current.
        do_when (dup_replicas cr < int (length current) \<or> \<not> dup_deployed cr)
          (DeleteAllOf E ODeployment (cr_Namespace cr) dup_selector))) (\<lambda>_. ?rest)"
    unfolding EnsureAstarteDataUpdaterPlant_def Let_def assms(1) sel for_each_map bnd_assoc
      dup_replicas_def dup_deployed_def dup_labels_def component_name_def ServiceName_def ..
  have each: "conv cr (\<lambda>s. True) (\<Union>i \<in> set [0..<nat (dup_replicas cr)]. replica_keys cr i)
      (\<lambda>s. \<forall>i \<in> set [0..<nat (dup_replicas cr)]. replica_goal W cr i s) ?each"
  proof (rule converges_for_each)
    show "conv cr (\<lambda>s. True) (replica_keys cr i) (replica_goal W cr i)
        (createIndexedDataUpdaterPlantDeployment W (int i) (dup_replicas cr) cr (dup_spec cr))"
      if "i \<in> set [0..<nat (dup_replicas cr)]" for i
      using that by (intro conv_replica assms) simp
    show "unaffected (replica_keys cr j) (replica_goal W cr i)"
      if "i \<in> set [0..<nat (dup_replicas cr)]" "j \<in> set [0..<nat (dup_replicas cr)]" "i \<noteq> j" for i j
      using that dup_name_inj [of i cr j] assms(2)
      by (intro unaffected_replica) (auto simp: replica_keys_def)
  qed (simp_all add: unaffected_True)
  have rest: "conv cr (\<lambda>s. True) ?W ?P ?rest"
  proof (intro converges_if)
    show "conv cr (\<lambda>s. True) ?W ?P (ret ())" if "\<not> dup_deployed cr"
      using that by (intro converges_ret) simp
    show "conv cr (\<lambda>s. True) ?W ?P (EnsureAstarteGenericBackend W cr (dup_Generic (dup_spec cr)) DataUpdaterPlant)"
      if "\<not> \<not> dup_deployed cr" "dup_replicas cr = 1"
    proof -
      have "?n \<in> dup_wanted cr"
        using that(2) dup_name_component [of cr] by (simp add: dup_wanted_def)
      with that conv_backend_deployed [OF assms(1), of "dup_Generic (dup_spec cr)" cr DataUpdaterPlant] assms(3) show ?thesis
        by (simp add: dup_deployed_def)
    qed
    show "conv cr (\<lambda>s. True) ?W ?P (bnd ?service (\<lambda>_. ?each))" if "\<not> \<not> dup_deployed cr" "dup_replicas cr \<noteq> 1"
    proof -
      have "unaffected (\<Union>i \<in> set [0..<nat (dup_replicas cr)]. replica_keys cr i)
          (service_goal cr ?n ?ml (dup_labels cr ?n) astarteServicesPort)"
        by (intro unaffected_intros) (auto simp: replica_keys_def)
      from converges_then [OF conv_service [OF assms(1) component_name_simps(1)] each this] that show ?thesis
        by simp
    qed
  qed
  have "unaffected ?W (extras_goal cr)"
    using dup_name_component [of cr]
    by (intro unaffected_extras) (auto simp: backend_keys_def replica_keys_def dup_wanted_def split: if_splits)
  from converges_then [OF conv_extras rest this]
  have "conv cr (\<lambda>s. True) (dup_keys cr \<union> ?W) (\<lambda>s. extras_goal cr s \<and> ?P s) (EnsureAstarteDataUpdaterPlant W cr (dup_spec cr))"
    unfolding run .
  then show ?thesis
  proof (rule converges_weaken)
    have "backend_keys cr DataUpdaterPlant \<subseteq> region cr [''data-updater-plant'']"
      using backend_keys_region [of cr DataUpdaterPlant] by (simp add: DashedString_table)
    moreover have "(OService, cr_Namespace cr, ?n) \<in> region cr [''data-updater-plant'']"
      using component_region(1) [of OService "cr_Namespace cr" cr DataUpdaterPlant] by (simp add: DashedString_table)
    ultimately show "dup_keys cr \<union> ?W \<subseteq> region cr [''data-updater-plant'']"
      by (auto simp: dup_keys_def replica_keys_def dup_region)
  qed (simp_all add: dup_goal_def lessThan_atLeast0)
qed

end

end
