(* ===== verification/Convergence_All.thy ===== *)
theory Convergence_All
  imports Convergence_Run
begin

text \<open>The sequence of reconciliations as stages with disjoint parts, and its convergence.\<close>

section \<open>Stages\<close>

text \<open>
  A stage of the run writes the objects of some parts, and its goal depends on those, on the autoscalers
  and on secrets of the user's.
\<close>

definition others :: "Astarte \<Rightarrow> string list \<Rightarrow> okey set" where
  "others cr ps = {k. part cr k \<notin> set ps \<and> part cr k \<noteq> '''' \<and> part cr k \<noteq> ''autoscaler''}"

lemma in_others: "k \<in> others cr ps \<longleftrightarrow> part cr k \<notin> set ps \<and> part cr k \<noteq> '''' \<and> part cr k \<noteq> ''autoscaler''"
  by (simp add: others_def)

lemma not_others: "k \<in> region cr ps \<Longrightarrow> k \<notin> others cr ps"
  by (simp add: in_others in_region)

lemma others_mono: "set ps \<subseteq> set qs \<Longrightarrow> others cr qs \<subseteq> others cr ps"
  by (auto simp: others_def)

lemma no_autoscaler_others: "no_autoscaler (others cr ps)"
  by (auto simp: no_autoscaler_def in_others)

lemma region_others:
  "set ps \<inter> set qs = {} \<Longrightarrow> '''' \<notin> set qs \<Longrightarrow> ''autoscaler'' \<notin> set qs \<Longrightarrow> region cr qs \<subseteq> others cr ps"
  by (auto simp: in_region in_others simp del: part.simps)

lemma agree_autoscaler: "agree (others cr ps) s s' \<Longrightarrow> replica_count cr r s' = replica_count cr r s"
  by (rule replica_count_agree [OF _ no_autoscaler_others])

definition stage :: "env \<Rightarrow> Astarte \<Rightarrow> (kstate \<Rightarrow> bool) \<Rightarrow> string list \<Rightarrow> (kstate \<Rightarrow> bool) \<Rightarrow> 'a io \<Rightarrow> bool" where
  "stage E cr A ps P m \<longleftrightarrow>
     converges E (admissible cr) A (region cr ps) P m \<and> unaffected (others cr ps) P \<and>
     '''' \<notin> set ps \<and> ''autoscaler'' \<notin> set ps"

lemma stage_ret: "stage E cr A [] (\<lambda>s. True) (ret x)"
  by (simp add: stage_def converges_ret unaffected_True)

lemma stage_seq:
  assumes "stage E cr A ps P m" "\<And>x. stage E cr A qs Q (f x)" "set ps \<inter> set qs = {}" "unaffected (others cr []) A"
  shows "stage E cr A (ps @ qs) (\<lambda>s. P s \<and> Q s) (bnd m f)"
proof -
  have "converges E (admissible cr) A (region cr ps \<union> region cr qs) (\<lambda>s. P s \<and> Q s) (bnd m f)"
  proof (rule converges_seq)
    have "region cr ps \<subseteq> others cr []"
      using assms(1) by (intro region_others) (simp_all add: stage_def)
    then show "A s'" if "A s" "agree (region cr ps) s s'" for s s'
      using that unaffectedD [OF unaffected_mono [OF assms(4)]] by blast
    have "region cr qs \<subseteq> others cr ps"
      using assms(2,3) by (intro region_others) (simp_all add: stage_def)
    then show "unaffected (region cr qs) P"
      using assms(1) unaffected_mono by (auto simp: stage_def)
  qed (use assms(1,2) in \<open>simp_all add: stage_def\<close>)
  moreover have "region cr ps \<union> region cr qs = region cr (ps @ qs)"
    by (auto simp: in_region simp del: part.simps)
  moreover have "unaffected (others cr (ps @ qs)) (\<lambda>s. P s \<and> Q s)"
    using assms(1,2) unfolding stage_def
    by (intro unaffected_conj unaffected_mono [OF _ others_mono [of ps "ps @ qs" cr]]
        unaffected_mono [OF _ others_mono [of qs "ps @ qs" cr]]) simp_all
  ultimately show ?thesis
    using assms(1,2) by (simp add: stage_def)
qed

lemma stage_in_order:
  assumes "\<And>ps P m. (ps, P, m) \<in> set xs \<Longrightarrow> stage E cr A ps P m"
    and "sorted_wrt (\<lambda>x y. set (fst x) \<inter> set (fst y) = {}) xs" "unaffected (others cr []) A"
  shows "stage E cr A (concat (map fst xs)) (\<lambda>s. \<forall>(ps, P, m) \<in> set xs. P s) (in_order (map (snd \<circ> snd) xs))"
  using assms(1,2)
proof (induction xs)
  case Nil
  then show ?case
    by (simp add: stage_ret)
next
  case (Cons x xs)
  obtain ps P m where x: "x = (ps, P, m)"
    by (cases x) auto
  have "stage E cr A (ps @ concat (map fst xs)) (\<lambda>s. P s \<and> (\<forall>(ps, P, m) \<in> set xs. P s))
      (bnd m (\<lambda>_. in_order (map (snd \<circ> snd) xs)))"
  proof (rule stage_seq [OF _ _ _ assms(3)])
    show "set ps \<inter> set (concat (map fst xs)) = {}"
      using Cons.prems(2) by (auto simp: x)
  qed (use Cons.prems in \<open>auto simp: x intro!: Cons.IH\<close>)
  then show ?case
    by (simp add: x comp_def)
qed

lemma unaffected_if_fun:
  "(b \<Longrightarrow> unaffected W P) \<Longrightarrow> (\<not> b \<Longrightarrow> unaffected W Q) \<Longrightarrow> unaffected W (if b then P else Q)"
  by simp

text \<open>The goals of the stages depend on their own parts.\<close>

lemma own_keys_goal: "unaffected (others cr [''housekeeping-private-key'', ''housekeeping-public-key'']) (keys_goal cr)"
  unfolding keys_goal_def by (intro unaffected_intros not_others) (simp add: region_simps housekeeping_public_name_def)

lemma own_base_goal: "unaffected (others cr [''secret-key-base'']) (base_goal cr)"
  unfolding base_goal_def by (intro unaffected_intros not_others) (simp add: region_simps)

lemma own_erlang_goal: "unaffected (others cr [''generic-erlang-configuration'']) (erlang_goal cr)"
  unfolding erlang_goal_def by (intro unaffected_intros not_others) (simp add: region_simps)

lemma own_cookie_goal:
  "unaffected (others cr [''erlang-clustering-cookie'']) (cookie_goal cr (cr_Name cr @ ''-erlang-clustering-cookie''))"
  by (intro unaffected_intros not_others) (simp add: region_simps)

lemma own_classes_goal: "unaffected (others cr [''priority'']) (classes_goal cr)"
proof -
  have "unaffected (others cr [''priority'']) (class_goal n v d)" for n v d
    unfolding class_goal_def by (intro unaffected_intros not_others) (simp add: region_simps)
  then show ?thesis
    unfolding classes_goal_def
    by (cases "feat_AstartePodPriorities (spec_Features (ast_Spec cr))") (simp_all add: unaffected_intros)
qed

lemma own_proxy_goal:
  assumes "ca_foreign cr"
  shows "unaffected (others cr [''cfssl'', ''devices-ca'']) (proxy_goal cr)"
  unfolding proxy_goal_def
proof (rule unaffected_settled_reading)
  have ca: "(OSecret, cr_Namespace cr, ca_name cr) \<notin> others cr [''cfssl'', ''devices-ca'']"
    using ca_name_cases(2) [OF assms, of "cr_Namespace cr"] by (auto simp: in_others simp del: part.simps)
  show "(\<lambda>x. on_secret (\<lambda>t. t\<lparr>sec_Type := ''Opaque'',
        sec_Data := [(''ca.crt'', secret_data (the (s' (OSecret, cr_Namespace cr, ca_name cr))) TLSCertKey)]\<rparr>) (owned_by (KAstarte cr) x)) =
      (\<lambda>x. on_secret (\<lambda>t. t\<lparr>sec_Type := ''Opaque'',
        sec_Data := [(''ca.crt'', secret_data (the (s (OSecret, cr_Namespace cr, ca_name cr))) TLSCertKey)]\<rparr>) (owned_by (KAstarte cr) x))"
    if "agree (others cr [''cfssl'', ''devices-ca'']) s s'" for s s'
    by (simp only: agree_at [OF that ca])
qed (intro not_others cfssl_regions)

lemma own_cfssl_goal:
  assumes "ca_foreign cr"
  shows "unaffected (others cr [''cfssl'', ''devices-ca'']) (cfssl_goal W cr)"
proof -
  have "(OSecret, cr_Namespace cr, ca_name cr) \<notin> others cr [''cfssl'', ''devices-ca'']"
    using ca_name_cases(2) [OF assms, of "cr_Namespace cr"] by (auto simp: in_others simp del: part.simps)
  moreover have "(OConfigMap, cr_Namespace cr, (cr_Name cr @ ''-cfssl'') @ ''-config'') \<notin> others cr [''cfssl'', ''devices-ca'']"
    unfolding cfssl_name_simps(2) by (intro not_others cfssl_regions)
  ultimately show ?thesis
    unfolding cfssl_goal_def Let_def
    by (intro unaffected_if_fun unaffected_intros own_proxy_goal assms)
      (auto intro!: not_others cfssl_regions simp del: part.simps)
qed

lemma own_backend_goal: "unaffected (others cr [DashedString c]) (backend_goal W cr b c)"
  unfolding backend_goal_def Let_def
  by (cases "PtrValue (gcr_Deploy b) True")
    (auto intro!: unaffected_intros not_others component_region agree_autoscaler)

lemma own_api_goal: "unaffected (others cr [DashedString c]) (api_goal W cr a c)"
  unfolding api_goal_def Let_def
  by (cases "PtrValue (gcr_Deploy (gac_Generic a)) (c \<noteq> FlowComponent)")
    (auto intro!: unaffected_intros unaffected_api_rbac not_others component_region agree_autoscaler)

lemma own_dashboard_goal: "unaffected (others cr [DashedString Dashboard]) (dashboard_goal W cr d)"
  unfolding dashboard_goal_def Let_def
  by (cases "PtrValue (gcr_Deploy (dash_Generic d)) True")
    (auto intro!: unaffected_intros not_others component_region agree_autoscaler)

lemma own_dup_goal: "unaffected (others cr [DashedString DataUpdaterPlant]) (dup_goal W cr)"
proof -
  have n: "(k, cr_Namespace cr, dup_name cr i @ x) \<notin> others cr [DashedString DataUpdaterPlant]"
    "(k, cr_Namespace cr, dup_name cr i) \<notin> others cr [DashedString DataUpdaterPlant]"
    if "k \<notin> {OPriorityClass, OPod, OHPA}" for k i x
    using dup_region [OF that] by (auto intro!: not_others simp: DashedString_table)
  have "unaffected (others cr [DashedString DataUpdaterPlant]) (extras_goal cr)"
    using n(2) [of ODeployment] by (intro unaffected_extras) auto
  moreover have "unaffected (others cr [DashedString DataUpdaterPlant]) (replica_goal W cr i)" for i
    using n by (intro unaffected_replica) auto
  moreover have "(OService, cr_Namespace cr, component_name cr DataUpdaterPlant) \<notin> others cr [DashedString DataUpdaterPlant]"
    by (intro not_others component_region) simp
  ultimately show ?thesis
    unfolding dup_goal_def
    by (intro unaffected_conj unaffected_imp unaffected_if own_backend_goal unaffected_parts unaffected_ball)
qed

lemma own_vernemq_goal:
  assumes "foreign_secret cr (vmq_SSLListenerCertSecretName (spec_VerneMQ (ast_Spec cr)))"
  shows "unaffected (others cr [''vernemq'', ''pods'']) (vernemq_goal W cr)"
proof -
  let ?n = "GetVerneMQStatefulSetName cr"
  have n: "(k, cr_Namespace cr, ?n) \<notin> others cr [''vernemq'', ''pods'']" if "k \<notin> {OPriorityClass, OPod, OHPA}" for k
    using that by (intro not_others) (simp add: region_simps)
  have "unaffected (others cr [''vernemq'', ''pods'']) (pods_goal cr)"
    using assms by (intro unaffected_pods) (auto simp: in_others foreign_secret_def)
  moreover have "unaffected (others cr [''vernemq'', ''pods''])
      (stateful_set_goal cr ?n [(''component'', ''astarte'')] (vernemq_set W cr)
        (replica_count cr (vmq_Generic (spec_VerneMQ (ast_Spec cr)))))"
    by (intro unaffected_stateful_set n no_autoscaler_others) simp
  ultimately show ?thesis
    unfolding vernemq_goal_def Let_def
    by (cases "PtrValue (gcr_Deploy (vmq_Generic (spec_VerneMQ (ast_Spec cr)))) True") (auto intro!: unaffected_intros n)
qed

section \<open>The whole sequence\<close>

definition microservices_goal :: "('v, 'c) world \<Rightarrow> Astarte \<Rightarrow> kstate \<Rightarrow> bool" where
  "microservices_goal W cr s \<longleftrightarrow>
     (let cs = spec_Components (ast_Spec cr) in
      api_goal W cr (comp_Housekeeping cs) Housekeeping s \<and>
      api_goal W cr (comp_RealmManagement cs) RealmManagement s \<and>
      api_goal W cr (comp_Pairing cs) Pairing s \<and>
      api_goal W cr (comp_Flow cs) FlowComponent s \<and>
      backend_goal W cr (te_Generic (comp_TriggerEngine cs)) TriggerEngine s \<and>
      dup_goal W cr s \<and>
      api_goal W cr (ae_GenericAPI (comp_AppengineAPI cs)) AppEngineAPI s)"

text \<open>The desired state of the cluster for an Astarte resource.\<close>

definition reconcile_goal :: "('v, 'c) world \<Rightarrow> Astarte \<Rightarrow> kstate \<Rightarrow> bool" where
  "reconcile_goal W cr s \<longleftrightarrow>
     keys_goal cr s \<and> base_goal cr s \<and> erlang_goal cr s \<and>
     cookie_goal cr (cr_Name cr @ ''-erlang-clustering-cookie'') s \<and> classes_goal cr s \<and>
     cfssl_goal W cr s \<and> microservices_goal W cr s \<and> vernemq_goal W cr s \<and>
     dashboard_goal W cr (comp_Dashboard (spec_Components (ast_Spec cr))) s"

text \<open>The sequence, with the parts each step writes and the goal it has.\<close>

definition reconcile_steps :: "('v, 'c) world \<Rightarrow> Astarte \<Rightarrow> (string list \<times> (kstate \<Rightarrow> bool) \<times> unit io) list" where
  "reconcile_steps W cr =
     [([''housekeeping-private-key'', ''housekeeping-public-key''], keys_goal cr, EnsureHousekeepingKey W cr),
      ([''secret-key-base''], base_goal cr, EnsureSecretKeyBase W cr),
      ([''generic-erlang-configuration''], erlang_goal cr, EnsureGenericErlangConfiguration W cr),
      ([''erlang-clustering-cookie''], cookie_goal cr (cr_Name cr @ ''-erlang-clustering-cookie''), EnsureErlangClusteringCookie W cr),
      ([''priority''], classes_goal cr, EnsureAstartePriorityClasses W cr),
      ([''cfssl'', ''devices-ca''], cfssl_goal W cr, EnsureCFSSL W cr),
      ([''housekeeping'', ''realm-management'', ''pairing'', ''flow'', ''trigger-engine'', ''data-updater-plant'',
        ''appengine-api''], microservices_goal W cr, EnsureAstarteMicroservices W cr),
      ([''vernemq'', ''pods''], vernemq_goal W cr, EnsureVerneMQ W cr),
      ([''dashboard''], dashboard_goal W cr (comp_Dashboard (spec_Components (ast_Spec cr))),
        EnsureAstarteDashboard W cr (comp_Dashboard (spec_Components (ast_Spec cr))))]"

lemma reconcile_in_order: "in_order (map (snd \<circ> snd) (reconcile_steps W cr)) = ReconcileAstarteResources W cr"
  by (simp add: ReconcileAstarteResources_def reconcile_steps_def)

text \<open>What a resource needs for a run to succeed, besides a supported version.\<close>

definition pods_built :: "('v, 'c) world \<Rightarrow> Astarte \<Rightarrow> bool" where
  "pods_built W cr \<longleftrightarrow>
     (\<forall>name i r c. isOK (component_pod (w_libs W) name i r cr c)) \<and>
     (\<forall>name v. isOK (getVerneMQPodSpec (lib_semver (w_libs W)) name v cr)) \<and>
     (\<forall>name s. isOK (getCFSSLPodSpec name s cr))"

definition convergent :: "Astarte \<Rightarrow> bool" where
  "convergent cr \<longleftrightarrow>
     priorities_given cr \<and> dup_replicas cr < 2147483648 \<and> ca_foreign cr \<and>
     foreign_secret cr (vmq_SSLListenerCertSecretName (spec_VerneMQ (ast_Spec cr)))"

lemma pods_built_parts:
  assumes "pods_built W cr"
  shows "isOK (getAstarteGenericBackendPodSpec (w_libs W) n i r cr (dup_Generic (dup_spec cr)) DataUpdaterPlant)"
    "isOK (getAstarteGenericBackendPodSpec (w_libs W) n i r cr (te_Generic (comp_TriggerEngine (spec_Components (ast_Spec cr)))) TriggerEngine)"
    "isOK (getAstarteGenericAPIPodSpec (w_libs W) n cr (comp_Housekeeping (spec_Components (ast_Spec cr))) Housekeeping)"
    "isOK (getAstarteGenericAPIPodSpec (w_libs W) n cr (comp_RealmManagement (spec_Components (ast_Spec cr))) RealmManagement)"
    "isOK (getAstarteGenericAPIPodSpec (w_libs W) n cr (comp_Pairing (spec_Components (ast_Spec cr))) Pairing)"
    "isOK (getAstarteGenericAPIPodSpec (w_libs W) n cr (comp_Flow (spec_Components (ast_Spec cr))) FlowComponent)"
    "isOK (getAstarteGenericAPIPodSpec (w_libs W) n cr (ae_GenericAPI (comp_AppengineAPI (spec_Components (ast_Spec cr)))) AppEngineAPI)"
    "isOK (getAstarteDashboardPodSpec (w_libs W) cr (comp_Dashboard (spec_Components (ast_Spec cr))))"
proof -
  have "isOK (component_pod (w_libs W) n i r cr c)" for c
    using assms by (simp add: pods_built_def)
  from this [of DataUpdaterPlant] this [of TriggerEngine] this [of Housekeeping] this [of RealmManagement]
    this [of Pairing] this [of FlowComponent] this [of AppEngineAPI] this [of Dashboard]
  show "isOK (getAstarteGenericBackendPodSpec (w_libs W) n i r cr (dup_Generic (dup_spec cr)) DataUpdaterPlant)"
    "isOK (getAstarteGenericBackendPodSpec (w_libs W) n i r cr (te_Generic (comp_TriggerEngine (spec_Components (ast_Spec cr)))) TriggerEngine)"
    "isOK (getAstarteGenericAPIPodSpec (w_libs W) n cr (comp_Housekeeping (spec_Components (ast_Spec cr))) Housekeeping)"
    "isOK (getAstarteGenericAPIPodSpec (w_libs W) n cr (comp_RealmManagement (spec_Components (ast_Spec cr))) RealmManagement)"
    "isOK (getAstarteGenericAPIPodSpec (w_libs W) n cr (comp_Pairing (spec_Components (ast_Spec cr))) Pairing)"
    "isOK (getAstarteGenericAPIPodSpec (w_libs W) n cr (comp_Flow (spec_Components (ast_Spec cr))) FlowComponent)"
    "isOK (getAstarteGenericAPIPodSpec (w_libs W) n cr (ae_GenericAPI (comp_AppengineAPI (spec_Components (ast_Spec cr)))) AppEngineAPI)"
    "isOK (getAstarteDashboardPodSpec (w_libs W) cr (comp_Dashboard (spec_Components (ast_Spec cr))))"
    by (simp_all add: component_pod_def component_api_def component_resource_def Let_def)
qed

context sole_client begin

lemma stage_of:
  assumes "conv cr (\<lambda>s. True) (region cr ps) P m" "unaffected (others cr ps) P" "'''' \<notin> set ps" "''autoscaler'' \<notin> set ps"
  shows "stage E cr A ps P m"
  unfolding stage_def using assms(2-4) by (auto intro: converges_weaken [OF assms(1)])

lemma stage_microservices:
  assumes "w_env W = E" "pods_built W cr" "dup_replicas cr < 2147483648" "unaffected (others cr []) A"
  shows "stage E cr A
     [''housekeeping'', ''realm-management'', ''pairing'', ''flow'', ''trigger-engine'', ''data-updater-plant'', ''appengine-api'']
     (microservices_goal W cr) (EnsureAstarteMicroservices W cr)"
proof -
  note pods = pods_built_parts [OF assms(2)]
  have api: "stage E cr A [DashedString c] (api_goal W cr a c) (EnsureAstarteGenericAPIComponent W cr a c)"
    if "c \<noteq> DataUpdaterPlant" "\<And>n. isOK (getAstarteGenericAPIPodSpec (w_libs W) n cr a c)" for a c
    using that(1) by (intro stage_of conv_api own_api_goal assms(1) that) (cases c; simp add: DashedString_table)+
  have te: "stage E cr A [DashedString TriggerEngine] (backend_goal W cr b TriggerEngine) (EnsureAstarteGenericBackend W cr b TriggerEngine)"
    if "\<And>n i r. isOK (getAstarteGenericBackendPodSpec (w_libs W) n i r cr b TriggerEngine)" for b
    by (intro stage_of conv_backend own_backend_goal assms(1) that) (simp_all add: DashedString_table)
  have dup: "stage E cr A [DashedString DataUpdaterPlant] (dup_goal W cr) (EnsureAstarteDataUpdaterPlant W cr (dup_spec cr))"
    using conv_dup [OF assms(1,3) pods(1)] own_dup_goal [of cr W] by (intro stage_of) (simp_all add: DashedString_table)
  have "stage E cr A
     ([DashedString Housekeeping] @ [DashedString RealmManagement] @ [DashedString Pairing] @ [DashedString FlowComponent] @
      [DashedString TriggerEngine] @ [DashedString DataUpdaterPlant] @ [DashedString AppEngineAPI] @ [])
     (\<lambda>s. api_goal W cr (comp_Housekeeping (spec_Components (ast_Spec cr))) Housekeeping s \<and>
      api_goal W cr (comp_RealmManagement (spec_Components (ast_Spec cr))) RealmManagement s \<and>
      api_goal W cr (comp_Pairing (spec_Components (ast_Spec cr))) Pairing s \<and>
      api_goal W cr (comp_Flow (spec_Components (ast_Spec cr))) FlowComponent s \<and>
      backend_goal W cr (te_Generic (comp_TriggerEngine (spec_Components (ast_Spec cr)))) TriggerEngine s \<and>
      dup_goal W cr s \<and>
      api_goal W cr (ae_GenericAPI (comp_AppengineAPI (spec_Components (ast_Spec cr)))) AppEngineAPI s \<and> True)
     (EnsureAstarteMicroservices W cr)"
    unfolding EnsureAstarteMicroservices_def Let_def in_order.simps
    by (intro stage_seq api te dup stage_ret pods assms(4)) (simp_all add: DashedString_table)
  then show ?thesis
    by (simp add: DashedString_table microservices_goal_def [abs_def] Let_def)
qed

lemma unaffected_ca_given:
  assumes "ca_foreign cr"
  shows "unaffected (others cr []) (ca_given cr)"
proof -
  have "cfssl_CASecret (spec_CFSSL (ast_Spec cr)) \<noteq> '''' \<Longrightarrow> (OSecret, cr_Namespace cr, ca_name cr) \<notin> others cr []"
    using assms by (simp add: in_others ca_foreign_def foreign_secret_def ca_name_def del: part.simps)
  then show ?thesis
    unfolding ca_given_def by (intro unaffected_imp unaffected_present)
qed

lemma reconcile_stages:
  assumes "w_env W = E" "pods_built W cr" "crypto_works W" "convergent cr" "(ps, P, m) \<in> set (reconcile_steps W cr)"
  shows "stage E cr (ca_given cr) ps P m"
proof -
  have c: "priorities_given cr" "dup_replicas cr < 2147483648" "ca_foreign cr"
    "foreign_secret cr (vmq_SSLListenerCertSecretName (spec_VerneMQ (ast_Spec cr)))"
    using assms(4) by (simp_all add: convergent_def)
  have pods: "isOK (getVerneMQPodSpec (lib_semver (w_libs W)) n v cr)" "isOK (getCFSSLPodSpec n v cr)" for n v
    using assms(2) by (simp_all add: pods_built_def)
  have keys: "isOK (cry_MarshalPKIXPublicKey (w_crypto W) k)" for k
    using assms(3) by (simp add: crypto_works_def)
  have cfssl: "stage E cr (ca_given cr) [''cfssl'', ''devices-ca''] (cfssl_goal W cr) (EnsureCFSSL W cr)"
    unfolding stage_def by (simp add: conv_cfssl [OF assms(1,3) c(3) pods(2)] own_cfssl_goal [OF c(3)])
  have dash: "stage E cr (ca_given cr) [''dashboard''] (dashboard_goal W cr (comp_Dashboard (spec_Components (ast_Spec cr))))
      (EnsureAstarteDashboard W cr (comp_Dashboard (spec_Components (ast_Spec cr))))"
    using conv_dashboard [OF assms(1) pods_built_parts(8) [OF assms(2)]] own_dashboard_goal [of cr W]
    by (intro stage_of) (simp_all add: DashedString_table)
  note micro = stage_microservices [OF assms(1,2) c(2) unaffected_ca_given [OF c(3)]]
  note others =
    stage_of [OF conv_keys [OF assms(1) keys] own_keys_goal] stage_of [OF conv_base [OF assms(1)] own_base_goal]
    stage_of [OF conv_erlang [OF assms(1)] own_erlang_goal] stage_of [OF conv_clustering_cookie [OF assms(1)] own_cookie_goal]
    stage_of [OF conv_classes [OF assms(1) c(1)] own_classes_goal]
    stage_of [OF conv_vernemq [OF assms(1) pods(1)] own_vernemq_goal [OF c(4)]]
  show ?thesis
    using assms(5) unfolding reconcile_steps_def list.set insert_iff empty_iff prod.inject
    by (elim disjE conjE FalseE; simp only:; intro cfssl dash micro others; simp)
qed

lemma stage_reconcile:
  assumes "w_env W = E" "pods_built W cr" "crypto_works W" "convergent cr"
  shows "stage E cr (ca_given cr) (''priority'' # ''pods'' # part_names) (reconcile_goal W cr) (ReconcileAstarteResources W cr)"
proof -
  have "stage E cr (ca_given cr) (concat (map fst (reconcile_steps W cr)))
      (\<lambda>s. \<forall>(ps, P, m) \<in> set (reconcile_steps W cr). P s) (in_order (map (snd \<circ> snd) (reconcile_steps W cr)))"
  proof (rule stage_in_order)
    show "sorted_wrt (\<lambda>x y. set (fst x) \<inter> set (fst y) = {}) (reconcile_steps W cr)"
      by (simp add: reconcile_steps_def)
    show "unaffected (others cr []) (ca_given cr)"
      using assms(4) by (intro unaffected_ca_given) (simp add: convergent_def)
  qed (use reconcile_stages [OF assms] in blast)
  moreover have "(\<lambda>s. \<forall>(ps, P, m) \<in> set (reconcile_steps W cr). P s) = reconcile_goal W cr"
    by (simp add: fun_eq_iff reconcile_steps_def reconcile_goal_def)
  moreover have "set (concat (map fst (reconcile_steps W cr))) = set (''priority'' # ''pods'' # part_names)"
    by (auto simp: reconcile_steps_def part_names_def)
  ultimately show ?thesis
    by (simp only: stage_def region_def others_def reconcile_in_order simp_thms)
qed

end

end
