(* ===== verification/Convergence_Properties.thy ===== *)
theory Convergence_Properties
  imports Convergence_All Controller_Properties
begin

text \<open>
  What the convergence of the stages gives for a whole run of the reconciliation: that it succeeds,
  what the cluster looks like afterwards, and that a second run changes nothing.
\<close>

section \<open>The workloads of a goal\<close>

text \<open>A deployment is there whose pods have the given specification, in the given number.\<close>

definition runs_pod :: "Astarte \<Rightarrow> kstate \<Rightarrow> string \<Rightarrow> err + pod_spec \<Rightarrow> int option \<Rightarrow> bool" where
  "runs_pod cr s n p r \<longleftrightarrow>
     (\<exists>d ps. s (ODeployment, cr_Namespace cr, n) = Some (KDeployment d) \<and> p = Inr ps \<and>
        pt_Spec (dp_Template (d_Spec d)) = ps \<and> dp_Replicas (d_Spec d) = r)"

definition keyed_state :: "kstate \<Rightarrow> bool" where
  "keyed_state s \<longleftrightarrow> (\<forall>k x. s k = Some x \<longrightarrow> obj_key x = k)"

lemma deployment_goal_runs:
  assumes "deployment_goal cr n labels (component_deployment cr n' labels' b c (projr p)) v s" "keyed_state s" "isOK p"
  shows "runs_pod cr s n p (v s)"
proof -
  obtain y where y: "s (ODeployment, cr_Namespace cr, n) = Some y"
    "on_deployment (\<lambda>d. d\<lparr>d_Spec := (d_Spec d)\<lparr>dp_Replicas := v s\<rparr>\<rparr>)
      (on_deployment (\<lambda>d. d\<lparr>d_Meta := (d_Meta d)\<lparr>om_Labels := labels\<rparr>, d_Spec := component_deployment cr n' labels' b c (projr p)\<rparr>)
        (owned_by (KAstarte cr) y)) = y"
    using assms(1) by (auto simp: deployment_goal_def settled_def)
  from y(1) assms(2) have "obj_key y = (ODeployment, cr_Namespace cr, n)"
    unfolding keyed_state_def by blast
  then obtain d where d: "y = KDeployment d"
    by auto
  have "d_Spec d = (component_deployment cr n' labels' b c (projr p))\<lparr>dp_Replicas := v s\<rparr>"
    using y(2) unfolding d by (auto simp: on_deployment_def owned_by_def dest: arg_cong [where f = d_Spec])
  with y(1) assms(3) show ?thesis
    unfolding d by (auto simp: runs_pod_def component_deployment_def isOK_iff)
qed

lemma api_goal_runs:
  assumes "api_goal W cr a c s" "keyed_state s" "isOK (getAstarteGenericAPIPodSpec (w_libs W) (component_name cr c) cr a c)"
  shows "if PtrValue (gcr_Deploy (gac_Generic a)) (c \<noteq> FlowComponent)
     then runs_pod cr s (component_name cr c) (getAstarteGenericAPIPodSpec (w_libs W) (component_name cr c) cr a c)
            (replica_count cr (gac_Generic a) s)
     else s (ODeployment, cr_Namespace cr, component_name cr c) = None"
  using assms by (auto simp: api_goal_def Let_def absent_def dest: deployment_goal_runs split: if_splits)

lemma backend_goal_runs:
  assumes "backend_goal W cr b c s" "keyed_state s"
    and "isOK (getAstarteGenericBackendPodSpec (w_libs W) (component_name cr c) 0 0 cr b c)"
  shows "if PtrValue (gcr_Deploy b) True
     then runs_pod cr s (component_name cr c) (getAstarteGenericBackendPodSpec (w_libs W) (component_name cr c) 0 0 cr b c)
            (replica_count cr b s)
     else s (ODeployment, cr_Namespace cr, component_name cr c) = None"
  using assms by (auto simp: backend_goal_def Let_def absent_def dest: deployment_goal_runs split: if_splits)

lemma dashboard_goal_runs:
  assumes "dashboard_goal W cr d s" "keyed_state s" "isOK (getAstarteDashboardPodSpec (w_libs W) cr d)"
  shows "if PtrValue (gcr_Deploy (dash_Generic d)) True
     then runs_pod cr s (component_name cr Dashboard) (getAstarteDashboardPodSpec (w_libs W) cr d) (replica_count cr (dash_Generic d) s)
     else s (ODeployment, cr_Namespace cr, component_name cr Dashboard) = None"
  using assms by (auto simp: dashboard_goal_def Let_def absent_def dest: deployment_goal_runs split: if_splits)

text \<open>The deployments of the components other than the Data Updater Plant.\<close>

definition components_run :: "('v, 'c) world \<Rightarrow> Astarte \<Rightarrow> kstate \<Rightarrow> bool" where
  "components_run W cr s \<longleftrightarrow>
     (\<forall>c. c \<noteq> DataUpdaterPlant \<longrightarrow>
        (if IsAstarteComponentDeployed cr c
         then runs_pod cr s (cr_Name cr @ ''-'' @ DashedString c)
                (component_pod (w_libs W) (cr_Name cr @ ''-'' @ DashedString c) 0 0 cr c)
                (replica_count cr (component_resource cr c) s)
         else s (ODeployment, cr_Namespace cr, cr_Name cr @ ''-'' @ DashedString c) = None))"

text \<open>
  Those of the Data Updater Plant: one for a single replica, one of one pod for each of several, and no
  other with its label.
\<close>

definition dup_runs :: "('v, 'c) world \<Rightarrow> Astarte \<Rightarrow> kstate \<Rightarrow> bool" where
  "dup_runs W cr s \<longleftrightarrow>
     (if IsAstarteComponentDeployed cr DataUpdaterPlant
      then labelled cr s \<subseteq> dup_wanted cr \<and>
        (if dup_replicas cr = 1
         then runs_pod cr s (dup_name cr 0) (component_pod (w_libs W) (dup_name cr 0) 0 0 cr DataUpdaterPlant)
                (replica_count cr (component_resource cr DataUpdaterPlant) s)
         else (\<forall>i < nat (dup_replicas cr).
                runs_pod cr s (dup_name cr i)
                  (component_pod (w_libs W) (dup_name cr i) (int i) (dup_replicas cr) cr DataUpdaterPlant) (Some 1)))
      else labelled cr s = {})"

lemma goal_components_run:
  assumes "reconcile_goal W cr s" "keyed_state s" "pods_built W cr"
  shows "components_run W cr s"
  unfolding components_run_def
proof (intro allI impI)
  fix c
  assume "c \<noteq> DataUpdaterPlant"
  note goals = assms(1) [unfolded reconcile_goal_def microservices_goal_def Let_def]
  note pods = pods_built_parts [OF assms(3)]
  show "if IsAstarteComponentDeployed cr c
      then runs_pod cr s (cr_Name cr @ ''-'' @ DashedString c)
             (component_pod (w_libs W) (cr_Name cr @ ''-'' @ DashedString c) 0 0 cr c)
             (replica_count cr (component_resource cr c) s)
      else s (ODeployment, cr_Namespace cr, cr_Name cr @ ''-'' @ DashedString c) = None"
    using \<open>c \<noteq> DataUpdaterPlant\<close> goals
      api_goal_runs [OF _ assms(2) pods(3)] api_goal_runs [OF _ assms(2) pods(4)] api_goal_runs [OF _ assms(2) pods(5)]
      api_goal_runs [OF _ assms(2) pods(6)] api_goal_runs [OF _ assms(2) pods(7)] backend_goal_runs [OF _ assms(2) pods(2)]
      dashboard_goal_runs [OF _ assms(2) pods(8)]
    unfolding component_name_def [symmetric]
    by (cases c) (simp_all add: IsAstarteComponentDeployed_def component_resource_def component_pod_def component_api_def Let_def)
qed

lemma goal_dup_runs:
  assumes "reconcile_goal W cr s" "keyed_state s" "pods_built W cr" "admissible cr s"
  shows "dup_runs W cr s"
proof -
  note pods = pods_built_parts(1) [OF assms(3)]
  have goal: "dup_goal W cr s"
    using assms(1) by (simp add: reconcile_goal_def microservices_goal_def Let_def)
  have dep: "dup_deployed cr = IsAstarteComponentDeployed cr DataUpdaterPlant"
    by (simp add: dup_deployed_def IsAstarteComponentDeployed_def component_resource_def)
  have lab: "labelled cr s \<subseteq> {n. dup_deployed cr \<and> n \<in> dup_wanted cr}"
    using goal assms(4) unfolding dup_goal_def extras_goal_def admissible_def by blast
  have pod: "component_pod (w_libs W) n i r cr DataUpdaterPlant =
      getAstarteGenericBackendPodSpec (w_libs W) n i r cr (dup_Generic (dup_spec cr)) DataUpdaterPlant" for n i r
    by (simp add: component_pod_def component_resource_def)
  have res: "component_resource cr DataUpdaterPlant = dup_Generic (dup_spec cr)"
    by (simp add: component_resource_def)
  show ?thesis
  proof (cases "dup_deployed cr")
    case False
    with lab dep show ?thesis
      by (auto simp: dup_runs_def)
  next
    case True
    have "runs_pod cr s (dup_name cr 0) (component_pod (w_libs W) (dup_name cr 0) 0 0 cr DataUpdaterPlant)
        (replica_count cr (component_resource cr DataUpdaterPlant) s)" if "dup_replicas cr = 1"
    proof -
      have "backend_goal W cr (dup_Generic (dup_spec cr)) DataUpdaterPlant s"
        using goal True that by (simp add: dup_goal_def)
      from backend_goal_runs [OF this assms(2) pods] True show ?thesis
        by (simp add: dup_deployed_def pod res dup_name_component)
    qed
    moreover have "runs_pod cr s (dup_name cr i)
        (component_pod (w_libs W) (dup_name cr i) (int i) (dup_replicas cr) cr DataUpdaterPlant) (Some 1)"
      if "dup_replicas cr \<noteq> 1" "i < nat (dup_replicas cr)" for i
    proof -
      have "replica_goal W cr i s"
        using goal True that by (simp add: dup_goal_def)
      then show ?thesis
        using deployment_goal_runs [of cr "dup_name cr i" _ _ _ _ _ _ "\<lambda>s. Some 1", OF _ assms(2) pods]
        unfolding replica_goal_def Let_def pod by blast
    qed
    ultimately show ?thesis
      using lab True dep by (auto simp: dup_runs_def)
  qed
qed

section \<open>A whole run\<close>

text \<open>A server nobody else writes to, and a complete resource of a supported version.\<close>

definition undisturbed :: "('v, 'c) world \<Rightarrow> ('v \<Rightarrow> nat \<times> nat \<times> nat) \<Rightarrow> bool" where
  "undisturbed W core \<longleftrightarrow> sole_client (w_env W) \<and> semver_laws (lib_semver (w_libs W)) core \<and> crypto_works W"

definition reconcilable :: "('v, 'c) world \<Rightarrow> Astarte \<Rightarrow> bool" where
  "reconcilable W cr \<longleftrightarrow>
     CanManageVersion (lib_semver (w_libs W)) (spec_Version (ast_Spec cr)) = Inr True \<and>
     spec_Version (ast_Spec cr) \<noteq> SnapshotVersion \<and> complete_resource cr \<and> convergent cr"

lemma reconcilable_pods: "undisturbed W core \<Longrightarrow> reconcilable W cr \<Longrightarrow> pods_built W cr"
  using supported_pods [of "w_libs W" core cr] by (simp add: undisturbed_def reconcilable_def pods_built_def)

lemma reconcile_runs:
  assumes "undisturbed W core" "reconcilable W cr" "admissible cr (state_of (w_env W) h)" "ca_given cr (state_of (w_env W) h)"
  obtains h1 where "ReconcileAstarteResources W cr h = (Inr (), h1)" "reconcile_goal W cr (state_of (w_env W) h1)"
    "admissible cr (state_of (w_env W) h1)" "ca_given cr (state_of (w_env W) h1)"
    "reconcile_goal W cr (state_of (w_env W) h) \<longrightarrow> state_of (w_env W) h1 = state_of (w_env W) h"
    "agree {k. part cr k \<in> set (''priority'' # ''pods'' # part_names)} (state_of (w_env W) h) (state_of (w_env W) h1)"
proof -
  let ?ps = "''priority'' # ''pods'' # part_names"
  have sole: "sole_client (w_env W)" and works: "crypto_works W"
    using assms(1) by (simp_all add: undisturbed_def)
  have conv: "convergent cr"
    using assms(2) by (simp add: reconcilable_def)
  have st: "stage (w_env W) cr (ca_given cr) ?ps (reconcile_goal W cr) (ReconcileAstarteResources W cr)"
    by (rule sole_client.stage_reconcile [OF sole refl reconcilable_pods [OF assms(1,2)] works conv])
  then have c: "converges (w_env W) (admissible cr) (ca_given cr) (region cr ?ps) (reconcile_goal W cr) (ReconcileAstarteResources W cr)"
    by (simp add: stage_def)
  obtain u h1 where h1: "ReconcileAstarteResources W cr h = (Inr u, h1)" "admissible cr (state_of (w_env W) h1)"
    "reconcile_goal W cr (state_of (w_env W) h1)" "agree (region cr ?ps) (state_of (w_env W) h) (state_of (w_env W) h1)"
    "reconcile_goal W cr (state_of (w_env W) h) \<Longrightarrow> state_of (w_env W) h1 = state_of (w_env W) h"
    using convergesE [OF c assms(3,4)] by metis
  have "unaffected (region cr ?ps) (ca_given cr)"
    using st conv by (intro unaffected_mono [OF sole_client.unaffected_ca_given [OF sole]] region_others)
      (auto simp: convergent_def stage_def)
  then have "ca_given cr (state_of (w_env W) h1)"
    using unaffectedD h1(4) assms(4) by blast
  with h1 that show thesis
    by (simp add: region_def)
qed

lemma keyed_state_of: "sole_client E \<Longrightarrow> keyed_state (state_of E h)"
  by (simp add: keyed_state_def sole_client.state_key)


text \<open>C3: a second run changes nothing.

  Under the same hypotheses, running the sequence again leaves every object of the cluster as the first
  run left it: keys, cookies and certificates are not made anew, and what is written is what is there.\<close>

theorem second_run_changes_nothing:
  assumes "undisturbed W core" "reconcilable W cr"
    and "admissible cr (state_of (w_env W) h)" "ca_given cr (state_of (w_env W) h)"
    and "ReconcileAstarteResources W cr h = (r1, h1)" "ReconcileAstarteResources W cr h1 = (r2, h2)"
  shows "r2 = Inr () \<and> state_of (w_env W) h2 = state_of (w_env W) h1"
proof -
  obtain h1' where "ReconcileAstarteResources W cr h = (Inr (), h1')" "reconcile_goal W cr (state_of (w_env W) h1')"
    "admissible cr (state_of (w_env W) h1')" "ca_given cr (state_of (w_env W) h1')"
    by (rule reconcile_runs [OF assms(1-4)])
  with assms(5) have 1: "reconcile_goal W cr (state_of (w_env W) h1)" "admissible cr (state_of (w_env W) h1)"
    "ca_given cr (state_of (w_env W) h1)"
    by simp_all
  obtain h3 where "ReconcileAstarteResources W cr h1 = (Inr (), h3)"
    "reconcile_goal W cr (state_of (w_env W) h1) \<longrightarrow> state_of (w_env W) h3 = state_of (w_env W) h1"
    by (rule reconcile_runs [OF assms(1,2) 1(2,3)])
  with assms(6) 1(1) show ?thesis
    by simp
qed

section \<open>An empty cluster\<close>

lemma ex_undisturbed: "undisturbed (ex_world xs) fst"
proof -
  have "crypto_works (ex_world xs)"
    by (simp add: crypto_works_def ex_crypto_def)
  then show ?thesis
    using strict.semver_laws_axioms memory.sole_client_axioms by (simp add: undisturbed_def)
qed

lemma ex_reconcilable: "reconcilable (ex_world xs) ex_astarte"
proof -
  have "spec_Version (ast_Spec ex_astarte) \<noteq> SnapshotVersion"
    by code_simp
  moreover have "convergent ex_astarte"
    by code_simp
  ultimately show ?thesis
    using ex_supported ex_complete by (simp add: reconcilable_def)
qed

lemma ex_admissible: "admissible ex_astarte (state_of (memory_server []) [])" "ca_given ex_astarte (state_of (memory_server []) [])"
proof -
  have e: "state_of (memory_server []) [] = (\<lambda>k. None)"
    unfolding memory_state by (simp add: store_of_def)
  show "admissible ex_astarte (state_of (memory_server []) [])"
    unfolding e by (simp add: admissible_def labelled_def)
  show "ca_given ex_astarte (state_of (memory_server []) [])"
    unfolding e ca_given_def by code_simp
qed


theorem second_run_changes_nothing_witness:
  "case ReconcileAstarteResources (ex_world []) ex_astarte [] of (r1, h1) \<Rightarrow>
   case ReconcileAstarteResources (ex_world []) ex_astarte h1 of (r2, h2) \<Rightarrow>
     r2 = Inr () \<and> state_of (memory_server []) h2 = state_of (memory_server []) h1"
  using second_run_changes_nothing [OF ex_undisturbed ex_reconcilable, of "[]" "[]"] ex_admissible
  by (simp split: prod.split)

end
