(* ===== verification/Cluster_Health.thy ===== *)
theory Cluster_Health
  imports Convergence_Properties
begin

text \<open>
  The health of a cluster as a function of its state, and its computation through the API server.
\<close>

section \<open>What counts\<close>

definition astarte_selector :: smap where
  "astarte_selector = [(''component'', ''astarte'')]"

text \<open>The deployments of the namespace that carry Astarte's label, want pods and have none ready.\<close>

definition down_deployments :: "Astarte \<Rightarrow> kstate \<Rightarrow> kobj set" where
  "down_deployments cr s =
     {x. s (obj_key x) = Some x \<and> selected ODeployment (Some (cr_Namespace cr)) astarte_selector x \<and> deployment_not_ready x}"

definition vernemq_down :: "Astarte \<Rightarrow> kstate \<Rightarrow> bool" where
  "vernemq_down cr s \<longleftrightarrow>
     PtrValue (gcr_Deploy (vmq_Generic (spec_VerneMQ (ast_Spec cr)))) True \<and>
     \<not> (\<exists>x. s (OStatefulSet, cr_Namespace cr, cr_Name cr @ ''-vernemq'') = Some (KStatefulSet x) \<and> ss_ReadyReplicas x \<noteq> 0)"

definition cfssl_down :: "Astarte \<Rightarrow> kstate \<Rightarrow> bool" where
  "cfssl_down cr s \<longleftrightarrow>
     PtrValue (cfssl_Deploy (spec_CFSSL (ast_Spec cr))) True \<and>
     \<not> (\<exists>x. s (ODeployment, cr_Namespace cr, cr_Name cr @ ''-cfssl'') = Some (KDeployment x) \<and> d_ReadyReplicas x \<noteq> 0)"

definition things_down :: "Astarte \<Rightarrow> kstate \<Rightarrow> nat" where
  "things_down cr s =
     card (down_deployments cr s) + (if vernemq_down cr s then 1 else 0) + (if cfssl_down cr s then 1 else 0)"

definition cluster_health :: "Astarte \<Rightarrow> kstate \<Rightarrow> AstarteClusterHealth" where
  "cluster_health cr s =
     (if things_down cr s = 0 then AstarteClusterHealthGreen
      else if things_down cr s = 1 then AstarteClusterHealthYellow
      else AstarteClusterHealthRed)"

lemma health_of_nat: "health_of (int n) = (if n = 0 then AstarteClusterHealthGreen
    else if n = 1 then AstarteClusterHealthYellow else AstarteClusterHealthRed)"
  by (simp add: health_of_def)

section \<open>The computation\<close>

context sole_client begin

lemma vernemq_health_run:
  "\<exists>h1. vernemq_health E cr h = (Inr (if vernemq_down cr (state_of E h) then 1 else 0), h1) \<and> state_of E h1 = state_of E h"
  unfolding vernemq_health_def vernemq_down_def
  by (auto simp: on_result_def Get_def call_def get_cases ret_def step split: option.split kobj.split)

lemma cfssl_health_run:
  "\<exists>h1. computeCFSSLHealth E cr h = (Inr (\<not> cfssl_down cr (state_of E h)), h1) \<and> state_of E h1 = state_of E h"
  unfolding computeCFSSLHealth_def cfssl_down_def
  by (auto simp: on_result_def Get_def call_def get_cases ret_def step split: option.split kobj.split)

lemma health_run:
  "\<exists>h1. ComputeClusterHealth E cr h = (Inr (cluster_health cr (state_of E h)), h1) \<and> state_of E h1 = state_of E h"
proof -
  let ?ns = "Some (cr_Namespace cr)" and ?ls = "[(''component'', ''astarte'')]" and ?s = "state_of E h"
  let ?h = "h @ [EvList ODeployment ?ns ?ls]"
  obtain xs where xs: "e_list E h ODeployment ?ns ?ls = Inr xs" "distinct xs"
    "\<forall>x. x \<in> set xs \<longleftrightarrow> ?s (obj_key x) = Some x \<and> selected ODeployment ?ns ?ls x"
    using list_state [of h ODeployment ?ns ?ls] by blast
  have "set (filter deployment_not_ready xs) = down_deployments cr ?s"
    using xs(3) by (auto simp: down_deployments_def astarte_selector_def)
  then have n: "length (filter deployment_not_ready xs) = card (down_deployments cr ?s)"
    using xs(2) distinct_card [of "filter deployment_not_ready xs"] by simp
  have s: "state_of E ?h = ?s"
    by (simp add: step)
  obtain h1 where h1: "vernemq_health E cr ?h = (Inr (if vernemq_down cr ?s then 1 else 0), h1)" "state_of E h1 = ?s"
    using vernemq_health_run [of cr ?h] s by auto
  obtain h2 where h2: "computeCFSSLHealth E cr h1 = (Inr (\<not> cfssl_down cr ?s), h2)" "state_of E h2 = ?s"
    using cfssl_health_run [of cr h1] h1(2) by auto
  have "int (card (down_deployments cr ?s)) + (if vernemq_down cr ?s then 1 else 0) + (if \<not> \<not> cfssl_down cr ?s then 1 else 0)
      = int (things_down cr ?s)"
    by (simp add: things_down_def)
  then have "ComputeClusterHealth E cr h = (Inr (cluster_health cr ?s), h2)"
    using xs(1) h1(1) h2(1) n health_of_nat [of "things_down cr ?s"]
    by (simp add: ComputeClusterHealth_def ListObjs_def call_def bnd_def on_result_def ret_def cluster_health_def)
  with h2(2) show ?thesis
    by blast
qed

end



end
