(* ===== verification/Kube_Runs.thy ===== *)
theory Kube_Runs
  imports Kube_State
begin

text \<open>What single calls and small programs do on a server with one client, as the state they leave behind.\<close>

section \<open>Retries\<close>

lemma retry_success:
  assumes "m h = (Inr x, h1)"
  shows "RetryOnConflict E m h = (Inr x, h1)"
proof -
  have "retry_on_conflict n m h = (Inr x, h1)" for n
    using assms by (cases n) (simp_all add: on_result_def lift_def)
  then show ?thesis
    by (simp add: RetryOnConflict_def)
qed

section \<open>Stores and deletions\<close>

text \<open>The key is free, or its object is not controlled by somebody else.\<close>

definition ours :: "kobj \<Rightarrow> kstate \<Rightarrow> okey \<Rightarrow> bool" where
  "ours owner s k \<longleftrightarrow> (\<forall>y. s k = Some y \<longrightarrow> free_for owner (obj_meta y))"

context sole_client begin

lemma set_owner_run: "free_for owner (obj_meta y) \<Longrightarrow> SetControllerReference E owner y h = (Inr (owned_by owner y), h)"
  using owner_set by (simp add: SetControllerReference_def bnd_def lift_def ret_def owned_by_def)

text \<open>Creating or updating, for a mutation \<open>g\<close> of the objects the owner may have.\<close>

lemma store_run_by:
  assumes "obj_key x = k" "ours owner (state_of E h) k" "free_for owner (obj_meta x)"
    and "\<And>y h. obj_key y = k \<Longrightarrow> free_for owner (obj_meta y) \<Longrightarrow> mutate y h = (Inr (g y), h)"
    and "\<And>y. obj_key y = k \<Longrightarrow> obj_key (g y) = k"
  shows "\<exists>r h1. CreateOrUpdate E x mutate h = (Inr r, h1) \<and>
     state_of E h1 = (state_of E h)(k \<mapsto> g (PtrValue (state_of E h k) x))"
proof -
  let ?y = "PtrValue (state_of E h k) x"
  let ?h = "h @ [EvLoad k]"
  have load: "e_load E h x = Inr ?y"
    using load_state [of h x] assms(1) by (cases "state_of E h k") auto
  have key: "obj_key ?y = k"
    using assms(1) state_key by (cases "state_of E h k") auto
  have "free_for owner (obj_meta ?y)"
    using assms(2,3) by (cases "state_of E h k") (simp_all add: ours_def)
  then have own: "mutate ?y ?h = (Inr (g ?y), ?h)"
    by (rule assms(4) [OF key])
  obtain r where store: "e_store E ?h (g ?y) = Inr r"
    using store_done by blast
  have "CreateOrUpdate E x mutate h = (Inr r, ?h @ [EvStore (g ?y)])"
    using load own store by (simp add: CreateOrUpdate_def bnd_def call_def assms(1))
  moreover have "state_of E (?h @ [EvStore (g ?y)]) = (state_of E h)(k \<mapsto> g ?y)"
    by (simp only: step step_state.simps assms(5) [OF key])
  ultimately show ?thesis
    by blast
qed

lemma store_run:
  assumes "obj_key x = k" "ours owner (state_of E h) k" "free_for owner (obj_meta x)"
    and "\<And>y. obj_key y = k \<Longrightarrow> obj_key (f y) = k"
  shows "\<exists>r h1. CreateOrUpdate E x (owned E owner f) h = (Inr r, h1) \<and>
     state_of E h1 = (state_of E h)(k \<mapsto> f (owned_by owner (PtrValue (state_of E h k) x)))"
  by (rule store_run_by [OF assms(1-3)])
    (simp_all only: owned_def bnd_def set_owner_run ret_def prod.case sum.case assms(4) owned_by_simps)

text \<open>Deleting objects that are there.\<close>

lemma delete_each_run:
  assumes "\<And>x. x \<in> set xs \<Longrightarrow> state_of E h (obj_key x) = Some x" "distinct (map obj_key xs)"
  shows "\<exists>h1. for_each (\<lambda>x. DeleteObj E x) xs h = (Inr (), h1) \<and>
     state_of E h1 = (\<lambda>k. if k \<in> obj_key ` set xs then None else state_of E h k)"
  using assms
proof (induction xs arbitrary: h)
  case Nil
  then show ?case
    by (simp add: ret_def)
next
  case (Cons x xs)
  let ?h = "h @ [EvDelete (obj_key x)]"
  have d: "DeleteObj E x h = (Inr (), ?h)"
    using Cons.prems(1) [of x] by (simp add: DeleteObj_def call_def delete_present)
  have s: "state_of E ?h = (state_of E h)(obj_key x := None)"
    by (simp only: step step_state.simps)
  have "state_of E ?h (obj_key y) = Some y" if "y \<in> set xs" for y
    using that Cons.prems unfolding s by (auto simp: image_iff)
  then obtain h1 where "for_each (\<lambda>x. DeleteObj E x) xs ?h = (Inr (), h1)"
    "state_of E h1 = (\<lambda>k. if k \<in> obj_key ` set xs then None else state_of E ?h k)"
    using Cons.IH [of ?h] Cons.prems(2) by auto
  then show ?case
    by (intro exI [of _ h1]) (auto simp: bnd_def d s fun_eq_iff)
qed

lemma delete_run:
  "\<exists>h1. on_result (Get E k ns n) (\<lambda>r. case r of Inl _ \<Rightarrow> ret () | Inr x \<Rightarrow> DeleteObj E x) h = (Inr (), h1) \<and>
     state_of E h1 = (state_of E h)((k, ns, n) := None)"
proof (cases "state_of E h (k, ns, n)")
  case None
  then have "on_result (Get E k ns n) (\<lambda>r. case r of Inl _ \<Rightarrow> ret () | Inr x \<Rightarrow> DeleteObj E x) h =
      (Inr (), h @ [EvGet (k, ns, n)])"
    by (simp add: on_result_def Get_def call_def get_cases ret_def)
  moreover have "state_of E (h @ [EvGet (k, ns, n)]) = (state_of E h)((k, ns, n) := None)"
    using None by (simp add: step fun_upd_idem)
  ultimately show ?thesis
    by blast
next
  case (Some x)
  have key: "obj_key x = (k, ns, n)"
    by (rule state_key [OF Some])
  have "e_delete E (h @ [EvGet (k, ns, n)]) (k, ns, n) = Inr ()"
    by (rule delete_present) (simp add: step Some)
  then have "DeleteObj E x (h @ [EvGet (k, ns, n)]) = (Inr (), (h @ [EvGet (k, ns, n)]) @ [EvDelete (k, ns, n)])"
    unfolding DeleteObj_def key call_def by simp
  then have "on_result (Get E k ns n) (\<lambda>r. case r of Inl _ \<Rightarrow> ret () | Inr x \<Rightarrow> DeleteObj E x) h =
      (Inr (), (h @ [EvGet (k, ns, n)]) @ [EvDelete (k, ns, n)])"
    using Some by (simp add: on_result_def Get_def call_def get_cases)
  moreover have "state_of E ((h @ [EvGet (k, ns, n)]) @ [EvDelete (k, ns, n)]) = (state_of E h)((k, ns, n) := None)"
    by (simp only: step step_state.simps)
  ultimately show ?thesis
    by blast
qed

lemma kept_key: "obj_key x = k \<Longrightarrow> obj_key (PtrValue (state_of E h k) x) = k"
  using state_key by (cases "state_of E h k") auto

lemma step2: "state_of E (h @ [e, e']) = step_state e' (step_state e (state_of E h))"
  using step [of "h @ [e]" e'] by (simp add: step)

end

end
