(* ===== verification/First_Install.thy ===== *)
theory First_Install
  imports Cluster_Health Kube_Runs
begin

text \<open>
  The first installation end to end: the handler on a resource it has not seen before, on a server nobody
  else writes to.
\<close>

section \<open>The status of a run\<close>

context sole_client begin

text \<open>The update of the status: it is written, and nothing else changes.\<close>

lemma update_status_run:
  assumes "state_of E h (OAstarte, ns, name) = Some (KAstarte cr)" "\<not> spec_ManualMaintenanceMode (ast_Spec cr)"
  shows "\<exists>status h1. update_astarte_status E ns name h = (Inr (), h1) \<and>
     state_of E h1 = (state_of E h)((OAstarte, ns, name) \<mapsto> KAstarte (cr\<lparr>ast_Status := status\<rparr>)) \<and>
     status_AstarteVersion status = spec_Version (ast_Spec cr) \<and>
     status_ReconciliationPhase status = ReconciliationPhaseReconciled"
proof -
  let ?h = "h @ [EvGet (OAstarte, ns, name)]"
  have get: "GetAstarte E ns name h = (Inr cr, ?h)"
    using assms(1) by (simp add: GetAstarte_def bnd_def Get_def call_def get_cases lift_def as_astarte_def)
  have s: "state_of E ?h = state_of E h"
    by (simp add: step)
  obtain health h1 where health: "ComputeClusterHealth E cr ?h = (Inr health, h1)" "state_of E h1 = state_of E h"
    using health_run s by metis
  have "\<exists>status h2. ComputeAstarteStatusResource E cr ?h = (Inr status, h2) \<and> state_of E h2 = state_of E h \<and>
      status_AstarteVersion status = spec_Version (ast_Spec cr) \<and> status_ReconciliationPhase status = ReconciliationPhaseReconciled"
    using health assms(2)
    by (auto simp: ComputeAstarteStatusResource_def Let_def bnd_def do_when_def Recorder_Event_def call_def ret_def step)
  then obtain status h2 where st: "ComputeAstarteStatusResource E cr ?h = (Inr status, h2)" "state_of E h2 = state_of E h"
    "status_AstarteVersion status = spec_Version (ast_Spec cr)" "status_ReconciliationPhase status = ReconciliationPhaseReconciled"
    by blast
  let ?x = "KAstarte (cr\<lparr>ast_Status := status\<rparr>)"
  have key: "obj_key ?x = (OAstarte, ns, name)"
    using state_key [OF assms(1)] by (simp only: obj_key_def) simp
  have "e_status_update E h2 ?x = Inr ()"
    by (rule status_present) (simp only: key st(2) assms(1) option.distinct simp_thms)
  then have "update_astarte_status E ns name h = (Inr (), h2 @ [EvStatusUpdate ?x])"
    using get st(1) by (simp add: update_astarte_status_def bnd_def StatusUpdate_def call_def)
  moreover have "state_of E (h2 @ [EvStatusUpdate ?x]) = (state_of E h)((OAstarte, ns, name) \<mapsto> ?x)"
    by (simp only: step step_state.simps key st(2) assms(1) option.distinct if_False)
  ultimately show ?thesis
    using st(3,4) by blast
qed

end

section \<open>The finalizer does not matter to the reconciliation\<close>

lemma finalizer_simps [simp]:
  "ast_Spec (with_finalizers fs cr) = ast_Spec cr"
  "ast_Status (with_finalizers fs cr) = ast_Status cr"
  "cr_Name (with_finalizers fs cr) = cr_Name cr"
  "cr_Namespace (with_finalizers fs cr) = cr_Namespace cr"
  "om_Finalizers (ast_Meta (with_finalizers fs cr)) = fs"
  "obj_key (KAstarte (with_finalizers fs cr)) = obj_key (KAstarte cr)"
  by (simp_all add: with_finalizers_def obj_key_def)

lemma finalizer_owner [simp]:
  "owner_ref_of (KAstarte (with_finalizers fs cr)) = owner_ref_of (KAstarte cr)"
  "free_for (KAstarte (with_finalizers fs cr)) m = free_for (KAstarte cr) m"
  by (simp_all add: free_for_def owner_ref_of_def with_finalizers_def)

lemma finalizer_reconcilable [simp]: "reconcilable W (with_finalizers fs cr) = reconcilable W cr"
  by (simp add: reconcilable_def complete_resource_def convergent_def priorities_given_def dup_replicas_def
      ca_foreign_def foreign_secret_def rabbitmq_connected_def cassandra_connected_def validateCreateAstarteSystemKeyspace_def)

lemma finalizer_ca_given [simp]: "ca_given (with_finalizers fs cr) s = ca_given cr s"
  by (simp add: ca_given_def ca_name_def)

lemma finalizer_names [simp]:
  "own_name (with_finalizers fs cr) = own_name cr" "dup_name (with_finalizers fs cr) = dup_name cr"
  "dup_replicas (with_finalizers fs cr) = dup_replicas cr" "dup_wanted (with_finalizers fs cr) = dup_wanted cr"
  "labelled (with_finalizers fs cr) = labelled cr"
  by (simp_all add: own_name_def fun_eq_iff dup_name_def dup_replicas_def dup_wanted_def labelled_def)

lemma finalizer_own_key [simp]: "own_key (with_finalizers fs cr) k = own_key cr k"
  by (cases k) simp

lemma finalizer_admissible [simp]: "admissible (with_finalizers fs cr) s = admissible cr s"
  by (simp add: admissible_def)

lemma admissible_resource [simp]:
  assumes "fst k = OAstarte"
  shows "admissible cr (s(k \<mapsto> x)) = admissible cr s"
proof -
  have "labelled cr (s(k \<mapsto> x)) = labelled cr s"
    using assms by (simp add: labelled_upd)
  moreover have "(s(k \<mapsto> x)) k' = s k'" if "fst k' \<in> managed_kinds" for k'
    using that assms by (auto simp: managed_kinds_def)
  ultimately show ?thesis
    unfolding admissible_def by metis
qed

lemma ca_given_resource [simp]: "fst k = OAstarte \<Longrightarrow> ca_given cr (s(k \<mapsto> x)) = ca_given cr s"
  by (cases k) (simp add: ca_given_def present_def)

section \<open>The handler\<close>

lemma finalizer_health [simp]: "cluster_health (with_finalizers fs cr) = cluster_health cr"
  by (simp add: fun_eq_iff cluster_health_def things_down_def down_deployments_def vernemq_down_def cfssl_down_def)

lemma resource_health [simp]: "cluster_health cr (s((OAstarte, ns, name) \<mapsto> x)) = cluster_health cr s"
proof -
  have "down_deployments cr (s((OAstarte, ns, name) \<mapsto> x)) = down_deployments cr s"
    by (auto simp: down_deployments_def selected_def)
  then show ?thesis
    by (simp add: cluster_health_def things_down_def vernemq_down_def cfssl_down_def)
qed

text \<open>The resource with the finalizer, as the handler leaves it before the reconciliation.\<close>

definition guarded :: "Astarte \<Rightarrow> Astarte" where
  "guarded cr =
     (if astarteFinalizer \<in> set (om_Finalizers (ast_Meta cr)) then cr
      else with_finalizers (om_Finalizers (ast_Meta cr) @ [astarteFinalizer]) cr)"

lemma guarded_simps [simp]:
  "ast_Spec (guarded cr) = ast_Spec cr" "ast_Status (guarded cr) = ast_Status cr"
  "obj_key (KAstarte (guarded cr)) = obj_key (KAstarte cr)"
  "astarteFinalizer \<in> set (om_Finalizers (ast_Meta (guarded cr)))"
  "reconcilable W (guarded cr) = reconcilable W cr" "admissible (guarded cr) s = admissible cr s"
  "ca_given (guarded cr) s = ca_given cr s"
  "cr_Name (guarded cr) = cr_Name cr"
  by (simp_all add: guarded_def)

lemma own_resource_outside: "cr_Name cr = name \<Longrightarrow> part cr (OAstarte, ns, name) = ''''"
  by (auto simp: region_simps HasPrefix_def)

definition settled_version :: "Astarte \<Rightarrow> kstate \<Rightarrow> bool" where
  "settled_version cr s \<longleftrightarrow>
     (if status_AstarteVersion (ast_Status cr) = ''''
      then s (ODeployment, cr_Namespace cr, cr_Name cr @ ''-housekeeping'') = None
      else status_AstarteVersion (ast_Status cr) \<in> {SnapshotVersion, spec_Version (ast_Spec cr)} \<or>
        status_Health (ast_Status cr) = AstarteClusterHealthGreen \<or> cluster_health cr s = AstarteClusterHealthGreen)"

context sole_client begin

lemma coherency_run:
  assumes "settled_version cr (state_of E h)"
  shows "\<exists>h1. EnsureStatusCoherency E cr ns name h = (Inr (NoRequeue, None, cr), h1) \<and> state_of E h1 = state_of E h"
  using assms
  by (auto simp: settled_version_def EnsureStatusCoherency_def run_simps Get_def call_def get_cases step2 Recorder_Event_def)

lemma finalizer_run:
  assumes "state_of E h (OAstarte, ns, name) = Some (KAstarte cr)"
  shows "\<exists>h1. (if astarteFinalizer \<notin> set (om_Finalizers (ast_Meta cr)) then addFinalizer E cr else ret cr) h =
      (Inr (guarded cr), h1) \<and>
    state_of E h1 = (state_of E h)((OAstarte, ns, name) \<mapsto> KAstarte (guarded cr))"
proof (cases "astarteFinalizer \<in> set (om_Finalizers (ast_Meta cr))")
  case True
  with assms show ?thesis
    by (auto simp: guarded_def ret_def)
next
  case False
  let ?x = "KAstarte (guarded cr)"
  have key: "obj_key ?x = (OAstarte, ns, name)"
    using state_key [OF assms] by (simp only: guarded_simps)
  have "e_update E h ?x = Inr ?x"
    by (rule update_present) (simp only: key assms option.distinct simp_thms)
  moreover have "state_of E (h @ [EvUpdate ?x]) = (state_of E h)((OAstarte, ns, name) \<mapsto> ?x)"
    by (simp only: step step_state.simps key assms option.distinct if_False)
  ultimately show ?thesis
    using False by (simp add: addFinalizer_def guarded_def bnd_def UpdateObj_def call_def lift_def as_astarte_def)
qed

lemma upgrade_run:
  assumes "settled_version cr (state_of E h)"
  shows "\<exists>h1. check_upgrade E cr h = (Inr (NoRequeue, None), h1) \<and> state_of E h1 = state_of E h"
proof -
  obtain h1 where "ComputeClusterHealth E cr h = (Inr (cluster_health cr (state_of E h)), h1)" "state_of E h1 = state_of E h"
    using health_run by blast
  with assms show ?thesis
    by (auto simp: settled_version_def check_upgrade_def CheckAndPerformUpgrade_def do_when_def run_simps
        Recorder_Event_def call_def step split: if_splits)
qed

end

text \<open>A run of the handler is the reconciliation of the resource with its finalizer, and the status.\<close>

lemma handler_runs:
  assumes "undisturbed W core" "reconcilable W cr" "admissible cr (state_of (w_env W) h)" "ca_given cr (state_of (w_env W) h)"
    and here: "state_of (w_env W) h (OAstarte, ns, name) = Some (KAstarte cr)"
    and "\<not> spec_ManualMaintenanceMode (ast_Spec cr)" "\<not> om_Deleting (ast_Meta cr)"
    and "settled_version cr (state_of (w_env W) h)"
  obtains h3 h4 h1 status where "astarte_Reconcile W ns name h = (Inr (NoRequeue, None), h1)"
    "state_of (w_env W) h3 = (state_of (w_env W) h)((OAstarte, ns, name) \<mapsto> KAstarte (guarded cr))"
    "ReconcileAstarteResources W (guarded cr) h3 = (Inr (), h4)"
    "reconcile_goal W (guarded cr) (state_of (w_env W) h4)" "admissible cr (state_of (w_env W) h4)"
    "state_of (w_env W) h4 (OAstarte, ns, name) = Some (KAstarte (guarded cr))"
    "state_of (w_env W) h1 = (state_of (w_env W) h4)((OAstarte, ns, name) \<mapsto> KAstarte ((guarded cr)\<lparr>ast_Status := status\<rparr>))"
    "status_AstarteVersion status = spec_Version (ast_Spec cr)"
    "status_ReconciliationPhase status = ReconciliationPhaseReconciled"
    "ca_given cr (state_of (w_env W) h4)"
proof -
  let ?E = "w_env W" and ?k = "(OAstarte, ns, name)" and ?g = "guarded cr"
  have sole: "sole_client ?E"
    using assms(1) by (simp add: undisturbed_def)
  have key: "obj_key (KAstarte cr) = ?k"
    by (rule sole_client.state_key [OF sole here])
  have name: "cr_Name cr = name"
    using key by (simp add: obj_key_def)
  let ?h0 = "h @ [EvGet ?k]"
  have s0: "state_of ?E ?h0 = state_of ?E h"
    by (simp add: sole_client.step [OF sole])
  have get: "GetAstarte ?E ns name h = (Inr cr, ?h0)"
    using here by (simp add: GetAstarte_def bnd_def Get_def call_def sole_client.get_cases [OF sole] lift_def as_astarte_def)
  obtain v where v: "GetAstarteSemanticVersionFrom (lib_semver (w_libs W)) (spec_Version (ast_Spec cr)) = Inr v"
    using assms(2)
    by (auto simp: reconcilable_def GetAstarteSemanticVersionFrom_def CanManageVersion_def split: sum.splits)
  obtain h1 where h1: "EnsureStatusCoherency ?E cr ns name ?h0 = (Inr (NoRequeue, None, cr), h1)" "state_of ?E h1 = state_of ?E h"
    using sole_client.coherency_run [OF sole, of cr ?h0 ns name] assms(8) s0 by auto
  obtain h2 where h2: "(if astarteFinalizer \<notin> set (om_Finalizers (ast_Meta cr)) then addFinalizer ?E cr else ret cr) h1 = (Inr ?g, h2)"
    "state_of ?E h2 = (state_of ?E h)(?k \<mapsto> KAstarte ?g)"
    using sole_client.finalizer_run [OF sole, of h1 ns name cr] here h1(2) by auto
  have "settled_version ?g (state_of ?E h2)"
    using assms(8) unfolding settled_version_def h2(2) by (auto simp: guarded_def split: if_splits)
  then obtain h3 where h3: "check_upgrade ?E ?g h2 = (Inr (NoRequeue, None), h3)" "state_of ?E h3 = state_of ?E h2"
    using sole_client.upgrade_run [OF sole] by blast
  obtain h4 where h4: "ReconcileAstarteResources W ?g h3 = (Inr (), h4)" "reconcile_goal W ?g (state_of ?E h4)"
    "admissible ?g (state_of ?E h4)" "ca_given ?g (state_of ?E h4)"
    "agree {k. part ?g k \<in> set (''priority'' # ''pods'' # part_names)} (state_of ?E h3) (state_of ?E h4)"
    by (rule reconcile_runs [OF assms(1), of ?g h3]) (use assms(2-4) in \<open>simp_all add: h3(2) h2(2)\<close>)
  have "part ?g ?k = ''''"
    by (rule own_resource_outside) (simp add: name)
  then have "?k \<notin> {k. part ?g k \<in> set (''priority'' # ''pods'' # part_names)}"
    by (simp add: part_names_def del: part.simps)
  then have s4: "state_of ?E h4 ?k = Some (KAstarte ?g)"
    using agree_at [OF h4(5)] by (simp add: h3(2) h2(2))
  obtain status h5 where h5: "update_astarte_status ?E ns name h4 = (Inr (), h5)"
    "state_of ?E h5 = (state_of ?E h4)(?k \<mapsto> KAstarte (?g\<lparr>ast_Status := status\<rparr>))"
    "status_AstarteVersion status = spec_Version (ast_Spec cr)" "status_ReconciliationPhase status = ReconciliationPhaseReconciled"
    using sole_client.update_status_run [OF sole s4] assms(6) by auto
  have "reconcile_checked W ns name ?g h2 = (Inr (NoRequeue, None), h5)"
    using h3(1) h4(1) retry_success [of "update_astarte_status ?E ns name" h4 "()" h5 ?E] h5(1)
    by (simp add: reconcile_checked_def Let_def bnd_def or_return_def on_result_def ret_def)
  then have "reconcile_live W ns name cr ?h0 = (Inr (NoRequeue, None), h5)"
    using h1(1) h2(1) by (simp add: reconcile_live_def Let_def bnd_def or_return_def on_result_def ret_def del: if_not_P)
  then have "astarte_Reconcile W ns name h = (Inr (NoRequeue, None), h5)"
    using get v assms(6,7) by (simp add: astarte_Reconcile_def Let_def on_result_def lift_def)
  moreover have "state_of ?E h3 = (state_of ?E h)(?k \<mapsto> KAstarte ?g)"
    by (simp only: h3(2) h2(2))
  moreover have "admissible cr (state_of ?E h4)"
    using h4(3) by (simp only: guarded_simps)
  moreover have "ca_given cr (state_of ?E h4)"
    using h4(4) by (simp only: guarded_simps)
  ultimately show thesis
    using that h4(1,2) s4 h5(2-4) by blast
qed

lemma resource_no_autoscaler: "no_autoscaler {(OAstarte, ns, name)}"
  by (simp add: no_autoscaler_def)

lemma runs_pod_resource [simp]: "runs_pod cr (s((OAstarte, ns, name) \<mapsto> x)) n p r = runs_pod cr s n p r"
  by (simp add: runs_pod_def)

lemma replica_count_resource [simp]: "replica_count cr r (s((OAstarte, ns, name) \<mapsto> x)) = replica_count cr r s"
  by (rule replica_count_agree [OF agree_upd resource_no_autoscaler]) simp

lemma labelled_resource [simp]: "labelled cr (s((OAstarte, ns, name) \<mapsto> x)) = labelled cr s"
  by (simp add: labelled_upd)

lemma runs_resource [simp]:
  "components_run W cr (s((OAstarte, ns, name) \<mapsto> x)) = components_run W cr s"
  "dup_runs W cr (s((OAstarte, ns, name) \<mapsto> x)) = dup_runs W cr s"
  by (simp_all add: components_run_def dup_runs_def)

lemma handler_installs:
  assumes "undisturbed W core" "reconcilable W cr" "admissible cr (state_of (w_env W) h)" "ca_given cr (state_of (w_env W) h)"
    and "state_of (w_env W) h (OAstarte, ns, name) = Some (KAstarte cr)"
    and "\<not> spec_ManualMaintenanceMode (ast_Spec cr)" "\<not> om_Deleting (ast_Meta cr)"
    and "settled_version cr (state_of (w_env W) h)"
  shows "\<exists>h1 status. astarte_Reconcile W ns name h = (Inr (NoRequeue, None), h1) \<and>
     state_of (w_env W) h1 (OAstarte, ns, name) = Some (KAstarte ((guarded cr)\<lparr>ast_Status := status\<rparr>)) \<and>
     status_AstarteVersion status = spec_Version (ast_Spec cr) \<and>
     status_ReconciliationPhase status = ReconciliationPhaseReconciled \<and>
     components_run W (guarded cr) (state_of (w_env W) h1) \<and> dup_runs W (guarded cr) (state_of (w_env W) h1)"
proof -
  obtain h3 h4 h1 status where h1: "astarte_Reconcile W ns name h = (Inr (NoRequeue, None), h1)"
    and goal: "reconcile_goal W (guarded cr) (state_of (w_env W) h4)" "admissible cr (state_of (w_env W) h4)"
    and after: "state_of (w_env W) h1 =
      (state_of (w_env W) h4)((OAstarte, ns, name) \<mapsto> KAstarte ((guarded cr)\<lparr>ast_Status := status\<rparr>))"
    and status: "status_AstarteVersion status = spec_Version (ast_Spec cr)"
    "status_ReconciliationPhase status = ReconciliationPhaseReconciled"
    by (rule handler_runs [OF assms])
  have pods: "pods_built W (guarded cr)"
    using assms(1,2) by (intro reconcilable_pods) simp_all
  have keyed: "keyed_state (state_of (w_env W) h4)"
    using assms(1) by (intro keyed_state_of) (simp add: undisturbed_def)
  have "admissible (guarded cr) (state_of (w_env W) h4)"
    using goal(2) by simp
  with h1 status goal_components_run [OF goal(1) keyed pods] goal_dup_runs [OF goal(1) keyed pods] show ?thesis
    by (intro exI [of _ h1] exI [of _ status]) (simp add: after)
qed


lemma ex_installed_state: "state_of (memory_server [KAstarte ex_astarte]) [] =
    (\<lambda>k. None)((OAstarte, ''astarte'', ''example'') \<mapsto> KAstarte ex_astarte)"
proof -
  have "obj_key (KAstarte ex_astarte) = (OAstarte, ''astarte'', ''example'')"
    by code_simp
  then show ?thesis
    unfolding memory_state by (simp add: store_of_def del: obj_key_eq)
qed

lemma ex_new:
  "admissible ex_astarte (state_of (memory_server [KAstarte ex_astarte]) [])"
  "ca_given ex_astarte (state_of (memory_server [KAstarte ex_astarte]) [])"
  "state_of (memory_server [KAstarte ex_astarte]) [] (OAstarte, ''astarte'', ''example'') = Some (KAstarte ex_astarte)"
  "\<not> spec_ManualMaintenanceMode (ast_Spec ex_astarte)" "\<not> om_Deleting (ast_Meta ex_astarte)"
  "settled_version ex_astarte (state_of (memory_server [KAstarte ex_astarte]) [])"
proof -
  have e: "(\<lambda>k. None) = state_of (memory_server []) []"
    unfolding memory_state by (simp add: store_of_def)
  show "admissible ex_astarte (state_of (memory_server [KAstarte ex_astarte]) [])"
    "ca_given ex_astarte (state_of (memory_server [KAstarte ex_astarte]) [])"
    unfolding ex_installed_state using ex_admissible unfolding e by simp_all
  show "state_of (memory_server [KAstarte ex_astarte]) [] (OAstarte, ''astarte'', ''example'') = Some (KAstarte ex_astarte)"
    by (simp add: ex_installed_state)
  show "\<not> spec_ManualMaintenanceMode (ast_Spec ex_astarte)" "\<not> om_Deleting (ast_Meta ex_astarte)"
    by code_simp+
  have "status_AstarteVersion (ast_Status ex_astarte) = ''''"
    by code_simp
  then show "settled_version ex_astarte (state_of (memory_server [KAstarte ex_astarte]) [])"
    unfolding settled_version_def ex_installed_state by simp
qed


end
