(* ===== verification/Admission.thy ===== *)
theory Admission
  imports Keyspace Kube_Server
begin

text \<open>
  The Astarte resources of a cluster as the validating webhook lets them change: what the validation of one
  resource accepts, and a step relation on all of them with the invariants the webhook keeps.
\<close>

section \<open>What the validation accepts\<close>

definition priorities_descend :: "AstartePodPrioritiesSpec \<Rightarrow> bool" where
  "priorities_descend p \<longleftrightarrow>
     (case (prio_AstarteHighPriority p, prio_AstarteMidPriority p, prio_AstarteLowPriority p) of
        (Some h, Some m, Some l) \<Rightarrow> l < m \<and> m < h
      | _ \<Rightarrow> False)"

definition checked_labels :: "Astarte \<Rightarrow> smap list" where
  "checked_labels r =
     cfssl_GetPodLabels (spec_CFSSL (ast_Spec r)) #
     gcr_GetPodLabels (vmq_Generic (spec_VerneMQ (ast_Spec r))) #
     map (\<lambda>c. gcr_GetPodLabels (component_resource r c))
       [FlowComponent, Housekeeping, RealmManagement, Pairing, DataUpdaterPlant, TriggerEngine, Dashboard]"

text \<open>
  The promise of the webhook on one resource, for the secrets that the reads found: descending priorities, no
  reserved label, no horizontal autoscaler for the Data Updater Plant, a certificate for the listener and an
  address for a CFSSL that is not deployed.
\<close>

definition acceptable :: "(string \<Rightarrow> bool) \<Rightarrow> (string \<Rightarrow> bool) \<Rightarrow> Astarte \<Rightarrow> bool" where
  "acceptable known urlOk r \<longleftrightarrow>
     (let spec = ast_Spec r; vmq = spec_VerneMQ spec; cfssl = spec_CFSSL spec in
      (PtrValue (vmq_SSLListener vmq) False \<longrightarrow>
         vmq_SSLListenerCertSecretName vmq \<noteq> '''' \<and> known (vmq_SSLListenerCertSecretName vmq)) \<and>
      (case feat_AstartePodPriorities (spec_Features spec) of
         None \<Rightarrow> True | Some p \<Rightarrow> prio_Enable p \<longrightarrow> priorities_descend p) \<and>
      (\<forall>ls \<in> set (checked_labels r). \<forall>(k, v) \<in> set ls. \<not> reserved_label k) \<and>
      (feat_Autoscaling (spec_Features spec) \<longrightarrow>
         (case gcr_Autoscale (component_resource r DataUpdaterPlant) of
            None \<Rightarrow> True | Some a \<Rightarrow> autoscaler_Horizontal a = '''')) \<and>
      (\<not> PtrValue (cfssl_Deploy cfssl) True \<longrightarrow> cfssl_URL cfssl \<noteq> '''' \<and> urlOk (cfssl_URL cfssl)))"

lemma ssl_listener_accepted:
  "fst (validateSSLListener E r h) = Inr [] \<longleftrightarrow>
     (PtrValue (vmq_SSLListener (spec_VerneMQ (ast_Spec r))) False \<longrightarrow>
        vmq_SSLListenerCertSecretName (spec_VerneMQ (ast_Spec r)) \<noteq> '''' \<and>
        isOK (e_get E h (OSecret, cr_Namespace r, vmq_SSLListenerCertSecretName (spec_VerneMQ (ast_Spec r)))))"
  by (auto simp: validateSSLListener_def Let_def ret_def on_result_def Get_def call_def isOK_iff split: sum.splits)

lemma ssl_listener_total:
  assumes "\<And>k e. e_get E h k = Inl e \<Longrightarrow> \<not> is_panic e"
  shows "\<exists>errs h1. validateSSLListener E r h = (Inr errs, h1)"
  using assms
  by (auto simp: validateSSLListener_def Let_def ret_def on_result_def Get_def call_def split: sum.splits)

lemma priorities_accepted:
  "validateAstartePriorityClasses r = Inr None \<longleftrightarrow>
     (case feat_AstartePodPriorities (spec_Features (ast_Spec r)) of
        None \<Rightarrow> True | Some p \<Rightarrow> prio_Enable p \<longrightarrow> priorities_descend p)"
  by (auto simp: validateAstartePriorityClasses_def validatePriorityClassesValues_def IsEnabled_def rbind_eq_Inr
      priorities_descend_def deref_def not_le split: option.splits if_splits)

lemma labels_accepted:
  "validatePodLabelsForClusteredResources r = [] \<longleftrightarrow>
     (\<forall>ls \<in> set (checked_labels r). \<forall>(k, v) \<in> set ls. \<not> reserved_label k)"
proof -
  have one: "validatePodLabelsForClusteredResource get x = [] \<longleftrightarrow> (\<forall>(k, v) \<in> set (get x). \<not> reserved_label k)" for get and x :: 'r
    by (auto simp: validatePodLabelsForClusteredResource_def filter_empty_conv)
  show ?thesis
    by (simp add: validatePodLabelsForClusteredResources_def Let_def one checked_labels_def component_resource_def
        Let_def conj_ac)
qed

lemma autoscaler_accepted:
  "validateAutoscalerForClusteredResources r = None \<longleftrightarrow>
     (feat_Autoscaling (spec_Features (ast_Spec r)) \<longrightarrow>
        (case gcr_Autoscale (component_resource r DataUpdaterPlant) of
           None \<Rightarrow> True | Some a \<Rightarrow> autoscaler_Horizontal a = ''''))"
  by (simp add: validateAutoscalerForClusteredResources_def validateAutoscalerForClusteredResourcesExcluding_def
      component_resource_def split: option.split)

lemma cfssl_accepted:
  "validateCFSSLDefinition urlOk r = None \<longleftrightarrow>
     (\<not> PtrValue (cfssl_Deploy (spec_CFSSL (ast_Spec r))) True \<longrightarrow>
        cfssl_URL (spec_CFSSL (ast_Spec r)) \<noteq> '''' \<and> urlOk (cfssl_URL (spec_CFSSL (ast_Spec r))))"
  by (simp add: validateCFSSLDefinition_def Let_def)

lemma opt_list_Nil [simp]: "opt_list p = [] \<longleftrightarrow> p = None"
  by (simp add: opt_list_def split: option.split)

lemma accepted_iff:
  "fst (validateAstarte E urlOk r h) = Inr [] \<longleftrightarrow>
     acceptable (\<lambda>n. isOK (e_get E h (OSecret, cr_Namespace r, n))) urlOk r"
proof -
  have "fst (validateAstarte E urlOk r h) = Inr [] \<longleftrightarrow>
      fst (validateSSLListener E r h) = Inr [] \<and> validateAstartePriorityClasses r = Inr None \<and>
      validatePodLabelsForClusteredResources r = [] \<and> validateAutoscalerForClusteredResources r = None \<and>
      validateCFSSLDefinition urlOk r = None"
    by (auto simp: validateAstarte_def bnd_def lift_def ret_def split: prod.splits sum.splits)
  then show ?thesis
    unfolding ssl_listener_accepted priorities_accepted labels_accepted autoscaler_accepted cfssl_accepted
      acceptable_def Let_def by blast
qed

text \<open>C11: what the webhook demands of every change of a resource.

  The checks common to creation and update report nothing exactly when the resource is acceptable: an
  enabled listener names a secret that exists, enabled priorities are given and strictly descending, no pod
  label of VerneMQ, CFSSL, or a component other than AppEngine API is reserved, autoscaling gives the Data
  Updater Plant no horizontal autoscaler, and a CFSSL that is not deployed has a well-formed address.\<close>

theorem webhook_accepts_exactly:
  "fst (validateAstarte E urlOk r h) = Inr [] \<longleftrightarrow>
     acceptable (\<lambda>n. isOK (e_get E h (OSecret, cr_Namespace r, n))) urlOk r"
  by (rule accepted_iff)

section \<open>The resources of a cluster\<close>

type_synonym astartes = "string \<times> string \<Rightarrow> Astarte option"

definition astarte_key :: "Astarte \<Rightarrow> string \<times> string" where
  "astarte_key r = (cr_Namespace r, cr_Name r)"

text \<open>The server lists the resources there are.\<close>

definition lists :: "env \<Rightarrow> hist \<Rightarrow> astartes \<Rightarrow> bool" where
  "lists E h c \<longleftrightarrow>
     (\<exists>xs. e_list E h OAstarte None [] = Inr xs \<and> (\<forall>r. KAstarte r \<in> set xs \<longleftrightarrow> c (astarte_key r) = Some r))"

text \<open>
  One request after the other, each against the server as the requests before it left it: a creation and an
  update that the webhook lets through, and a deletion, which it does not look at.
\<close>

inductive admitted :: "(string \<Rightarrow> bool) \<Rightarrow> astartes \<Rightarrow> astartes \<Rightarrow> bool" for urlOk where
  admit_create: "lists E h c \<Longrightarrow> c (astarte_key r) = None \<Longrightarrow> fst (ValidateCreate E urlOk r h) = Inr [] \<Longrightarrow>
    admitted urlOk c (c(astarte_key r \<mapsto> r))"
| admit_update: "c (astarte_key r) = Some old \<Longrightarrow> fst (ValidateUpdate E urlOk r old h) = Inr [] \<Longrightarrow>
    admitted urlOk c (c(astarte_key r \<mapsto> r))"
| admit_delete: "admitted urlOk c (c(k := None))"

inductive history :: "(string \<Rightarrow> bool) \<Rightarrow> astartes \<Rightarrow> bool" for urlOk where
  history_start: "history urlOk (\<lambda>k. None)"
| history_step: "history urlOk c \<Longrightarrow> admitted urlOk c c' \<Longrightarrow> history urlOk c'"

inductive_cases admittedE [consumes 1, case_names create update delete]: "admitted urlOk c c'"

abbreviation keyspace_of :: "Astarte \<Rightarrow> AstarteSystemKeyspaceSpec" where
  "keyspace_of r \<equiv> cass_AstarteSystemKeyspace (spec_Cassandra (ast_Spec r))"

abbreviation instance_id :: "Astarte \<Rightarrow> string" where
  "instance_id r \<equiv> spec_AstarteInstanceID (ast_Spec r)"

lemma create_accepted:
  assumes "fst (ValidateCreate E urlOk r h) = Inr []"
  shows "keyspace_ok (keyspace_of r)" "\<exists>known. acceptable known urlOk r"
    "lists E h c \<Longrightarrow> c (astarte_key r') = Some r' \<Longrightarrow> instance_id r' \<noteq> instance_id r"
proof -
  obtain i h1 where i: "validateCreateAstarteInstanceID E r h = (Inr i, h1)" "i = None"
    "validateCreateAstarteSystemKeyspace r = []" "fst (validateAstarte E urlOk r h1) = Inr []"
    using assms by (auto simp: ValidateCreate_def Let_def bnd_def ret_def split: prod.splits sum.splits)
  show "keyspace_ok (keyspace_of r)"
    using i(3) by (simp add: keyspace_accepted)
  show "\<exists>known. acceptable known urlOk r"
    using i(4) accepted_iff by blast
  show "instance_id r' \<noteq> instance_id r" if l: "lists E h c" and there: "c (astarte_key r') = Some r'"
  proof -
    obtain xs where xs: "e_list E h OAstarte None [] = Inr xs" "KAstarte r' \<in> set xs"
      using l there unfolding lists_def by blast
    then have "\<not> (\<exists>x \<in> set xs. case x of KAstarte other \<Rightarrow> instance_id r = instance_id other | _ \<Rightarrow> False)"
      using i(1,2) by (auto simp: validateCreateAstarteInstanceID_def ListObjs_def on_result_def call_def ret_def
          list_ex_iff split: if_splits)
    with xs(2) show ?thesis
      by force
  qed
qed

lemma update_accepted:
  assumes "fst (ValidateUpdate E urlOk r old h) = Inr []"
  shows "keyspace_of r = keyspace_of old" "instance_id r = instance_id old" "\<exists>known. acceptable known urlOk r"
proof -
  have "validateUpdateAstarteInstanceID r old = None" "validateUpdateAstarteSystemKeyspace r old = None"
    "fst (validateAstarte E urlOk r h) = Inr []"
    using assms by (auto simp: ValidateUpdate_def bnd_def ret_def split: prod.splits sum.splits)
  then show "keyspace_of r = keyspace_of old" "instance_id r = instance_id old" "\<exists>known. acceptable known urlOk r"
    using accepted_iff by (auto simp: validateUpdateAstarteInstanceID_def validateUpdateAstarteSystemKeyspace_def split: if_splits)
qed

text \<open>The invariant: resources under their keys, different instances, valid keyspaces.\<close>

definition coherent :: "(string \<Rightarrow> bool) \<Rightarrow> astartes \<Rightarrow> bool" where
  "coherent urlOk c \<longleftrightarrow>
     (\<forall>k r. c k = Some r \<longrightarrow> astarte_key r = k \<and> keyspace_ok (keyspace_of r) \<and> (\<exists>known. acceptable known urlOk r)) \<and>
     (\<forall>k k' r r'. c k = Some r \<longrightarrow> c k' = Some r' \<longrightarrow> instance_id r = instance_id r' \<longrightarrow> k = k')"

lemma coherent_key: "coherent urlOk c \<Longrightarrow> c k = Some r \<Longrightarrow> astarte_key r = k"
  unfolding coherent_def by blast

lemma coherentI:
  assumes "\<And>k r. c k = Some r \<Longrightarrow> astarte_key r = k \<and> keyspace_ok (keyspace_of r) \<and> (\<exists>known. acceptable known urlOk r)"
    and "\<And>k k' r r'. c k = Some r \<Longrightarrow> c k' = Some r' \<Longrightarrow> instance_id r = instance_id r' \<Longrightarrow> k = k'"
  shows "coherent urlOk c"
  unfolding coherent_def using assms by blast

lemma coherent_parts:
  assumes "coherent urlOk c" "c k = Some r"
  shows "astarte_key r = k" "keyspace_ok (keyspace_of r)" "\<exists>known. acceptable known urlOk r"
    "c k' = Some r' \<Longrightarrow> instance_id r = instance_id r' \<Longrightarrow> k = k'"
  using assms unfolding coherent_def by blast+

lemma coherent_upd:
  assumes "coherent urlOk c" "keyspace_ok (keyspace_of r)" "\<exists>known. acceptable known urlOk r"
    and "\<And>k' r'. c k' = Some r' \<Longrightarrow> k' \<noteq> astarte_key r \<Longrightarrow> instance_id r' \<noteq> instance_id r"
  shows "coherent urlOk (c(astarte_key r \<mapsto> r))"
proof (rule coherentI)
  fix k x
  assume "(c(astarte_key r \<mapsto> r)) k = Some x"
  then show "astarte_key x = k \<and> keyspace_ok (keyspace_of x) \<and> (\<exists>known. acceptable known urlOk x)"
    using assms(2,3) coherent_parts(1-3) [OF assms(1), of k x] by (cases "k = astarte_key r") simp_all
next
  fix k k' x x'
  assume "(c(astarte_key r \<mapsto> r)) k = Some x" "(c(astarte_key r \<mapsto> r)) k' = Some x'" "instance_id x = instance_id x'"
  then show "k = k'"
    using assms(4) [of k x] assms(4) [of k' x'] coherent_parts(4) [OF assms(1), of k x k' x']
    by (cases "k = astarte_key r"; cases "k' = astarte_key r") simp_all
qed

lemma coherent_step:
  assumes "admitted urlOk c c'" "coherent urlOk c"
  shows "coherent urlOk c'"
  using assms(1)
proof (cases rule: admittedE)
  case (create E h r)
  have "instance_id r' \<noteq> instance_id r" if "c k = Some r'" for k r'
    using create_accepted(3) [OF create(4,2)] that coherent_key [OF assms(2) that] by blast
  with create_accepted(1,2) [OF create(4)] show ?thesis
    unfolding create(1) by (intro coherent_upd [OF assms(2)]) simp_all
next
  case (update r old E h)
  note old = coherent_parts [OF assms(2) update(2)]
  have "instance_id r' \<noteq> instance_id r" if "c k = Some r'" "k \<noteq> astarte_key r" for k r'
    using old(4) [OF that(1)] that(2) update_accepted(2) [OF update(3)] by auto
  with old(2) update_accepted [OF update(3)] show ?thesis
    unfolding update(1) by (intro coherent_upd [OF assms(2)]) simp_all
next
  case (delete k)
  show ?thesis
    unfolding delete(1)
  proof (rule coherentI)
    fix j x
    assume "(c(k := None)) j = Some x"
    then show "astarte_key x = j \<and> keyspace_ok (keyspace_of x) \<and> (\<exists>known. acceptable known urlOk x)"
      using coherent_parts(1-3) [OF assms(2), of j x] by (simp split: if_splits)
  next
    fix j j' x x'
    assume "(c(k := None)) j = Some x" "(c(k := None)) j' = Some x'" "instance_id x = instance_id x'"
    then show "j = j'"
      using coherent_parts(4) [OF assms(2), of j x j' x'] by (simp split: if_splits)
  qed
qed

lemma coherent_history: "history urlOk c \<Longrightarrow> coherent urlOk c"
  by (induction rule: history.induct) (simp_all add: coherent_def [of _ "\<lambda>k. None"] coherent_step)

text \<open>C9: no two instances of a cluster share their identifier.

  In every state that creations, updates and deletions reach from an empty cluster, each against the
  server as the requests before it left it and each accepted by the webhook, two resources with the same
  \<open>astarteInstanceID\<close> are one: the check at creation and the immutability suffice.\<close>

theorem instance_ids_unique:
  assumes "history urlOk c" "c k = Some r" "c k' = Some r'" "instance_id r = instance_id r'"
  shows "k = k'"
  using coherent_parts(4) [OF coherent_history [OF assms(1)] assms(2-4)] .

text \<open>C10: what was once accepted stays valid.

  In every such state each resource is acceptable for some set of secrets, and its keyspace is one that
  the creation accepts, although an update does not check it: an update leaves the keyspace as it is.\<close>

theorem accepted_keyspaces_stay_valid:
  assumes "history urlOk c" "c k = Some r"
  shows "validateCreateAstarteSystemKeyspace r = [] \<and> (\<exists>known. acceptable known urlOk r) \<and>
     (\<forall>c'. admitted urlOk c c' \<longrightarrow> c' k \<in> {None, Some r} \<or>
        (\<exists>r'. c' k = Some r' \<and> keyspace_of r' = keyspace_of r \<and> instance_id r' = instance_id r))"
proof -
  note parts = coherent_parts [OF coherent_history [OF assms(1)] assms(2)]
  have "c' k \<in> {None, Some r} \<or>
      (\<exists>r'. c' k = Some r' \<and> keyspace_of r' = keyspace_of r \<and> instance_id r' = instance_id r)"
    if "admitted urlOk c c'" for c'
    using that
  proof (cases rule: admittedE)
    case (update x old E h)
    with update_accepted [OF update(3)] assms(2) show ?thesis
      by (cases "k = astarte_key x") auto
  qed (use assms(2) in \<open>auto split: if_splits\<close>)
  with parts(2,3) show ?thesis
    by (simp add: keyspace_accepted)
qed

section \<open>A cluster with one instance\<close>

definition ex_broker_cert :: secret where
  "ex_broker_cert =
     \<lparr>sec_Meta = NewMeta ''broker-cert'' ''astarte'', sec_Type = ''kubernetes.io/tls'', sec_Data = [], sec_StringData = []\<rparr>"

lemma ex_created: "fst (ValidateCreate (memory_server [KSecret ex_broker_cert]) (\<lambda>u. True) ex_astarte []) = Inr []"
  by code_simp

definition ex_cluster :: astartes where
  "ex_cluster = [(''astarte'', ''example'') \<mapsto> ex_astarte]"

lemma ex_history: "history (\<lambda>u. True) ex_cluster"
proof -
  have key: "astarte_key ex_astarte = (''astarte'', ''example'')"
    by code_simp
  have "lists (memory_server [KSecret ex_broker_cert]) [] (\<lambda>k. None)"
  proof -
    have "e_list (memory_server [KSecret ex_broker_cert]) [] OAstarte None [] = Inr []"
      by code_simp
    then show ?thesis
      by (simp add: lists_def)
  qed
  then have "admitted (\<lambda>u. True) (\<lambda>k. None) ((\<lambda>k. None)(astarte_key ex_astarte \<mapsto> ex_astarte))"
    using ex_created by (intro admit_create) simp_all
  from history_step [OF history_start this] show ?thesis
    by (simp add: ex_cluster_def key)
qed

theorem instance_ids_unique_witness:
  "{k. \<exists>r. ex_cluster k = Some r \<and> instance_id r = ''instance''} = {(''astarte'', ''example'')}"
proof -
  have e: "ex_cluster (''astarte'', ''example'') = Some ex_astarte" "instance_id ex_astarte = ''instance''"
    by (simp_all add: ex_cluster_def ex_defs)
  then have "k = (''astarte'', ''example'')" if "ex_cluster k = Some r" "instance_id r = ''instance''" for k r
    using instance_ids_unique [OF ex_history that(1) e(1)] that(2) by simp
  with e show ?thesis
    by blast
qed

theorem accepted_keyspaces_stay_valid_witness:
  "validateCreateAstarteSystemKeyspace ex_astarte = [] \<and> (\<exists>known. acceptable known (\<lambda>u. True) ex_astarte)"
  using accepted_keyspaces_stay_valid [OF ex_history, of "(''astarte'', ''example'')" ex_astarte]
  by (simp add: ex_cluster_def)

end
