(* ===== verification/Status_Recovery.thy ===== *)
theory Status_Recovery
  imports First_Install
begin

text \<open>
  A resource that has lost its status: the version that the handler reads back from the image of
  Housekeeping is the one its pods were made for, unless the registry's name has a colon.
\<close>

lemma length_Split: "length (Split c s) = Suc (count_list s c)"
  by (induction s) (auto split: list.splits)

lemma Split_one: "c \<notin> set a \<Longrightarrow> c \<notin> set b \<Longrightarrow> Split c (a @ c # b) = [a, b]"
  by (simp add: Split_append Split_no_sep)

abbreviation housekeeping_resource :: "Astarte \<Rightarrow> AstarteGenericClusteredResource" where
  "housekeeping_resource cr \<equiv> component_resource cr Housekeeping"

definition housekeeping_version :: "Astarte \<Rightarrow> string" where
  "housekeeping_version cr = GetVersionForAstarteComponent (spec_Version (ast_Spec cr)) (gcr_Version (housekeeping_resource cr))"

lemma housekeeping_pod_image:
  assumes "component_pod L name i r cr Housekeeping = Inr ps"
  shows "\<exists>c cs. ps_Containers ps = c # cs \<and>
     c_Image c = getAstarteImageForClusteredResource ''astarte_housekeeping'' (housekeeping_resource cr) cr"
proof -
  have "DockerImageName Housekeeping = ''astarte_housekeeping''"
    by code_simp
  with assms show ?thesis
    using component_resource_api [of Housekeeping cr]
    by (auto simp: component_pod_def getAstarteGenericAPIPodSpec_def rbind_eq_Inr)
qed

lemma housekeeping_image_of:
  assumes "gcr_Image (housekeeping_resource cr) = ''''"
  shows "getAstarteImageForClusteredResource ''astarte_housekeeping'' (housekeeping_resource cr) cr =
     (spec_DistributionChannel (ast_Spec cr) @ ''/astarte_housekeeping'') @ CHR '':'' # housekeeping_version cr"
  using assms by (simp add: getAstarteImageForClusteredResource_def getAstarteImageFromChannel_def housekeeping_version_def)

lemma runs_pod_image:
  assumes "runs_pod cr s n (component_pod L n 0 0 old Housekeeping) r"
  shows "\<exists>d. s (ODeployment, cr_Namespace cr, n) = Some (KDeployment d) \<and>
     housekeeping_image (KDeployment d) =
       Inr (getAstarteImageForClusteredResource ''astarte_housekeeping'' (housekeeping_resource old) old)"
  using assms housekeeping_pod_image [of L n 0 0 old]
  by (fastforce simp: runs_pod_def housekeeping_image_def)

context sole_client begin

lemma restore_run:
  assumes "state_of E h (OAstarte, ns, name) = Some (KAstarte cr)"
  shows "restore_version E ns name v h =
      (Inr (), h @ [EvGet (OAstarte, ns, name),
         EvStatusUpdate (KAstarte (cr\<lparr>ast_Status := (ast_Status cr)\<lparr>status_AstarteVersion := v\<rparr>\<rparr>))]) \<and>
    state_of E (h @ [EvGet (OAstarte, ns, name),
         EvStatusUpdate (KAstarte (cr\<lparr>ast_Status := (ast_Status cr)\<lparr>status_AstarteVersion := v\<rparr>\<rparr>))]) =
      (state_of E h)((OAstarte, ns, name) \<mapsto> KAstarte (cr\<lparr>ast_Status := (ast_Status cr)\<lparr>status_AstarteVersion := v\<rparr>\<rparr>))"
proof -
  let ?h = "h @ [EvGet (OAstarte, ns, name)]"
  let ?x = "KAstarte (cr\<lparr>ast_Status := (ast_Status cr)\<lparr>status_AstarteVersion := v\<rparr>\<rparr>)"
  have get: "GetAstarte E ns name h = (Inr cr, ?h)"
    using assms by (simp add: GetAstarte_def bnd_def Get_def call_def get_cases lift_def as_astarte_def)
  have s: "state_of E ?h = state_of E h"
    by (simp add: step)
  have key: "obj_key ?x = (OAstarte, ns, name)"
    using state_key [OF assms] by (simp only: obj_key_def) simp
  have "e_status_update E ?h ?x = Inr ()"
    by (rule status_present) (simp only: key s assms option.distinct simp_thms)
  moreover have "state_of E (h @ [EvGet (OAstarte, ns, name), EvStatusUpdate ?x]) = (state_of E h)((OAstarte, ns, name) \<mapsto> ?x)"
    unfolding step2 by (simp only: step_state.simps key assms option.distinct if_False)
  ultimately show ?thesis
    using get by (simp add: restore_version_def bnd_def on_result_def StatusUpdate_def call_def ret_def)
qed

end

context sole_client begin

lemma found_image_run:
  assumes "state_of E h (ODeployment, cr_Namespace cr, cr_Name cr @ ''-housekeeping'') = Some (KDeployment d)"
    and "housekeeping_image (KDeployment d) = Inr img" "status_AstarteVersion (ast_Status cr) = ''''"
    and "state_of E h (OAstarte, ns, name) = Some (KAstarte cr)"
  shows "length (Split CHR '':'' img) = 2 \<Longrightarrow>
     \<exists>h1. EnsureStatusCoherency E cr ns name h = (Inr (NoRequeue, None, rebuilt_status cr), h1) \<and>
       state_of E h1 = (state_of E h)((OAstarte, ns, name) \<mapsto>
         KAstarte (cr\<lparr>ast_Status := (ast_Status cr)\<lparr>status_AstarteVersion := Split CHR '':'' img ! 1\<rparr>\<rparr>))"
    and "length (Split CHR '':'' img) \<noteq> 2 \<Longrightarrow>
     \<exists>h1. EnsureStatusCoherency E cr ns name h =
         (Inr (\<lparr>cr_Requeue = False, cr_RequeueAfter = 60\<rparr>, Some (unreadable_image img), rebuilt_status cr), h1) \<and>
       state_of E h1 = state_of E h"
proof -
  let ?h = "h @ [EvGet (ODeployment, cr_Namespace cr, cr_Name cr @ ''-housekeeping'')]"
  have get: "Get E ODeployment (cr_Namespace cr) (cr_Name cr @ ''-housekeeping'') h = (Inr (KDeployment d), ?h)"
    using assms(1) by (simp add: Get_def call_def get_cases)
  have s: "state_of E ?h = state_of E h"
    by (simp add: step)
  {
    assume two: "length (Split CHR '':'' img) = 2"
    let ?x = "KAstarte (cr\<lparr>ast_Status := (ast_Status cr)\<lparr>status_AstarteVersion := Split CHR '':'' img ! 1\<rparr>\<rparr>)"
    let ?h1 = "?h @ [EvGet (OAstarte, ns, name), EvStatusUpdate ?x]"
    have here: "state_of E ?h (OAstarte, ns, name) = Some (KAstarte cr)"
      using assms(4) s by simp
    note run = restore_run [OF here, of "Split CHR '':'' img ! 1"]
    have retry: "RetryOnConflict E (restore_version E ns name (Split CHR '':'' img ! 1)) ?h = (Inr (), ?h1)"
      by (rule retry_success) (rule conjunct1 [OF run])
    let ?h2 = "?h1 @ [EvRecord ''Normal'' (event_String AstarteResourceEventMigration)]"
    have s2: "state_of E ?h2 = (state_of E h)((OAstarte, ns, name) \<mapsto> ?x)"
      by (simp only: step [of ?h1] step_state.simps conjunct2 [OF run] s)
    have "GetAstarte E ns name ?h2 = (Inr (cr\<lparr>ast_Status := (ast_Status cr)\<lparr>status_AstarteVersion := Split CHR '':'' img ! 1\<rparr>\<rparr>),
        ?h2 @ [EvGet (OAstarte, ns, name)])"
      by (simp only: GetAstarte_def bnd_def Get_def call_def get_cases s2 fun_upd_same)
        (simp add: lift_def as_astarte_def)
    then have "EnsureStatusCoherency E cr ns name h = (Inr (NoRequeue, None, rebuilt_status cr),
        (?h2 @ [EvGet (OAstarte, ns, name)]) @ [EvRecord ''Normal'' (event_String AstarteResourceEventStatus)])"
      using get retry two assms(2,3)
      by (simp add: EnsureStatusCoherency_def Let_def on_result_def bnd_def lift_def Recorder_Event_def call_def ret_def)
    moreover have "state_of E ((?h2 @ [EvGet (OAstarte, ns, name)]) @ [EvRecord ''Normal'' (event_String AstarteResourceEventStatus)])
        = (state_of E h)((OAstarte, ns, name) \<mapsto> ?x)"
      by (simp only: step [of "?h2 @ [EvGet (OAstarte, ns, name)]"] step [of ?h2] step_state.simps s2)
    ultimately show "\<exists>h1. EnsureStatusCoherency E cr ns name h = (Inr (NoRequeue, None, rebuilt_status cr), h1) \<and>
       state_of E h1 = (state_of E h)((OAstarte, ns, name) \<mapsto> ?x)"
      by blast
  next
    assume "length (Split CHR '':'' img) \<noteq> 2"
    then show "\<exists>h1. EnsureStatusCoherency E cr ns name h =
         (Inr (\<lparr>cr_Requeue = False, cr_RequeueAfter = 60\<rparr>, Some (unreadable_image img), rebuilt_status cr), h1) \<and>
       state_of E h1 = state_of E h"
      using get assms(2,3) s
      by (simp add: EnsureStatusCoherency_def Let_def on_result_def bnd_def lift_def Recorder_Event_def call_def ret_def step2)
  }
qed

end

text \<open>C17: the version of a lost status is read back from Housekeeping.

  Let a run have brought Housekeeping about for \<open>old\<close>, without an image of its own, and let neither the
  registry nor the version have a colon. If the resource, perhaps asking for another version by now, has then
  lost the version of its status, the handler's first step returns no error and leaves in the status of the
  stored resource the version that Housekeeping's pods were made for, whatever the resource asks for.\<close>

theorem lost_version_recovered:
  assumes "sole_client E" "state_of E h (OAstarte, ns, name) = Some (KAstarte cr)" "status_AstarteVersion (ast_Status cr) = ''''"
    and "runs_pod cr (state_of E h) (cr_Name cr @ ''-housekeeping'')
           (component_pod L (cr_Name cr @ ''-housekeeping'') 0 0 old Housekeeping) r"
    and "gcr_Image (component_resource old Housekeeping) = ''''"
    and "CHR '':'' \<notin> set (spec_DistributionChannel (ast_Spec old))" "CHR '':'' \<notin> set (housekeeping_version old)"
  shows "\<exists>h1. EnsureStatusCoherency E cr ns name h = (Inr (NoRequeue, None, rebuilt_status cr), h1) \<and>
     state_of E h1 = (state_of E h)((OAstarte, ns, name) \<mapsto>
       KAstarte (cr\<lparr>ast_Status := (ast_Status cr)\<lparr>status_AstarteVersion := housekeeping_version old\<rparr>\<rparr>))"
proof -
  obtain d where d: "state_of E h (ODeployment, cr_Namespace cr, cr_Name cr @ ''-housekeeping'') = Some (KDeployment d)"
    "housekeeping_image (KDeployment d) =
      Inr ((spec_DistributionChannel (ast_Spec old) @ ''/astarte_housekeeping'') @ CHR '':'' # housekeeping_version old)"
    using runs_pod_image [OF assms(4)] unfolding housekeeping_image_of [OF assms(5)] by blast
  have "Split CHR '':'' ((spec_DistributionChannel (ast_Spec old) @ ''/astarte_housekeeping'') @ CHR '':'' # housekeeping_version old) =
      [spec_DistributionChannel (ast_Spec old) @ ''/astarte_housekeeping'', housekeeping_version old]"
    using assms(6,7) by (intro Split_one) simp_all
  with sole_client.found_image_run(1) [OF assms(1) d assms(3,2)] show ?thesis
    by simp
qed

text \<open>C39: a registry with a port blocks the recovery.

  If the registry's name has a colon, as that of one with a port has, the image has more than two parts:
  the handler's first step then refuses to proceed, asks to be called again in a minute, and changes
  nothing, although the image has a version.\<close>

theorem registry_port_blocks_recovery:
  assumes "sole_client E" "state_of E h (OAstarte, ns, name) = Some (KAstarte cr)" "status_AstarteVersion (ast_Status cr) = ''''"
    and "runs_pod cr (state_of E h) (cr_Name cr @ ''-housekeeping'')
           (component_pod L (cr_Name cr @ ''-housekeeping'') 0 0 old Housekeeping) r"
    and "gcr_Image (component_resource old Housekeeping) = ''''"
    and "CHR '':'' \<in> set (spec_DistributionChannel (ast_Spec old))"
  shows "\<exists>e res instnc h1. EnsureStatusCoherency E cr ns name h = (Inr (res, Some e, instnc), h1) \<and>
     cr_RequeueAfter res = 60 \<and> state_of E h1 = state_of E h"
proof -
  let ?img = "(spec_DistributionChannel (ast_Spec old) @ ''/astarte_housekeeping'') @ CHR '':'' # housekeeping_version old"
  obtain d where d: "state_of E h (ODeployment, cr_Namespace cr, cr_Name cr @ ''-housekeeping'') = Some (KDeployment d)"
    "housekeeping_image (KDeployment d) = Inr ?img"
    using runs_pod_image [OF assms(4)] unfolding housekeeping_image_of [OF assms(5)] by blast
  have "0 < count_list (spec_DistributionChannel (ast_Spec old)) CHR '':''"
    using assms(6) count_list_0_iff [of "spec_DistributionChannel (ast_Spec old)" "CHR '':''"] by (metis gr0I)
  then have "length (Split CHR '':'' ?img) \<noteq> 2"
    unfolding length_Split by simp
  from sole_client.found_image_run(2) [OF assms(1) d assms(3,2) this] show ?thesis
    by fastforce
qed

section \<open>An installed cluster\<close>

definition ex_housekeeping :: "Astarte \<Rightarrow> deployment" where
  "ex_housekeeping cr =
     \<lparr>d_Meta = NewMeta ''example-housekeeping'' ''astarte'',
      d_Spec = component_deployment cr ''example-housekeeping'' [] (component_resource cr Housekeeping) Housekeeping
        (projr (component_pod ex_libs ''example-housekeeping'' 0 0 cr Housekeeping)),
      d_ReadyReplicas = 1, d_StatusReplicas = 1\<rparr>"

definition ex_private_registry :: Astarte where
  "ex_private_registry = ex_astarte\<lparr>ast_Spec := (ast_Spec ex_astarte)\<lparr>spec_DistributionChannel := ''localhost:5000''\<rparr>\<rparr>"

definition ex_installed :: "Astarte \<Rightarrow> env" where
  "ex_installed cr = memory_server [KAstarte ex_astarte, KDeployment (ex_housekeeping cr)]"

lemma ex_recovery_state:
  "state_of (ex_installed cr) [] (OAstarte, ''astarte'', ''example'') = Some (KAstarte ex_astarte)"
  "state_of (ex_installed cr) [] (ODeployment, ''astarte'', ''example-housekeeping'') = Some (KDeployment (ex_housekeeping cr))"
proof -
  have "obj_key (KAstarte ex_astarte) = (OAstarte, ''astarte'', ''example'')"
    "obj_key (KDeployment (ex_housekeeping cr)) = (ODeployment, ''astarte'', ''example-housekeeping'')"
    by code_simp (simp add: ex_housekeeping_def obj_key_def NewMeta_def)
  then show "state_of (ex_installed cr) [] (OAstarte, ''astarte'', ''example'') = Some (KAstarte ex_astarte)"
    "state_of (ex_installed cr) [] (ODeployment, ''astarte'', ''example-housekeeping'') = Some (KDeployment (ex_housekeeping cr))"
    unfolding ex_installed_def memory_state by (simp_all add: store_of_def del: obj_key_eq)
qed

lemma ex_installed_runs:
  assumes "isOK (component_pod ex_libs ''example-housekeeping'' 0 0 cr Housekeeping)"
  shows "runs_pod ex_astarte (state_of (ex_installed cr) []) (cr_Name ex_astarte @ ''-housekeeping'')
     (component_pod ex_libs (cr_Name ex_astarte @ ''-housekeeping'') 0 0 cr Housekeeping) None"
proof -
  have n: "cr_Name ex_astarte @ ''-housekeeping'' = ''example-housekeeping''" "cr_Namespace ex_astarte = ''astarte''"
    by (simp_all add: ex_defs)
  show ?thesis
    unfolding n runs_pod_def using assms ex_recovery_state(2)
    by (auto simp: ex_housekeeping_def component_deployment_def isOK_iff)
qed

lemma ex_pods:
  "isOK (component_pod ex_libs n i r ex_astarte c)" "isOK (component_pod ex_libs n i r ex_private_registry c)"
proof -
  have "complete_resource ex_private_registry"
    using ex_complete by (simp add: complete_resource_def rabbitmq_connected_def cassandra_connected_def
        validateCreateAstarteSystemKeyspace_def ex_private_registry_def)
  moreover have "spec_Version (ast_Spec ex_private_registry) = spec_Version (ast_Spec ex_astarte)"
    "spec_Version (ast_Spec ex_astarte) = ''1.3.0''"
    by (simp_all add: ex_private_registry_def ex_defs)
  ultimately show "isOK (component_pod ex_libs n i r ex_astarte c)" "isOK (component_pod ex_libs n i r ex_private_registry c)"
    using supported_pods [of ex_libs fst ex_astarte] supported_pods [of ex_libs fst ex_private_registry]
      strict.semver_laws_axioms ex_supported ex_complete by (simp_all add: SnapshotVersion_def)
qed

theorem lost_version_recovered_witness:
  "\<exists>h1. EnsureStatusCoherency (ex_installed ex_astarte) ex_astarte ''astarte'' ''example'' [] =
     (Inr (NoRequeue, None, rebuilt_status ex_astarte), h1) \<and>
     state_of (ex_installed ex_astarte) h1 (OAstarte, ''astarte'', ''example'') =
     Some (KAstarte (ex_astarte\<lparr>ast_Status := (ast_Status ex_astarte)\<lparr>status_AstarteVersion := ''1.3.0''\<rparr>\<rparr>))"
proof -
  have c: "status_AstarteVersion (ast_Status ex_astarte) = ''''" "gcr_Image (component_resource ex_astarte Housekeeping) = ''''"
    "CHR '':'' \<notin> set (spec_DistributionChannel (ast_Spec ex_astarte))" "CHR '':'' \<notin> set (housekeeping_version ex_astarte)"
    "housekeeping_version ex_astarte = ''1.3.0''"
    by code_simp+
  have "sole_client (ex_installed ex_astarte)"
    unfolding ex_installed_def by (rule memory.sole_client_axioms)
  from lost_version_recovered [OF this ex_recovery_state(1) c(1) ex_installed_runs [OF ex_pods(1)] c(2-4)] show ?thesis
    unfolding c(5) by (metis fun_upd_same)
qed

theorem registry_port_blocks_recovery_witness:
  "\<exists>e res instnc h1. EnsureStatusCoherency (ex_installed ex_private_registry) ex_astarte ''astarte'' ''example'' [] =
     (Inr (res, Some e, instnc), h1) \<and> cr_RequeueAfter res = 60"
proof -
  have c: "status_AstarteVersion (ast_Status ex_astarte) = ''''" "gcr_Image (component_resource ex_private_registry Housekeeping) = ''''"
    "CHR '':'' \<in> set (spec_DistributionChannel (ast_Spec ex_private_registry))"
    by code_simp+
  have "sole_client (ex_installed ex_private_registry)"
    unfolding ex_installed_def by (rule memory.sole_client_axioms)
  from registry_port_blocks_recovery [OF this ex_recovery_state(1) c(1) ex_installed_runs [OF ex_pods(2)] c(2-3)] show ?thesis
    by fastforce
qed

end
