(* ===== verification/Ingress_Properties.thy ===== *)
theory Ingress_Properties
  imports Convergence_Properties
begin

text \<open>
  Exposing what was installed: the ingress of an AstarteDefaultIngress against the cluster that a run of the
  Astarte controller leaves, and its TLS entries against what the webhook checked.
\<close>

section \<open>Services and the pods behind them\<close>

text \<open>
  Behind a port of a service there are pods: a deployment of the namespace whose pods carry the labels the
  service selects, with a container that declares the port's target.
\<close>

definition pods_behind :: "kstate \<Rightarrow> string \<Rightarrow> string \<Rightarrow> string \<Rightarrow> bool" where
  "pods_behind s ns serviceName portName \<longleftrightarrow>
     (\<exists>svc p n d c q. s (OService, ns, serviceName) = Some (KService svc) \<and> p \<in> set (svc_Ports svc) \<and> sp_Name p = portName \<and>
        s (ODeployment, ns, n) = Some (KDeployment d) \<and>
        (\<forall>(l, v) \<in> set (svc_Selector svc). map_of (pt_Labels (dp_Template (d_Spec d))) l = Some v) \<and>
        c \<in> set (ps_Containers (pt_Spec (dp_Template (d_Spec d)))) \<and> q \<in> set (c_Ports c) \<and>
        sp_TargetPort p = NamedPort (cp_Name q))"

lemma service_goal_there:
  assumes "service_goal cr n m ls port s" "keyed_state s"
  shows "\<exists>svc. s (OService, cr_Namespace cr, n) = Some (KService svc) \<and> svc_Ports svc = [http_service_port port] \<and> svc_Selector svc = m"
proof -
  obtain y where y: "s (OService, cr_Namespace cr, n) = Some y"
    "on_service (\<lambda>s. s\<lparr>svc_Meta := (svc_Meta s)\<lparr>om_Labels := ls\<rparr>,
       svc_Type := ''ClusterIP'', svc_ClusterIP := noneClusterIP, svc_Ports := [http_service_port port],
       svc_Selector := m\<rparr>) (owned_by (KAstarte cr) y) = y"
    using assms(1) by (auto simp: service_goal_def kept_def settled_def)
  from y(1) assms(2) have "obj_key y = (OService, cr_Namespace cr, n)"
    unfolding keyed_state_def by blast
  then obtain svc where svc: "y = KService svc"
    by auto
  have "svc_Ports svc = [http_service_port port]" "svc_Selector svc = m"
    using y(2) unfolding svc by (auto simp: on_service_def owned_by_def dest: arg_cong [where f = svc_Ports] arg_cong [where f = svc_Selector])
  with y(1) show ?thesis
    unfolding svc by blast
qed

lemma deployment_goal_there:
  assumes "deployment_goal cr n labels spec v s" "keyed_state s"
  shows "\<exists>d. s (ODeployment, cr_Namespace cr, n) = Some (KDeployment d) \<and> dp_Template (d_Spec d) = dp_Template spec"
proof -
  obtain y where y: "s (ODeployment, cr_Namespace cr, n) = Some y"
    "on_deployment (\<lambda>d. d\<lparr>d_Spec := (d_Spec d)\<lparr>dp_Replicas := v s\<rparr>\<rparr>)
      (on_deployment (\<lambda>d. d\<lparr>d_Meta := (d_Meta d)\<lparr>om_Labels := labels\<rparr>, d_Spec := spec\<rparr>) (owned_by (KAstarte cr) y)) = y"
    using assms(1) by (auto simp: deployment_goal_def settled_def)
  from y(1) assms(2) have "obj_key y = (ODeployment, cr_Namespace cr, n)"
    unfolding keyed_state_def by blast
  then obtain d where d: "y = KDeployment d"
    by auto
  have "d_Spec d = spec\<lparr>dp_Replicas := v s\<rparr>"
    using y(2) unfolding d by (auto simp: on_deployment_def owned_by_def dest: arg_cong [where f = d_Spec])
  with y(1) show ?thesis
    unfolding d by simp
qed

lemma app_label:
  assumes "validatePodLabelsForClusteredResource gcr_GetPodLabels b = []"
  shows "map_of (computePodLabels gcr_GetPodLabels b (component_labels n c)) ''app'' = Some n"
  by (rule clustered_labels.label_survives [OF assms]) (simp_all add: component_labels_def reserved_label_def)

lemma component_pods_behind:
  assumes "service_goal cr n [(''app'', n)] ls port s"
    and "deployment_goal cr n labels (component_deployment cr n (component_labels n c) b c (projr ps)) v s"
    and "keyed_state s" "ps = Inr spec" "\<exists>k \<in> set (ps_Containers spec). \<exists>q \<in> set (c_Ports k). cp_Name q = ''http''"
    and "validatePodLabelsForClusteredResource gcr_GetPodLabels b = []"
  shows "pods_behind s (cr_Namespace cr) n ''http''"
proof -
  obtain svc where svc: "s (OService, cr_Namespace cr, n) = Some (KService svc)" "svc_Ports svc = [http_service_port port]"
    "svc_Selector svc = [(''app'', n)]"
    using service_goal_there [OF assms(1,3)] by blast
  obtain d where d: "s (ODeployment, cr_Namespace cr, n) = Some (KDeployment d)"
    "dp_Template (d_Spec d) = dp_Template (component_deployment cr n (component_labels n c) b c (projr ps))"
    using deployment_goal_there [OF assms(2,3)] by blast
  obtain k q where "k \<in> set (ps_Containers spec)" "q \<in> set (c_Ports k)" "cp_Name q = ''http''"
    using assms(5) by blast
  with svc d assms(4) app_label [OF assms(6), of n c] show ?thesis
    unfolding pods_behind_def
    by (intro exI [of _ svc] exI [of _ "http_service_port port"] exI [of _ n] exI [of _ d] exI [of _ k] exI [of _ q])
      (simp add: component_deployment_def http_service_port_def)
qed

lemma api_pod_http:
  "getAstarteGenericAPIPodSpec L n cr a c = Inr ps \<Longrightarrow> \<exists>k \<in> set (ps_Containers ps). \<exists>q \<in> set (c_Ports k). cp_Name q = ''http''"
  by (auto simp: getAstarteGenericAPIPodSpec_def rbind_eq_Inr)

lemma dashboard_pod_http:
  "getAstarteDashboardPodSpec L cr d = Inr ps \<Longrightarrow> \<exists>k \<in> set (ps_Containers ps). \<exists>q \<in> set (c_Ports k). cp_Name q = ''http''"
  by (auto simp: getAstarteDashboardPodSpec_def rbind_eq_Inr)

lemma api_goal_behind:
  assumes "api_goal W cr a c s" "keyed_state s" "isOK (getAstarteGenericAPIPodSpec (w_libs W) (component_name cr c) cr a c)"
    and "validatePodLabelsForClusteredResource gcr_GetPodLabels (gac_Generic a) = []"
    and "PtrValue (gcr_Deploy (gac_Generic a)) (c \<noteq> FlowComponent)"
  shows "pods_behind s (cr_Namespace cr) (component_name cr c) ''http''"
proof -
  obtain ps where ps: "getAstarteGenericAPIPodSpec (w_libs W) (component_name cr c) cr a c = Inr ps"
    using assms(3) by (auto simp: isOK_iff)
  show ?thesis
    using assms(1,5) component_pods_behind [OF _ _ assms(2) ps api_pod_http [OF ps] assms(4)]
    by (auto simp: api_goal_def Let_def)
qed

lemma dashboard_goal_behind:
  assumes "dashboard_goal W cr d s" "keyed_state s" "isOK (getAstarteDashboardPodSpec (w_libs W) cr d)"
    and "validatePodLabelsForClusteredResource gcr_GetPodLabels (dash_Generic d) = []"
    and "PtrValue (gcr_Deploy (dash_Generic d)) True"
  shows "pods_behind s (cr_Namespace cr) (component_name cr Dashboard) ''http''"
proof -
  obtain ps where ps: "getAstarteDashboardPodSpec (w_libs W) cr d = Inr ps"
    using assms(3) by (auto simp: isOK_iff)
  show ?thesis
    using assms(1,5) component_pods_behind [OF _ _ assms(2) ps dashboard_pod_http [OF ps] assms(4)]
    by (auto simp: dashboard_goal_def Let_def)
qed

text \<open>The components an ingress leads to.\<close>

definition api_components :: "AstarteComponent set" where
  "api_components = {AppEngineAPI, FlowComponent, Pairing, RealmManagement, Housekeeping, Dashboard}"

lemma deployed_component_behind:
  assumes "reconcile_goal W cr s" "keyed_state s" "pods_built W cr" "labels_unreserved cr"
    and "c \<in> api_components" "IsAstarteComponentDeployed cr c"
  shows "pods_behind s (cr_Namespace cr) (component_name cr c) ''http''"
proof -
  note goals = assms(1) [unfolded reconcile_goal_def microservices_goal_def Let_def]
  note pods = pods_built_parts [OF assms(3)]
  have labels: "validatePodLabelsForClusteredResource gcr_GetPodLabels (component_resource cr c) = []" for c
    using assms(4) validated_component [of cr c] by (cases "c = AppEngineAPI") (auto simp: labels_unreserved_def)
  show ?thesis
    using assms(5,6) goals labels [of c]
      api_goal_behind [OF _ assms(2) pods(3)] api_goal_behind [OF _ assms(2) pods(4)] api_goal_behind [OF _ assms(2) pods(5)]
      api_goal_behind [OF _ assms(2) pods(6)] api_goal_behind [OF _ assms(2) pods(7)] dashboard_goal_behind [OF _ assms(2) pods(8)]
    by (cases c) (simp_all add: api_components_def IsAstarteComponentDeployed_def component_resource_def Let_def)
qed

section \<open>The rules of the ingress\<close>

text \<open>
  The routes of an ingress, as what they say: a host and a component. Both ingress controllers are given the
  same ones, written differently.
\<close>

definition routes :: "AstarteDefaultIngress \<Rightarrow> Astarte \<Rightarrow> (string \<times> AstarteComponent) list" where
  "routes i cr =
     map (Pair (api_Host (spec_API (ast_Spec cr)))) (filter (IsAstarteComponentDeployed cr) (exposed_components i))
     @ (if PtrValue (adid_Deploy (adis_Dashboard (adi_Spec i))) True \<and> IsAstarteComponentDeployed cr Dashboard
        then [(getDashboardHost i cr, Dashboard)] else [])"

definition rule_routes :: "ingress_rule list \<Rightarrow> (string \<times> string \<times> string) list" where
  "rule_routes rs = concat (map (\<lambda>r. map (\<lambda>p. (ir_Host r, ip_Service p, ip_Port p)) (ir_Paths r)) rs)"

definition dashboard_consistent :: "AstarteDefaultIngress \<Rightarrow> Astarte \<Rightarrow> bool" where
  "dashboard_consistent i cr \<longleftrightarrow>
     HAProxyIngressControllerSelected i \<and> PtrValue (adid_Deploy (adis_Dashboard (adi_Spec i))) True \<longrightarrow>
     IsAstarteComponentDeployed cr Dashboard"

lemma rule_routes_simps:
  "rule_routes [] = []"
  "rule_routes (r # rs) = map (\<lambda>p. (ir_Host r, ip_Service p, ip_Port p)) (ir_Paths r) @ rule_routes rs"
  "rule_routes (rs @ rs') = rule_routes rs @ rule_routes rs'"
  by (simp_all add: rule_routes_def)

lemma rule_routes_map: "rule_routes (map (\<lambda>c. \<lparr>ir_Host = h, ir_Paths = [http_path i c (f c)]\<rparr>) cs) =
    map (\<lambda>c. (h, adis_Astarte (adi_Spec i) @ ''-'' @ ServiceName c, ''http'')) cs"
  by (induction cs) (simp_all add: rule_routes_simps http_path_def)

lemma http_path_simps:
  "ip_Service (http_path i c path) = adis_Astarte (adi_Spec i) @ ''-'' @ ServiceName c" "ip_Port (http_path i c path) = ''http''"
  by (simp_all add: http_path_def)

lemma ingress_routes:
  assumes "dashboard_consistent i cr"
  shows "rule_routes (is_Rules (getAPIIngressSpec i cr)) =
     map (\<lambda>(h, c). (h, adis_Astarte (adi_Spec i) @ ''-'' @ ServiceName c, ''http'')) (routes i cr)"
  using assms
  by (auto simp: getAPIIngressSpec_def getHAProxyAPIIngressRules_def getNgnixAPIIngressRules_def Let_def routes_def
      rule_routes_map rule_routes_simps http_path_simps dashboard_consistent_def comp_def)



section \<open>The certificates of the ingress\<close>

definition secret_known :: "env \<Rightarrow> string \<Rightarrow> string \<Rightarrow> bool" where
  "secret_known E ns n \<longleftrightarrow> (\<exists>h. isOK (e_get E h (OSecret, ns, n)))"

lemma getSecret_known: "fst (getSecret E n ns path h) = Inr [] \<Longrightarrow> secret_known E ns n"
  by (auto simp: getSecret_def on_result_def Get_def call_def ret_def secret_known_def isOK_iff split: sum.splits if_splits)

lemma bnd_succeeded: "fst (bnd m f h) = Inr y \<Longrightarrow> \<exists>x h1. m h = (Inr x, h1) \<and> fst (f x h1) = Inr y"
  by (auto simp: bnd_def split: prod.splits sum.splits)

lemma secrets_checked:
  assumes "fst (validateTLSSecretExistence E i h) = Inr []"
  shows "adia_TLSSecret (adis_API (adi_Spec i)) \<noteq> '''' \<Longrightarrow> secret_known E (adi_Namespace i) (adia_TLSSecret (adis_API (adi_Spec i)))"
    and "adia_TLSSecret (adis_API (adi_Spec i)) = '''' \<Longrightarrow> adis_TLSSecret (adi_Spec i) \<noteq> '''' \<Longrightarrow>
      secret_known E (adi_Namespace i) (adis_TLSSecret (adi_Spec i))"
    and "PtrValue (adid_SSL (adis_Dashboard (adi_Spec i))) True \<Longrightarrow> PtrValue (adid_Deploy (adis_Dashboard (adi_Spec i))) True \<Longrightarrow>
      adid_TLSSecret (adis_Dashboard (adi_Spec i)) \<noteq> '''' \<Longrightarrow>
      secret_known E (adi_Namespace i) (adid_TLSSecret (adis_Dashboard (adi_Spec i)))"
    and "PtrValue (adid_SSL (adis_Dashboard (adi_Spec i))) True \<Longrightarrow> PtrValue (adid_Deploy (adis_Dashboard (adi_Spec i))) True \<Longrightarrow>
      adid_TLSSecret (adis_Dashboard (adi_Spec i)) = '''' \<Longrightarrow> adis_TLSSecret (adi_Spec i) \<noteq> '''' \<Longrightarrow>
      secret_known E (adi_Namespace i) (adis_TLSSecret (adi_Spec i))"
proof -
  let ?dash = "PtrValue (adid_SSL (adis_Dashboard (adi_Spec i))) True \<and> PtrValue (adid_Deploy (adis_Dashboard (adi_Spec i))) True"
  let ?m1 = "if adis_TLSSecret (adi_Spec i) \<noteq> '''' \<and> (adia_TLSSecret (adis_API (adi_Spec i)) = '''' \<or>
      ?dash \<and> adid_TLSSecret (adis_Dashboard (adi_Spec i)) = '''')
    then getSecret E (adis_TLSSecret (adi_Spec i)) (adi_Namespace i) [''spec'', ''tlsSecret''] else ret []"
  let ?m2 = "if adia_TLSSecret (adis_API (adi_Spec i)) \<noteq> ''''
    then getSecret E (adia_TLSSecret (adis_API (adi_Spec i))) (adi_Namespace i) [''spec'', ''api'', ''tlsSecret''] else ret []"
  let ?m3 = "if ?dash \<and> adid_TLSSecret (adis_Dashboard (adi_Spec i)) \<noteq> ''''
    then getSecret E (adid_TLSSecret (adis_Dashboard (adi_Spec i))) (adi_Namespace i) [''spec'', ''dashboard'', ''tlsSecret''] else ret []"
  have "\<exists>h1 h2. fst (?m1 h) = Inr [] \<and> fst (?m2 h1) = Inr [] \<and> fst (?m3 h2) = Inr []"
    using assms unfolding validateTLSSecretExistence_def Let_def
    by (auto dest!: bnd_succeeded simp: ret_def) (metis fst_conv)+
  then obtain h1 h2 where m: "fst (?m1 h) = Inr []" "fst (?m2 h1) = Inr []" "fst (?m3 h2) = Inr []"
    by blast
  from m(2) show "adia_TLSSecret (adis_API (adi_Spec i)) \<noteq> '''' \<Longrightarrow> secret_known E (adi_Namespace i) (adia_TLSSecret (adis_API (adi_Spec i)))"
    by (simp add: getSecret_known)
  from m(1) show "adia_TLSSecret (adis_API (adi_Spec i)) = '''' \<Longrightarrow> adis_TLSSecret (adi_Spec i) \<noteq> '''' \<Longrightarrow>
      secret_known E (adi_Namespace i) (adis_TLSSecret (adi_Spec i))"
    by (simp add: getSecret_known)
  from m(3) show "PtrValue (adid_SSL (adis_Dashboard (adi_Spec i))) True \<Longrightarrow> PtrValue (adid_Deploy (adis_Dashboard (adi_Spec i))) True \<Longrightarrow>
      adid_TLSSecret (adis_Dashboard (adi_Spec i)) \<noteq> '''' \<Longrightarrow>
      secret_known E (adi_Namespace i) (adid_TLSSecret (adis_Dashboard (adi_Spec i)))"
    by (simp add: getSecret_known)
  from m(1) show "PtrValue (adid_SSL (adis_Dashboard (adi_Spec i))) True \<Longrightarrow> PtrValue (adid_Deploy (adis_Dashboard (adi_Spec i))) True \<Longrightarrow>
      adid_TLSSecret (adis_Dashboard (adi_Spec i)) = '''' \<Longrightarrow> adis_TLSSecret (adi_Spec i) \<noteq> '''' \<Longrightarrow>
      secret_known E (adi_Namespace i) (adis_TLSSecret (adi_Spec i))"
    by (simp add: getSecret_known)
qed

lemma ingress_accepted:
  assumes "fst (validateAstarteDefaultIngress E i h) = Inr []"
    and "e_get E h (OAstarte, adi_Namespace i, adis_Astarte (adi_Spec i)) = Inr (KAstarte cr)"
  shows "\<exists>h1. fst (validateTLSSecretExistence E i h1) = Inr []" "validateAPITLSConfig i cr = None"
    "validateDashboardTLSConfig i = None" "validateBrokerTLSConfig i cr = None"
    "validateIngressControllerSelectorAnnotation i = None"
proof -
  have f: "validateReferencedAstarte E i h = (Inr (Inr cr), h @ [EvGet (OAstarte, adi_Namespace i, adis_Astarte (adi_Spec i))])"
    using assms(2) by (simp add: validateReferencedAstarte_def GetAstarte_def Get_def call_def on_result_def bnd_def lift_def
        as_astarte_def ret_def)
  from assms(1) obtain xs h1 where "validateTLSSecretExistence E i (h @ [EvGet (OAstarte, adi_Namespace i, adis_Astarte (adi_Spec i))]) = (Inr xs, h1)"
    "xs = []" "validateAPITLSConfig i cr = None" "validateDashboardTLSConfig i = None" "validateBrokerTLSConfig i cr = None"
    "validateIngressControllerSelectorAnnotation i = None"
    unfolding validateAstarteDefaultIngress_def
    by (auto dest!: bnd_succeeded simp: f ret_def opt_list_def split: option.splits)
  then show "\<exists>h1. fst (validateTLSSecretExistence E i h1) = Inr []" "validateAPITLSConfig i cr = None"
    "validateDashboardTLSConfig i = None" "validateBrokerTLSConfig i cr = None"
    "validateIngressControllerSelectorAnnotation i = None"
    by (auto intro!: exI [of _ "h @ [EvGet (OAstarte, adi_Namespace i, adis_Astarte (adi_Spec i))]"])
qed


section \<open>An ingress of the example\<close>

definition ex_ingress :: AstarteDefaultIngress where
  "ex_ingress =
     \<lparr>adi_Meta = (NewMeta ''example-ingress'' ''astarte'')\<lparr>om_Annotations :=
        Some [(AnnotationIngressControllerSelector, HAProxySelectorValue)]\<rparr>,
      adi_Spec =
        \<lparr>adis_Astarte = ''example'', adis_IngressClass = ''haproxy'',
         adis_API = \<lparr>adia_Deploy = None, adia_TLSSecret = '''', adia_Cors = None, adia_ExposeHousekeeping = Some False\<rparr>,
         adis_Dashboard = \<lparr>adid_Deploy = None, adid_SSL = None, adid_Host = ''dashboard.example.com'', adid_TLSSecret = ''''\<rparr>,
         adis_Broker = \<lparr>adib_Deploy = None, adib_ServiceType = ''LoadBalancer'', adib_LoadBalancerIP = '''',
           adib_ServiceAnnotations = None\<rparr>,
         adis_TLSSecret = ''astarte-tls''\<rparr>,
      adi_Status = \<lparr>adit_APIStatus = '''', adit_BrokerStatus = ''''\<rparr>\<rparr>"

definition ex_tls :: secret where
  "ex_tls = \<lparr>sec_Meta = NewMeta ''astarte-tls'' ''astarte'', sec_Type = ''kubernetes.io/tls'', sec_Data = [], sec_StringData = []\<rparr>"

lemma ex_dashboard_consistent: "dashboard_consistent ex_ingress ex_astarte"
  by code_simp




end
