(* ===== verification/Ingress_Handler.thy ===== *)
theory Ingress_Handler
  imports Ingress_Properties First_Install
begin

text \<open>A run of the controller of AstarteDefaultIngress on a server nobody else writes to.\<close>

section \<open>The handler\<close>

definition ingress_config_key :: "AstarteDefaultIngress \<Rightarrow> okey" where
  "ingress_config_key i = (OConfigMap, adi_Namespace i, getConfigMapName i)"

definition api_ingress_key :: "AstarteDefaultIngress \<Rightarrow> okey" where
  "api_ingress_key i = (OIngress, adi_Namespace i, getAPIIngressName i)"

definition broker_key :: "AstarteDefaultIngress \<Rightarrow> okey" where
  "broker_key i = (OService, adi_Namespace i, getBrokerServiceName i)"

text \<open>What the handler is to bring about: the two objects as the resource asks for them, or none.\<close>

definition api_exposed :: "AstarteDefaultIngress \<Rightarrow> Astarte \<Rightarrow> kstate \<Rightarrow> bool" where
  "api_exposed i cr s \<longleftrightarrow>
     (if PtrValue (adia_Deploy (adis_API (adi_Spec i))) True
      then (\<exists>g c. s (api_ingress_key i) = Some (KIngress g) \<and> ing_Spec g = getAPIIngressSpec i cr \<and>
              om_Annotations (ing_Meta g) = Some (getCommonIngressAnnotations i cr) \<and>
              s (ingress_config_key i) = Some (KConfigMap c) \<and> cm_Data c = api_ingress_config i cr)
      else s (api_ingress_key i) = None)"

definition broker_exposed :: "AstarteDefaultIngress \<Rightarrow> Astarte \<Rightarrow> kstate \<Rightarrow> bool" where
  "broker_exposed i cr s \<longleftrightarrow>
     (if PtrValue (adib_Deploy (adis_Broker (adi_Spec i))) True
      then (\<exists>b. s (broker_key i) = Some (KService b) \<and> svc_Selector b = [(''app'', adis_Astarte (adi_Spec i) @ ''-vernemq'')] \<and>
              svc_Type b = adib_ServiceType (adis_Broker (adi_Spec i)) \<and>
              map (\<lambda>p. (sp_Port p, sp_TargetPort p)) (svc_Ports b) =
                [(PtrValue (hp_Port (vmq_HostAndPort (spec_VerneMQ (ast_Spec cr)))) 8883, IntPort 8883)])
      else s (broker_key i) = None)"

lemma ingress_keys:
  "obj_key (NewConfigMap (getConfigMapName i) (adi_Namespace i)) = ingress_config_key i"
  "obj_key (NewIngress (getAPIIngressName i) (adi_Namespace i)) = api_ingress_key i"
  "obj_key (NewService (getBrokerServiceName i) (adi_Namespace i)) = broker_key i"
  by (simp_all add: ingress_config_key_def api_ingress_key_def broker_key_def NewConfigMap_def NewIngress_def
      NewService_def NewMeta_def)

lemma ingress_new_free:
  "free_for owner (obj_meta (NewConfigMap n ns))" "free_for owner (obj_meta (NewIngress n ns))"
  "free_for owner (obj_meta (NewService n ns))"
  by (simp_all add: free_for_def NewConfigMap_def NewIngress_def NewService_def NewMeta_def)

lemma owned_kind:
  "obj_key y = (OIngress, ns, n) \<Longrightarrow> \<exists>g. owned_by owner y = KIngress g"
  "obj_key y = (OConfigMap, ns, n) \<Longrightarrow> \<exists>c. owned_by owner y = KConfigMap c"
  "obj_key y = (OService, ns, n) \<Longrightarrow> \<exists>b. owned_by owner y = KService b"
  by (cases y; simp add: owned_by_def)+

lemma mutated_keys:
  "obj_key y = ingress_config_key i \<Longrightarrow> obj_key (on_config_map (\<lambda>c. c\<lparr>cm_Data := d\<rparr>) y) = ingress_config_key i"
  "obj_key y = api_ingress_key i \<Longrightarrow>
   obj_key (on_ingress (\<lambda>g. g\<lparr>ing_Meta := (ing_Meta g)\<lparr>om_Annotations := a\<rparr>, ing_Spec := sp\<rparr>) y) = api_ingress_key i"
  "obj_key y = broker_key i \<Longrightarrow> obj_key (on_service (broker_service i cr) y) = broker_key i"
  by (cases y; simp add: ingress_config_key_def api_ingress_key_def broker_key_def obj_key_def on_config_map_def
      on_ingress_def on_service_def broker_service_def Let_def del: obj_key_eq)+

context sole_client begin

lemma api_run:
  assumes "ours (KIngressCR i) (state_of E h) (ingress_config_key i)" "ours (KIngressCR i) (state_of E h) (api_ingress_key i)"
  shows "\<exists>h1. EnsureAPIIngress E i cr h = (Inr (), h1) \<and> api_exposed i cr (state_of E h1) \<and>
     agree {ingress_config_key i, api_ingress_key i} (state_of E h) (state_of E h1)"
proof (cases "PtrValue (adia_Deploy (adis_API (adi_Spec i))) True")
  case False
  with delete_run [of OIngress "adi_Namespace i" "getAPIIngressName i" h] show ?thesis
    by (auto simp: EnsureAPIIngress_def Let_def api_exposed_def api_ingress_key_def agree_def)
next
  case True
  let ?f = "on_config_map (\<lambda>c. c\<lparr>cm_Data := api_ingress_config i cr\<rparr>)"
  let ?g = "on_ingress (\<lambda>g. g\<lparr>ing_Meta := (ing_Meta g)\<lparr>om_Annotations := Some (getCommonIngressAnnotations i cr)\<rparr>,
      ing_Spec := getAPIIngressSpec i cr\<rparr>)"
  obtain r1 h1 where 1: "CreateOrUpdate E (NewConfigMap (getConfigMapName i) (adi_Namespace i)) (owned E (KIngressCR i) ?f) h = (Inr r1, h1)"
    "state_of E h1 = (state_of E h)(ingress_config_key i \<mapsto>
       ?f (owned_by (KIngressCR i) (PtrValue (state_of E h (ingress_config_key i)) (NewConfigMap (getConfigMapName i) (adi_Namespace i)))))"
    using store_run [where f = ?f, OF ingress_keys(1) assms(1) ingress_new_free(1) mutated_keys(1)] by blast
  have "ours (KIngressCR i) (state_of E h1) (api_ingress_key i)"
    using assms(2) unfolding 1(2) ours_def by (simp add: ingress_config_key_def api_ingress_key_def)
  then obtain r2 h2 where 2: "CreateOrUpdate E (NewIngress (getAPIIngressName i) (adi_Namespace i)) (owned E (KIngressCR i) ?g) h1 = (Inr r2, h2)"
    "state_of E h2 = (state_of E h1)(api_ingress_key i \<mapsto>
       ?g (owned_by (KIngressCR i) (PtrValue (state_of E h1 (api_ingress_key i)) (NewIngress (getAPIIngressName i) (adi_Namespace i)))))"
    using store_run [where f = ?g, OF ingress_keys(2) _ ingress_new_free(2) mutated_keys(2)] by blast
  have run: "EnsureAPIIngress E i cr h = (Inr (), h2)"
    using True 1(1) 2(1) by (simp add: EnsureAPIIngress_def Let_def bnd_def ret_def)
  obtain c where c: "owned_by (KIngressCR i) (PtrValue (state_of E h (ingress_config_key i)) (NewConfigMap (getConfigMapName i) (adi_Namespace i))) = KConfigMap c"
    using owned_kind(2) kept_key [OF ingress_keys(1)] unfolding ingress_config_key_def by blast
  obtain g where g: "owned_by (KIngressCR i) (PtrValue (state_of E h1 (api_ingress_key i)) (NewIngress (getAPIIngressName i) (adi_Namespace i))) = KIngress g"
    using owned_kind(1) kept_key [OF ingress_keys(2)] unfolding api_ingress_key_def by blast
  have ne: "ingress_config_key i \<noteq> api_ingress_key i"
    by (simp add: ingress_config_key_def api_ingress_key_def)
  have "state_of E h2 (api_ingress_key i) = Some (?g (KIngress g))" "state_of E h2 (ingress_config_key i) = Some (?f (KConfigMap c))"
    using ne unfolding 2(2) 1(2) c g [unfolded 1(2) c] by simp_all
  then have "api_exposed i cr (state_of E h2)"
    using True by (simp add: api_exposed_def on_ingress_def on_config_map_def)
  moreover have "agree {ingress_config_key i, api_ingress_key i} (state_of E h) (state_of E h2)"
    unfolding 2(2) 1(2) by (simp add: agree_def)
  ultimately show ?thesis
    using run by blast
qed

lemma broker_run:
  assumes "ours (KIngressCR i) (state_of E h) (broker_key i)"
  shows "\<exists>h1. EnsureBrokerIngress E i cr h = (Inr (), h1) \<and> broker_exposed i cr (state_of E h1) \<and>
     agree {broker_key i} (state_of E h) (state_of E h1)"
proof (cases "PtrValue (adib_Deploy (adis_Broker (adi_Spec i))) True")
  case False
  with delete_run [of OService "adi_Namespace i" "getBrokerServiceName i" h] show ?thesis
    by (auto simp: EnsureBrokerIngress_def Let_def broker_exposed_def broker_key_def agree_def)
next
  case True
  let ?f = "on_service (broker_service i cr)"
  obtain r1 h1 where 1: "CreateOrUpdate E (NewService (getBrokerServiceName i) (adi_Namespace i)) (owned E (KIngressCR i) ?f) h = (Inr r1, h1)"
    "state_of E h1 = (state_of E h)(broker_key i \<mapsto>
       ?f (owned_by (KIngressCR i) (PtrValue (state_of E h (broker_key i)) (NewService (getBrokerServiceName i) (adi_Namespace i)))))"
    using store_run [where f = ?f, OF ingress_keys(3) assms(1) ingress_new_free(3) mutated_keys(3)] by blast
  obtain b where b: "owned_by (KIngressCR i) (PtrValue (state_of E h (broker_key i)) (NewService (getBrokerServiceName i) (adi_Namespace i))) = KService b"
    using owned_kind(3) kept_key [OF ingress_keys(3)] unfolding broker_key_def by blast
  have "broker_exposed i cr (state_of E h1)"
    using True unfolding 1(2) b by (simp add: broker_exposed_def on_service_def broker_service_def Let_def)
  moreover have "agree {broker_key i} (state_of E h) (state_of E h1)"
    unfolding 1(2) by (simp add: agree_def)
  moreover have "EnsureBrokerIngress E i cr h = (Inr (), h1)"
    using True 1(1) by (simp add: EnsureBrokerIngress_def Let_def bnd_def ret_def)
  ultimately show ?thesis
    by blast
qed

end

lemma api_exposed_resource [simp]: "api_exposed i cr (s((OIngressCR, ns, n) \<mapsto> x)) = api_exposed i cr s"
  by (simp add: api_exposed_def api_ingress_key_def ingress_config_key_def)

lemma broker_exposed_resource [simp]: "broker_exposed i cr (s((OIngressCR, ns, n) \<mapsto> x)) = broker_exposed i cr s"
  by (simp add: broker_exposed_def broker_key_def)

lemma api_exposed_agree:
  assumes "api_exposed i cr s" "agree {broker_key i} s s'"
  shows "api_exposed i cr s'"
proof -
  have "s' (api_ingress_key i) = s (api_ingress_key i)" "s' (ingress_config_key i) = s (ingress_config_key i)"
    by (intro agree_at [OF assms(2)]; simp add: broker_key_def api_ingress_key_def ingress_config_key_def)+
  with assms(1) show ?thesis
    by (simp only: api_exposed_def)
qed

context sole_client begin

lemma ingress_status_run:
  assumes "state_of E h (OIngressCR, ns, name) = Some (KIngressCR i)"
  shows "\<exists>status h1. bnd (GetADI E ns name) (\<lambda>i. bnd (ComputeADIStatusResource E i) (\<lambda>status.
       StatusUpdate E (KIngressCR (i\<lparr>adi_Status := status\<rparr>)))) h = (Inr (), h1) \<and>
     state_of E h1 = (state_of E h)((OIngressCR, ns, name) \<mapsto> KIngressCR (i\<lparr>adi_Status := status\<rparr>))"
proof -
  let ?h = "h @ [EvGet (OIngressCR, ns, name)]"
  have get: "GetADI E ns name h = (Inr i, ?h)"
    using assms by (simp add: GetADI_def bnd_def Get_def call_def get_cases lift_def as_adi_def)
  have s: "state_of E ?h = state_of E h"
    by (simp add: step)
  have api: "\<exists>v h1. computeAPIStatus E i h = (Inr v, h1) \<and> state_of E h1 = state_of E h" for h
    by (auto simp: computeAPIStatus_def ret_def on_result_def Get_def call_def get_cases step split: option.splits kobj.splits)
  have broker: "\<exists>v h1. computeBrokerStatus E i h = (Inr v, h1) \<and> state_of E h1 = state_of E h" for h
    by (auto simp: computeBrokerStatus_def ret_def on_result_def Get_def call_def get_cases step split: option.splits kobj.splits)
  obtain v h1 where v: "computeAPIStatus E i ?h = (Inr v, h1)" "state_of E h1 = state_of E h"
    using api s by metis
  obtain w h2 where w: "computeBrokerStatus E i h1 = (Inr w, h2)" "state_of E h2 = state_of E h"
    using broker v(2) by metis
  let ?st = "(adi_Status i)\<lparr>adit_APIStatus := v, adit_BrokerStatus := w\<rparr>"
  let ?x = "KIngressCR (i\<lparr>adi_Status := ?st\<rparr>)"
  have status: "ComputeADIStatusResource E i ?h = (Inr ?st, h2)"
    using v(1) w(1) by (simp add: ComputeADIStatusResource_def bnd_def ret_def)
  have key: "obj_key ?x = (OIngressCR, ns, name)"
    using state_key [OF assms] by (simp only: obj_key_def) simp
  have "e_status_update E h2 ?x = Inr ()"
    by (rule status_present) (simp only: key w(2) assms option.distinct simp_thms)
  then have "bnd (GetADI E ns name) (\<lambda>i. bnd (ComputeADIStatusResource E i) (\<lambda>status.
       StatusUpdate E (KIngressCR (i\<lparr>adi_Status := status\<rparr>)))) h = (Inr (), h2 @ [EvStatusUpdate ?x])"
    using get status by (simp add: bnd_def StatusUpdate_def call_def)
  moreover have "state_of E (h2 @ [EvStatusUpdate ?x]) = (state_of E h)((OIngressCR, ns, name) \<mapsto> ?x)"
    by (simp only: step step_state.simps key w(2) assms option.distinct if_False)
  ultimately show ?thesis
    by blast
qed

lemma ingress_handler_run:
  assumes "state_of E h (OIngressCR, ns, name) = Some (KIngressCR i)"
    and "state_of E h (OAstarte, ns, adis_Astarte (adi_Spec i)) = Some (KAstarte cr)"
    and "\<And>k. k \<in> {ingress_config_key i, api_ingress_key i, broker_key i} \<Longrightarrow> ours (KIngressCR i) (state_of E h) k"
  obtains h1 status where "adi_Reconcile E ns name h = (Inr (NoRequeue, None), h1)"
    "api_exposed i cr (state_of E h1)" "broker_exposed i cr (state_of E h1)"
    "agree {ingress_config_key i, api_ingress_key i, broker_key i, (OIngressCR, ns, name)} (state_of E h) (state_of E h1)"
    "state_of E h1 (OIngressCR, ns, name) = Some (KIngressCR (i\<lparr>adi_Status := status\<rparr>))"
proof -
  let ?k = "(OIngressCR, ns, name)" and ?a = "(OAstarte, ns, adis_Astarte (adi_Spec i))"
  let ?h = "(h @ [EvGet ?k]) @ [EvGet ?a]"
  have ns: "adi_Namespace i = ns"
    using state_key [OF assms(1)] by simp
  have s: "state_of E ?h = state_of E h"
    by (simp only: step step_state.simps)
  have get: "GetADI E ns name h = (Inr i, h @ [EvGet ?k])"
    using assms(1) by (simp add: GetADI_def bnd_def Get_def call_def get_cases lift_def as_adi_def)
  have geta: "GetAstarte E ns (adis_Astarte (adi_Spec i)) (h @ [EvGet ?k]) = (Inr cr, ?h)"
    using assms(2) by (simp add: GetAstarte_def bnd_def Get_def call_def get_cases step lift_def as_astarte_def)
  obtain h1 where h1: "EnsureAPIIngress E i cr ?h = (Inr (), h1)" "api_exposed i cr (state_of E h1)"
    "agree {ingress_config_key i, api_ingress_key i} (state_of E h) (state_of E h1)"
    using api_run [of i ?h cr] assms(3) s by auto
  have "state_of E h1 (broker_key i) = state_of E h (broker_key i)"
    by (rule agree_at [OF h1(3)]) (simp add: broker_key_def ingress_config_key_def api_ingress_key_def)
  then have "ours (KIngressCR i) (state_of E h1) (broker_key i)"
    using assms(3) [of "broker_key i"] by (simp add: ours_def)
  then obtain h2 where h2: "EnsureBrokerIngress E i cr h1 = (Inr (), h2)" "broker_exposed i cr (state_of E h2)"
    "agree {broker_key i} (state_of E h1) (state_of E h2)"
    using broker_run by blast
  have a2: "agree ({ingress_config_key i, api_ingress_key i} \<union> {broker_key i}) (state_of E h) (state_of E h2)"
    by (rule agree_trans [OF h1(3) h2(3)])
  have here: "state_of E h2 ?k = Some (KIngressCR i)"
    using agree_at [OF a2, of ?k] assms(1) by (simp add: broker_key_def ingress_config_key_def api_ingress_key_def)
  obtain status h3 where h3: "bnd (GetADI E ns name) (\<lambda>i. bnd (ComputeADIStatusResource E i) (\<lambda>status.
       StatusUpdate E (KIngressCR (i\<lparr>adi_Status := status\<rparr>)))) h2 = (Inr (), h3)"
    "state_of E h3 = (state_of E h2)(?k \<mapsto> KIngressCR (i\<lparr>adi_Status := status\<rparr>))"
    using ingress_status_run [OF here] by blast
  have "RetryOnConflict E (bnd (GetADI E ns name) (\<lambda>i. bnd (ComputeADIStatusResource E i) (\<lambda>status.
       StatusUpdate E (KIngressCR (i\<lparr>adi_Status := status\<rparr>))))) h2 = (Inr (), h3)"
    by (rule retry_success) (rule h3(1))
  then have "adi_Reconcile E ns name h = (Inr (NoRequeue, None), h3)"
    using get geta h1(1) h2(1)
    by (simp add: adi_Reconcile_def on_result_def or_return_def ret_def ns)
  moreover have "agree {ingress_config_key i, api_ingress_key i, broker_key i, ?k} (state_of E h) (state_of E h3)"
    using a2 unfolding h3(2) by (simp add: agree_def)
  ultimately show thesis
    using api_exposed_agree [OF h1(2) h2(3)] h2(2) by (intro that [of h3 status]) (simp_all add: h3(2))
qed

end

text \<open>C13: a run of the ingress controller exposes Astarte as asked.

  On a server nobody else writes to, with the Astarte resource there and nobody else controlling the three
  objects, a run of the handler of AstarteDefaultIngress returns without an error; the ingress then has the
  specification and the annotations computed from the two resources, the broker's service has the VerneMQ pods
  and the ports they ask for, what is not to be deployed is absent, and no other object has changed but the
  status of the resource.\<close>

theorem ingress_handler_exposes:
  assumes "sole_client E" "state_of E h (OIngressCR, ns, name) = Some (KIngressCR i)"
    and "state_of E h (OAstarte, ns, adis_Astarte (adi_Spec i)) = Some (KAstarte cr)"
    and "\<And>k. k \<in> {ingress_config_key i, api_ingress_key i, broker_key i} \<Longrightarrow> ours (KIngressCR i) (state_of E h) k"
  shows "\<exists>h1 status. adi_Reconcile E ns name h = (Inr (NoRequeue, None), h1) \<and>
     api_exposed i cr (state_of E h1) \<and> broker_exposed i cr (state_of E h1) \<and>
     agree {ingress_config_key i, api_ingress_key i, broker_key i, (OIngressCR, ns, name)} (state_of E h) (state_of E h1) \<and>
     state_of E h1 (OIngressCR, ns, name) = Some (KIngressCR (i\<lparr>adi_Status := status\<rparr>))"
  using sole_client.ingress_handler_run [OF assms] by metis

theorem ingress_handler_exposes_witness:
  "\<exists>h1. adi_Reconcile (memory_server [KAstarte ex_astarte, KIngressCR ex_ingress]) ''astarte'' ''example-ingress'' [] =
       (Inr (NoRequeue, None), h1) \<and>
     api_exposed ex_ingress ex_astarte (state_of (memory_server [KAstarte ex_astarte, KIngressCR ex_ingress]) h1)"
proof -
  let ?E = "memory_server [KAstarte ex_astarte, KIngressCR ex_ingress]"
  have key: "obj_key (KAstarte ex_astarte) = (OAstarte, ''astarte'', ''example'')"
    "obj_key (KIngressCR ex_ingress) = (OIngressCR, ''astarte'', ''example-ingress'')" "adis_Astarte (adi_Spec ex_ingress) = ''example''"
    by code_simp+
  have s: "state_of ?E [] = (\<lambda>k. None)((OAstarte, ''astarte'', ''example'') \<mapsto> KAstarte ex_astarte,
      (OIngressCR, ''astarte'', ''example-ingress'') \<mapsto> KIngressCR ex_ingress)"
    unfolding memory_state by (simp add: store_of_def key del: obj_key_eq)
  have "ours (KIngressCR ex_ingress) (state_of ?E []) k"
    if "k \<in> {ingress_config_key ex_ingress, api_ingress_key ex_ingress, broker_key ex_ingress}" for k
    using that unfolding s ours_def ingress_config_key_def api_ingress_key_def broker_key_def by auto
  moreover have "state_of ?E [] (OIngressCR, ''astarte'', ''example-ingress'') = Some (KIngressCR ex_ingress)"
    "state_of ?E [] (OAstarte, ''astarte'', adis_Astarte (adi_Spec ex_ingress)) = Some (KAstarte ex_astarte)"
    unfolding s key(3) by simp_all
  ultimately show ?thesis
    using ingress_handler_exposes [OF memory.sole_client_axioms, of "[KAstarte ex_astarte, KIngressCR ex_ingress]" "[]"
        "''astarte''" "''example-ingress''" ex_ingress ex_astarte] by blast
qed

text \<open>C40: an ingress without its Astarte is not lost.

  If the Astarte resource that an ingress names is not there, whatever the server does otherwise, a run of
  the handler returns an error and asks to be called again after half a minute, having only read.\<close>

theorem missing_astarte_requeued:
  assumes "e_get E h (OIngressCR, ns, name) = Inr (KIngressCR i)" "adi_Namespace i = ns"
    and "e_get E (h @ [EvGet (OIngressCR, ns, name)]) (OAstarte, ns, adis_Astarte (adi_Spec i)) = Inl ErrNotFound"
  shows "\<exists>e. adi_Reconcile E ns name h = (Inr (\<lparr>cr_Requeue = True, cr_RequeueAfter = 30\<rparr>, Some e),
     h @ [EvGet (OIngressCR, ns, name), EvGet (OAstarte, ns, adis_Astarte (adi_Spec i))])"
  using assms
  by (simp add: adi_Reconcile_def on_result_def GetADI_def GetAstarte_def bnd_def Get_def call_def lift_def as_adi_def ret_def)

theorem missing_astarte_requeued_witness:
  "\<exists>e. fst (adi_Reconcile (memory_server [KIngressCR ex_ingress]) ''astarte'' ''example-ingress'' []) =
     Inr (\<lparr>cr_Requeue = True, cr_RequeueAfter = 30\<rparr>, Some e)"
proof -
  have "e_get (memory_server [KIngressCR ex_ingress]) [] (OIngressCR, ''astarte'', ''example-ingress'') = Inr (KIngressCR ex_ingress)"
    "adi_Namespace ex_ingress = ''astarte''"
    "e_get (memory_server [KIngressCR ex_ingress]) ([] @ [EvGet (OIngressCR, ''astarte'', ''example-ingress'')])
       (OAstarte, ''astarte'', adis_Astarte (adi_Spec ex_ingress)) = Inl ErrNotFound"
    by code_simp+
  from missing_astarte_requeued [OF this] show ?thesis
    by auto
qed

end
