(* ===== verification/Deletion.thy ===== *)
theory Deletion
  imports First_Install
begin

text \<open>The deletion of an Astarte resource on a server nobody else writes to.\<close>

section \<open>Deleting listed objects\<close>

definition without :: "okey set \<Rightarrow> kstate \<Rightarrow> kstate" where
  "without K s = (\<lambda>k. if k \<in> K then None else s k)"

lemma without_simps [simp]:
  "without {} s = s" "without K (without K' s) = without (K \<union> K') s" "s(k := None) = without {k} s"
  by (auto simp: without_def fun_eq_iff)

context sole_client begin

lemma delete_listed:
  assumes "state_of E h (obj_key x) = Some x"
  shows "DeleteObj E x h = (Inr (), h @ [EvDelete (obj_key x)])"
    "state_of E (h @ [EvDelete (obj_key x)]) = without {obj_key x} (state_of E h)"
  using delete_present [of h "obj_key x"] assms by (simp_all add: DeleteObj_def call_def step)

lemma for_each_delete:
  assumes "\<And>x. P x \<Longrightarrow> f x = DeleteObj E x \<or> f x = on_result (DeleteObj E x) (\<lambda>_. ret ())"
    and "\<And>x. \<not> P x \<Longrightarrow> f x = ret ()"
    and "distinct xs" "\<forall>x \<in> set xs. state_of E h (obj_key x) = Some x"
  shows "\<exists>h1. for_each f xs h = (Inr (), h1) \<and> state_of E h1 = without (obj_key ` {x \<in> set xs. P x}) (state_of E h)"
  using assms(3,4)
proof (induction xs arbitrary: h)
  case Nil
  then show ?case
    by (simp add: ret_def)
next
  case (Cons x xs)
  show ?case
  proof (cases "P x")
    case False
    then have eq: "{y \<in> set (x # xs). P y} = {y \<in> set xs. P y}"
      by auto
    have "for_each f (x # xs) h = for_each f xs h"
      using assms(2) [OF False] by (simp add: bnd_def ret_def)
    with Cons.IH [of h] Cons.prems show ?thesis
      unfolding eq by simp
  next
    case True
    let ?h = "h @ [EvDelete (obj_key x)]"
    have x: "state_of E h (obj_key x) = Some x"
      using Cons.prems by simp
    note del = delete_listed [OF x]
    have run: "f x h = (Inr (), ?h)"
      using assms(1) [OF True] del(1) by (auto simp: on_result_def ret_def)
    have "state_of E ?h (obj_key y) = Some y" if "y \<in> set xs" for y
    proof -
      have y: "state_of E h (obj_key y) = Some y"
        using Cons.prems that by simp
      moreover have "obj_key y \<noteq> obj_key x"
      proof
        assume "obj_key y = obj_key x"
        then have "Some y = Some x"
          using x y by metis
        then show False
          using Cons.prems(1) that by simp
      qed
      ultimately show ?thesis
        unfolding del(2) without_def by simp
    qed
    with Cons.IH [of ?h] Cons.prems(1) obtain h1 where "for_each f xs ?h = (Inr (), h1)"
      "state_of E h1 = without (obj_key ` {x \<in> set xs. P x}) (state_of E ?h)"
      by auto
    moreover have "obj_key ` {y \<in> set (x # xs). P y} = {obj_key x} \<union> obj_key ` {x \<in> set xs. P x}"
      using True by auto
    ultimately show ?thesis
      using run by (simp add: bnd_def del(2) Un_commute)
  qed
qed

end

section \<open>What is erased\<close>

definition erased :: "string \<Rightarrow> string \<Rightarrow> okey set" where
  "erased ns name =
     {(OSecret, ns, name @ ''-cfssl-ca'')} \<union>
     {(OPVC, ns, n) | n. list_ex (HasPrefix n) (erasePVCPrefixes name)} \<union>
     {(OPriorityClass, ns', n) | ns' n. n \<in> set priority_class_names}"

lemma without_present:
  "(\<And>k. k \<in> K \<Longrightarrow> s k \<noteq> None \<Longrightarrow> k \<in> K') \<Longrightarrow> K' \<subseteq> K \<Longrightarrow> without K' s = without K s"
  unfolding without_def fun_eq_iff by (metis subsetD)

context sole_client begin

lemma classes_finalized:
  "\<exists>h1. finalizePriorityClasses E h = (Inr (), h1) \<and>
     state_of E h1 = without {(OPriorityClass, ns, n) | ns n. n \<in> set priority_class_names} (state_of E h)"
proof -
  let ?h = "h @ [EvList OPriorityClass None []]"
  let ?P = "\<lambda>x. om_Name (obj_meta x) = AstarteHighPriorityName \<or> om_Name (obj_meta x) = AstarteMidPriorityName \<or>
    om_Name (obj_meta x) = AstarteLowPriorityName"
  let ?K = "{(OPriorityClass, ns, n) | ns n. n \<in> set priority_class_names}"
  obtain xs where xs: "e_list E h OPriorityClass None [] = Inr xs" "distinct xs"
    "\<forall>x. x \<in> set xs \<longleftrightarrow> state_of E h (obj_key x) = Some x \<and> selected OPriorityClass None [] x"
    using list_state [of h OPriorityClass None "[]"] by blast
  have s: "state_of E ?h = state_of E h"
    by (simp add: step)
  obtain h1 where h1: "for_each (\<lambda>x. DeleteObj E x) (filter ?P xs) ?h = (Inr (), h1)"
    "state_of E h1 = without (obj_key ` {x \<in> set (filter ?P xs). True}) (state_of E ?h)"
    using for_each_delete [of "\<lambda>x. True" "\<lambda>x. DeleteObj E x" "filter ?P xs" ?h] xs s by auto
  have "without (obj_key ` {x \<in> set (filter ?P xs). True}) (state_of E h) = without ?K (state_of E h)"
  proof (rule without_present)
    fix k
    assume k: "k \<in> ?K" "state_of E h k \<noteq> None"
    then obtain x where x: "state_of E h k = Some x" "obj_key x = k"
      using state_key by blast
    then have "x \<in> set xs" "?P x"
      using k(1) xs(3) by (auto simp: selected_def obj_key_def priority_class_names_def)
    with x(2) show "k \<in> obj_key ` {x \<in> set (filter ?P xs). True}"
      by auto
  next
    show "obj_key ` {x \<in> set (filter ?P xs). True} \<subseteq> ?K"
      using xs(3) by (auto simp: selected_def obj_key_def priority_class_names_def)
  qed
  with h1 xs(1) s show ?thesis
    by (auto simp: finalizePriorityClasses_def on_result_def ListObjs_def call_def)
qed

end

context sole_client begin

lemma ca_finalized:
  "\<exists>h1. on_result (Get E OSecret ns (name @ ''-cfssl-ca'')) (\<lambda>r.
       case r of Inl _ \<Rightarrow> ret () | Inr theSecret \<Rightarrow> on_result (DeleteObj E theSecret) (\<lambda>_. ret ())) h = (Inr (), h1) \<and>
     state_of E h1 = without {(OSecret, ns, name @ ''-cfssl-ca'')} (state_of E h)"
proof (cases "state_of E h (OSecret, ns, name @ ''-cfssl-ca'')")
  case None
  then have "without {(OSecret, ns, name @ ''-cfssl-ca'')} (state_of E h) = state_of E h"
    by (auto simp: without_def)
  with None show ?thesis
    by (simp add: on_result_def Get_def call_def get_cases ret_def step)
next
  case (Some x)
  let ?h = "h @ [EvGet (OSecret, ns, name @ ''-cfssl-ca'')]"
  have key: "obj_key x = (OSecret, ns, name @ ''-cfssl-ca'')"
    by (rule state_key [OF Some])
  have "state_of E ?h (obj_key x) = Some x"
    unfolding key using Some by (simp add: step)
  note del = delete_listed [OF this]
  have "state_of E ?h = state_of E h"
    by (simp add: step)
  then have "state_of E (?h @ [EvDelete (obj_key x)]) = without {(OSecret, ns, name @ ''-cfssl-ca'')} (state_of E h)"
    using del(2) by (simp only: key)
  with Some del(1) show ?thesis
    by (simp add: on_result_def Get_def call_def get_cases ret_def)
qed

lemma claims_finalized:
  "\<exists>h1. on_result (ListObjs E OPVC (Some ns) []) (\<lambda>r.
       case r of
         Inl e \<Rightarrow> if e \<noteq> ErrNotFound then fail e else ret ()
       | Inr pvcs \<Rightarrow>
           for_each (\<lambda>pvc.
             if list_ex (\<lambda>prefix. HasPrefix (om_Name (obj_meta pvc)) prefix) (erasePVCPrefixes name)
             then on_result (DeleteObj E pvc) (\<lambda>_. ret ()) else ret ()) pvcs) h = (Inr (), h1) \<and>
     state_of E h1 = without {(OPVC, ns, n) | n. list_ex (HasPrefix n) (erasePVCPrefixes name)} (state_of E h)"
proof -
  let ?h = "h @ [EvList OPVC (Some ns) []]"
  let ?P = "\<lambda>x. list_ex (HasPrefix (om_Name (obj_meta x))) (erasePVCPrefixes name)"
  let ?f = "\<lambda>pvc. if list_ex (\<lambda>prefix. HasPrefix (om_Name (obj_meta pvc)) prefix) (erasePVCPrefixes name)
     then on_result (DeleteObj E pvc) (\<lambda>_. ret ()) else ret ()"
  let ?K = "{(OPVC, ns, n) | n. list_ex (HasPrefix n) (erasePVCPrefixes name)}"
  obtain xs where xs: "e_list E h OPVC (Some ns) [] = Inr xs" "distinct xs"
    "\<forall>x. x \<in> set xs \<longleftrightarrow> state_of E h (obj_key x) = Some x \<and> selected OPVC (Some ns) [] x"
    using list_state [of h OPVC "Some ns" "[]"] by blast
  have s: "state_of E ?h = state_of E h"
    by (simp add: step)
  have present: "\<forall>x \<in> set xs. state_of E ?h (obj_key x) = Some x"
    using xs(3) s by simp
  obtain h1 where h1: "for_each ?f xs ?h = (Inr (), h1)" "state_of E h1 = without (obj_key ` {x \<in> set xs. ?P x}) (state_of E ?h)"
    using for_each_delete [of ?P ?f xs ?h, OF _ _ xs(2) present] by auto
  have "without (obj_key ` {x \<in> set xs. ?P x}) (state_of E h) = without ?K (state_of E h)"
  proof (rule without_present)
    fix k
    assume k: "k \<in> ?K" "state_of E h k \<noteq> None"
    then obtain x where x: "state_of E h k = Some x" "obj_key x = k"
      using state_key by blast
    then have "x \<in> set xs" "?P x"
      using k(1) xs(3) by (auto simp: selected_def obj_key_def)
    with x(2) show "k \<in> obj_key ` {x \<in> set xs. ?P x}"
      by auto
  next
    show "obj_key ` {x \<in> set xs. ?P x} \<subseteq> ?K"
      using xs(3) by (auto simp: selected_def obj_key_def)
  qed
  with h1 xs(1) s show ?thesis
    by (auto simp: on_result_def ListObjs_def call_def)
qed

lemma finalize_run:
  "\<exists>h1. FinalizeAstarte E name ns h = (Inr (), h1) \<and> state_of E h1 = without (erased ns name) (state_of E h)"
proof -
  obtain h1 where h1: "on_result (Get E OSecret ns (name @ ''-cfssl-ca'')) (\<lambda>r.
       case r of Inl _ \<Rightarrow> ret () | Inr theSecret \<Rightarrow> on_result (DeleteObj E theSecret) (\<lambda>_. ret ())) h = (Inr (), h1)"
    "state_of E h1 = without {(OSecret, ns, name @ ''-cfssl-ca'')} (state_of E h)"
    using ca_finalized by blast
  obtain h2 where h2: "on_result (ListObjs E OPVC (Some ns) []) (\<lambda>r.
       case r of
         Inl e \<Rightarrow> if e \<noteq> ErrNotFound then fail e else ret ()
       | Inr pvcs \<Rightarrow>
           for_each (\<lambda>pvc.
             if list_ex (\<lambda>prefix. HasPrefix (om_Name (obj_meta pvc)) prefix) (erasePVCPrefixes name)
             then on_result (DeleteObj E pvc) (\<lambda>_. ret ()) else ret ()) pvcs) h1 = (Inr (), h2)"
    "state_of E h2 = without {(OPVC, ns, n) | n. list_ex (HasPrefix n) (erasePVCPrefixes name)} (state_of E h1)"
    using claims_finalized by blast
  obtain h3 where h3: "finalizePriorityClasses E h2 = (Inr (), h3)"
    "state_of E h3 = without {(OPriorityClass, ns, n) | ns n. n \<in> set priority_class_names} (state_of E h2)"
    using classes_finalized by blast
  have "state_of E h3 = without (erased ns name) (state_of E h)"
    unfolding h3(2) h2(2) h1(2) erased_def by (simp add: Un_ac)
  with h1(1) h2(1) h3(1) show ?thesis
    by (simp add: FinalizeAstarte_def bnd_def)
qed

lemma finalization_run:
  assumes "state_of E h (OAstarte, ns, name) = Some (KAstarte cr)" "astarteFinalizer \<in> set (om_Finalizers (ast_Meta cr))"
  shows "\<exists>h1. handleFinalization E cr h = (Inr (NoRequeue, None), h1) \<and>
     state_of E h1 = (without (erased ns name) (state_of E h))((OAstarte, ns, name) \<mapsto>
       KAstarte (with_finalizers (filter (\<lambda>f. f \<noteq> astarteFinalizer) (om_Finalizers (ast_Meta cr))) cr))"
proof -
  let ?x = "KAstarte (with_finalizers (filter (\<lambda>f. f \<noteq> astarteFinalizer) (om_Finalizers (ast_Meta cr))) cr)"
  have names: "cr_Namespace cr = ns" "cr_Name cr = name"
    using state_key [OF assms(1)] by simp_all
  obtain h1 where h1: "FinalizeAstarte E name ns h = (Inr (), h1)" "state_of E h1 = without (erased ns name) (state_of E h)"
    using finalize_run by blast
  have key: "obj_key ?x = (OAstarte, ns, name)"
    using names by simp
  have here: "state_of E h1 (OAstarte, ns, name) = Some (KAstarte cr)"
    using assms(1) unfolding h1(2) by (simp add: without_def erased_def)
  have "e_update E h1 ?x = Inr ?x"
    by (rule update_present) (simp only: key here option.distinct simp_thms)
  then have "handleFinalization E cr h = (Inr (NoRequeue, None), h1 @ [EvUpdate ?x])"
    using assms(2) h1(1) by (simp add: handleFinalization_def or_return_def on_result_def UpdateObj_def call_def ret_def
        names remove_all_def)
  moreover have "state_of E (h1 @ [EvUpdate ?x]) = (without (erased ns name) (state_of E h))((OAstarte, ns, name) \<mapsto> ?x)"
    by (simp only: step step_state.simps key here option.distinct if_False) (simp only: h1(2))
  ultimately show ?thesis
    by blast
qed

end

text \<open>C7: a deletion runs to its end.

  On a server nobody else writes to, let a resource of a supported version be deleted that has the operator's
  finalizer and is not in maintenance. One run of the handler returns without an error and without asking to
  be called again; the certificate authority's secret, the claims whose names begin with one of the four
  prefixes, and the priority classes are gone, the finalizer is off the resource, and nothing else has
  changed.\<close>

theorem deletion_completes:
  assumes "sole_client (w_env W)" "state_of (w_env W) h (OAstarte, ns, name) = Some (KAstarte cr)"
    and "om_Deleting (ast_Meta cr)" "\<not> spec_ManualMaintenanceMode (ast_Spec cr)"
    and "astarteFinalizer \<in> set (om_Finalizers (ast_Meta cr))"
    and "GetAstarteSemanticVersionFrom (lib_semver (w_libs W)) (spec_Version (ast_Spec cr)) = Inr v"
  shows "\<exists>h1. astarte_Reconcile W ns name h = (Inr (NoRequeue, None), h1) \<and>
     state_of (w_env W) h1 = (without (erased ns name) (state_of (w_env W) h))((OAstarte, ns, name) \<mapsto>
       KAstarte (with_finalizers (filter (\<lambda>f. f \<noteq> astarteFinalizer) (om_Finalizers (ast_Meta cr))) cr))"
proof -
  let ?h = "h @ [EvGet (OAstarte, ns, name)]"
  have s: "state_of (w_env W) ?h = state_of (w_env W) h"
    by (simp add: sole_client.step [OF assms(1)])
  have get: "e_get (w_env W) h (OAstarte, ns, name) = Inr (KAstarte cr)"
    using assms(2) by (simp add: sole_client.get_cases [OF assms(1)])
  have "astarte_Reconcile W ns name h = handleFinalization (w_env W) cr ?h"
    using handler_run [OF get assms(4,6)] assms(3) by simp
  moreover have "state_of (w_env W) ?h (OAstarte, ns, name) = Some (KAstarte cr)"
    using assms(2) s by simp
  ultimately show ?thesis
    using sole_client.finalization_run [OF assms(1) _ assms(5), of ?h ns name] s by simp
qed

theorem deletion_completes_witness:
  "\<exists>h1. astarte_Reconcile (ex_world [KAstarte ex_deleting]) ''astarte'' ''example'' [] = (Inr (NoRequeue, None), h1) \<and>
     state_of (memory_server [KAstarte ex_deleting]) h1 (OAstarte, ''astarte'', ''example'') = Some (KAstarte ex_finalized)"
proof -
  have c: "obj_key (KAstarte ex_deleting) = (OAstarte, ''astarte'', ''example'')"
    "om_Deleting (ast_Meta ex_deleting)" "\<not> spec_ManualMaintenanceMode (ast_Spec ex_deleting)"
    "astarteFinalizer \<in> set (om_Finalizers (ast_Meta ex_deleting))"
    "GetAstarteSemanticVersionFrom strict_semver (spec_Version (ast_Spec ex_deleting)) = Inr ((1, 3, 0), '''')"
    "with_finalizers (filter (\<lambda>f. f \<noteq> astarteFinalizer) (om_Finalizers (ast_Meta ex_deleting))) ex_deleting = ex_finalized"
    by code_simp+
  have "state_of (memory_server [KAstarte ex_deleting]) [] (OAstarte, ''astarte'', ''example'') = Some (KAstarte ex_deleting)"
    unfolding memory_state by (simp add: store_of_def c(1) del: obj_key_eq)
  with deletion_completes [of "ex_world [KAstarte ex_deleting]" "[]" "''astarte''" "''example''" ex_deleting "((1, 3, 0), [])"]
    memory.sole_client_axioms c(2-5) show ?thesis
    unfolding c(6) by (auto simp: c(6))
qed

end
