(* ===== verification/Status_Writes.thy ===== *)
theory Status_Writes
  imports Controller_Properties
begin

text \<open>How often a run of the handler writes the status, whatever the API server answers.\<close>

section \<open>Counting calls\<close>

text \<open>A program that makes at most \<open>n\<close> calls of a kind.\<close>

definition at_most :: "(event \<Rightarrow> bool) \<Rightarrow> nat \<Rightarrow> 'a io \<Rightarrow> bool" where
  "at_most p n m \<longleftrightarrow> (\<forall>h. \<exists>evs. snd (m h) = h @ evs \<and> length (filter p evs) \<le> n)"

named_theorems at_most_intros \<open>bounds on the number of calls\<close>

lemma at_most_ret [at_most_intros]: "at_most p n (ret x)"
  by (simp add: at_most_def ret_def)

lemma at_most_fail [at_most_intros]: "at_most p n (fail e)"
  by (simp add: at_most_def fail_def)

lemma at_most_lift [at_most_intros]: "at_most p n (lift r)"
  by (simp add: at_most_def lift_def)

lemma at_most_call: "(if p ev then 1 else 0) \<le> n \<Longrightarrow> at_most p n (call ev answer)"
  by (auto simp: at_most_def call_def)

lemma at_most_bnd:
  assumes "at_most p a m" "\<And>x. at_most p b (f x)" "a + b \<le> n"
  shows "at_most p n (bnd m f)"
  unfolding at_most_def
proof
  fix h
  obtain r evs where m: "m h = (r, h @ evs)" "length (filter p evs) \<le> a"
    using assms(1) unfolding at_most_def by (metis prod.collapse)
  show "\<exists>evs. snd (bnd m f h) = h @ evs \<and> length (filter p evs) \<le> n"
  proof (cases r)
    case (Inl e)
    with m assms(3) show ?thesis
      by (auto simp: bnd_def)
  next
    case (Inr x)
    obtain evs' where "snd (f x (h @ evs)) = (h @ evs) @ evs'" "length (filter p evs') \<le> b"
      using assms(2) [of x] unfolding at_most_def by blast
    with Inr m assms(3) show ?thesis
      by (auto simp: bnd_def intro!: exI [of _ "evs @ evs'"])
  qed
qed

lemma at_most_on_result:
  assumes "at_most p a m" "\<And>r. at_most p b (f r)" "a + b \<le> n"
  shows "at_most p n (on_result m f)"
  unfolding at_most_def
proof
  fix h
  obtain r evs where m: "m h = (r, h @ evs)" "length (filter p evs) \<le> a"
    using assms(1) unfolding at_most_def by (metis prod.collapse)
  obtain evs' where f: "snd (f r (h @ evs)) = (h @ evs) @ evs'" "length (filter p evs') \<le> b"
    using assms(2) [of r] unfolding at_most_def by blast
  show "\<exists>evs. snd (on_result m f h) = h @ evs \<and> length (filter p evs) \<le> n"
  proof (cases "\<exists>e. r = Inl e \<and> is_panic e")
    case True
    with m assms(3) show ?thesis
      by (auto simp: on_result_def)
  next
    case False
    then have "on_result m f h = f r (h @ evs)"
      using m by (auto simp: on_result_def split: sum.splits)
    with f m assms(3) show ?thesis
      by (auto intro!: exI [of _ "evs @ evs'"])
  qed
qed

lemma at_most_or_return: "at_most p a m \<Longrightarrow> (\<And>x. at_most p b (f x)) \<Longrightarrow> a + b \<le> n \<Longrightarrow> at_most p n (or_return m f)"
  unfolding or_return_def by (rule at_most_on_result) (auto intro: at_most_ret split: sum.split)

text \<open>A retried program is run at most as often as there are steps.\<close>

lemma at_most_retry:
  assumes "at_most p a m" "0 < e_retry_steps E"
  shows "at_most p (e_retry_steps E * a) (RetryOnConflict E m)"
proof -
  have "at_most p (max 1 k * a) (retry_on_conflict k m)" for k
  proof (induction k)
    case (Suc k)
    have "at_most p (k * a) (if r = Inl ErrConflict \<and> 0 < k then retry_on_conflict k m else lift r)" for r
      using Suc by (cases k) (auto intro: at_most_lift)
    then show ?case
      by (auto intro!: at_most_on_result [OF assms(1)])
  qed (simp add: assms(1))
  from this [of "e_retry_steps E"] assms(2) show ?thesis
    by (simp add: RetryOnConflict_def max_def split: if_splits)
qed

lemma at_most_emits:
  assumes "emits q m" "\<And>e. q e \<Longrightarrow> \<not> p e"
  shows "at_most p n m"
  unfolding at_most_def
proof
  fix h
  obtain evs where evs: "snd (m h) = h @ evs" "list_all q evs"
    using assms(1) by (auto simp: io_spec_def)
  then have "filter p evs = []"
    using assms(2) by (auto simp: list_all_iff filter_empty_conv)
  with evs(1) show "\<exists>evs. snd (m h) = h @ evs \<and> length (filter p evs) \<le> n"
    by auto
qed

text \<open>A program with calls of the kind in one place only.\<close>

abbreviation quiet :: "'a io \<Rightarrow> bool" where
  "quiet \<equiv> emits (\<lambda>e. \<not> is_status_update e)"

lemma at_most_quiet: "quiet m \<Longrightarrow> at_most is_status_update n m"
  by (erule at_most_emits)

lemma at_most_after:
  "quiet m \<Longrightarrow> (\<And>x. at_most is_status_update n (f x)) \<Longrightarrow> at_most is_status_update n (bnd m f)"
  "quiet m \<Longrightarrow> (\<And>r. at_most is_status_update n (g r)) \<Longrightarrow> at_most is_status_update n (on_result m g)"
  by (rule at_most_bnd [where a = 0 and b = n]; simp add: at_most_quiet)
    (rule at_most_on_result [where a = 0 and b = n]; simp add: at_most_quiet)

lemma at_most_then:
  "at_most is_status_update n m \<Longrightarrow> (\<And>r. quiet (f r)) \<Longrightarrow> at_most is_status_update n (on_result m f)"
  by (rule at_most_on_result [where a = n and b = 0]) (simp_all add: at_most_quiet)

lemma at_most_if: "(b \<Longrightarrow> at_most p n m) \<Longrightarrow> (\<not> b \<Longrightarrow> at_most p n m') \<Longrightarrow> at_most p n (if b then m else m')"
  by simp

lemma at_most_case_sum:
  "(\<And>e. at_most p n (f e)) \<Longrightarrow> (\<And>x. at_most p n (g x)) \<Longrightarrow> at_most p n (case r of Inl e \<Rightarrow> f e | Inr x \<Rightarrow> g x)"
  by (cases r) simp_all

lemma quiet_event: "quiet (Recorder_Event t r)"
  unfolding Recorder_Event_def by (rule emits_call) (simp add: is_status_update_def)

lemma quiet_get: "quiet (Get E k ns n)" "quiet (GetAstarte E ns n)"
  unfolding GetAstarte_def Get_def by (auto intro!: emit_intros simp: is_status_update_def)

lemmas quiet_intros = emits_ret emits_fail emits_lift emits_bnd emits_on_result emits_if emits_case_sum quiet_event quiet_get

section \<open>Writing the status\<close>

context kube_api begin

lemma quiet_reads: "emits (reads_only ns) m \<Longrightarrow> at_most is_status_update n m"
  by (erule at_most_emits) (auto simp: is_status_update_def)

lemma writes_update: "at_most is_status_update 1 (update_astarte_status E ns name)"
proof -
  have "at_most is_status_update 0 (GetAstarte E ns name)"
    unfolding GetAstarte_def Get_def
    by (rule at_most_bnd [where a = 0 and b = 0]) (auto intro!: at_most_call at_most_lift simp: is_status_update_def)
  moreover have "at_most is_status_update 0 (ComputeAstarteStatusResource E cr)" for cr
    by (rule quiet_reads [OF emits_status])
  moreover have "at_most is_status_update 1 (StatusUpdate E x)" for x
    unfolding StatusUpdate_def by (rule at_most_call) simp
  ultimately show ?thesis
    unfolding update_astarte_status_def
    by (intro at_most_bnd [where a = 0 and b = 1]) (auto intro!: at_most_bnd [where a = 0 and b = 1])
qed

end

context kube_api begin

lemma writes_restore: "at_most is_status_update 1 (restore_version E ns name v)"
proof -
  have "at_most is_status_update 1 (StatusUpdate E x)" for x
    unfolding StatusUpdate_def by (rule at_most_call) simp
  then show ?thesis
    unfolding restore_version_def by (intro at_most_after at_most_then quiet_intros)
qed

lemma writes_coherency: "at_most is_status_update (e_retry_steps E) (EnsureStatusCoherency E cr ns name)"
proof -
  have restore: "at_most is_status_update (e_retry_steps E) (RetryOnConflict E (restore_version E ns name v))" for v
    using at_most_retry [OF writes_restore retry_positive, of ns name v] by simp
  have then_restore: "at_most is_status_update (e_retry_steps E) (on_result (RetryOnConflict E (restore_version E ns name v)) f)"
    if "\<And>r. quiet (f r)" for v and f :: "err + unit \<Rightarrow> (ctrl_result \<times> err option \<times> Astarte) io"
    using that by (rule at_most_then [OF restore])
  show ?thesis
    unfolding EnsureStatusCoherency_def Let_def
    by (intro then_restore at_most_ret at_most_if at_most_after at_most_case_sum quiet_intros)
qed

lemma writes_checked:
  assumes "w_env W = E"
  shows "at_most is_status_update (e_retry_steps E) (reconcile_checked W ns name cr)"
proof -
  have update: "at_most is_status_update (e_retry_steps E) (RetryOnConflict E (update_astarte_status E ns name))"
    using at_most_retry [OF writes_update retry_positive, of ns name] by simp
  have upgrade: "quiet (check_upgrade E cr)"
    unfolding check_upgrade_def
    by (intro quiet_intros io_spec_weaken [OF emits_upgrade [of cr]]) (auto simp: is_status_update_def)
  have reconcile: "quiet (ReconcileAstarteResources W cr)"
    by (rule io_spec_weaken [OF emits_reconcile [OF assms, of cr]]) (auto simp: is_status_update_def)
  show ?thesis
    unfolding reconcile_checked_def Let_def assms or_return_def case_prod_beta
    by (intro at_most_then [OF update] at_most_ret at_most_if at_most_after upgrade reconcile at_most_case_sum quiet_intros)
qed

lemma writes_live:
  assumes "w_env W = E"
  shows "at_most is_status_update (2 * e_retry_steps E) (reconcile_live W ns name cr)"
proof -
  have finalizer: "quiet (addFinalizer E cr)" for cr
    unfolding addFinalizer_def UpdateObj_def by (intro quiet_intros emits_call) (simp add: is_status_update_def)
  have checked: "at_most is_status_update (e_retry_steps E) (reconcile_checked W ns name x)" for x
    by (rule writes_checked [OF assms])
  have "at_most is_status_update (e_retry_steps E) (if err \<noteq> None then ret (res, err) else
      or_return (if astarteFinalizer \<notin> set (om_Finalizers (ast_Meta b)) then addFinalizer E b else ret b)
        (\<lambda>x. reconcile_checked W ns name x))" for res err b
    unfolding or_return_def
    by (intro at_most_ret at_most_if at_most_after checked finalizer at_most_case_sum quiet_intros)
  then show ?thesis
    unfolding reconcile_live_def Let_def assms
    by (intro at_most_bnd [OF writes_coherency, where b = "e_retry_steps E"]) (auto split: prod.split)
qed

end

text \<open>C20: a run writes the status a bounded number of times.

  Whatever the API server answers, and however often it answers with a conflict, a run of the handler
  attempts at most two updates of the status for each retry step: one series to restore a lost version, one to
  record the outcome.\<close>

theorem status_writes_bounded:
  assumes "kube_api (w_env W)"
  shows "\<exists>evs. snd (astarte_Reconcile W ns name h) = h @ evs \<and>
     length (filter is_status_update evs) \<le> 2 * e_retry_steps (w_env W)"
proof -
  let ?E = "w_env W"
  have maintenance: "at_most is_status_update (2 * e_retry_steps ?E) (RetryOnConflict ?E (update_astarte_status ?E ns name))"
    using at_most_retry [OF kube_api.writes_update [OF assms] kube_api.retry_positive [OF assms], of ns name]
    unfolding at_most_def by (metis mult_2 nat_mult_1_right trans_le_add1)
  have finalize: "quiet (handleFinalization ?E cr)" for cr
    unfolding handleFinalization_def or_return_def FinalizeAstarte_def finalizePriorityClasses_def
    by (intro emit_intros) (simp_all add: is_status_update_def)
  have "at_most is_status_update (2 * e_retry_steps ?E) (astarte_Reconcile W ns name)"
    unfolding astarte_Reconcile_def Let_def or_return_def
    by (intro at_most_then [OF maintenance] kube_api.writes_live [OF assms refl] at_most_quiet [OF finalize]
        at_most_ret at_most_if at_most_after at_most_case_sum quiet_intros)
  then show ?thesis
    by (simp add: at_most_def)
qed

theorem status_writes_bounded_witness:
  "\<exists>evs. snd (astarte_Reconcile (ex_world [KAstarte ex_astarte]) ''astarte'' ''example'' []) = evs \<and>
     length (filter is_status_update evs) \<le> 10"
proof -
  have "e_retry_steps (w_env (ex_world [KAstarte ex_astarte])) = 5"
    by (simp add: memory_server_def)
  with status_writes_bounded [OF ex_world_api, of "[KAstarte ex_astarte]" "''astarte''" "''example''" "[]"] show ?thesis
    by simp
qed

section \<open>A conflict that stays\<close>

text \<open>A server that answers every read, and every update of a status with a conflict.\<close>

definition stuck :: "env \<Rightarrow> string \<Rightarrow> string \<Rightarrow> Astarte \<Rightarrow> bool" where
  "stuck E ns name cr \<longleftrightarrow>
     0 < e_retry_steps E \<and> (\<forall>h. e_get E h (OAstarte, ns, name) = Inr (KAstarte cr)) \<and>
     (\<forall>h k e. e_get E h k = Inl e \<longrightarrow> \<not> is_panic e) \<and> (\<forall>h k nso ls e. e_list E h k nso ls = Inl e \<longrightarrow> \<not> is_panic e) \<and>
     (\<forall>h x. e_status_update E h x = Inl ErrConflict)"

lemma health_total:
  assumes "stuck E ns name cr"
  shows "\<exists>v evs. ComputeAstarteStatusResource E cr h = (Inr v, h @ evs) \<and> filter is_status_update evs = []"
proof -
  have np: "\<And>h k e. e_get E h k = Inl e \<Longrightarrow> \<not> is_panic e" "\<And>h k nso ls e. e_list E h k nso ls = Inl e \<Longrightarrow> \<not> is_panic e"
    using assms by (auto simp: stuck_def)
  have v: "\<exists>v h1. vernemq_health E cr h = (Inr v, h1)" for h
    using np(1) by (auto simp: vernemq_health_def on_result_def Get_def call_def ret_def split: sum.split)
  have c: "\<exists>v h1. computeCFSSLHealth E cr h = (Inr v, h1)" for h
    using np(1) by (auto simp: computeCFSSLHealth_def on_result_def Get_def call_def ret_def split: sum.split)
  have l: "\<exists>v h1. on_result (ListObjs E k nso ls) (\<lambda>r. ret (f r)) h = (Inr v, h1)" for k nso ls h and f :: "err + kobj list \<Rightarrow> int"
    using np(2) by (auto simp: on_result_def ListObjs_def call_def ret_def split: sum.split)
  obtain n h1 where 1: "on_result (ListObjs E ODeployment (Some (cr_Namespace cr)) [(''component'', ''astarte'')]) (\<lambda>r.
      ret (case r of Inl _ \<Rightarrow> 5 | Inr items \<Rightarrow> int (length (filter deployment_not_ready items)))) h = (Inr n, h1)"
    using l [of ODeployment "Some (cr_Namespace cr)" "[(''component'', ''astarte'')]"
      "\<lambda>r. case r of Inl _ \<Rightarrow> 5 | Inr items \<Rightarrow> int (length (filter deployment_not_ready items))" h] by blast
  obtain v h2 where 2: "vernemq_health E cr h1 = (Inr v, h2)"
    using v by blast
  obtain c h3 where 3: "computeCFSSLHealth E cr h2 = (Inr c, h3)"
    using c by blast
  have "ComputeClusterHealth E cr h = (Inr (health_of (n + v + (if \<not> c then 1 else 0))), h3)"
    unfolding ComputeClusterHealth_def bnd_def 1 prod.case sum.case 2 3 by (simp add: ret_def)
  then have "\<exists>x h4. ComputeAstarteStatusResource E cr h = (Inr x, h4)"
    by (auto simp: ComputeAstarteStatusResource_def Let_def bnd_def ret_def do_when_def Recorder_Event_def call_def)
  then obtain x h4 where x: "ComputeAstarteStatusResource E cr h = (Inr x, h4)"
    by blast
  have "quiet (ComputeAstarteStatusResource E cr)"
    unfolding ComputeAstarteStatusResource_def ComputeClusterHealth_def vernemq_health_def computeCFSSLHealth_def Let_def
    by (intro emit_intros) (simp_all add: is_status_update_def)
  then obtain evs where "h4 = h @ evs" "list_all (\<lambda>e. \<not> is_status_update e) evs"
    using x by (auto simp: io_spec_def dest!: spec [of _ h])
  with x show ?thesis
    by (auto simp: filter_empty_conv list_all_iff)
qed

lemma stuck_attempt:
  assumes "stuck E ns name cr"
  shows "\<exists>evs. update_astarte_status E ns name h = (Inl ErrConflict, h @ evs) \<and> length (filter is_status_update evs) = 1"
proof -
  let ?h = "h @ [EvGet (OAstarte, ns, name)]"
  have get: "GetAstarte E ns name h = (Inr cr, ?h)"
    using assms by (simp add: stuck_def GetAstarte_def bnd_def Get_def call_def lift_def as_astarte_def)
  obtain v evs where v: "ComputeAstarteStatusResource E cr ?h = (Inr v, ?h @ evs)" "filter is_status_update evs = []"
    using health_total [OF assms] by blast
  have "update_astarte_status E ns name h =
      (Inl ErrConflict, h @ ([EvGet (OAstarte, ns, name)] @ evs @ [EvStatusUpdate (KAstarte (cr\<lparr>ast_Status := v\<rparr>))]))"
    using get v(1) assms by (simp add: update_astarte_status_def bnd_def StatusUpdate_def call_def stuck_def)
  moreover have "length (filter is_status_update ([EvGet (OAstarte, ns, name)] @ evs @ [EvStatusUpdate (KAstarte (cr\<lparr>ast_Status := v\<rparr>))])) = 1"
    using v(2) by (simp add: is_status_update_def)
  ultimately show ?thesis
    by blast
qed

lemma stuck_retry:
  assumes "stuck E ns name cr"
  shows "\<exists>evs. retry_on_conflict (Suc n) (update_astarte_status E ns name) h = (Inl ErrConflict, h @ evs) \<and>
     length (filter is_status_update evs) = Suc n"
proof (induction n arbitrary: h)
  case 0
  then show ?case
    using stuck_attempt [OF assms, of h] by (auto simp: on_result_def lift_def)
next
  case (Suc n)
  obtain evs where evs: "update_astarte_status E ns name h = (Inl ErrConflict, h @ evs)" "length (filter is_status_update evs) = 1"
    using stuck_attempt [OF assms] by blast
  obtain evs' where evs': "retry_on_conflict (Suc n) (update_astarte_status E ns name) (h @ evs) = (Inl ErrConflict, (h @ evs) @ evs')"
    "length (filter is_status_update evs') = Suc n"
    using Suc by blast
  have "retry_on_conflict (Suc (Suc n)) (update_astarte_status E ns name) h = (Inl ErrConflict, h @ (evs @ evs'))"
    using evs(1) evs'(1) by (subst retry_on_conflict.simps) (simp add: on_result_def)
  with evs(2) evs'(2) show ?case
    by (intro exI [of _ "evs @ evs'"]) simp
qed


definition ex_maintained :: Astarte where
  "ex_maintained = ex_astarte\<lparr>ast_Spec := (ast_Spec ex_astarte)\<lparr>spec_ManualMaintenanceMode := True\<rparr>\<rparr>"

definition ex_stuck :: env where
  "ex_stuck = (memory_server [])\<lparr>
     e_get := (\<lambda>h k. if k = (OAstarte, ''astarte'', ''example'') then Inr (KAstarte ex_maintained) else Inl ErrNotFound),
     e_status_update := (\<lambda>h x. Inl ErrConflict)\<rparr>"


end
