(* ===== verification/Credentials.thy ===== *)
theory Credentials
  imports First_Install
begin

text \<open>
  What a run never makes anew: the keys of Housekeeping, the secret of the sessions, the cookie of the Erlang
  cluster and the devices' certificate authority.
\<close>

section \<open>Runs that leave an object alone\<close>

text \<open>
  \<open>keeps\<close> says of a step that, in states of which \<open>I\<close> holds, it succeeds and leaves the objects of
  \<open>K\<close> as they are, and that \<open>I\<close> holds again afterwards.
\<close>

definition keeps :: "env \<Rightarrow> (kstate \<Rightarrow> bool) \<Rightarrow> okey set \<Rightarrow> 'a io \<Rightarrow> bool" where
  "keeps E I K m = brings E I (\<lambda>s. True) (- K) (\<lambda>s. True) m"

lemma keepsE:
  assumes "keeps E I K m" "I (state_of E h)"
  obtains x h' where "m h = (Inr x, h')" "I (state_of E h')" "\<And>k. k \<in> K \<Longrightarrow> state_of E h' k = state_of E h k"
proof -
  obtain x h' where h': "m h = (Inr x, h')" "I (state_of E h')" "agree (- K) (state_of E h) (state_of E h')"
    using assms bringsE [of E I "\<lambda>s. True" "- K" "\<lambda>s. True" m h] unfolding keeps_def by blast
  then show thesis
    using that agree_at [OF h'(3)] by simp
qed

lemma keeps_ret: "keeps E I K (ret x)"
  by (simp add: keeps_def brings_def ret_def)

lemma keeps_bnd:
  assumes "keeps E I K m" "\<And>x. keeps E I K (f x)"
  shows "keeps E I K (bnd m f)"
proof -
  have "brings E I (\<lambda>s. True) (- K \<union> - K) (\<lambda>s. True) (bnd m f)"
    using assms unfolding keeps_def by (intro brings_seq)
  then show ?thesis
    by (simp add: keeps_def)
qed

lemma keeps_in_order: "(\<And>m. m \<in> set ms \<Longrightarrow> keeps E I K m) \<Longrightarrow> keeps E I K (in_order ms)"
  by (induction ms) (auto intro!: keeps_ret keeps_bnd)

text \<open>A step that converges keeps what it does not write, and everything once its goal holds.\<close>

lemma keeps_outside:
  assumes "converges E J A W P m" "K \<inter> W = {}" "\<And>s. I s \<Longrightarrow> J s \<and> A s"
    and "\<And>s s'. I s \<Longrightarrow> agree W s s' \<Longrightarrow> J s' \<Longrightarrow> I s'"
  shows "keeps E I K m"
  unfolding keeps_def brings_def
proof (intro allI impI)
  fix h
  assume I: "I (state_of E h)"
  then obtain x h' where h': "m h = (Inr x, h')" "J (state_of E h')" "agree W (state_of E h) (state_of E h')"
    using convergesE [OF assms(1)] assms(3) by metis
  have "agree (- K) (state_of E h) (state_of E h')"
    by (rule agree_mono [OF h'(3)]) (use assms(2) in auto)
  with h' I assms(4) show "\<exists>x h'. m h = (Inr x, h') \<and> I (state_of E h') \<and> True \<and>
      agree (- K) (state_of E h) (state_of E h')"
    by blast
qed

lemma keeps_done:
  assumes "converges E J A W P m" "\<And>s. I s \<Longrightarrow> J s \<and> A s \<and> P s"
  shows "keeps E I K m"
proof (rule keeps_outside)
  show "converges E J I {} P m"
    by (rule converges_already [OF assms(1)]) (use assms(2) in blast)
  show "I s'" if "I s" "agree {} s s'" for s s'
    using that agree_eq [OF that(2)] by simp
qed (use assms(2) in auto)

section \<open>The credentials\<close>

text \<open>
  Each credential with the object whose presence keeps it: the private key of Housekeeping is replaced
  when the public one is missing.
\<close>

definition credentials :: "Astarte \<Rightarrow> (okey \<times> okey) list" where
  "credentials cr =
     (let secret = (\<lambda>n. (OSecret, cr_Namespace cr, cr_Name cr @ n));
          public = secret ''-housekeeping-public-key''
      in [(public, public), (secret ''-housekeeping-private-key'', public),
          (secret ''-secret-key-base'', secret ''-secret-key-base''),
          (secret ''-erlang-clustering-cookie'', secret ''-erlang-clustering-cookie''),
          (secret ''-devices-ca'', secret ''-devices-ca'')])"

definition holding :: "Astarte \<Rightarrow> okey \<Rightarrow> kstate \<Rightarrow> bool" where
  "holding cr g s \<longleftrightarrow> admissible cr s \<and> ca_given cr s \<and> present g s"

context sole_client begin

lemma keeps_stage:
  assumes "stage E cr (ca_given cr) ps P m" "ca_foreign cr" "K \<inter> region cr ps = {}" "g \<in> K"
  shows "keeps E (holding cr g) K m"
proof -
  have st: "conv cr (ca_given cr) (region cr ps) P m" "'''' \<notin> set ps" "''autoscaler'' \<notin> set ps"
    using assms(1) by (simp_all add: stage_def)
  have A: "unaffected (region cr ps) (ca_given cr)"
    using st by (intro unaffected_mono [OF unaffected_ca_given [OF assms(2)]] region_others) simp_all
  show ?thesis
  proof (rule keeps_outside [OF st(1) assms(3)])
    show "holding cr g s'" if "holding cr g s" "agree (region cr ps) s s'" "admissible cr s'" for s s'
    proof -
      have "s' g = s g"
        using assms(3,4) by (intro agree_at [OF that(2)]) auto
      then show ?thesis
        using that(1,3) unaffectedD [OF A that(2)] by (simp add: holding_def present_def)
    qed
  qed (simp_all add: holding_def)
qed

end

context sole_client begin

text \<open>The step that makes a credential finds it there.\<close>

lemma keeps_own:
  assumes "w_env W = E" "pods_built W cr" "crypto_works W" "convergent cr"
  shows "keeps E (holding cr (OSecret, cr_Namespace cr, cr_Name cr @ ''-housekeeping-public-key'')) K (EnsureHousekeepingKey W cr)"
    and "keeps E (holding cr (OSecret, cr_Namespace cr, cr_Name cr @ ''-secret-key-base'')) K (EnsureSecretKeyBase W cr)"
    and "keeps E (holding cr (OSecret, cr_Namespace cr, cr_Name cr @ ''-erlang-clustering-cookie'')) K
      (EnsureErlangClusteringCookie W cr)"
proof -
  have keys: "isOK (cry_MarshalPKIXPublicKey (w_crypto W) k)" for k
    using assms(3) by (simp add: crypto_works_def)
  show "keeps E (holding cr (OSecret, cr_Namespace cr, cr_Name cr @ ''-housekeeping-public-key'')) K (EnsureHousekeepingKey W cr)"
    by (rule keeps_done [OF conv_keys [OF assms(1) keys]])
      (simp add: holding_def keys_goal_def housekeeping_public_name_def)
  show "keeps E (holding cr (OSecret, cr_Namespace cr, cr_Name cr @ ''-secret-key-base'')) K (EnsureSecretKeyBase W cr)"
    by (rule keeps_done [OF conv_base [OF assms(1)]]) (simp add: holding_def base_goal_def)
  show "keeps E (holding cr (OSecret, cr_Namespace cr, cr_Name cr @ ''-erlang-clustering-cookie'')) K
      (EnsureErlangClusteringCookie W cr)"
    by (rule keeps_done [OF conv_clustering_cookie [OF assms(1)]]) (simp add: holding_def cookie_goal_def)
qed

lemma keeps_devices_ca:
  fixes ns n
  defines "k \<equiv> (OSecret, ns, n)"
  assumes "w_env W = E" "pods_built W cr" "crypto_works W" "convergent cr" "ns = cr_Namespace cr" "n = cr_Name cr @ ''-devices-ca''"
  shows "keeps E (holding cr k) {k} (EnsureCFSSL W cr)"
proof -
  have c: "ca_foreign cr" "isOK (getCFSSLPodSpec (cr_Name cr @ ''-cfssl'') (ca_name cr) cr)"
    using assms(3,5) by (simp_all add: convergent_def pods_built_def)
  have own: "k \<notin> region cr [''cfssl'']"
    by (simp add: k_def assms(7) region_simps)
  have A: "unaffected (region cr [''cfssl'']) (ca_given cr)"
    by (intro unaffected_mono [OF unaffected_ca_given [OF c(1)]] region_others) simp_all
  show ?thesis
  proof (rule keeps_outside [OF conv_cfssl_frozen [OF assms(2,4) c, of True]])
    show "{k} \<inter> (region cr [''cfssl''] \<union> ca_written cr True) = {}"
      using own by (simp add: ca_written_def)
    show "admissible cr s \<and> ca_assumed cr True s" if "holding cr k s" for s
      using that by (auto simp: holding_def ca_assumed_def ca_name_def k_def assms(6,7))
    show "holding cr k s'" if "holding cr k s" "agree (region cr [''cfssl''] \<union> ca_written cr True) s s'" "admissible cr s'" for s s'
      using that(1,3) unaffectedD [OF A] agree_at [of _ s s', OF _ own] that(2)
      by (simp add: holding_def present_def ca_written_def)
  qed
qed

lemma reconcile_keeps:
  assumes "w_env W = E" "pods_built W cr" "crypto_works W" "convergent cr" "(k, g) \<in> set (credentials cr)"
  shows "keeps E (holding cr g) {k, g} (ReconcileAstarteResources W cr)"
proof -
  have foreign: "ca_foreign cr"
    using assms(4) by (simp add: convergent_def)
  have own: "keeps E (holding cr g) {k, g} m"
    if "(ps, P, m) \<in> set (reconcile_steps W cr)" "part cr k \<in> set ps \<or> part cr g \<in> set ps" for ps P m
  proof -
    have parts: "part cr (OSecret, ns, cr_Name cr @ ''-housekeeping-public-key'') = ''housekeeping-public-key''"
      "part cr (OSecret, ns, cr_Name cr @ ''-housekeeping-private-key'') = ''housekeeping-private-key''"
      "part cr (OSecret, ns, cr_Name cr @ ''-secret-key-base'') = ''secret-key-base''"
      "part cr (OSecret, ns, cr_Name cr @ ''-erlang-clustering-cookie'') = ''erlang-clustering-cookie''"
      "part cr (OSecret, ns, cr_Name cr @ ''-devices-ca'') = ''devices-ca''" for ns
      by (simp_all add: region_simps)
    note kept = keeps_own [OF assms(1-4)] keeps_devices_ca [OF assms(1-4) refl refl]
    show ?thesis
      using assms(5) that unfolding credentials_def Let_def
      by (simp del: part.simps add: reconcile_steps_def; elim disjE; simp add: parts kept del: part.simps)
  qed
  have "keeps E (holding cr g) {k, g} m" if "(ps, P, m) \<in> set (reconcile_steps W cr)" for ps P m
  proof (cases "part cr k \<in> set ps \<or> part cr g \<in> set ps")
    case False
    then show ?thesis
      using keeps_stage [OF reconcile_stages [OF assms(1-4) that] foreign, of "{k, g}" g] by (simp add: in_region)
  qed (rule own [OF that])
  then show ?thesis
    unfolding reconcile_in_order [symmetric] by (intro keeps_in_order) auto
qed

end

section \<open>The handler\<close>

lemma credentials_guarded [simp]: "credentials (guarded cr) = credentials cr"
  by (simp add: credentials_def guarded_def)

lemma credential_kind: "(k, g) \<in> set (credentials cr) \<Longrightarrow> fst k = OSecret \<and> fst g = OSecret"
  by (auto simp: credentials_def Let_def)


text \<open>A cluster with the resource and the public key of its Housekeeping.\<close>

definition ex_public_key :: kobj where
  "ex_public_key =
     KSecret \<lparr>sec_Meta = (NewMeta ''example-housekeeping-public-key'' ''astarte'')
                \<lparr>om_Controller := Some (owner_ref_of (KAstarte ex_astarte))\<rparr>,
              sec_Type = ''Opaque'', sec_Data = [(''public-key'', ''PEM'')], sec_StringData = []\<rparr>"

lemma ex_keyed_state: "state_of (memory_server [KAstarte ex_astarte, ex_public_key]) [] =
    (\<lambda>k. None)((OSecret, ''astarte'', ''example-housekeeping-public-key'') \<mapsto> ex_public_key,
      (OAstarte, ''astarte'', ''example'') \<mapsto> KAstarte ex_astarte)"
proof -
  have "obj_key (KAstarte ex_astarte) = (OAstarte, ''astarte'', ''example'')"
    "obj_key ex_public_key = (OSecret, ''astarte'', ''example-housekeeping-public-key'')"
    by code_simp+
  then show ?thesis
    unfolding memory_state by (simp add: store_of_def fun_upd_twist del: obj_key_eq)
qed


end
