(* ===== verification/Resource_Shares.thy ===== *)
theory Resource_Shares
  imports Allocation Example_Resource
begin

text \<open>
  How the resources of the whole are shared: the floating-point coefficients of the deployed components
  add up to one but for rounding, and what each component gets is within the documented limits.
\<close>

section \<open>Rounding errors\<close>

text \<open>\<open>y\<close> is the nonnegative \<open>x\<close> after at most \<open>k\<close> roundings.\<close>

definition near :: "nat \<Rightarrow> rat \<Rightarrow> rat \<Rightarrow> bool" where
  "near k x y \<longleftrightarrow> 0 \<le> x \<and> x * (1 - 1 / 2 ^ 53) ^ k \<le> y \<and> y \<le> x * (1 + 1 / 2 ^ 53) ^ k"

lemma near_nonneg: "near k x y \<Longrightarrow> 0 \<le> x \<and> 0 \<le> y"
proof -
  assume n: "near k x y"
  have "(0::rat) \<le> (1 - 1 / 2 ^ 53) ^ k"
    by (rule zero_le_power) simp
  with n have "0 \<le> x * (1 - 1 / 2 ^ 53) ^ k"
    by (simp add: near_def)
  with n show ?thesis
    unfolding near_def by linarith
qed

lemma near_exact: "0 \<le> x \<Longrightarrow> near 0 x x"
  by (simp add: near_def)

lemma near_mono:
  assumes "near k x y" "k \<le> l"
  shows "near l x y"
proof -
  have "(1 - 1 / 2 ^ 53 :: rat) ^ l \<le> (1 - 1 / 2 ^ 53) ^ k" "(1 + 1 / 2 ^ 53 :: rat) ^ k \<le> (1 + 1 / 2 ^ 53) ^ l"
    using assms(2) by (intro power_decreasing power_increasing; simp)+
  then have "x * (1 - 1 / 2 ^ 53) ^ l \<le> x * (1 - 1 / 2 ^ 53) ^ k" "x * (1 + 1 / 2 ^ 53) ^ k \<le> x * (1 + 1 / 2 ^ 53) ^ l"
    using assms(1) by (auto simp: near_def intro: mult_left_mono)
  with assms(1) show ?thesis
    unfolding near_def by linarith
qed

lemma near_fl:
  assumes "near k x y"
  shows "near (Suc k) x (fl y)"
proof -
  have y: "0 \<le> x" "0 \<le> y"
    using near_nonneg [OF assms] by simp_all
  define d where "d = y / 2 ^ 53"
  have "\<bar>fl y - y\<bar> \<le> d"
    using fl_error [of y] y(2) by (simp add: d_def)
  then have "y - d \<le> fl y" "fl y \<le> y + d"
    by (auto simp: abs_le_iff)
  moreover have "y * (1 - 1 / 2 ^ 53) = y - d" "y * (1 + 1 / 2 ^ 53) = y + d"
    unfolding right_diff_distrib distrib_left d_def by simp_all
  ultimately have "y * (1 - 1 / 2 ^ 53) \<le> fl y" "fl y \<le> y * (1 + 1 / 2 ^ 53)"
    by simp_all
  moreover have "x * (1 - 1 / 2 ^ 53) ^ k * (1 - 1 / 2 ^ 53) \<le> y * (1 - 1 / 2 ^ 53)"
    "y * (1 + 1 / 2 ^ 53) \<le> x * (1 + 1 / 2 ^ 53) ^ k * (1 + 1 / 2 ^ 53)"
    using assms by (auto simp: near_def intro: mult_right_mono)
  ultimately show ?thesis
    unfolding near_def using y(1) by (simp add: mult.assoc mult.commute [of "1 - 1 / 2 ^ 53"]
        mult.commute [of "1 + 1 / 2 ^ 53"])
qed

lemma near_add: "near k x y \<Longrightarrow> near k x' y' \<Longrightarrow> near k (x + x') (y + y')"
  by (simp add: near_def distrib_right)

lemma near_divide: "near k x y \<Longrightarrow> 0 < n \<Longrightarrow> near k (x / n) (y / n)"
  by (simp add: near_def divide_right_mono)

lemma near_fadd: "near k x y \<Longrightarrow> near k x' y' \<Longrightarrow> near (Suc k) (x + x') (fadd y y')"
  unfolding fadd_def by (intro near_fl near_add)

section \<open>The shares before rounding\<close>

definition default_share :: "AstarteComponent \<Rightarrow> rat" where
  "default_share c =
     (case c of AppEngineAPI \<Rightarrow> 18 / 100 | DataUpdaterPlant \<Rightarrow> 21 / 100 | FlowComponent \<Rightarrow> 10 / 100
      | Housekeeping \<Rightarrow> 8 / 100 | Pairing \<Rightarrow> 19 / 100 | RealmManagement \<Rightarrow> 12 / 100
      | TriggerEngine \<Rightarrow> 7 / 100 | Dashboard \<Rightarrow> 5 / 100)"

lemma default_allocation: "defaultComponentAllocations c = both_coefficients (default_share c)"
  by (cases c) (simp_all add: defaultComponentAllocations_def default_share_def)

lemma default_share_bounds: "5 / 100 \<le> default_share c"
  by (cases c) (simp_all add: default_share_def)

lemma near_default: "near 1 (default_share c) (fl (default_share c))"
proof -
  have "0 \<le> default_share c"
    using default_share_bounds [of c] by linarith
  then show ?thesis
    using near_fl [OF near_exact, of "default_share c"] by simp
qed

definition sharing :: "Astarte \<Rightarrow> AstarteComponent list" where
  "sharing cr = filter (counted_as_deployed cr) allocation_order"

definition left_over :: "Astarte \<Rightarrow> rat" where
  "left_over cr = (\<Sum>c \<leftarrow> filter (\<lambda>c. \<not> counted_as_deployed cr c) allocation_order. default_share c)"

lemma shares_partition: "(\<Sum>c \<leftarrow> sharing cr. default_share c) + left_over cr = 1"
proof -
  have "sum_list (map f (filter P xs)) + sum_list (map f (filter (\<lambda>x. \<not> P x) xs)) = sum_list (map f xs)"
    for f :: "AstarteComponent \<Rightarrow> rat" and P xs
    by (induction xs) (simp_all add: algebra_simps)
  then show ?thesis
    unfolding sharing_def left_over_def by (simp add: allocation_order_def default_share_def)
qed

text \<open>The two coefficients go through the same operations.\<close>

lemma leftover_step:
  assumes "near k x (CPUCoefficient a)" "MemoryCoefficient a = CPUCoefficient a" "1 \<le> k"
    and "b = checkComponentForLeftoverAllocations (component_resource cr c) c a"
  shows "near (Suc k) (x + (if counted_as_deployed cr c then 0 else default_share c)) (CPUCoefficient b)"
    and "MemoryCoefficient b = CPUCoefficient b"
  using assms near_mono [OF assms(1), of "Suc k"] near_fadd [OF assms(1) near_mono [OF near_default [of c] assms(3)]]
  by (simp_all add: checkComponentForLeftoverAllocations_def counted_as_deployed_def default_allocation both_coefficients_def)

lemma leftover_fold:
  assumes "near k x (CPUCoefficient a)" "MemoryCoefficient a = CPUCoefficient a" "1 \<le> k"
    and "b = foldl (\<lambda>aC c. checkComponentForLeftoverAllocations (component_resource cr c) c aC) a cs"
  shows "near (k + length cs) (x + (\<Sum>c \<leftarrow> filter (\<lambda>c. \<not> counted_as_deployed cr c) cs. default_share c)) (CPUCoefficient b) \<and>
    MemoryCoefficient b = CPUCoefficient b"
  using assms
proof (induction cs arbitrary: k x a)
  case (Cons c cs)
  note s = leftover_step [OF Cons.prems(1-3) refl, of cr c]
  show ?case
    using Cons.IH [OF s _ _] Cons.prems(4) by (cases "counted_as_deployed cr c") (simp_all add: add.assoc)
qed simp

lemma near_leftover:
  "near 9 (left_over cr) (CPUCoefficient (getLeftoverCoefficients cr))"
  "MemoryCoefficient (getLeftoverCoefficients cr) = CPUCoefficient (getLeftoverCoefficients cr)"
proof -
  have z: "near 1 0 (CPUCoefficient \<lparr>CPUCoefficient = 0, MemoryCoefficient = 0\<rparr>)"
    by (simp add: near_def)
  have "1 + length allocation_order = 9"
    by (simp add: allocation_order_def)
  then show "near 9 (left_over cr) (CPUCoefficient (getLeftoverCoefficients cr))"
    "MemoryCoefficient (getLeftoverCoefficients cr) = CPUCoefficient (getLeftoverCoefficients cr)"
    using leftover_fold [OF z _ _ getLeftoverCoefficients_def [of cr]]
    by (simp_all only: left_over_def add_0 allocationCoefficients.simps order_refl simp_thms)
qed

lemma number_sharing: "getNumberOfDeployedAstarteComponentsAsFloat cr = of_nat (length (sharing cr))"
proof -
  have fold: "foldl (\<lambda>n c. if P c then n + 1 else n) m cs = m + int (length (filter P cs))" for P m and cs :: "AstarteComponent list"
    by (induction cs arbitrary: m) simp_all
  have exact: "float64_of_int 0 = 0" "float64_of_int 1 = 1" "float64_of_int 2 = 2" "float64_of_int 3 = 3" "float64_of_int 4 = 4"
    "float64_of_int 5 = 5" "float64_of_int 6 = 6" "float64_of_int 7 = 7" "float64_of_int 8 = 8"
    by code_simp+
  have "length (sharing cr) \<le> length allocation_order"
    unfolding sharing_def by (rule length_filter_le)
  then have "length (sharing cr) \<le> 8"
    by (simp add: allocation_order_def)
  moreover have "n \<in> {0, 1, 2, 3, 4, 5, 6, 7, 8}" if "n \<le> 8" for n :: nat
    using that by (simp, arith)
  ultimately have "length (sharing cr) \<in> {0, 1, 2, 3, 4, 5, 6, 7, 8}"
    by blast
  then show ?thesis
    using exact unfolding getNumberOfDeployedAstarteComponentsAsFloat_def fold sharing_def [symmetric] by auto
qed

section \<open>What the deployed components get\<close>

lemma near_share:
  assumes "sharing cr \<noteq> []"
  shows "near 11 (default_share c + left_over cr / of_nat (length (sharing cr)))
      (CPUCoefficient (getWeightedDefaultAllocationFor cr c))"
    and "MemoryCoefficient (getWeightedDefaultAllocationFor cr c) = CPUCoefficient (getWeightedDefaultAllocationFor cr c)"
proof -
  let ?L = "CPUCoefficient (getLeftoverCoefficients cr)" and ?n = "of_nat (length (sharing cr)) :: rat"
  have n: "0 < ?n"
    using assms by simp
  have d: "near 10 (default_share c) (fl (default_share c))"
    by (rule near_mono [OF near_default]) simp
  have "near 10 (left_over cr / ?n) (fdiv ?L ?n)"
    unfolding fdiv_def using near_fl [OF near_divide [OF near_leftover(1) n]] by simp
  then have "near 11 (default_share c + left_over cr / ?n) (fadd (fl (default_share c)) (fdiv ?L ?n))"
    using near_fadd [OF d] by simp
  moreover have "left_over cr = 0" if "\<not> 0 < ?L"
  proof -
    have "left_over cr * (1 - 1 / 2 ^ 53) ^ 9 \<le> 0" "0 \<le> left_over cr"
      using that near_leftover(1) [of cr] by (simp_all add: near_def)
    then show ?thesis
      by (simp add: mult_le_0_iff)
  qed
  ultimately show "near 11 (default_share c + left_over cr / ?n) (CPUCoefficient (getWeightedDefaultAllocationFor cr c))"
    "MemoryCoefficient (getWeightedDefaultAllocationFor cr c) = CPUCoefficient (getWeightedDefaultAllocationFor cr c)"
    using near_mono [OF d, of 11] near_leftover(2) [of cr]
    by (auto simp: getWeightedDefaultAllocationFor_def Let_def default_allocation both_coefficients_def number_sharing)
qed

lemma share_at_least:
  assumes "sharing cr \<noteq> []"
  shows "4 / 100 \<le> CPUCoefficient (getWeightedDefaultAllocationFor cr c)"
proof -
  let ?n = "of_nat (length (sharing cr)) :: rat"
  have l: "0 \<le> left_over cr / ?n"
    using near_nonneg [OF near_leftover(1)] by (intro divide_nonneg_nonneg) simp_all
  have "5 / 100 \<le> default_share c + left_over cr / ?n"
    using add_mono [OF default_share_bounds l] by simp
  then have "5 / 100 * (1 - 1 / 2 ^ 53) ^ 11 \<le> (default_share c + left_over cr / ?n) * (1 - 1 / 2 ^ 53) ^ 11"
    by (rule mult_right_mono) simp
  moreover have "4 / 100 \<le> 5 / 100 * (1 - 1 / 2 ^ 53 :: rat) ^ 11"
    by (simp add: power_divide)
  ultimately show ?thesis
    using near_share(1) [OF assms, of c] unfolding near_def by (meson order_trans)
qed

lemma near_sum_list:
  "(\<And>c. c \<in> set cs \<Longrightarrow> near k (f c) (g c)) \<Longrightarrow> near k (\<Sum>c \<leftarrow> cs. f c) (\<Sum>c \<leftarrow> cs. g c)"
  by (induction cs) (simp add: near_def, simp add: near_add)

text \<open>C27: the shares of the deployed components are the whole.

  Whatever components are switched off, the coefficients of those counted as deployed add up to one, for CPU
  and for memory, up to one part in \<open>2^49\<close> that the floating-point arithmetic may lose or add; and every
  component's coefficients are at least 0.04, so that the guard against a zero coefficient never strikes.\<close>

theorem resources_shared_out:
  assumes "sharing cr \<noteq> []"
  shows "\<bar>(\<Sum>c \<leftarrow> sharing cr. CPUCoefficient (getWeightedDefaultAllocationFor cr c)) - 1\<bar> \<le> 1 / 2 ^ 49 \<and>
     \<bar>(\<Sum>c \<leftarrow> sharing cr. MemoryCoefficient (getWeightedDefaultAllocationFor cr c)) - 1\<bar> \<le> 1 / 2 ^ 49 \<and>
     4 / 100 \<le> CPUCoefficient (getWeightedDefaultAllocationFor cr c) \<and>
     4 / 100 \<le> MemoryCoefficient (getWeightedDefaultAllocationFor cr c)"
proof -
  let ?n = "of_nat (length (sharing cr)) :: rat" and ?f = "\<lambda>c. CPUCoefficient (getWeightedDefaultAllocationFor cr c)"
  have "(\<Sum>c \<leftarrow> cs. f c + (x :: rat)) = (\<Sum>c \<leftarrow> cs. f c) + of_nat (length cs) * x" for f x and cs :: "AstarteComponent list"
    by (induction cs) (simp_all add: algebra_simps)
  then have "(\<Sum>c \<leftarrow> sharing cr. default_share c + left_over cr / ?n) = 1"
    using assms shares_partition [of cr] by simp
  moreover have "near 11 (\<Sum>c \<leftarrow> sharing cr. default_share c + left_over cr / ?n) (\<Sum>c \<leftarrow> sharing cr. ?f c)"
    by (rule near_sum_list) (rule near_share(1) [OF assms])
  ultimately have s: "near 11 1 (\<Sum>c \<leftarrow> sharing cr. ?f c)"
    by simp
  have "\<bar>(\<Sum>c \<leftarrow> sharing cr. ?f c) - 1\<bar> \<le> 1 / 2 ^ 49"
  proof -
    have "1 - 1 / 2 ^ 49 \<le> (1 - 1 / 2 ^ 53 :: rat) ^ 11" "(1 + 1 / 2 ^ 53 :: rat) ^ 11 \<le> 1 + 1 / 2 ^ 49"
      by (simp_all add: power_divide)
    with s have "1 - 1 / 2 ^ 49 \<le> (\<Sum>c \<leftarrow> sharing cr. ?f c)" "(\<Sum>c \<leftarrow> sharing cr. ?f c) \<le> 1 + 1 / 2 ^ 49"
      unfolding near_def mult_1 by (meson order_trans)+
    then show ?thesis
      unfolding abs_le_iff by (simp add: algebra_simps)
  qed
  then show ?thesis
    using share_at_least [OF assms] by (simp add: near_share(2) [OF assms])
qed

text \<open>The example, and the example without Housekeeping.\<close>

lemma ex_sharing: "sharing ex_astarte \<noteq> []"
  by code_simp

theorem resources_shared_out_witness:
  "\<bar>(\<Sum>c \<leftarrow> sharing ex_astarte. CPUCoefficient (getWeightedDefaultAllocationFor ex_astarte c)) - 1\<bar> \<le> 1 / 2 ^ 49"
  using resources_shared_out [OF ex_sharing] by blast

section \<open>The resources of a component\<close>

text \<open>C28: the resources of a component are consistent.

  For a component that names no resources of its own, where the whole of Astarte does, requests are within
  limits; the CPU request is dropped or at least 150 milli-units; the CPU limit is at least 300 milli-units;
  and more than 127 megabytes of memory are requested. Quantities beyond 64 bits included: the conversion
  to an integer wraps around, and the adjustment comes after it.\<close>

theorem component_resources_consistent:
  assumes "quantity_laws ql amount" "comp_Resources (spec_Components (ast_Spec cr)) = Some all" "sharing cr \<noteq> []"
  shows "\<exists>cl ml cq mq. GetResourcesForAstarteComponent ql cr None c =
      \<lparr>rr_Limits = [(''cpu'', cl), (''memory'', ml)], rr_Requests = [(''cpu'', cq), (''memory'', mq)]\<rparr> \<and>
      amount cq \<le> amount cl \<and> amount mq \<le> amount ml \<and>
      (amount cq = 0 \<or> 150 / 1000 \<le> amount cq) \<and> 300 / 1000 \<le> amount cl \<and> 127 * 10 ^ 6 < amount mq"
proof -
  let ?a = "getWeightedDefaultAllocationFor cr c"
  have c: "4 / 100 \<le> CPUCoefficient ?a" "MemoryCoefficient ?a = CPUCoefficient ?a"
    using share_at_least [OF assms(3)] near_share(2) [OF assms(3)] by simp_all
  then have nz: "MemoryCoefficient ?a \<noteq> 0" "CPUCoefficient ?a \<noteq> 0"
    by auto
  define cv where "cv = (\<lambda>rs. int64_of_float (fmul (float64_of_int (ql_MilliValue ql (ql_Cpu ql rs))) (CPUCoefficient ?a)))"
  define mv where "mv = (\<lambda>rs. int64_of_float (fmul (float64_of_int (ql_Value ql (ql_Memory ql rs))) (MemoryCoefficient ?a)))"
  define rc where "rc = (if cv (rr_Requests all) < 150 then 0 else cv (rr_Requests all))"
  define rm where "rm = (if mv (rr_Requests all) \<le> 127 * 10 ^ 6 then 128 * 10 ^ 6 else mv (rr_Requests all))"
  obtain cl ml cq mq where r: "GetResourcesForAstarteComponent ql cr None c =
      \<lparr>rr_Limits = [(''cpu'', cl), (''memory'', ml)], rr_Requests = [(''cpu'', cq), (''memory'', mq)]\<rparr>"
    "amount cq = of_int rc / 1000" "amount cl = of_int (max 300 (max (cv (rr_Limits all)) rc)) / 1000"
    "amount mq = of_int rm" "amount ml = of_int (max (mv (rr_Limits all)) rm)"
    using quantity_laws.distributed_exact [OF assms(1,2) refl nz cv_def mv_def rc_def rm_def] by blast
  have "rc = 0 \<or> 150 \<le> rc" "127 * 10 ^ 6 < rm"
    by (auto simp: rc_def rm_def)
  note r = r this
  have "amount cq \<le> amount cl" "amount mq \<le> amount ml"
    unfolding r(2-5) by (simp_all add: divide_right_mono)
  moreover have "amount cq = 0 \<or> 150 / 1000 \<le> amount cq"
    using r(6) unfolding r(2) by auto
  moreover have "300 / 1000 \<le> amount cl"
    unfolding r(3) by (rule divide_right_mono) simp_all
  moreover have "127 * 10 ^ 6 < amount mq"
    using r(7) unfolding r(4) by (metis of_int_less_iff of_int_mult of_int_numeral of_int_power)
  ultimately show ?thesis
    using r(1) by blast
qed

definition ex_sized :: Astarte where
  "ex_sized = ex_astarte\<lparr>ast_Spec := ex_spec\<lparr>spec_Components := (spec_Components ex_spec)\<lparr>comp_Resources :=
     Some \<lparr>rr_Limits = [(''cpu'', Quantity ''8000m''), (''memory'', Quantity ''8Gi'')],
           rr_Requests = [(''cpu'', Quantity ''2''), (''memory'', Quantity ''3Gi'')]\<rparr>\<rparr>\<rparr>\<rparr>"

theorem component_resources_consistent_witness:
  "\<exists>cl ml cq mq. GetResourcesForAstarteComponent plain_quantities ex_sized None Pairing =
      \<lparr>rr_Limits = [(''cpu'', cl), (''memory'', ml)], rr_Requests = [(''cpu'', cq), (''memory'', mq)]\<rparr> \<and>
      plain_amount cq \<le> plain_amount cl \<and> 300 / 1000 \<le> plain_amount cl"
proof -
  have "comp_Resources (spec_Components (ast_Spec ex_sized)) = Some
      \<lparr>rr_Limits = [(''cpu'', Quantity ''8000m''), (''memory'', Quantity ''8Gi'')],
       rr_Requests = [(''cpu'', Quantity ''2''), (''memory'', Quantity ''3Gi'')]\<rparr>"
    by (simp add: ex_sized_def)
  moreover have "sharing ex_sized \<noteq> []"
    by code_simp
  ultimately show ?thesis
    using component_resources_consistent [OF plain.quantity_laws_axioms, of ex_sized _ Pairing] by blast
qed

text \<open>
  Flow counts as deployed here when nothing is said about it, while the controller deploys it only when
  asked: its share is set aside for nobody.
\<close>

lemma flow_share_set_aside:
  assumes "gcr_Deploy (component_resource cr FlowComponent) = None"
  shows "FlowComponent \<in> set (sharing cr)" "\<not> IsAstarteComponentDeployed cr FlowComponent"
  using assms by (simp_all add: sharing_def allocation_order_def counted_as_deployed_def IsAstarteComponentDeployed_def PtrValue_def)

end
