(* ===== verification/Flow_Handler.thy ===== *)
theory Flow_Handler
  imports Flow_Blocks Kube_Runs Reconcile_Footprint Kube_Server Example_Resource
begin

text \<open>
  A run of the controller of Flow on a server nobody else writes to: the blocks that run after it, and the
  state it reports.
\<close>

section \<open>Merging maps\<close>

text \<open>The documented behaviour of the library on maps without common keys: the union, in some order.\<close>

locale map_merge =
  fixes merge :: merger
  assumes union: "distinct (map fst (d @ s)) \<Longrightarrow> \<exists>m. merge d s = Inr m \<and> mset m = mset (d @ s)"
begin

lemma merged:
  assumes "distinct (map fst (d @ s))"
  obtains m where "merge d s = Inr m" "set m = set (d @ s)" "distinct (map fst m)"
proof -
  obtain m where m: "merge d s = Inr m" "mset m = mset (d @ s)"
    using union [OF assms] by blast
  then have "mset (map fst m) = mset (map fst (d @ s))"
    by (metis mset_map)
  then have "distinct (map fst m)"
    using assms by (metis mset_eq_imp_distinct_iff)
  moreover have "set m = set (d @ s)"
    using m(2) by (metis set_mset_mset)
  ultimately show thesis
    using that m(1) by blast
qed

end

definition append_merge :: merger where
  "append_merge d s = Inr (d @ filter (\<lambda>(k, _). k \<notin> set (map fst d)) s)"

interpretation append: map_merge append_merge
proof
  show "\<exists>m. append_merge d s = Inr m \<and> mset m = mset (d @ s)" if "distinct (map fst (d @ s))" for d s
  proof -
    have "filter (\<lambda>(k, _). k \<notin> set (map fst d)) s = s"
      using that by (intro filter_True) (force simp: image_iff)
    then show ?thesis
      by (simp add: append_merge_def)
  qed
qed

section \<open>Objects by name\<close>

abbreviation obj_name :: "kobj \<Rightarrow> string" where
  "obj_name x \<equiv> om_Name (obj_meta x)"

lemma update_new: "k \<notin> fst ` set m \<Longrightarrow> AList.update k v m = m @ [(k, v)]"
  by (induction m) auto

lemma by_name_distinct:
  assumes "distinct (map obj_name xs)"
  shows "by_name xs = map (\<lambda>x. (obj_name x, x)) xs"
proof -
  have "fold (\<lambda>x m. AList.update (obj_name x) x m) xs m = m @ map (\<lambda>x. (obj_name x, x)) xs"
    if "distinct (map obj_name xs)" "fst ` set m \<inter> obj_name ` set xs = {}" for m :: "(string \<times> kobj) list" and xs
    using that by (induction xs arbitrary: m) (auto simp: update_new)
  from this [of xs "[]"] assms show ?thesis
    by (simp add: by_name_def)
qed

text \<open>What a series of deletions leaves.\<close>

definition without_names :: "string list \<Rightarrow> (string \<times> kobj) list \<Rightarrow> (string \<times> kobj) list" where
  "without_names ns m = filter (\<lambda>(n, _). n \<notin> set ns) m"

lemma without_names_simps [simp]:
  "without_names [] m = m"
  "without_names ns (AList.delete n m) = without_names (n # ns) m"
  "set (without_names ns m) = {(n, x) \<in> set m. n \<notin> set ns}"
  by (auto simp: without_names_def AList.delete_eq intro!: filter_True filter_cong)

section \<open>What is to run\<close>

abbreviation flow_blocks :: "Flow \<Rightarrow> ContainerBlockSpec list" where
  "flow_blocks f \<equiv> fs_ContainerBlocks (flow_Spec f)"

definition worker_names :: "Flow \<Rightarrow> Astarte \<Rightarrow> ContainerBlockSpec \<Rightarrow> string list" where
  "worker_names f a b = map (\<lambda>w. generateWorkerName f b w a) (cb_Workers b)"

definition flow_secret_names :: "Flow \<Rightarrow> Astarte \<Rightarrow> string list" where
  "flow_secret_names f a = concat (map (\<lambda>b. GenerateBlockName f b a # worker_names f a b) (flow_blocks f))"

text \<open>The labels by which the code finds the deployments of a flow.\<close>

definition flow_labels :: "Flow \<Rightarrow> smap" where
  "flow_labels f = [(''component'', ''astarte-flow''), (''flow-component'', ''block''), (''flow-name'', flow_Name f)]"

text \<open>The secrets of a block: its own configuration and one for each worker.\<close>

definition secret_holds :: "kstate \<Rightarrow> string \<Rightarrow> string \<Rightarrow> smap \<Rightarrow> bool" where
  "secret_holds s ns n d \<longleftrightarrow> (\<exists>t. s (OSecret, ns, n) = Some (KSecret t) \<and> sec_StringData t = d)"

definition block_runs :: "Flow \<Rightarrow> Astarte \<Rightarrow> RabbitMQConfig \<Rightarrow> ContainerBlockSpec \<Rightarrow> kstate \<Rightarrow> bool" where
  "block_runs f a rmq b s \<longleftrightarrow>
     (\<exists>d. s (ODeployment, flow_Namespace f, GenerateBlockName f b a) = Some (KDeployment d) \<and>
        selected ODeployment (Some (flow_Namespace f)) (flow_labels f) (KDeployment d) \<and>
        ps_Containers (pt_Spec (dp_Template (d_Spec d))) = map (ensureWorkerContainer b) (cb_Workers b) \<and>
        ps_Volumes (pt_Spec (dp_Template (d_Spec d))) = generateVolumesFor f b a \<and>
        dp_Selector (d_Spec d) = pt_Labels (dp_Template (d_Spec d)) \<and> dp_Replicas (d_Spec d) = Some 1) \<and>
     secret_holds s (flow_Namespace f) (GenerateBlockName f b a) [(''config.json'', cb_Configuration b)] \<and>
     (\<forall>w \<in> set (cb_Workers b).
        secret_holds s (flow_Namespace f) (generateWorkerName f b w a) (generateWorkerConfigurationFor w rmq))"

text \<open>The labels by which the code finds the secrets of a block's workers.\<close>

definition worker_list_labels :: "Flow \<Rightarrow> ContainerBlockSpec \<Rightarrow> smap" where
  "worker_list_labels f b =
     [(''flow-component'', ''worker''), (''flow-configuration-type'', ''worker-configuration'')] @ block_base_labels f b"

definition is_worker_secret :: "Flow \<Rightarrow> ContainerBlockSpec \<Rightarrow> kobj \<Rightarrow> bool" where
  "is_worker_secret f b x \<longleftrightarrow> selected OSecret (Some (flow_Namespace f)) (worker_list_labels f b) x"

definition flow_deployments :: "Flow \<Rightarrow> kstate \<Rightarrow> string set" where
  "flow_deployments f s =
     {n. \<exists>x. s (ODeployment, flow_Namespace f, n) = Some x \<and>
        selected ODeployment (Some (flow_Namespace f)) (flow_labels f) x}"

text \<open>
  States in which the flow can be brought about: nobody else controls its objects, the broker's
  credentials \<open>y\<close> are in the secret \<open>c\<close>, and the labels of a block's workers are on no secret of
  another block and not on the credentials.
\<close>

definition flow_ready :: "Flow \<Rightarrow> Astarte \<Rightarrow> string \<Rightarrow> kobj \<Rightarrow> kstate \<Rightarrow> bool" where
  "flow_ready f a c y s \<longleftrightarrow>
     (\<forall>n \<in> set (flow_secret_names f a). ours (KFlow f) s (OSecret, flow_Namespace f, n)) \<and>
     (\<forall>b \<in> set (flow_blocks f). ours (KFlow f) s (ODeployment, flow_Namespace f, GenerateBlockName f b a)) \<and>
     s (OSecret, flow_Namespace f, c) = Some y \<and> c \<notin> set (flow_secret_names f a) \<and>
     (\<forall>b \<in> set (flow_blocks f). \<forall>n x. s (OSecret, flow_Namespace f, n) = Some x \<longrightarrow> is_worker_secret f b x \<longrightarrow>
        n \<noteq> c \<and> (n \<in> set (flow_secret_names f a) \<longrightarrow> n \<in> set (worker_names f a b)))"

lemma block_secret_names:
  "b \<in> set (flow_blocks f) \<Longrightarrow> GenerateBlockName f b a \<in> set (flow_secret_names f a)"
  "b \<in> set (flow_blocks f) \<Longrightarrow> n \<in> set (worker_names f a b) \<Longrightarrow> n \<in> set (flow_secret_names f a)"
  by (auto simp: flow_secret_names_def)

text \<open>Distinct names tell the blocks apart.\<close>

lemma same_block:
  assumes "distinct (flow_secret_names f a)" "b \<in> set (flow_blocks f)" "b' \<in> set (flow_blocks f)"
    and "n \<in> set (GenerateBlockName f b a # worker_names f a b)" "n \<in> set (GenerateBlockName f b' a # worker_names f a b')"
  shows "b = b'"
proof -
  have "distinct (concat (map g bs)) \<Longrightarrow> b \<in> set bs \<Longrightarrow> b' \<in> set bs \<Longrightarrow> n \<in> set (g b) \<Longrightarrow> n \<in> set (g b') \<Longrightarrow> b = b'"
    for g and bs :: "ContainerBlockSpec list"
    by (induction bs) auto
  from this [of "\<lambda>b. GenerateBlockName f b a # worker_names f a b" "flow_blocks f"] assms show ?thesis
    unfolding flow_secret_names_def by blast
qed

lemma distinct_worker_names:
  assumes "distinct (flow_secret_names f a)" "b \<in> set (flow_blocks f)"
  shows "distinct (worker_names f a b)" "GenerateBlockName f b a \<notin> set (worker_names f a b)"
proof -
  have "distinct (concat (map g bs)) \<Longrightarrow> b \<in> set bs \<Longrightarrow> distinct (g b)" for g and bs :: "ContainerBlockSpec list"
    by (induction bs) auto
  from this [of "\<lambda>b. GenerateBlockName f b a # worker_names f a b" "flow_blocks f"] assms
  show "distinct (worker_names f a b)" "GenerateBlockName f b a \<notin> set (worker_names f a b)"
    unfolding flow_secret_names_def by simp_all
qed

lemma flow_ready_secret:
  assumes "flow_ready f a c y s" "n \<in> set (flow_secret_names f a)" "free_for (KFlow f) (obj_meta z)"
    and "\<And>b. b \<in> set (flow_blocks f) \<Longrightarrow> is_worker_secret f b z \<Longrightarrow> n \<in> set (worker_names f a b)"
  shows "flow_ready f a c y (s((OSecret, flow_Namespace f, n) \<mapsto> z))"
  using assms unfolding flow_ready_def ours_def by auto

lemma flow_ready_deployment:
  assumes "flow_ready f a c y s" "free_for (KFlow f) (obj_meta z)"
  shows "flow_ready f a c y (s((ODeployment, flow_Namespace f, n) \<mapsto> z))"
  using assms unfolding flow_ready_def ours_def by auto

lemma flow_ready_deleted:
  assumes "flow_ready f a c y s" "(OSecret, flow_Namespace f, c) \<notin> K"
  shows "flow_ready f a c y (\<lambda>k. if k \<in> K then None else s k)"
  using assms unfolding flow_ready_def ours_def by auto

section \<open>Secrets and workers\<close>

context sole_client begin

lemma flow_secret_run:
  assumes "flow_ready f a c y (state_of E h)" "n \<in> set (flow_secret_names f a)"
    and "\<And>b. b \<in> set (flow_blocks f) \<Longrightarrow> is_worker_secret f b (NewSecret n (flow_Namespace f) ls) \<Longrightarrow> n \<in> set (worker_names f a b)"
  shows "\<exists>r h1. ReconcileSecretStringWithLabels E n d ls (KFlow f) h = (Inr r, h1) \<and> flow_ready f a c y (state_of E h1) \<and>
     agree {(OSecret, flow_Namespace f, n)} (state_of E h) (state_of E h1) \<and> secret_holds (state_of E h1) (flow_Namespace f) n d"
proof -
  let ?k = "(OSecret, flow_Namespace f, n)" and ?x = "NewSecret n (flow_Namespace f) ls"
  let ?g = "on_secret (\<lambda>s. s\<lparr>sec_Type := ''Opaque'', sec_StringData := d\<rparr>)"
  let ?p = "PtrValue (state_of E h ?k) ?x"
  have ours: "ours (KFlow f) (state_of E h) ?k"
    using assms(1,2) by (simp add: flow_ready_def)
  have new: "obj_key ?x = ?k" "free_for (KFlow f) (obj_meta ?x)"
    by (simp_all add: NewSecret_def NewMeta_def free_for_def)
  have g: "obj_key (?g z) = ?k" if "obj_key z = ?k" for z
    using that by (cases z) (auto simp: on_secret_def)
  obtain r h1 where h1: "CreateOrUpdate E ?x (owned E (KFlow f) ?g) h = (Inr r, h1)"
    "state_of E h1 = (state_of E h)(?k \<mapsto> ?g (owned_by (KFlow f) ?p))"
    using store_run [where f = ?g, OF new(1) ours new(2) g] by blast
  obtain t where t: "?p = KSecret t"
    using kept_key [OF new(1)] by auto
  have labels: "om_Labels (obj_meta (?g (owned_by (KFlow f) ?p))) = om_Labels (obj_meta ?p)"
    unfolding t by (simp add: on_secret_def owned_by_def)
  have "n \<in> set (worker_names f a b)" if b: "b \<in> set (flow_blocks f)" "is_worker_secret f b (?g (owned_by (KFlow f) ?p))" for b
  proof -
    have "is_worker_secret f b ?p"
      using b(2) labels unfolding t by (simp add: is_worker_secret_def selected_def on_secret_def owned_by_def)
    then show ?thesis
      using assms b(1) by (cases "state_of E h ?k") (auto simp: flow_ready_def)
  qed
  moreover have "free_for (KFlow f) (obj_meta (?g (owned_by (KFlow f) ?p)))"
    unfolding t by (simp add: on_secret_def owned_by_def free_for_def)
  ultimately have "flow_ready f a c y (state_of E h1)"
    unfolding h1(2) by (blast intro: flow_ready_secret [OF assms(1,2)])
  moreover have "secret_holds (state_of E h1) (flow_Namespace f) n d"
    unfolding h1(2) t by (simp add: secret_holds_def on_secret_def owned_by_def)
  moreover have "agree {?k} (state_of E h) (state_of E h1)"
    unfolding h1(2) by (simp add: agree_def)
  ultimately show ?thesis
    using h1(1) by (auto simp: ReconcileSecretStringWithLabels_def obj_Namespace_def)
qed

end

lemma agree_step: "agree W s s' \<Longrightarrow> agree W' s' s'' \<Longrightarrow> W \<union> W' \<subseteq> V \<Longrightarrow> agree V s s''"
  using agree_trans agree_mono by blast

lemma secret_holds_agree:
  "secret_holds s ns n d \<Longrightarrow> agree W s s' \<Longrightarrow> (OSecret, ns, n) \<notin> W \<Longrightarrow> secret_holds s' ns n d"
  unfolding secret_holds_def using agree_at by fastforce

locale flow_client = sole_client E + map_merge merge
  for E :: env and merge :: merger
begin

lemma worker_labels_merged:
  obtains m where "merge [(''flow-component'', ''worker''), (''flow-configuration-type'', ''worker-configuration''),
      (''flow-worker'', bw_WorkerID w)] (block_base_labels f b) = Inr m"
    "map_of m ''flow-block'' = Some (cb_BlockID b)"
proof (rule merged)
  show "distinct (map fst ([(''flow-component'', ''worker''), (''flow-configuration-type'', ''worker-configuration''),
      (''flow-worker'', bw_WorkerID w)] @ block_base_labels f b))"
    by (simp add: block_base_labels_def)
  fix m
  assume m: "merge [(''flow-component'', ''worker''), (''flow-configuration-type'', ''worker-configuration''),
      (''flow-worker'', bw_WorkerID w)] (block_base_labels f b) = Inr m"
    "set m = set ([(''flow-component'', ''worker''), (''flow-configuration-type'', ''worker-configuration''),
      (''flow-worker'', bw_WorkerID w)] @ block_base_labels f b)" "distinct (map fst m)"
  have "(''flow-block'', cb_BlockID b) \<in> set m"
    unfolding m(2) by (simp add: block_base_labels_def)
  with m(1,3) show thesis
    by (intro that map_of_is_SomeI)
qed

lemma workers_run:
  assumes "flow_ready f a c y (state_of E h)" "b \<in> set (flow_blocks f)" "set ws \<subseteq> set (cb_Workers b)"
    and "distinct (map (\<lambda>w. generateWorkerName f b w a) ws)" "distinct (flow_secret_names f a)"
  shows "\<exists>h1. getFlowWorkerContainers E merge existing (block_base_labels f b) rmq f b a ws h =
       (Inr (without_names (map (\<lambda>w. generateWorkerName f b w a) ws) existing, map (ensureWorkerContainer b) ws), h1) \<and>
     flow_ready f a c y (state_of E h1) \<and>
     (\<forall>w \<in> set ws. secret_holds (state_of E h1) (flow_Namespace f) (generateWorkerName f b w a) (generateWorkerConfigurationFor w rmq)) \<and>
     agree {(OSecret, flow_Namespace f, generateWorkerName f b w a) | w. w \<in> set ws} (state_of E h) (state_of E h1)"
  using assms(1,3,4)
proof (induction ws arbitrary: h existing)
  case Nil
  then show ?case
    by (simp add: ret_def)
next
  case (Cons w ws)
  let ?n = "generateWorkerName f b w a"
  obtain m where m: "merge [(''flow-component'', ''worker''), (''flow-configuration-type'', ''worker-configuration''),
      (''flow-worker'', bw_WorkerID w)] (block_base_labels f b) = Inr m" "map_of m ''flow-block'' = Some (cb_BlockID b)"
    by (rule worker_labels_merged)
  have n: "?n \<in> set (worker_names f a b)"
    using Cons.prems(2) by (simp add: worker_names_def)
  have "?n \<in> set (worker_names f a b')" if b': "b' \<in> set (flow_blocks f)" "is_worker_secret f b' (NewSecret ?n (flow_Namespace f) m)" for b'
  proof -
    have "cb_BlockID b' = cb_BlockID b"
      using b'(2) m(2) by (simp add: is_worker_secret_def selected_def worker_list_labels_def block_base_labels_def NewSecret_def NewMeta_def)
    then have "GenerateBlockName f b' a = GenerateBlockName f b a"
      by (simp add: GenerateBlockName_def)
    then have "b' = b"
      using same_block [OF assms(5,2) b'(1), of "GenerateBlockName f b a"] by simp
    with n show ?thesis
      by simp
  qed
  then obtain r h1 where h1: "ReconcileSecretStringWithLabels E ?n (generateWorkerConfigurationFor w rmq) m (KFlow f) h = (Inr r, h1)"
    "flow_ready f a c y (state_of E h1)" "agree {(OSecret, flow_Namespace f, ?n)} (state_of E h) (state_of E h1)"
    "secret_holds (state_of E h1) (flow_Namespace f) ?n (generateWorkerConfigurationFor w rmq)"
    using flow_secret_run [OF Cons.prems(1) block_secret_names(2) [OF assms(2) n]] by blast
  obtain h2 where h2: "getFlowWorkerContainers E merge (AList.delete ?n existing) (block_base_labels f b) rmq f b a ws h1 =
       (Inr (without_names (?n # map (\<lambda>w. generateWorkerName f b w a) ws) existing, map (ensureWorkerContainer b) ws), h2)"
    "flow_ready f a c y (state_of E h2)"
    "\<forall>w \<in> set ws. secret_holds (state_of E h2) (flow_Namespace f) (generateWorkerName f b w a) (generateWorkerConfigurationFor w rmq)"
    "agree {(OSecret, flow_Namespace f, generateWorkerName f b w a) | w. w \<in> set ws} (state_of E h1) (state_of E h2)"
    using Cons.IH [OF h1(2), of "AList.delete ?n existing"] Cons.prems(2,3) by auto
  have "secret_holds (state_of E h2) (flow_Namespace f) ?n (generateWorkerConfigurationFor w rmq)"
    by (rule secret_holds_agree [OF h1(4) h2(4)]) (use Cons.prems(3) in auto)
  moreover have "agree {(OSecret, flow_Namespace f, generateWorkerName f b w' a) | w'. w' \<in> set (w # ws)} (state_of E h) (state_of E h2)"
    by (rule agree_step [OF h1(3) h2(4)]) auto
  moreover have "getFlowWorkerContainers E merge existing (block_base_labels f b) rmq f b a (w # ws) h =
      (Inr (without_names (map (\<lambda>w. generateWorkerName f b w a) (w # ws)) existing, map (ensureWorkerContainer b) (w # ws)), h2)"
    using m(1) h1(1) h2(1) by (simp add: bnd_def lift_def Let_def ret_def)
  ultimately show ?case
    using h2(2,3) by (intro exI [of _ h2]) simp
qed

end

section \<open>A block\<close>

text \<open>
  Besides its own objects, the run for a block deletes secrets that are not the flow's. What it leaves of
  those is as it was.
\<close>

definition block_region :: "Flow \<Rightarrow> Astarte \<Rightarrow> string \<Rightarrow> ContainerBlockSpec \<Rightarrow> okey set" where
  "block_region f a c b =
     {(ODeployment, flow_Namespace f, GenerateBlockName f b a)} \<union>
     {(OSecret, flow_Namespace f, n) | n. n \<in> set (GenerateBlockName f b a # worker_names f a b)} \<union>
     {(OSecret, flow_Namespace f, n) | n. n \<notin> set (flow_secret_names f a) \<and> n \<noteq> c}"

definition only_deletes :: "Flow \<Rightarrow> Astarte \<Rightarrow> kstate \<Rightarrow> kstate \<Rightarrow> bool" where
  "only_deletes f a s s' \<longleftrightarrow>
     (\<forall>n. n \<notin> set (flow_secret_names f a) \<longrightarrow>
        s' (OSecret, flow_Namespace f, n) \<in> {s (OSecret, flow_Namespace f, n), None})"

definition no_stale :: "Flow \<Rightarrow> Astarte \<Rightarrow> ContainerBlockSpec \<Rightarrow> kstate \<Rightarrow> bool" where
  "no_stale f a b s \<longleftrightarrow>
     (\<forall>n x. s (OSecret, flow_Namespace f, n) = Some x \<longrightarrow> is_worker_secret f b x \<longrightarrow> n \<in> set (worker_names f a b))"

lemma for_each_snd: "for_each (\<lambda>(_, x). m x) xs = for_each m (map snd xs)"
  by (induction xs) (simp_all split: prod.splits)

lemma distinct_listed_names:
  assumes "distinct xs" "\<And>x. x \<in> set xs \<Longrightarrow> s (obj_key x) = Some x \<and> selected k (Some ns) ls x"
  shows "distinct (map obj_name xs)" "x \<in> set xs \<Longrightarrow> obj_key x = (k, ns, obj_name x)"
proof -
  have key: "obj_key x = (k, ns, obj_name x)" if "x \<in> set xs" for x
    using assms(2) [OF that] by (simp add: selected_def)
  then show "x \<in> set xs \<Longrightarrow> obj_key x = (k, ns, obj_name x)"
    by blast
  have "inj_on obj_name (set xs)"
  proof (rule inj_onI)
    fix x y
    assume xy: "x \<in> set xs" "y \<in> set xs" "obj_name x = obj_name y"
    then have "s (obj_key x) = Some x" "s (obj_key y) = Some y"
      using assms(2) by blast+
    then show "x = y"
      unfolding key [OF xy(1)] key [OF xy(2)] xy(3) by simp
  qed
  with assms(1) show "distinct (map obj_name xs)"
    by (simp add: distinct_map)
qed

text \<open>The deployment of a block, as the last step but one of \<open>EnsureBlock\<close> writes it.\<close>

definition deploy_block ::
    "env \<Rightarrow> merger \<Rightarrow> Flow \<Rightarrow> ContainerBlockSpec \<Rightarrow> Astarte \<Rightarrow> container list \<Rightarrow> op_result io" where
  "deploy_block E merge f b a cs =
     CreateOrUpdate E (NewDeployment (GenerateBlockName f b a) (flow_Namespace f)) (\<lambda>x.
       bnd (SetControllerReference E (KFlow f) x) (\<lambda>x1.
       bnd (lift (merge [(''flow-component'', ''block'')] (block_base_labels f b))) (\<lambda>blockLabels.
         ret (on_deployment (\<lambda>d. d\<lparr>d_Meta := (d_Meta d)\<lparr>om_Labels := blockLabels\<rparr>,
           d_Spec := \<lparr>dp_Selector = blockLabels, dp_Strategy = StrategyOf ''Recreate'',
             dp_Template = \<lparr>pt_Labels = blockLabels, pt_Annotations = [],
               pt_Spec = EmptyPodSpec\<lparr>ps_Containers := cs, ps_Volumes := generateVolumesFor f b a,
                 ps_ImagePullSecrets := cb_ImagePullSecrets b\<rparr>\<rparr>,
             dp_Replicas = Some 1\<rparr>\<rparr>) x1))))"

lemma EnsureBlock_steps:
  "EnsureBlock E merge f b a =
     (let baseLabels = block_base_labels f b; blockName = GenerateBlockName f b a in
      bnd (lift (merge [(''flow-component'', ''block''), (''flow-configuration-type'', ''block-configuration'')] baseLabels)) (\<lambda>_.
      bnd (ReconcileSecretStringWithLabels E blockName [(''config.json'', cb_Configuration b)] baseLabels (KFlow f)) (\<lambda>_.
      bnd (generateDefaultRabbitMQConfiguration E a) (\<lambda>rmq.
      bnd (lift (merge [(''flow-component'', ''worker''), (''flow-configuration-type'', ''worker-configuration'')] baseLabels)) (\<lambda>ls.
      bnd (ListObjs E OSecret (Some (flow_Namespace f)) ls) (\<lambda>secrets.
      bnd (getFlowWorkerContainers E merge (by_name secrets) baseLabels rmq f b a (cb_Workers b)) (\<lambda>(existing, cs).
      bnd (deploy_block E merge f b a cs) (\<lambda>_.
        for_each (\<lambda>(_, secret). DeleteObj E secret) existing))))))))"
  by (simp add: EnsureBlock_def deploy_block_def Let_def)

context flow_client begin

lemma rmq_run:
  assumes "GetRabbitMQHostnameAndPort a = Inr (host, port)" "GetRabbitMQUserCredentialsSecret a = Inr (c, uk, pk)"
    and "state_of E h (OSecret, cr_Namespace a, c) = Some y"
  shows "\<exists>h1. generateDefaultRabbitMQConfiguration E a h =
      (Inr \<lparr>frc_Host = host, frc_Port = port, frc_SSL = Some False, frc_Username = secret_data y uk, frc_Password = secret_data y pk\<rparr>, h1) \<and>
     state_of E h1 = state_of E h"
  using assms
  by (simp add: generateDefaultRabbitMQConfiguration_def GetRabbitMQCredentialsFor_def bnd_def lift_def Get_def call_def
      get_cases step ret_def)

lemma deploy_block_run:
  assumes "flow_ready f a c y (state_of E h)" "b \<in> set (flow_blocks f)"
  shows "\<exists>r h1 d. deploy_block E merge f b a cs h = (Inr r, h1) \<and>
     state_of E h1 = (state_of E h)((ODeployment, flow_Namespace f, GenerateBlockName f b a) \<mapsto> KDeployment d) \<and>
     ps_Containers (pt_Spec (dp_Template (d_Spec d))) = cs \<and>
     ps_Volumes (pt_Spec (dp_Template (d_Spec d))) = generateVolumesFor f b a \<and>
     dp_Selector (d_Spec d) = pt_Labels (dp_Template (d_Spec d)) \<and> dp_Replicas (d_Spec d) = Some 1 \<and>
     free_for (KFlow f) (d_Meta d) \<and> selected ODeployment (Some (flow_Namespace f)) (flow_labels f) (KDeployment d)"
proof -
  let ?k = "(ODeployment, flow_Namespace f, GenerateBlockName f b a)"
  let ?x = "NewDeployment (GenerateBlockName f b a) (flow_Namespace f)"
  have "distinct (map fst ([(''flow-component'', ''block'')] @ block_base_labels f b))"
    by (simp add: block_base_labels_def)
  then obtain m where m: "merge [(''flow-component'', ''block'')] (block_base_labels f b) = Inr m"
    "set m = set ([(''flow-component'', ''block'')] @ block_base_labels f b)" "distinct (map fst m)"
    by (rule merged)
  have labels: "map_of m l = Some v" if "(l, v) \<in> set (flow_labels f)" for l v
    using that m(2,3) by (intro map_of_is_SomeI) (auto simp: flow_labels_def block_base_labels_def)
  let ?g = "\<lambda>x. on_deployment (\<lambda>d. d\<lparr>d_Meta := (d_Meta d)\<lparr>om_Labels := m\<rparr>,
      d_Spec := \<lparr>dp_Selector = m, dp_Strategy = StrategyOf ''Recreate'',
        dp_Template = \<lparr>pt_Labels = m, pt_Annotations = [],
          pt_Spec = EmptyPodSpec\<lparr>ps_Containers := cs, ps_Volumes := generateVolumesFor f b a, ps_ImagePullSecrets := cb_ImagePullSecrets b\<rparr>\<rparr>,
        dp_Replicas = Some 1\<rparr>\<rparr>) (owned_by (KFlow f) x)"
  have new: "obj_key ?x = ?k" "free_for (KFlow f) (obj_meta ?x)" and ours: "ours (KFlow f) (state_of E h) ?k"
    using assms by (simp_all add: NewDeployment_def NewMeta_def free_for_def flow_ready_def)
  obtain e where e: "PtrValue (state_of E h ?k) ?x = KDeployment e" "om_Namespace (d_Meta e) = flow_Namespace f"
    using kept_key [OF new(1), of h] by fastforce
  have g: "obj_key (?g z) = ?k" if "obj_key z = ?k" for z
    using that by (cases z) (auto simp: on_deployment_def owned_by_def)
  have run: "bnd (SetControllerReference E (KFlow f) z) (\<lambda>x1. bnd (lift (Inr m)) (\<lambda>blockLabels.
      ret (on_deployment (\<lambda>d. d\<lparr>d_Meta := (d_Meta d)\<lparr>om_Labels := blockLabels\<rparr>,
        d_Spec := \<lparr>dp_Selector = blockLabels, dp_Strategy = StrategyOf ''Recreate'',
          dp_Template = \<lparr>pt_Labels = blockLabels, pt_Annotations = [],
            pt_Spec = EmptyPodSpec\<lparr>ps_Containers := cs, ps_Volumes := generateVolumesFor f b a, ps_ImagePullSecrets := cb_ImagePullSecrets b\<rparr>\<rparr>,
          dp_Replicas = Some 1\<rparr>\<rparr>) x1))) h' = (Inr (?g z), h')"
    if "free_for (KFlow f) (obj_meta z)" for z h'
    by (simp add: bnd_def set_owner_run [OF that] lift_def ret_def)
  obtain r h1 where r: "CreateOrUpdate E ?x (\<lambda>x. bnd (SetControllerReference E (KFlow f) x) (\<lambda>x1. bnd (lift (Inr m)) (\<lambda>blockLabels.
      ret (on_deployment (\<lambda>d. d\<lparr>d_Meta := (d_Meta d)\<lparr>om_Labels := blockLabels\<rparr>,
        d_Spec := \<lparr>dp_Selector = blockLabels, dp_Strategy = StrategyOf ''Recreate'',
          dp_Template = \<lparr>pt_Labels = blockLabels, pt_Annotations = [],
            pt_Spec = EmptyPodSpec\<lparr>ps_Containers := cs, ps_Volumes := generateVolumesFor f b a, ps_ImagePullSecrets := cb_ImagePullSecrets b\<rparr>\<rparr>,
          dp_Replicas = Some 1\<rparr>\<rparr>) x1)))) h = (Inr r, h1)"
    "state_of E h1 = (state_of E h)(?k \<mapsto> ?g (KDeployment e))"
    using store_run_by [where g = ?g, OF new(1) ours new(2) run g] unfolding e(1) by blast
  obtain d where d: "?g (KDeployment e) = KDeployment d" "ps_Containers (pt_Spec (dp_Template (d_Spec d))) = cs"
    "ps_Volumes (pt_Spec (dp_Template (d_Spec d))) = generateVolumesFor f b a" "dp_Selector (d_Spec d) = pt_Labels (dp_Template (d_Spec d))"
    "dp_Replicas (d_Spec d) = Some 1" "free_for (KFlow f) (d_Meta d)" "om_Labels (d_Meta d) = m"
    "om_Namespace (d_Meta d) = flow_Namespace f"
    using e(2) by (simp add: on_deployment_def owned_by_def free_for_def)
  have sel: "selected ODeployment (Some (flow_Namespace f)) (flow_labels f) (KDeployment d)"
    using labels d(7,8) by (auto simp: selected_def)
  show ?thesis
    unfolding deploy_block_def m(1) by (intro exI [of _ r] exI [of _ h1] exI [of _ d] conjI r(1) r(2) [unfolded d(1)] d(2-6) sel)
qed

end

context flow_client begin

text \<open>Deleting what is left of a list, by name: secrets of former workers and deployments of former blocks.\<close>

lemma leftovers_run:
  assumes "distinct (map obj_name xs)"
    and xs: "\<And>x. x \<in> set xs \<Longrightarrow> obj_key x = (k, ns, obj_name x)"
    and left: "\<And>x. x \<in> set xs \<Longrightarrow> obj_name x \<notin> set keep \<Longrightarrow> state_of E h (obj_key x) = Some x"
  shows "\<exists>h1. for_each (\<lambda>(_, x). DeleteObj E x) (without_names keep (by_name xs)) h = (Inr (), h1) \<and>
     state_of E h1 = (\<lambda>key. if key \<in> {(k, ns, n) | n. n \<in> obj_name ` set xs \<and> n \<notin> set keep} then None
       else state_of E h key)"
proof -
  let ?zs = "filter (\<lambda>x. obj_name x \<notin> set keep) xs"
  have "map snd (without_names keep (by_name xs)) = ?zs"
    by (simp add: by_name_distinct [OF assms(1)] without_names_def filter_map comp_def)
  then have each: "for_each (\<lambda>(_, x). DeleteObj E x) (without_names keep (by_name xs)) = for_each (DeleteObj E) ?zs"
    by (simp add: for_each_snd)
  have keys: "map obj_key ?zs = map (\<lambda>n. (k, ns, n)) (map obj_name ?zs)"
    unfolding map_map by (rule map_cong [OF refl]) (use xs in \<open>simp del: obj_key_eq\<close>)
  have "distinct (map obj_key ?zs)"
    unfolding keys using assms(1) by (simp add: distinct_map distinct_map_filter inj_on_def)
  moreover have "state_of E h (obj_key x) = Some x" if "x \<in> set ?zs" for x
    using that left by simp
  ultimately obtain h1 where h1: "for_each (DeleteObj E) ?zs h = (Inr (), h1)"
    "state_of E h1 = (\<lambda>key. if key \<in> obj_key ` set ?zs then None else state_of E h key)"
    using delete_each_run [of ?zs h] by blast
  have "obj_key ` set ?zs = {(k, ns, n) | n. n \<in> obj_name ` set xs \<and> n \<notin> set keep}"
    using arg_cong [OF keys, of set] by (auto simp del: obj_key_eq)
  with h1 show ?thesis
    unfolding each by metis
qed

text \<open>The secrets listed as the block's workers', and those of them that are left over deleted.\<close>

lemma list_workers_run:
  assumes "set ls = set (worker_list_labels f b)"
  shows "\<exists>xs. ListObjs E OSecret (Some (flow_Namespace f)) ls h = (Inr xs, h @ [EvList OSecret (Some (flow_Namespace f)) ls]) \<and>
     distinct (map obj_name xs) \<and> (\<forall>x \<in> set xs. obj_key x = (OSecret, flow_Namespace f, obj_name x)) \<and>
     (\<forall>x. x \<in> set xs \<longleftrightarrow> state_of E h (obj_key x) = Some x \<and> is_worker_secret f b x)"
proof -
  obtain xs where xs: "e_list E h OSecret (Some (flow_Namespace f)) ls = Inr xs" "distinct xs"
    "\<forall>x. x \<in> set xs \<longleftrightarrow> state_of E h (obj_key x) = Some x \<and> selected OSecret (Some (flow_Namespace f)) ls x"
    using list_state by blast
  have sel: "selected OSecret (Some (flow_Namespace f)) ls x \<longleftrightarrow> is_worker_secret f b x" for x
    unfolding is_worker_secret_def selected_def assms ..
  note d = distinct_listed_names [OF xs(2), of "state_of E h" OSecret "flow_Namespace f" ls]
  show ?thesis
    using xs(1,3) d unfolding sel by (intro exI [of _ xs]) (simp add: ListObjs_def call_def)
qed

lemma leftover_run:
  assumes "flow_ready f a c y (state_of E h)" "b \<in> set (flow_blocks f)" "distinct (map obj_name xs)"
    and xs: "\<And>x. x \<in> set xs \<Longrightarrow> obj_key x = (OSecret, flow_Namespace f, obj_name x) \<and> is_worker_secret f b x"
    and left: "\<And>x. x \<in> set xs \<Longrightarrow> obj_name x \<notin> set (worker_names f a b) \<Longrightarrow> state_of E h (obj_key x) = Some x"
  defines "gone \<equiv> {(OSecret, flow_Namespace f, obj_name x) | x. x \<in> set xs \<and> obj_name x \<notin> set (worker_names f a b)}"
  shows "\<exists>h1. for_each (\<lambda>(_, secret). DeleteObj E secret) (without_names (worker_names f a b) (by_name xs)) h = (Inr (), h1) \<and>
     state_of E h1 = (\<lambda>k. if k \<in> gone then None else state_of E h k) \<and>
     gone \<subseteq> {(OSecret, flow_Namespace f, n) | n. n \<notin> set (flow_secret_names f a) \<and> n \<noteq> c} \<and> flow_ready f a c y (state_of E h1)"
proof -
  have gone: "gone = {(OSecret, flow_Namespace f, n) | n. n \<in> obj_name ` set xs \<and> n \<notin> set (worker_names f a b)}"
    unfolding gone_def by blast
  obtain h1 where h1: "for_each (\<lambda>(_, secret). DeleteObj E secret) (without_names (worker_names f a b) (by_name xs)) h = (Inr (), h1)"
    "state_of E h1 = (\<lambda>k. if k \<in> gone then None else state_of E h k)"
    unfolding gone using leftovers_run [OF assms(3) _ left] xs by blast
  have "n \<notin> set (flow_secret_names f a) \<and> n \<noteq> c" if g: "(OSecret, flow_Namespace f, n) \<in> gone" for n
  proof -
    obtain x where x: "x \<in> set xs" "n = obj_name x" "n \<notin> set (worker_names f a b)"
      using g unfolding gone_def by blast
    then have "state_of E h (OSecret, flow_Namespace f, n) = Some x" "is_worker_secret f b x"
      using left [OF x(1)] xs [OF x(1)] by (simp_all del: obj_key_eq)
    with assms(1,2) x(3) show ?thesis
      unfolding flow_ready_def by blast
  qed
  then have sub: "gone \<subseteq> {(OSecret, flow_Namespace f, n) | n. n \<notin> set (flow_secret_names f a) \<and> n \<noteq> c}"
    unfolding gone_def by blast
  then have "flow_ready f a c y (state_of E h1)"
    unfolding h1(2) by (intro flow_ready_deleted assms(1)) blast
  with h1 sub show ?thesis
    by blast
qed

end

text \<open>The broker's address and credentials as the flow's workers get them.\<close>

definition broker_config :: "Astarte \<Rightarrow> string \<Rightarrow> kobj \<Rightarrow> RabbitMQConfig \<Rightarrow> bool" where
  "broker_config a c y rmq \<longleftrightarrow>
     (\<exists>host port uk pk. GetRabbitMQHostnameAndPort a = Inr (host, port) \<and>
        GetRabbitMQUserCredentialsSecret a = Inr (c, uk, pk) \<and>
        rmq = \<lparr>frc_Host = host, frc_Port = port, frc_SSL = Some False,
               frc_Username = secret_data y uk, frc_Password = secret_data y pk\<rparr>)"

lemma only_deletes_trans: "only_deletes f a s s1 \<Longrightarrow> only_deletes f a s1 s2 \<Longrightarrow> only_deletes f a s s2"
  unfolding only_deletes_def by (metis insert_iff singletonD)

lemma only_deletes_agree:
  "agree W s s' \<Longrightarrow> (\<And>n. n \<notin> set (flow_secret_names f a) \<Longrightarrow> (OSecret, flow_Namespace f, n) \<notin> W) \<Longrightarrow> only_deletes f a s s'"
  by (simp add: only_deletes_def agree_def)

context flow_client begin

lemma block_run:
  assumes "flow_ready f a c y (state_of E h)" "b \<in> set (flow_blocks f)" "distinct (flow_secret_names f a)"
    and "broker_config a c y rmq" "cr_Namespace a = flow_Namespace f"
  shows "\<exists>h1. EnsureBlock E merge f b a h = (Inr (), h1) \<and> flow_ready f a c y (state_of E h1) \<and>
     block_runs f a rmq b (state_of E h1) \<and> no_stale f a b (state_of E h1) \<and>
     agree (block_region f a c b) (state_of E h) (state_of E h1) \<and> only_deletes f a (state_of E h) (state_of E h1)"
proof -
  let ?ns = "flow_Namespace f" and ?n = "GenerateBlockName f b a" and ?B = "block_base_labels f b"
  let ?W = "{(OSecret, ?ns, generateWorkerName f b w a) | w. w \<in> set (cb_Workers b)}"
  have lab: "distinct (map fst ([(''flow-component'', v), (''flow-configuration-type'', v')] @ ?B))" for v v'
    by (simp add: block_base_labels_def)
  obtain m0 where m0: "merge [(''flow-component'', ''block''), (''flow-configuration-type'', ''block-configuration'')] ?B = Inr m0"
    by (rule merged [OF lab])
  obtain m1 where m1: "merge [(''flow-component'', ''worker''), (''flow-configuration-type'', ''worker-configuration'')] ?B = Inr m1"
    "set m1 = set (worker_list_labels f b)"
    unfolding worker_list_labels_def by (rule merged [OF lab])
  have "\<not> is_worker_secret f b' (NewSecret ?n ?ns ?B)" for b'
    by (simp add: is_worker_secret_def selected_def worker_list_labels_def block_base_labels_def NewSecret_def NewMeta_def)
  then obtain r h1 where h1: "ReconcileSecretStringWithLabels E ?n [(''config.json'', cb_Configuration b)] ?B (KFlow f) h = (Inr r, h1)"
    "flow_ready f a c y (state_of E h1)" "agree {(OSecret, ?ns, ?n)} (state_of E h) (state_of E h1)"
    "secret_holds (state_of E h1) ?ns ?n [(''config.json'', cb_Configuration b)]"
    using flow_secret_run [OF assms(1) block_secret_names(1) [OF assms(2)]] by blast
  have cred: "state_of E h1 (OSecret, cr_Namespace a, c) = Some y"
    using h1(2) assms(5) by (simp add: flow_ready_def)
  obtain h2 where h2: "generateDefaultRabbitMQConfiguration E a h1 = (Inr rmq, h2)" "state_of E h2 = state_of E h1"
    using assms(4) rmq_run [OF _ _ cred] unfolding broker_config_def by blast
  obtain xs where xs: "ListObjs E OSecret (Some ?ns) m1 h2 = (Inr xs, h2 @ [EvList OSecret (Some ?ns) m1])" "distinct (map obj_name xs)"
    "\<forall>x \<in> set xs. obj_key x = (OSecret, ?ns, obj_name x)" "\<forall>x. x \<in> set xs \<longleftrightarrow> state_of E h2 (obj_key x) = Some x \<and> is_worker_secret f b x"
    using list_workers_run [OF m1(2)] by blast
  let ?h3 = "h2 @ [EvList OSecret (Some ?ns) m1]"
  have s3: "state_of E ?h3 = state_of E h1"
    by (simp add: step h2(2))
  have names: "distinct (map (\<lambda>w. generateWorkerName f b w a) (cb_Workers b))" "?n \<notin> set (worker_names f a b)"
    using distinct_worker_names [OF assms(3,2)] by (simp_all add: worker_names_def)
  obtain h4 where h4: "getFlowWorkerContainers E merge (by_name xs) ?B rmq f b a (cb_Workers b) ?h3 =
       (Inr (without_names (worker_names f a b) (by_name xs), map (ensureWorkerContainer b) (cb_Workers b)), h4)"
    "flow_ready f a c y (state_of E h4)"
    "\<forall>w \<in> set (cb_Workers b). secret_holds (state_of E h4) ?ns (generateWorkerName f b w a) (generateWorkerConfigurationFor w rmq)"
    "agree ?W (state_of E h1) (state_of E h4)"
    using workers_run [of f a c y ?h3 b "cb_Workers b" "by_name xs" rmq] h1(2) s3 assms(2,3) names(1)
    by (auto simp: worker_names_def)
  obtain r5 h5 d where h5: "deploy_block E merge f b a (map (ensureWorkerContainer b) (cb_Workers b)) h4 = (Inr r5, h5)"
    and s5: "state_of E h5 = (state_of E h4)((ODeployment, ?ns, ?n) \<mapsto> KDeployment d)"
    and d: "ps_Containers (pt_Spec (dp_Template (d_Spec d))) = map (ensureWorkerContainer b) (cb_Workers b)"
      "ps_Volumes (pt_Spec (dp_Template (d_Spec d))) = generateVolumesFor f b a"
      "dp_Selector (d_Spec d) = pt_Labels (dp_Template (d_Spec d))" "dp_Replicas (d_Spec d) = Some 1" "free_for (KFlow f) (d_Meta d)"
      "selected ODeployment (Some ?ns) (flow_labels f) (KDeployment d)"
    using deploy_block_run [OF h4(2) assms(2)] by blast
  have ready5: "flow_ready f a c y (state_of E h5)"
    unfolding s5 using h4(2) d(5) by (intro flow_ready_deployment) simp_all
  have left: "state_of E h5 (obj_key x) = Some x" if "x \<in> set xs" "obj_name x \<notin> set (worker_names f a b)" for x
  proof -
    have k: "obj_key x = (OSecret, ?ns, obj_name x)"
      using that(1) xs(3) by blast
    have s1: "state_of E h1 (obj_key x) = Some x"
      using that(1) xs(4) h2(2) by simp
    have "state_of E h4 (obj_key x) = state_of E h1 (obj_key x)"
      using that(2) by (intro agree_at [OF h4(4)]) (auto simp: k worker_names_def simp del: obj_key_eq)
    then show ?thesis
      unfolding s5 using k s1 by (simp del: obj_key_eq)
  qed
  let ?gone = "{(OSecret, ?ns, obj_name x) | x. x \<in> set xs \<and> obj_name x \<notin> set (worker_names f a b)}"
  have "\<And>x. x \<in> set xs \<Longrightarrow> obj_key x = (OSecret, ?ns, obj_name x) \<and> is_worker_secret f b x"
    using xs(3,4) by blast
  from leftover_run [OF ready5 assms(2) xs(2) this left] obtain h6 where
    h6: "for_each (\<lambda>(_, secret). DeleteObj E secret) (without_names (worker_names f a b) (by_name xs)) h5 = (Inr (), h6)"
    "state_of E h6 = (\<lambda>k. if k \<in> ?gone then None else state_of E h5 k)"
    "?gone \<subseteq> {(OSecret, ?ns, n) | n. n \<notin> set (flow_secret_names f a) \<and> n \<noteq> c}" "flow_ready f a c y (state_of E h6)"
    by blast
  have run: "EnsureBlock E merge f b a h = (Inr (), h6)"
    unfolding EnsureBlock_steps Let_def m0 m1(1) using h1(1) h2(1) xs(1) h4(1) h5 h6(1) by (simp add: bnd_def lift_def)
  have agree56: "agree ?gone (state_of E h5) (state_of E h6)"
    unfolding agree_def h6(2) by (intro allI impI) (rule if_not_P)
  have agree45: "agree {(ODeployment, ?ns, ?n)} (state_of E h4) (state_of E h5)"
    unfolding s5 by (simp add: agree_def)
  have at5: "state_of E h6 k = state_of E h5 k" if "k \<notin> {(OSecret, ?ns, n) | n. n \<notin> set (flow_secret_names f a) \<and> n \<noteq> c}" for k
    using that h6(3) by (intro agree_at [OF agree56]) blast
  have own: "?n \<in> set (flow_secret_names f a)" "set (worker_names f a b) \<subseteq> set (flow_secret_names f a)"
    using block_secret_names assms(2) by blast+
  have W: "?W = {(OSecret, ?ns, n) | n. n \<in> set (worker_names f a b)}"
    by (auto simp: worker_names_def)
  have agree15: "agree (?W \<union> {(ODeployment, ?ns, ?n)}) (state_of E h1) (state_of E h5)"
    by (rule agree_trans [OF h4(4) agree45])
  have "secret_holds (state_of E h5) ?ns ?n [(''config.json'', cb_Configuration b)]"
    using names(2) unfolding W by (intro secret_holds_agree [OF h1(4) agree15 [unfolded W]]) simp
  moreover have "secret_holds (state_of E h5) ?ns (generateWorkerName f b w a) (generateWorkerConfigurationFor w rmq)"
    if "w \<in> set (cb_Workers b)" for w
    using h4(3) that by (intro secret_holds_agree [OF _ agree45]) simp_all
  moreover have "secret_holds (state_of E h6) ?ns n v" if "secret_holds (state_of E h5) ?ns n v" "n \<in> set (flow_secret_names f a)" for n v
    using that at5 [of "(OSecret, ?ns, n)"] by (simp add: secret_holds_def)
  moreover have "state_of E h6 (ODeployment, ?ns, ?n) = Some (KDeployment d)"
    using at5 [of "(ODeployment, ?ns, ?n)"] by (simp add: s5)
  ultimately have "block_runs f a rmq b (state_of E h6)"
    using own d(1-4,6) by (simp add: block_runs_def worker_names_def image_subset_iff)
  moreover have "no_stale f a b (state_of E h6)"
    unfolding no_stale_def
  proof (intro allI impI, rule ccontr)
    fix n x
    assume x: "state_of E h6 (OSecret, ?ns, n) = Some x" "is_worker_secret f b x" "n \<notin> set (worker_names f a b)"
    have key: "obj_key x = (OSecret, ?ns, n)"
      by (rule state_key [OF x(1)])
    have g: "(OSecret, ?ns, n) \<notin> ?gone"
      using x(1) unfolding h6(2) by (metis option.distinct(1))
    have "state_of E h5 (OSecret, ?ns, n) = Some x"
      using x(1) agree_at [OF agree56 g] by (rule back_subst [of "\<lambda>v. v = Some x"])
    then have "state_of E h1 (OSecret, ?ns, n) = Some x"
      using x(3) agree_at [OF agree15 [unfolded W], of "(OSecret, ?ns, n)"] by simp
    then have "state_of E h2 (obj_key x) = Some x"
      unfolding key h2(2) .
    then have "x \<in> set xs"
      using xs(4) x(2) by blast
    moreover have "obj_name x = n"
      using key by simp
    ultimately show False
      using g x(3) by blast
  qed
  moreover have "agree (block_region f a c b) (state_of E h) (state_of E h6)"
    by (rule agree_step [OF h1(3) agree_step [OF agree15 agree56 order_refl]])
      (use h6(3) in \<open>auto simp: block_region_def W simp del: obj_key_eq\<close>)
  moreover have "only_deletes f a (state_of E h) (state_of E h6)"
  proof -
    have "only_deletes f a (state_of E h) (state_of E h1)"
      by (rule only_deletes_agree [OF h1(3)]) (use own in auto)
    moreover have "only_deletes f a (state_of E h1) (state_of E h5)"
      by (rule only_deletes_agree [OF agree15]) (use own in \<open>auto simp: W\<close>)
    moreover have "only_deletes f a (state_of E h5) (state_of E h6)"
      by (simp add: only_deletes_def h6(2))
    ultimately show ?thesis
      by (blast intro: only_deletes_trans)
  qed
  ultimately show ?thesis
    using run h6(4) by blast
qed

end

section \<open>All blocks\<close>

lemma block_runs_kept:
  assumes "block_runs f a rmq b s" "agree (block_region f a c b') s s'" "b \<noteq> b'" "distinct (flow_secret_names f a)"
    and "b \<in> set (flow_blocks f)" "b' \<in> set (flow_blocks f)"
  shows "block_runs f a rmq b s'"
proof -
  have apart: "n \<notin> set (GenerateBlockName f b' a # worker_names f a b')" if "n \<in> set (GenerateBlockName f b a # worker_names f a b)" for n
    using same_block [OF assms(4-6) that] assms(3) by blast
  have "s' (ODeployment, flow_Namespace f, GenerateBlockName f b a) = s (ODeployment, flow_Namespace f, GenerateBlockName f b a)"
    using apart [of "GenerateBlockName f b a"] by (intro agree_at [OF assms(2)]) (simp add: block_region_def)
  moreover have "secret_holds s' (flow_Namespace f) n d"
    if "secret_holds s (flow_Namespace f) n d" "n \<in> set (GenerateBlockName f b a # worker_names f a b)" for n d
    using that(1) apart [OF that(2)] that(2) block_secret_names assms(5)
    by (intro secret_holds_agree [OF _ assms(2)]) (auto simp: block_region_def)
  ultimately show ?thesis
    using assms(1) by (auto simp: block_runs_def worker_names_def)
qed

lemma no_stale_kept:
  assumes "no_stale f a b s" "only_deletes f a s s'" "flow_ready f a c y s'" "b \<in> set (flow_blocks f)"
  shows "no_stale f a b s'"
  unfolding no_stale_def
proof (intro allI impI)
  fix n x
  assume x: "s' (OSecret, flow_Namespace f, n) = Some x" "is_worker_secret f b x"
  show "n \<in> set (worker_names f a b)"
  proof (cases "n \<in> set (flow_secret_names f a)")
    case True
    with assms(3,4) x show ?thesis
      unfolding flow_ready_def by blast
  next
    case False
    then have "s (OSecret, flow_Namespace f, n) = Some x"
      using assms(2) x(1) unfolding only_deletes_def by (metis insert_iff option.distinct(1) singletonD)
    with assms(1) x(2) show ?thesis
      unfolding no_stale_def by blast
  qed
qed

text \<open>The keys a run of the flow writes besides its own status, the stale deployments apart.\<close>

definition flow_region :: "Flow \<Rightarrow> Astarte \<Rightarrow> string \<Rightarrow> okey set" where
  "flow_region f a c =
     {(ODeployment, flow_Namespace f, GenerateBlockName f b a) | b. b \<in> set (flow_blocks f)} \<union>
     {(OSecret, flow_Namespace f, n) | n. n \<noteq> c}"

lemma block_in_flow_region:
  assumes "b \<in> set (flow_blocks f)" "c \<notin> set (flow_secret_names f a)"
  shows "block_region f a c b \<subseteq> flow_region f a c"
  using assms block_secret_names [OF assms(1)] by (auto simp: block_region_def flow_region_def)

context flow_client begin

lemma blocks_run:
  assumes "flow_ready f a c y (state_of E h)" "set bs \<subseteq> set (flow_blocks f)" "distinct bs"
    and "distinct (flow_secret_names f a)" "broker_config a c y rmq" "cr_Namespace a = flow_Namespace f"
  shows "\<exists>h1. ensure_blocks E merge f a bs existing h =
       (Inr (without_names (map (\<lambda>b. GenerateBlockName f b a) bs) existing), h1) \<and>
     flow_ready f a c y (state_of E h1) \<and> only_deletes f a (state_of E h) (state_of E h1) \<and>
     (\<forall>b \<in> set bs. block_runs f a rmq b (state_of E h1) \<and> no_stale f a b (state_of E h1)) \<and>
     (\<forall>b \<in> set (flow_blocks f) - set bs. block_runs f a rmq b (state_of E h) \<longrightarrow> block_runs f a rmq b (state_of E h1)) \<and>
     agree (flow_region f a c) (state_of E h) (state_of E h1)"
  using assms(1-3)
proof (induction bs arbitrary: h existing)
  case Nil
  then show ?case
    by (simp add: ret_def only_deletes_def)
next
  case (Cons b bs)
  have b: "b \<in> set (flow_blocks f)" and c: "c \<notin> set (flow_secret_names f a)"
    using Cons.prems by (simp_all add: flow_ready_def)
  obtain h1 where h1: "EnsureBlock E merge f b a h = (Inr (), h1)" "flow_ready f a c y (state_of E h1)"
    "block_runs f a rmq b (state_of E h1)" "no_stale f a b (state_of E h1)"
    "agree (block_region f a c b) (state_of E h) (state_of E h1)" "only_deletes f a (state_of E h) (state_of E h1)"
    using block_run [OF Cons.prems(1) b assms(4-6)] by blast
  obtain h2 where h2: "ensure_blocks E merge f a bs (AList.delete (GenerateBlockName f b a) existing) h1 =
       (Inr (without_names (GenerateBlockName f b a # map (\<lambda>b. GenerateBlockName f b a) bs) existing), h2)"
    "flow_ready f a c y (state_of E h2)" "only_deletes f a (state_of E h1) (state_of E h2)"
    "\<forall>b \<in> set bs. block_runs f a rmq b (state_of E h2) \<and> no_stale f a b (state_of E h2)"
    "\<forall>b \<in> set (flow_blocks f) - set bs. block_runs f a rmq b (state_of E h1) \<longrightarrow> block_runs f a rmq b (state_of E h2)"
    "agree (flow_region f a c) (state_of E h1) (state_of E h2)"
    using Cons.IH [OF h1(2), of "AList.delete (GenerateBlockName f b a) existing"] Cons.prems(2,3) by auto
  have "ensure_blocks E merge f a (b # bs) existing h =
      (Inr (without_names (map (\<lambda>b. GenerateBlockName f b a) (b # bs)) existing), h2)"
    using h1(1) h2(1) by (simp add: bnd_def)
  moreover have "only_deletes f a (state_of E h) (state_of E h2)"
    by (rule only_deletes_trans [OF h1(6) h2(3)])
  moreover have "block_runs f a rmq b (state_of E h2)"
    using h2(5) h1(3) b Cons.prems(3) by simp
  moreover have "no_stale f a b (state_of E h2)"
    by (rule no_stale_kept [OF h1(4) h2(3) h2(2) b])
  moreover have "block_runs f a rmq b' (state_of E h2)"
    if "b' \<in> set (flow_blocks f) - set (b # bs)" "block_runs f a rmq b' (state_of E h)" for b'
    using that h2(5) block_runs_kept [OF that(2) h1(5) _ assms(4) _ b] by auto
  moreover have "agree (flow_region f a c) (state_of E h) (state_of E h2)"
    by (rule agree_step [OF h1(5) h2(6)]) (use block_in_flow_region [OF b c] in simp)
  ultimately show ?case
    using h2(2,4) by (intro exI [of _ h2]) auto
qed

end

lemma distinct_blocks:
  assumes "distinct (flow_secret_names f a)"
  shows "distinct (flow_blocks f)" "inj_on (\<lambda>b. GenerateBlockName f b a) (set (flow_blocks f))"
proof -
  have "distinct (concat (map g bs)) \<Longrightarrow> (\<And>b. g b \<noteq> []) \<Longrightarrow> distinct bs" for g and bs :: "ContainerBlockSpec list"
    by (induction bs) (auto simp: disjoint_iff, metis list.set_intros(1) neq_Nil_conv)
  from this [of "\<lambda>b. GenerateBlockName f b a # worker_names f a b" "flow_blocks f"] assms
  show "distinct (flow_blocks f)"
    unfolding flow_secret_names_def by simp
  show "inj_on (\<lambda>b. GenerateBlockName f b a) (set (flow_blocks f))"
    using same_block [OF assms] by (auto simp: inj_on_def)
qed

section \<open>The status\<close>

text \<open>The figures of a status: no block is counted twice.\<close>

definition counted :: "nat \<Rightarrow> blocks_state \<Rightarrow> bool" where
  "counted n st \<longleftrightarrow> bs_Total st = int n \<and> 0 \<le> bs_Ready st \<and> 0 \<le> bs_Failing st \<and> bs_Ready st + bs_Failing st \<le> bs_Total st"

lemma add_requests_counts [simp]:
  "bs_Total (add_requests ql cs st) = bs_Total st" "bs_Ready (add_requests ql cs st) = bs_Ready st"
  "bs_Failing (add_requests ql cs st) = bs_Failing st"
proof -
  show "bs_Total (add_requests ql cs st) = bs_Total st"
    unfolding add_requests_def by (induction cs arbitrary: st) simp_all
  show "bs_Ready (add_requests ql cs st) = bs_Ready st"
    unfolding add_requests_def by (induction cs arbitrary: st) simp_all
  show "bs_Failing (add_requests ql cs st) = bs_Failing st"
    unfolding add_requests_def by (induction cs arbitrary: st) simp_all
qed

lemma deployments_of_listed:
  assumes "\<And>x. x \<in> set xs \<Longrightarrow> obj_kind x = ODeployment"
  shows "length (deployments_of xs) = length xs"
  using assms
proof (induction xs)
  case (Cons x xs)
  then obtain d where "x = KDeployment d"
    using Cons.prems [of x] by auto
  with Cons show ?case
    by (simp add: deployments_of_def)
qed (simp add: deployments_of_def)

context flow_client begin

lemma block_step_run:
  assumes "counted n st"
  shows "\<exists>st1 h1. block_step E ql f b st h = (Inr st1, h1) \<and> state_of E h1 = state_of E h \<and> counted (Suc n) st1"
proof (cases "d_ReadyReplicas b = d_StatusReplicas b")
  case True
  with assms show ?thesis
    by (simp add: block_step_def Let_def ret_def counted_def)
next
  case False
  obtain xs where xs: "e_list E h OPod (Some (flow_Namespace f))
      [(''flow-block'', PtrValue (map_of (om_Labels (d_Meta b)) ''flow-block'') '''')] = Inr xs"
    using list_state by blast
  with False assms show ?thesis
    by (cases "fst (computePodsFailureForBlock (pods_of xs))")
      (auto simp: block_step_def Let_def ret_def on_result_def ListObjs_def call_def step counted_def split: prod.splits)
qed

lemma blocks_loop_run:
  "counted n st \<Longrightarrow>
   \<exists>st1 h1. blocks_loop E ql f bs st h = (Inr st1, h1) \<and> state_of E h1 = state_of E h \<and> counted (n + length bs) st1"
proof (induction bs arbitrary: n st h)
  case Nil
  then show ?case
    by (simp add: ret_def)
next
  case (Cons b bs)
  obtain st1 h1 where 1: "block_step E ql f b st h = (Inr st1, h1)" "state_of E h1 = state_of E h" "counted (Suc n) st1"
    using block_step_run [OF Cons.prems] by blast
  obtain st2 h2 where "blocks_loop E ql f bs st1 h1 = (Inr st2, h2)" "state_of E h2 = state_of E h1" "counted (Suc n + length bs) st2"
    using Cons.IH [OF 1(3)] by blast
  with 1 show ?case
    by (simp add: bnd_def)
qed

lemma list_flow_run:
  "\<exists>xs. getAllBlocksDeploymentsForFlow E f h = (Inr xs, h @ [EvList ODeployment (Some (flow_Namespace f)) (flow_labels f)]) \<and>
     distinct (map obj_name xs) \<and> (\<forall>x \<in> set xs. obj_key x = (ODeployment, flow_Namespace f, obj_name x) \<and>
       state_of E h (obj_key x) = Some x) \<and> obj_name ` set xs = flow_deployments f (state_of E h)"
proof -
  obtain xs where xs: "e_list E h ODeployment (Some (flow_Namespace f)) (flow_labels f) = Inr xs" "distinct xs"
    "\<forall>x. x \<in> set xs \<longleftrightarrow> state_of E h (obj_key x) = Some x \<and> selected ODeployment (Some (flow_Namespace f)) (flow_labels f) x"
    using list_state by blast
  note d = distinct_listed_names [OF xs(2), of "state_of E h" ODeployment "flow_Namespace f" "flow_labels f"]
  have key: "obj_key x = (ODeployment, flow_Namespace f, obj_name x)" if "x \<in> set xs" for x
    using d(2) xs(3) that by blast
  have "obj_name ` set xs = flow_deployments f (state_of E h)"
  proof
    show "obj_name ` set xs \<subseteq> flow_deployments f (state_of E h)"
      using xs(3) key unfolding flow_deployments_def by fastforce
    show "flow_deployments f (state_of E h) \<subseteq> obj_name ` set xs"
    proof
      fix n
      assume "n \<in> flow_deployments f (state_of E h)"
      then obtain x where x: "state_of E h (ODeployment, flow_Namespace f, n) = Some x"
        "selected ODeployment (Some (flow_Namespace f)) (flow_labels f) x"
        unfolding flow_deployments_def by blast
      moreover have "obj_key x = (ODeployment, flow_Namespace f, n)"
        by (rule state_key [OF x(1)])
      ultimately have "x \<in> set xs" "obj_name x = n"
        using xs(3) by (metis, simp)
      then show "n \<in> obj_name ` set xs"
        by blast
    qed
  qed
  moreover have "distinct (map obj_name xs)"
    using d(1) xs(3) by blast
  moreover have "\<forall>x \<in> set xs. state_of E h (obj_key x) = Some x"
    using xs(3) by blast
  ultimately show ?thesis
    using xs(1) key by (intro exI [of _ xs])
      (simp add: getAllBlocksDeploymentsForFlow_def ListObjs_def call_def flow_labels_def del: obj_key_eq)
qed

end

section \<open>The handler\<close>

context flow_client begin

lemma flow_status_run:
  assumes "state_of E h (OFlow, ns, name) = Some (KFlow f)" "finite (flow_deployments f (state_of E h))"
  shows "\<exists>status h1. update_flow_status E ql ns name h = (Inr (), h1) \<and>
     state_of E h1 = (state_of E h)((OFlow, ns, name) \<mapsto> KFlow (f\<lparr>flow_Status := status\<rparr>)) \<and>
     ft_State status = ft_State (flow_Status f) \<and>
     ft_TotalContainerBlocks status = int (card (flow_deployments f (state_of E h))) \<and>
     0 \<le> ft_ReadyContainerBlocks status \<and> 0 \<le> ft_FailingContainerBlocks status \<and>
     ft_ReadyContainerBlocks status + ft_FailingContainerBlocks status \<le> ft_TotalContainerBlocks status"
proof -
  let ?h = "h @ [EvGet (OFlow, ns, name)]"
  have get: "GetFlow E ns name h = (Inr f, ?h)"
    using assms(1) by (simp add: GetFlow_def bnd_def Get_def call_def get_cases lift_def as_flow_def)
  have s: "state_of E ?h = state_of E h"
    by (simp add: step)
  obtain xs where xs: "getAllBlocksDeploymentsForFlow E f ?h = (Inr xs, ?h @ [EvList ODeployment (Some (flow_Namespace f)) (flow_labels f)])"
    "distinct (map obj_name xs)" "\<forall>x \<in> set xs. obj_key x = (ODeployment, flow_Namespace f, obj_name x)"
    "obj_name ` set xs = flow_deployments f (state_of E h)"
    using list_flow_run [of f ?h] s by auto
  let ?h2 = "?h @ [EvList ODeployment (Some (flow_Namespace f)) (flow_labels f)]"
  have "length xs = card (flow_deployments f (state_of E h))"
    using distinct_card [OF xs(2)] xs(4) by simp
  moreover have "length (deployments_of xs) = length xs"
    using xs(3) by (intro deployments_of_listed) simp
  moreover have "counted 0 \<lparr>bs_Total = 0, bs_Ready = 0, bs_Failing = 0,
      bs_Cpu = ql_Cpu ql (fs_NativeBlocksResources (flow_Spec f)),
      bs_Memory = ql_Memory ql (fs_NativeBlocksResources (flow_Spec f)), bs_Failures = []\<rparr>"
    by (simp add: counted_def)
  from blocks_loop_run [OF this] obtain st h3 where st: "computeBlocksState E ql (deployments_of xs) f ?h2 = (Inr st, h3)"
    "state_of E h3 = state_of E ?h2" "counted (0 + length (deployments_of xs)) st"
    unfolding computeBlocksState_def by blast
  ultimately have counted: "counted (card (flow_deployments f (state_of E h))) st"
    by simp
  let ?st = "(flow_Status f)\<lparr>ft_TotalContainerBlocks := bs_Total st, ft_ReadyContainerBlocks := bs_Ready st,
      ft_FailingContainerBlocks := bs_Failing st, ft_Resources := [(''cpu'', bs_Cpu st), (''memory'', bs_Cpu st)],
      ft_UnrecoverableFailures := bs_Failures st\<rparr>"
  let ?x = "KFlow (f\<lparr>flow_Status := ?st\<rparr>)"
  have s3: "state_of E h3 = state_of E h"
    using st(2) by (simp only: step step_state.simps)
  have key: "obj_key ?x = (OFlow, ns, name)"
    using state_key [OF assms(1)] by (simp only: obj_key_def) simp
  have "e_status_update E h3 ?x = Inr ()"
    by (rule status_present) (simp only: key s3 assms(1) option.distinct simp_thms)
  then have "update_flow_status E ql ns name h = (Inr (), h3 @ [EvStatusUpdate ?x])"
    using get xs(1) st(1)
    by (simp add: update_flow_status_def computeFlowStatusResource_def bnd_def StatusUpdate_def call_def Let_def ret_def)
  moreover have "state_of E (h3 @ [EvStatusUpdate ?x]) = (state_of E h)((OFlow, ns, name) \<mapsto> ?x)"
    by (simp only: step step_state.simps key s3 assms(1) option.distinct if_False)
  ultimately show ?thesis
    using counted by (intro exI [of _ ?st] exI [of _ "h3 @ [EvStatusUpdate ?x]"]) (simp add: counted_def)
qed

end

context flow_client begin

lemma flow_handler_run:
  assumes here: "state_of E h (OFlow, ns, name) = Some (KFlow f)"
    and there: "state_of E h (OAstarte, ns, fs_Astarte (flow_Spec f)) = Some (KAstarte a)"
    and "broker_config a c y rmq" "flow_ready f a c y (state_of E h)" "distinct (flow_secret_names f a)"
  shows "\<exists>h1 status. flow_Reconcile E ql merge ns name h = (Inr (NoRequeue, None), h1) \<and>
     state_of E h1 (OFlow, ns, name) = Some (KFlow (f\<lparr>flow_Status := status\<rparr>)) \<and>
     (\<forall>b \<in> set (flow_blocks f). block_runs f a rmq b (state_of E h1) \<and> no_stale f a b (state_of E h1)) \<and>
     flow_deployments f (state_of E h1) = (\<lambda>b. GenerateBlockName f b a) ` set (flow_blocks f) \<and>
     ft_State status = ft_State (flow_Status f) \<and>
     ft_TotalContainerBlocks status = int (length (flow_blocks f)) \<and>
     0 \<le> ft_ReadyContainerBlocks status \<and> 0 \<le> ft_FailingContainerBlocks status \<and>
     ft_ReadyContainerBlocks status + ft_FailingContainerBlocks status \<le> ft_TotalContainerBlocks status"
proof -
  let ?names = "map (\<lambda>b. GenerateBlockName f b a) (flow_blocks f)"
  let ?h = "(h @ [EvGet (OFlow, ns, name)]) @ [EvGet (OAstarte, ns, fs_Astarte (flow_Spec f))]"
  have ns: "flow_Namespace f = ns" "cr_Namespace a = ns"
    using state_key [OF here] state_key [OF there] by simp_all
  have s: "state_of E ?h = state_of E h"
    by (simp only: step step_state.simps)
  have get: "GetFlow E ns name h = (Inr f, h @ [EvGet (OFlow, ns, name)])"
    using here by (simp add: GetFlow_def bnd_def Get_def call_def get_cases lift_def as_flow_def)
  have geta: "GetAstarte E ns (fs_Astarte (flow_Spec f)) (h @ [EvGet (OFlow, ns, name)]) = (Inr a, ?h)"
    using there by (simp add: GetAstarte_def bnd_def Get_def call_def get_cases step lift_def as_astarte_def)
  let ?hl = "?h @ [EvList ODeployment (Some (flow_Namespace f)) (flow_labels f)]"
  obtain xs where xs: "getAllBlocksDeploymentsForFlow E f ?h = (Inr xs, ?hl)" "distinct (map obj_name xs)"
    "\<forall>x \<in> set xs. obj_key x = (ODeployment, flow_Namespace f, obj_name x) \<and> state_of E h (obj_key x) = Some x"
    "obj_name ` set xs = flow_deployments f (state_of E h)"
    using list_flow_run [of f ?h] unfolding s by blast
  have s0: "state_of E ?hl = state_of E h"
    by (simp only: step step_state.simps)
  have resources: "getResourcesForReconciliationFor E f (h @ [EvGet (OFlow, ns, name)]) = (Inr (Inr (a, by_name xs)), ?hl)"
    using geta xs(1)
    by (simp add: getResourcesForReconciliationFor_def on_result_def getAllBlocksForFlow_def bnd_def ret_def ns)
  obtain h1 where h1: "ensure_blocks E merge f a (flow_blocks f) (by_name xs) ?hl = (Inr (without_names ?names (by_name xs)), h1)"
    "\<forall>b \<in> set (flow_blocks f). block_runs f a rmq b (state_of E h1) \<and> no_stale f a b (state_of E h1)"
    "agree (flow_region f a c) (state_of E h) (state_of E h1)"
    using blocks_run [of f a c y ?hl "flow_blocks f" rmq "by_name xs"] assms(3-5) distinct_blocks(1) [OF assms(5)] ns
    unfolding s0 by auto
  have kept: "state_of E h1 (ODeployment, flow_Namespace f, n) = state_of E h (ODeployment, flow_Namespace f, n)"
    if "n \<notin> set ?names" for n
    using that by (intro agree_at [OF h1(3)]) (auto simp: flow_region_def)
  have xkey: "\<And>x. x \<in> set xs \<Longrightarrow> obj_key x = (ODeployment, flow_Namespace f, obj_name x)"
    using xs(3) by blast
  have left: "state_of E h1 (obj_key x) = Some x" if "x \<in> set xs" "obj_name x \<notin> set ?names" for x
  proof -
    have "state_of E h (obj_key x) = Some x"
      using xs(3) that(1) by blast
    then show ?thesis
      unfolding xkey [OF that(1)] kept [OF that(2)] .
  qed
  let ?gone = "{(ODeployment, flow_Namespace f, n) | n. n \<in> obj_name ` set xs \<and> n \<notin> set ?names}"
  obtain h2 where h2: "for_each (\<lambda>(_, x). DeleteObj E x) (without_names ?names (by_name xs)) h1 = (Inr (), h2)"
    "state_of E h2 = (\<lambda>k. if k \<in> ?gone then None else state_of E h1 k)"
    using leftovers_run [OF xs(2) xkey left] by blast
  have deployments: "flow_deployments f (state_of E h2) = set ?names"
  proof
    show "set ?names \<subseteq> flow_deployments f (state_of E h2)"
      using h1(2) by (auto simp: flow_deployments_def block_runs_def h2(2))
    show "flow_deployments f (state_of E h2) \<subseteq> set ?names"
    proof (rule subsetI, rule ccontr)
      fix n
      assume n: "n \<in> flow_deployments f (state_of E h2)" "n \<notin> set ?names"
      then have "(ODeployment, flow_Namespace f, n) \<notin> ?gone"
        unfolding flow_deployments_def h2(2) by (auto split: if_splits)
      moreover from this have "n \<in> flow_deployments f (state_of E h)"
        using n unfolding flow_deployments_def h2(2) by (simp add: kept [OF n(2)])
      ultimately show False
        using n(2) xs(4) by blast
    qed
  qed
  have blocks2: "block_runs f a rmq b (state_of E h2) \<and> no_stale f a b (state_of E h2)" if "b \<in> set (flow_blocks f)" for b
  proof -
    have "state_of E h2 (OSecret, m, n) = state_of E h1 (OSecret, m, n)" for m n
      by (simp add: h2(2))
    moreover have "state_of E h2 (ODeployment, flow_Namespace f, GenerateBlockName f b a) =
        state_of E h1 (ODeployment, flow_Namespace f, GenerateBlockName f b a)"
      using that by (auto simp: h2(2))
    ultimately show ?thesis
      using h1(2) that by (simp add: block_runs_def no_stale_def secret_holds_def)
  qed
  have "state_of E h1 (OFlow, ns, name) = Some (KFlow f)"
    using agree_at [OF h1(3), of "(OFlow, ns, name)"] here by (simp add: flow_region_def)
  then have here2: "state_of E h2 (OFlow, ns, name) = Some (KFlow f)"
    by (simp add: h2(2))
  obtain status h3 where st: "update_flow_status E ql ns name h2 = (Inr (), h3)"
    "state_of E h3 = (state_of E h2)((OFlow, ns, name) \<mapsto> KFlow (f\<lparr>flow_Status := status\<rparr>))"
    "ft_State status = ft_State (flow_Status f)" "ft_TotalContainerBlocks status = int (card (set ?names))"
    "0 \<le> ft_ReadyContainerBlocks status" "0 \<le> ft_FailingContainerBlocks status"
    "ft_ReadyContainerBlocks status + ft_FailingContainerBlocks status \<le> ft_TotalContainerBlocks status"
    using flow_status_run [OF here2, of ql] unfolding deployments by blast
  have "card (set ?names) = length (flow_blocks f)"
    using distinct_blocks [OF assms(5)] by (simp add: card_image distinct_card)
  moreover have "flow_Reconcile E ql merge ns name h = (Inr (NoRequeue, None), h3)"
    using get resources h1(1) h2(1) retry_success [of "update_flow_status E ql ns name" h2 "()" h3 E] st(1)
    by (simp add: flow_Reconcile_def on_result_def bnd_def or_return_def ret_def)
  moreover have "block_runs f a rmq b (state_of E h3) \<and> no_stale f a b (state_of E h3)" if "b \<in> set (flow_blocks f)" for b
    using blocks2 [OF that] by (simp add: st(2) block_runs_def no_stale_def secret_holds_def)
  moreover have "flow_deployments f (state_of E h3) = set ?names"
    using deployments by (simp add: st(2) flow_deployments_def)
  ultimately show ?thesis
    using st(2-7) by (intro exI [of _ h3] exI [of _ status]) simp
qed

end

text \<open>The laws hold of the server that lives in memory and of the union of maps.\<close>

interpretation flow_memory: flow_client "memory_server xs" append_merge
  by unfold_locales

section \<open>The handler runs what the resource asks for\<close>


text \<open>A flow of one block with two workers, and the cluster it finds.\<close>

definition ex_worker :: "string \<Rightarrow> string \<Rightarrow> BlockWorker" where
  "ex_worker i q = \<lparr>bw_WorkerID = i, bw_DataProvider = \<lparr>dp_RabbitMQ =
     Some \<lparr>frd_Queues = [q], frd_Exchange = None, frd_RabbitMQConfig = None\<rparr>\<rparr>\<rparr>"

definition ex_block :: ContainerBlockSpec where
  "ex_block = \<lparr>cb_BlockID = ''filter'', cb_Image = ''filter:1'', cb_ImagePullSecrets = [],
     cb_Environment = [], cb_Resources = NoResources, cb_Configuration = ''{}'',
     cb_Workers = [ex_worker ''in'' ''samples'', ex_worker ''out'' ''alarms'']\<rparr>"

definition ex_flow :: Flow where
  "ex_flow = \<lparr>flow_Meta = NewMeta ''metrics'' ''astarte'',
     flow_Spec = \<lparr>fs_Astarte = ''example'', fs_AstarteRealm = ''test'', fs_NativeBlocks = 0,
       fs_NativeBlocksResources = [(''cpu'', Quantity ''100m''), (''memory'', Quantity ''64M'')], fs_FlowPool = ''pool'',
       fs_ContainerBlocks = [ex_block]\<rparr>,
     flow_Status = \<lparr>ft_State = FlowStateUnknown, ft_TotalContainerBlocks = 0, ft_ReadyContainerBlocks = 0,
       ft_Resources = [], ft_FailingContainerBlocks = 0, ft_UnrecoverableFailures = []\<rparr>\<rparr>"

definition ex_broker_credentials :: kobj where
  "ex_broker_credentials =
     KSecret \<lparr>sec_Meta = NewMeta ''example-rabbitmq-user-credentials'' ''astarte'', sec_Type = ''Opaque'',
              sec_Data = [(''admin-username'', ''user''), (''admin-password'', ''secret'')], sec_StringData = []\<rparr>"

definition ex_old_block :: kobj where
  "ex_old_block = on_deployment (\<lambda>d. d\<lparr>d_Meta := (d_Meta d)\<lparr>om_Labels := flow_labels ex_flow\<rparr>\<rparr>)
     (NewDeployment ''example-flow-metrics-block-old'' ''astarte'')"

definition ex_flow_cluster :: "kobj list" where
  "ex_flow_cluster = [KAstarte ex_astarte, KFlow ex_flow, ex_broker_credentials, ex_old_block]"

lemma ex_flow_state: "state_of (memory_server ex_flow_cluster) [] =
    (\<lambda>k. None)((ODeployment, ''astarte'', ''example-flow-metrics-block-old'') \<mapsto> ex_old_block,
      (OSecret, ''astarte'', ''example-rabbitmq-user-credentials'') \<mapsto> ex_broker_credentials,
      (OFlow, ''astarte'', ''metrics'') \<mapsto> KFlow ex_flow,
      (OAstarte, ''astarte'', ''example'') \<mapsto> KAstarte ex_astarte)"
proof -
  have "obj_key (KAstarte ex_astarte) = (OAstarte, ''astarte'', ''example'')"
    "obj_key (KFlow ex_flow) = (OFlow, ''astarte'', ''metrics'')"
    "obj_key ex_broker_credentials = (OSecret, ''astarte'', ''example-rabbitmq-user-credentials'')"
    "obj_key ex_old_block = (ODeployment, ''astarte'', ''example-flow-metrics-block-old'')"
    by code_simp+
  then show ?thesis
    unfolding memory_state by (simp add: ex_flow_cluster_def store_of_def fun_upd_twist del: obj_key_eq)
qed


end
