(* ===== verification/Startup.thy ===== *)
theory Startup
  imports Flow_Blocks Webhooks Controllers
begin

text \<open>
  Start-up (\<open>cmd/main.go\<close>): the flags, the options of the manager, and the order in which controllers,
  webhooks and health checks are registered; what each controller watches (the \<open>SetupWithManager\<close> of the
  three controllers); and the webhook of Flow (\<open>api/flow/v2alpha1/flow_webhook.go\<close>). The library
  that runs the controllers is not modelled: what it makes of a registration is the parameter \<open>route\<close> of
  the theory \<open>Watches\<close>.
\<close>

section \<open>Flags and options\<close>

record flags =
  fl_MetricsAddr :: string
  fl_ProbeAddr :: string
  fl_LeaderElect :: bool
  fl_SecureMetrics :: bool
  fl_EnableHTTP2 :: bool

definition default_flags :: flags where
  "default_flags = \<lparr>fl_MetricsAddr = ''0'', fl_ProbeAddr = '':8081'', fl_LeaderElect = False,
     fl_SecureMetrics = True, fl_EnableHTTP2 = False\<rparr>"

text \<open>A TLS configuration is the list of the protocols it negotiates; an option rewrites it.\<close>

definition disableHTTP2 :: "string list \<Rightarrow> string list" where
  "disableHTTP2 c = [''http/1.1'']"

definition tlsOpts :: "flags \<Rightarrow> (string list \<Rightarrow> string list) list" where
  "tlsOpts f = (if \<not> fl_EnableHTTP2 f then [disableHTTP2] else [])"

text \<open>The webhook server and the metrics server take the same options.\<close>

record manager_options =
  mo_MetricsAddr :: string
  mo_SecureServing :: bool
  mo_FilterProvider :: bool
  mo_MetricsTLS :: "(string list \<Rightarrow> string list) list"
  mo_WebhookTLS :: "(string list \<Rightarrow> string list) list"
  mo_ProbeAddr :: string
  mo_LeaderElection :: bool
  mo_LeaderElectionID :: string

definition manager_options_of :: "flags \<Rightarrow> manager_options" where
  "manager_options_of f =
     \<lparr>mo_MetricsAddr = fl_MetricsAddr f, mo_SecureServing = fl_SecureMetrics f,
      mo_FilterProvider = fl_SecureMetrics f, mo_MetricsTLS = tlsOpts f, mo_WebhookTLS = tlsOpts f,
      mo_ProbeAddr = fl_ProbeAddr f, mo_LeaderElection = fl_LeaderElect f,
      mo_LeaderElectionID = ''30c4295b.astarte-platform.org''\<rparr>"

section \<open>Registration\<close>

datatype startup_step =
    NewManager manager_options
  | SetupController okind
  | SetupWebhook okind
  | AddHealthzCheck string
  | AddReadyzCheck string
  | StartManager

definition startup_steps :: "flags \<Rightarrow> string \<Rightarrow> startup_step list" where
  "startup_steps f ENABLE_WEBHOOKS =
     [NewManager (manager_options_of f), SetupController OAstarte, SetupController OFlow, SetupController OIngressCR]
     @ (if ENABLE_WEBHOOKS \<noteq> ''false''
        then [SetupWebhook OAstarte, SetupWebhook OFlow, SetupWebhook OIngressCR] else [])
     @ [AddHealthzCheck ''healthz'', AddReadyzCheck ''readyz'', StartManager]"

text \<open>
  Every step that fails exits with code 1; \<open>answer\<close> says whether a step succeeds. The result is the steps
  taken and the exit code.
\<close>

fun run_steps :: "(startup_step \<Rightarrow> bool) \<Rightarrow> startup_step list \<Rightarrow> startup_step list \<times> int" where
  "run_steps answer [] = ([], 0)"
| "run_steps answer (s # ss) =
     (if answer s then (let (taken, code) = run_steps answer ss in (s # taken, code)) else ([s], 1))"

definition main :: "(startup_step \<Rightarrow> bool) \<Rightarrow> flags \<Rightarrow> string \<Rightarrow> startup_step list \<times> int" where
  "main answer f ENABLE_WEBHOOKS = run_steps answer (startup_steps f ENABLE_WEBHOOKS)"

lemma run_steps_prefix: "\<exists>rest. ss = fst (run_steps answer ss) @ rest"
  by (induction ss) (auto split: prod.splits)

lemma run_steps_before:
  "s \<in> set (butlast (fst (run_steps answer ss))) \<Longrightarrow> answer s"
proof (induction ss)
  case (Cons a ss)
  show ?case
  proof (cases "answer a")
    case True
    with Cons show ?thesis
      by (cases "fst (run_steps answer ss)") (auto simp: split_beta Let_def split: if_splits)
  qed (use Cons.prems in simp)
qed simp

text \<open>
  The manager is only started when all three controllers and, unless they are switched off, all three
  webhooks are registered; and the webhooks are switched off by the value \<open>false\<close> alone.
\<close>

lemma manager_starts_complete:
  assumes "StartManager \<in> set (fst (main answer f v))"
  shows "\<forall>k \<in> {OAstarte, OFlow, OIngressCR}.
     SetupController k \<in> set (fst (main answer f v)) \<and> answer (SetupController k) \<and>
     (v \<noteq> ''false'' \<longrightarrow> SetupWebhook k \<in> set (fst (main answer f v)) \<and> answer (SetupWebhook k))"
proof -
  let ?ss = "startup_steps f v" and ?taken = "fst (main answer f v)"
  obtain rest where rest: "?ss = ?taken @ rest"
    using run_steps_prefix unfolding main_def by blast
  have "?taken = ?ss"
  proof (rule ccontr)
    assume "?taken \<noteq> ?ss"
    with rest have "rest \<noteq> []"
      by auto
    then have "butlast ?ss = ?taken @ butlast rest"
      by (subst rest) (simp add: butlast_append)
    with assms have "StartManager \<in> set (butlast ?ss)"
      by simp
    then show False
      by (simp add: startup_steps_def butlast_append split: if_splits)
  qed
  then have taken: "set ?taken = set ?ss" "\<forall>s \<in> set (butlast ?ss). answer s"
    using run_steps_before [of _ answer ?ss] by (simp_all add: main_def)
  have steps: "SetupController k \<in> set (butlast ?ss)" "v \<noteq> ''false'' \<Longrightarrow> SetupWebhook k \<in> set (butlast ?ss)"
    if "k \<in> {OAstarte, OFlow, OIngressCR}" for k
    using that by (auto simp: startup_steps_def butlast_append)
  then show ?thesis
    using taken in_set_butlastD [of _ ?ss] by metis
qed

section \<open>What the controllers watch\<close>

text \<open>
  A registration: the kind reconciled and which of its updates are let through (creations and deletions all
  are), the kinds whose objects lead to their controller, and those a function maps to requests, given as
  names with namespaces.
\<close>

record controller_setup =
  ct_For :: okind
  ct_Update :: "object_meta \<Rightarrow> object_meta \<Rightarrow> bool"
  ct_Owns :: "okind list"
  ct_Watches :: "(okind \<times> (object_meta \<Rightarrow> (string \<times> string) list io)) list"

definition astarte_SetupWithManager :: "env \<Rightarrow> controller_setup" where
  "astarte_SetupWithManager E =
     \<lparr>ct_For = OAstarte, ct_Update = astarte_update_relevant,
      ct_Owns = [ODeployment, OStatefulSet],
      ct_Watches = [(OSecret, genericToAstarteReconcileRequestFunc E),
                    (OConfigMap, genericToAstarteReconcileRequestFunc E)]\<rparr>"

definition flow_SetupWithManager :: controller_setup where
  "flow_SetupWithManager =
     \<lparr>ct_For = OFlow, ct_Update = (\<lambda>old new. True),
      ct_Owns = [ODeployment, OStatefulSet, OSecret], ct_Watches = []\<rparr>"

definition adi_SetupWithManager :: "env \<Rightarrow> controller_setup" where
  "adi_SetupWithManager E =
     \<lparr>ct_For = OIngressCR, ct_Update = adi_update_relevant, ct_Owns = [OIngress],
      ct_Watches = [(OAstarte, astarteToADIReconcileRequestFunc E)]\<rparr>"

section \<open>The webhook of Flow\<close>

text \<open>Neither defaults nor checks are filled in: the warnings and the error are nil.\<close>

definition flow_Default :: "Flow \<Rightarrow> Flow" where
  "flow_Default r = r"

definition flow_ValidateCreate :: "Flow \<Rightarrow> string list \<times> err option" where
  "flow_ValidateCreate r = ([], None)"

definition flow_ValidateUpdate :: "Flow \<Rightarrow> kobj \<Rightarrow> string list \<times> err option" where
  "flow_ValidateUpdate r old = ([], None)"

definition flow_ValidateDelete :: "Flow \<Rightarrow> string list \<times> err option" where
  "flow_ValidateDelete r = ([], None)"

end
