(* ===== verification/Watches.thy ===== *)
theory Watches
  imports Startup First_Install
begin

text \<open>
  What leads to a run: the requests that the runtime makes of the events of the cluster, for the
  registrations of the theory \<open>Startup\<close>, and the round from a lost workload to its restoration.
\<close>

section \<open>Events and requests\<close>

datatype watch_event = Added kobj | Changed kobj kobj | Removed kobj

text \<open>An object as the event shows it; of a change both versions, the runtime looks at the owners of both.\<close>

fun shown :: "watch_event \<Rightarrow> kobj list" where
  "shown (Added x) = [x]"
| "shown (Changed old new) = [old, new]"
| "shown (Removed x) = [x]"

fun let_through :: "(object_meta \<Rightarrow> object_meta \<Rightarrow> bool) \<Rightarrow> watch_event \<Rightarrow> bool" where
  "let_through update (Changed old new) = update (obj_meta old) (obj_meta new)"
| "let_through update ev = True"

definition request_of :: "kobj \<Rightarrow> string \<times> string" where
  "request_of x = (om_Name (obj_meta x), om_Namespace (obj_meta x))"

definition kind_name :: "okind \<Rightarrow> string" where
  "kind_name k =
     (if k = OAstarte then ''Astarte'' else if k = OFlow then ''Flow''
      else if k = OIngressCR then ''AstarteDefaultIngress'' else [])"

text \<open>
  The three ways to a request: an event of the resource itself, of an object whose controller it is, or of one
  that a function maps to it.
\<close>

definition own_requests :: "controller_setup \<Rightarrow> watch_event \<Rightarrow> (string \<times> string) list" where
  "own_requests S ev =
     (if let_through (ct_Update S) ev
      then map request_of (filter (\<lambda>x. obj_kind x = ct_For S) (shown ev)) else [])"

definition owner_request :: "controller_setup \<Rightarrow> kobj \<Rightarrow> (string \<times> string) list" where
  "owner_request S x =
     (case om_Controller (obj_meta x) of
        None \<Rightarrow> []
      | Some r \<Rightarrow> if obj_kind x \<in> set (ct_Owns S) \<and> or_Kind r = kind_name (ct_For S)
                 then [(or_Name r, om_Namespace (obj_meta x))] else [])"

definition mapped_request :: "controller_setup \<Rightarrow> hist \<Rightarrow> kobj \<Rightarrow> (string \<times> string) list" where
  "mapped_request S h x =
     concat (map (\<lambda>(k, f). if k = obj_kind x
                    then (case fst (f (obj_meta x) h) of Inl _ \<Rightarrow> [] | Inr rs \<Rightarrow> rs) else []) (ct_Watches S))"

text \<open>The documented behaviour of the runtime: the requests are these, in any order and number.\<close>

locale event_router =
  fixes route :: "controller_setup \<Rightarrow> watch_event \<Rightarrow> hist \<Rightarrow> (string \<times> string) list"
  assumes routed: "set (route S ev h) = set (own_requests S ev) \<union>
       (\<Union>x \<in> set (shown ev). set (owner_request S x) \<union> set (mapped_request S h x))"
begin

lemma owner_routed:
  assumes "x \<in> set (shown ev)" "om_Controller (obj_meta x) = Some r" "obj_kind x \<in> set (ct_Owns S)"
    "or_Kind r = kind_name (ct_For S)"
  shows "(or_Name r, om_Namespace (obj_meta x)) \<in> set (route S ev h)"
proof -
  have "(or_Name r, om_Namespace (obj_meta x)) \<in> set (owner_request S x)"
    using assms(2-4) by (simp add: owner_request_def)
  with assms(1) show ?thesis
    unfolding routed by blast
qed

end

definition plain_route :: "controller_setup \<Rightarrow> watch_event \<Rightarrow> hist \<Rightarrow> (string \<times> string) list" where
  "plain_route S ev h =
     remdups (own_requests S ev @ concat (map (\<lambda>x. owner_request S x @ mapped_request S h x) (shown ev)))"

interpretation plain_runtime: event_router plain_route
  by unfold_locales (simp add: plain_route_def)

section \<open>Exactly what leads to a run of the Astarte controller\<close>

lemma selected_all: "selected k (Some ns) [] x \<longleftrightarrow> obj_kind x = k \<and> om_Namespace (obj_meta x) = ns"
  by (auto simp: selected_def)

context sole_client begin

lemma mapped_astarte:
  "set (case fst (genericToAstarteReconcileRequestFunc E m h) of Inl _ \<Rightarrow> [] | Inr rs \<Rightarrow> rs) =
     {(name, om_Namespace m) | name. state_of E h (OAstarte, om_Namespace m, name) \<noteq> None}"
proof -
  obtain xs where xs: "e_list E h OAstarte (Some (om_Namespace m)) [] = Inr xs"
    "\<And>x. x \<in> set xs \<longleftrightarrow> state_of E h (obj_key x) = Some x \<and> selected OAstarte (Some (om_Namespace m)) [] x"
    using list_state by blast
  have "fst (genericToAstarteReconcileRequestFunc E m h) = Inr (map request_of xs)"
    using xs(1) by (simp add: genericToAstarteReconcileRequestFunc_def on_result_def ListObjs_def call_def ret_def
        request_of_def)
  moreover have "request_of ` set xs =
      {(name, om_Namespace m) | name. state_of E h (OAstarte, om_Namespace m, name) \<noteq> None}"
    (is "?l = ?r")
  proof
    show "?l \<subseteq> ?r"
      unfolding request_of_def using xs(2) by (auto simp: selected_all obj_key_def)
    show "?r \<subseteq> ?l"
    proof
      fix q
      assume "q \<in> ?r"
      then obtain name x where q: "q = (name, om_Namespace m)" "state_of E h (OAstarte, om_Namespace m, name) = Some x"
        by blast
      then have "obj_key x = (OAstarte, om_Namespace m, name)"
        by (blast intro: state_key)
      then have "x \<in> set xs" "request_of x = q"
        using q xs(2) by (simp_all add: selected_all request_of_def, simp_all add: obj_key_def)
      then show "q \<in> ?l"
        by blast
    qed
  qed
  ultimately show ?thesis
    by simp
qed

lemma mapped_request_astarte:
  "set (mapped_request (astarte_SetupWithManager E) h x) =
     (if obj_kind x \<in> {OSecret, OConfigMap}
      then {(name, om_Namespace (obj_meta x)) | name. state_of E h (OAstarte, om_Namespace (obj_meta x), name) \<noteq> None}
      else {})"
  by (cases "obj_kind x")
    (simp_all add: mapped_request_def astarte_SetupWithManager_def mapped_astarte del: kind_simps option.distinct not_None_eq)

end

text \<open>C18: exactly the events that start a run of the Astarte controller.

  On a server nobody else writes to, an event asks for a run for the resource \<open>name\<close> in \<open>ns\<close> exactly when it is
  an event of that resource, but not an update that leaves its generation as it was, such as the operator's own
  writes of the status; or an event of a deployment or a stateful set it controls; or one of a secret or a
  config map of its namespace, whoever that belongs to, while the resource exists. Events of the
  services, roles and priority classes that a run writes start none.\<close>

theorem astarte_requests_exact:
  assumes "sole_client E" "event_router route"
  shows "(name, ns) \<in> set (route (astarte_SetupWithManager E) ev h) \<longleftrightarrow>
     let_through astarte_update_relevant ev \<and> (OAstarte, ns, name) \<in> obj_key ` set (shown ev) \<or>
     (\<exists>x \<in> set (shown ev). om_Namespace (obj_meta x) = ns \<and>
        (obj_kind x \<in> {ODeployment, OStatefulSet} \<and>
           om_Controller (obj_meta x) = Some \<lparr>or_Kind = ''Astarte'', or_Name = name\<rparr> \<or>
         obj_kind x \<in> {OSecret, OConfigMap} \<and> state_of E h (OAstarte, ns, name) \<noteq> None))"
proof -
  let ?S = "astarte_SetupWithManager E" and ?r = "(name, ns)"
  have "?r \<in> set (own_requests ?S ev) \<longleftrightarrow>
      let_through astarte_update_relevant ev \<and> (OAstarte, ns, name) \<in> obj_key ` set (shown ev)"
    by (auto simp: own_requests_def astarte_SetupWithManager_def request_of_def obj_key_def image_iff) metis
  moreover have "?r \<in> set (owner_request ?S x) \<longleftrightarrow> om_Namespace (obj_meta x) = ns \<and>
      obj_kind x \<in> {ODeployment, OStatefulSet} \<and> om_Controller (obj_meta x) = Some \<lparr>or_Kind = ''Astarte'', or_Name = name\<rparr>" for x
  proof (cases "om_Controller (obj_meta x)")
    case (Some r)
    then show ?thesis
      by (cases r) (auto simp: owner_request_def astarte_SetupWithManager_def kind_name_def simp del: kind_simps)
  qed (simp add: owner_request_def)
  moreover have "?r \<in> set (mapped_request ?S h x) \<longleftrightarrow> om_Namespace (obj_meta x) = ns \<and>
      obj_kind x \<in> {OSecret, OConfigMap} \<and> state_of E h (OAstarte, ns, name) \<noteq> None" for x
    unfolding sole_client.mapped_request_astarte [OF assms(1)] by auto
  ultimately show ?thesis
    unfolding event_router.routed [OF assms(2)] Un_iff UN_iff by blast
qed

text \<open>The status of a resource changes, its Housekeeping deployment goes, or a service of it does.\<close>

definition ex_deployment :: kobj where
  "ex_deployment = owned_by (KAstarte ex_astarte) (NewDeployment ''example-housekeeping'' ''astarte'')"

definition ex_service :: kobj where
  "ex_service = owned_by (KAstarte ex_astarte) (NewService ''example-housekeeping'' ''astarte'')"

theorem astarte_requests_exact_witness:
  "(''example'', ''astarte'') \<notin> set (plain_route (astarte_SetupWithManager (memory_server []))
       (Changed (KAstarte ex_astarte) (KAstarte (ex_astarte\<lparr>ast_Status := (ast_Status ex_astarte)\<lparr>status_Health := AstarteClusterHealthGreen\<rparr>\<rparr>))) []) \<and>
   (''example'', ''astarte'') \<in> set (plain_route (astarte_SetupWithManager (memory_server [])) (Removed ex_deployment) []) \<and>
   (''example'', ''astarte'') \<notin> set (plain_route (astarte_SetupWithManager (memory_server [])) (Removed ex_service) [])"
proof -
  have kinds: "obj_kind ex_deployment = ODeployment" "om_Namespace (obj_meta ex_deployment) = ''astarte''"
    "om_Controller (obj_meta ex_deployment) = Some \<lparr>or_Kind = ''Astarte'', or_Name = ''example''\<rparr>"
    "obj_kind ex_service = OService"
    by code_simp+
  show ?thesis
    unfolding astarte_requests_exact [OF memory.sole_client_axioms plain_runtime.event_router_axioms]
    by (simp add: kinds astarte_update_relevant_def obj_key_def del: kind_simps)
qed

section \<open>Lost workloads\<close>

text \<open>What a run has written, and that a workload that was not there before has been.\<close>

definition written :: "hist \<Rightarrow> kobj set" where
  "written evs = {x. EvStore x \<in> set evs \<or> EvCreate x \<in> set evs}"

abbreviation workload_kinds :: "okind set" where
  "workload_kinds \<equiv> {ODeployment, OStatefulSet}"

lemma written_owner:
  assumes "kube_api (w_env W)" "snd (astarte_Reconcile W ns name h) = h @ evs" "x \<in> written evs" "obj_kind x \<in> workload_kinds"
  shows "om_Controller (obj_meta x) = Some \<lparr>or_Kind = ''Astarte'', or_Name = name\<rparr>" "om_Namespace (obj_meta x) = ns"
proof -
  have "list_all (handler_event ns name) evs"
    by (rule emitsD [OF kube_api.emits_handler [OF assms(1) refl] assms(2)])
  then have "written_at_home ns name x"
    using assms(3) by (auto simp: list_all_iff written_def)
  then show "om_Controller (obj_meta x) = Some \<lparr>or_Kind = ''Astarte'', or_Name = name\<rparr>" "om_Namespace (obj_meta x) = ns"
    using assms(4) by (auto simp: written_at_home_def obj_key_def astarte_ref_def)
qed

context sole_client begin

lemma new_workload_written:
  assumes "list_all (handler_event ns name) evs" "fst k \<in> workload_kinds" "state_of E h k = None" "state_of E (h @ evs) k = Some x"
  shows "\<exists>y \<in> written evs. obj_key y = k"
  using assms(1,4)
proof (induction evs arbitrary: x rule: rev_induct)
  case (snoc ev evs)
  show ?case
  proof (cases "state_of E (h @ evs) k")
    case None
    then have "\<exists>y. (ev = EvStore y \<or> ev = EvCreate y) \<and> obj_key y = k"
      using snoc.prems assms(2) step [of "h @ evs" ev]
      by (cases ev) (auto split: if_splits)
    then show ?thesis
      by (auto simp: written_def)
  next
    case (Some y)
    then show ?thesis
      using snoc by (auto simp: written_def)
  qed
qed (use assms(3) in simp)

end

text \<open>A removed workload leaves the resource reconcilable.\<close>

lemma with_status [simp]:
  "reconcilable W (cr\<lparr>ast_Status := st\<rparr>) = reconcilable W cr"
  "ca_given (cr\<lparr>ast_Status := st\<rparr>) s = ca_given cr s"
  "labelled (cr\<lparr>ast_Status := st\<rparr>) = labelled cr"
  "own_name (cr\<lparr>ast_Status := st\<rparr>) = own_name cr" "dup_name (cr\<lparr>ast_Status := st\<rparr>) = dup_name cr"
  "dup_replicas (cr\<lparr>ast_Status := st\<rparr>) = dup_replicas cr" "dup_wanted (cr\<lparr>ast_Status := st\<rparr>) = dup_wanted cr"
  "free_for (KAstarte (cr\<lparr>ast_Status := st\<rparr>)) m = free_for (KAstarte cr) m"
  by (simp_all add: reconcilable_def complete_resource_def convergent_def priorities_given_def dup_replicas_def
      ca_foreign_def foreign_secret_def rabbitmq_connected_def cassandra_connected_def validateCreateAstarteSystemKeyspace_def
      ca_given_def ca_name_def own_name_def fun_eq_iff dup_name_def dup_wanted_def labelled_def free_for_def owner_ref_of_def)

lemma with_status_admissible [simp]: "admissible (cr\<lparr>ast_Status := st\<rparr>) s = admissible cr s"
proof -
  have "own_key (cr\<lparr>ast_Status := st\<rparr>) k = own_key cr k" for k
    by (cases k) simp
  then show ?thesis
    by (simp add: admissible_def)
qed

lemma labelled_removed: "labelled cr (s(k := None)) \<subseteq> labelled cr s"
  by (auto simp: labelled_def split: if_splits)

lemma admissible_removed:
  assumes "admissible cr s" "labelled cr s \<subseteq> dup_wanted cr"
  shows "admissible cr (s(k := None))"
  using assms labelled_removed [of cr s k] unfolding admissible_def by (auto split: if_splits)

lemma ca_given_removed: "ca_given cr s \<Longrightarrow> fst k \<in> workload_kinds \<Longrightarrow> ca_given cr (s(k := None))"
  by (auto simp: ca_given_def present_def)

lemma after_loss:
  assumes "undisturbed W core" "reconcilable W cr" "admissible cr (state_of (w_env W) h)" "ca_given cr (state_of (w_env W) h)"
    and "state_of (w_env W) h (OAstarte, ns, name) = Some (KAstarte cr)"
    and "\<not> spec_ManualMaintenanceMode (ast_Spec cr)" "\<not> om_Deleting (ast_Meta cr)"
    and "settled_version cr (state_of (w_env W) h)"
    and "snd (astarte_Reconcile W ns name h) = h @ evs" "obj_kind x \<in> workload_kinds"
  defines "s \<equiv> state_of (w_env W) (h @ evs @ [EvDelete (obj_key x)])"
  obtains status where "s (OAstarte, ns, name) = Some (KAstarte ((guarded cr)\<lparr>ast_Status := status\<rparr>))"
    "status_AstarteVersion status = spec_Version (ast_Spec cr)" "admissible (guarded cr) s" "ca_given (guarded cr) s"
proof -
  let ?E = "w_env W" and ?k = "(OAstarte, ns, name)"
  have sole: "sole_client ?E"
    using assms(1) by (simp add: undisturbed_def)
  obtain h3 h4 h5 status where h5: "astarte_Reconcile W ns name h = (Inr (NoRequeue, None), h5)"
    "reconcile_goal W (guarded cr) (state_of ?E h4)" "admissible cr (state_of ?E h4)"
    "state_of ?E h5 = (state_of ?E h4)(?k \<mapsto> KAstarte ((guarded cr)\<lparr>ast_Status := status\<rparr>))"
    "status_AstarteVersion status = spec_Version (ast_Spec cr)" "ca_given cr (state_of ?E h4)"
    by (rule handler_runs [OF assms(1-8)])
  have s: "s = (state_of ?E h5)(obj_key x := None)"
    using h5(1) assms(9) sole_client.step [OF sole, of "h @ evs"] by (simp add: s_def)
  have "pods_built W (guarded cr)"
    using assms(1,2) by (intro reconcilable_pods) simp_all
  then have "dup_runs W (guarded cr) (state_of ?E h4)"
    using h5(2,3) by (intro goal_dup_runs keyed_state_of [OF sole]) simp_all
  then have "labelled (guarded cr) (state_of ?E h4) \<subseteq> dup_wanted (guarded cr)"
    by (auto simp: dup_runs_def split: if_splits)
  then have "admissible (guarded cr) s"
    unfolding s using h5(3) by (intro admissible_removed) (simp_all add: h5(4))
  moreover have "ca_given (guarded cr) s"
    unfolding s using assms(10) h5(6) by (intro ca_given_removed) (simp_all add: h5(4) obj_key_def)
  moreover have "s ?k = Some (KAstarte ((guarded cr)\<lparr>ast_Status := status\<rparr>))"
    using assms(10) by (auto simp: s h5(4) obj_key_def)
  ultimately show thesis
    using that h5(5) by blast
qed



end
