(* ===== verification/Pod_Types.thy ===== *)
theory Pod_Types
  imports Pod_Environment Startup Admission
begin

text \<open>
  The rules of the Kubernetes API for the names in a pod, and which of the operator's pods keep them.
\<close>

section \<open>Well-typed pods\<close>

definition label_char :: "char \<Rightarrow> bool" where
  "label_char c \<longleftrightarrow> c \<in> set ''abcdefghijklmnopqrstuvwxyz0123456789-''"

text \<open>A DNS label, and the name of a port: a shorter label with a letter and no two hyphens in a row.\<close>

definition dns_label :: "string \<Rightarrow> bool" where
  "dns_label s \<longleftrightarrow> s \<noteq> [] \<and> length s \<le> 63 \<and> list_all label_char s \<and> hd s \<noteq> CHR ''-'' \<and> last s \<noteq> CHR ''-''"

fun double_hyphen :: "string \<Rightarrow> bool" where
  "double_hyphen (a # b # s) \<longleftrightarrow> a = CHR ''-'' \<and> b = CHR ''-'' \<or> double_hyphen (b # s)"
| "double_hyphen s \<longleftrightarrow> False"

definition port_name :: "string \<Rightarrow> bool" where
  "port_name s \<longleftrightarrow> dns_label s \<and> length s \<le> 15 \<and> \<not> double_hyphen s \<and>
     list_ex (\<lambda>c. c \<in> set ''abcdefghijklmnopqrstuvwxyz'') s"

text \<open>Ports may go without a name; the others are told apart by it. No two mounts share a path.\<close>

definition container_typed :: "container \<Rightarrow> bool" where
  "container_typed c \<longleftrightarrow>
     dns_label (c_Name c) \<and>
     distinct (map vm_MountPath (c_VolumeMounts c)) \<and>
     list_all (\<lambda>p. 0 < cp_ContainerPort p \<and> cp_ContainerPort p < 65536 \<and>
                   (cp_Name p = '''' \<or> port_name (cp_Name p))) (c_Ports c) \<and>
     distinct (filter (\<lambda>n. n \<noteq> '''') (map cp_Name (c_Ports c)))"

definition pod_typed :: "pod_spec \<Rightarrow> bool" where
  "pod_typed ps \<longleftrightarrow>
     ps_Containers ps \<noteq> [] \<and> list_all container_typed (ps_Containers ps) \<and> distinct (map c_Name (ps_Containers ps)) \<and>
     list_all (\<lambda>v. dns_label (vol_Name v)) (ps_Volumes ps) \<and> distinct (map vol_Name (ps_Volumes ps))"

section \<open>The pods of Astarte\<close>

lemma component_names_typed: "dns_label (DashedString c)"
proof -
  have "\<forall>c. dns_label (DashedString c)"
    by code_simp
  then show ?thesis ..
qed

lemma http_port_typed:
  "port_name ''http''" "0 < astarteServicesPort" "astarteServicesPort < 65536"
  by code_simp+

lemma vernemq_ports_typed:
  "list_all (\<lambda>p. 0 < cp_ContainerPort p \<and> cp_ContainerPort p < 65536 \<and> (cp_Name p = '''' \<or> port_name (cp_Name p))) vernemq_ports"
  "distinct (filter (\<lambda>n. n \<noteq> '''') (map cp_Name vernemq_ports))"
  by code_simp+

lemma volume_names_typed:
  "dns_label ''beam-config''" "dns_label ''rabbitmq-ssl-ca''" "dns_label ''cassandra-ssl-ca''" "dns_label ''jwtpubkey''"
  "dns_label ''config''" "dns_label ''devices-ca''" "dns_label ''cfssl''" "dns_label ''dashboard''" "dns_label ''vernemq''"
  "dns_label ''block-config''"
  by code_simp+

lemmas names_typed = component_names_typed http_port_typed volume_names_typed

lemma common_volumes_typed:
  assumes "getAstarteCommonVolumes cr = Inr vs"
  shows "list_all (\<lambda>v. dns_label (vol_Name v)) vs" "distinct (map vol_Name vs)" "''jwtpubkey'' \<notin> vol_Name ` set vs"
  using assms by (auto simp: getAstarteCommonVolumes_def rbind_eq_Inr Let_def names_typed split: if_splits)

lemma common_mounts_typed:
  assumes "getAstarteCommonVolumeMounts cr = Inr ms"
  shows "distinct (map vm_MountPath ms)" "''/jwtpubkey'' \<notin> vm_MountPath ` set ms"
  using assms by (auto simp: getAstarteCommonVolumeMounts_def rbind_eq_Inr Let_def split: if_splits)

lemma component_pod_typed:
  assumes "component_pod L name i r cr c = Inr ps"
  shows "pod_typed ps"
  using assms
  by (auto simp: component_pod_def getAstarteGenericBackendPodSpec_def getAstarteGenericAPIPodSpec_def
      getAstarteDashboardPodSpec_def rbind_eq_Inr pod_typed_def container_typed_def names_typed
      getAstarteGenericBackendVolumes_def getAstarteGenericBackendVolumeMounts_def
      getAstarteGenericAPIComponentVolumes_def getAstarteGenericAPIComponentVolumeMounts_def
      getAstarteDashboardVolumes_def getAstarteDashboardVolumeMounts_def common_volumes_typed common_mounts_typed
      split: if_splits)

lemma cfssl_pod_typed: "getCFSSLPodSpec name s cr = Inr ps \<Longrightarrow> pod_typed ps"
  by (auto simp: getCFSSLPodSpec_def rbind_eq_Inr Let_def pod_typed_def container_typed_def names_typed)

lemma vernemq_pod_typed:
  assumes "getVerneMQPodSpec sv name v cr = Inr ps"
  shows "pod_typed ps \<longleftrightarrow> (shouldVerneHandleSSLTermination cr \<longrightarrow> dns_label (vmq_SSLListenerCertSecretName (spec_VerneMQ (ast_Spec cr))))"
  using assms
  by (auto simp: getVerneMQPodSpec_def rbind_eq_Inr Let_def pod_typed_def container_typed_def names_typed vernemq_ports_typed
      getVerneMQVolumes_def getVerneMQVolumeMounts_def shouldVerneHandleSSLTermination_def)

section \<open>The pods of a flow\<close>

lemma worker_volume_inj: "worker_volume v = worker_volume w \<longleftrightarrow> bw_WorkerID v = bw_WorkerID w"
  by (simp add: worker_volume_def)

lemma worker_volume_typed:
  assumes "dns_label (bw_WorkerID w)"
  shows "dns_label (worker_volume w) \<longleftrightarrow> length (bw_WorkerID w) \<le> 49"
  using assms by (auto simp: dns_label_def worker_volume_def label_char_def)

lemma block_volume_other: "worker_volume w \<noteq> ''block-config''" "''block-config'' \<noteq> worker_volume w"
  by (simp_all add: worker_volume_def)

lemma distinct_worker_volumes: "distinct (map worker_volume ws) = distinct (map bw_WorkerID ws)"
  by (induction ws) (auto simp: worker_volume_inj image_iff)

lemma flow_pod_typed:
  assumes "ps_Containers ps = map (ensureWorkerContainer b) (cb_Workers b)" "ps_Volumes ps = generateVolumesFor f b a"
  shows "pod_typed ps \<longleftrightarrow> cb_Workers b \<noteq> [] \<and> distinct (map bw_WorkerID (cb_Workers b)) \<and>
     (\<forall>w \<in> set (cb_Workers b). dns_label (bw_WorkerID w) \<and> length (bw_WorkerID w) \<le> 49)"
proof -
  have names: "map c_Name (map (ensureWorkerContainer b) ws) = map bw_WorkerID ws" for ws
    by (simp add: ensureWorkerContainer_def)
  have vols: "map vol_Name (generateVolumesFor f b a) = ''block-config'' # map worker_volume (cb_Workers b)"
    by (simp add: generateVolumesFor_def)
  have "list_all (\<lambda>v. dns_label (vol_Name v)) (ps_Volumes ps) = list_all dns_label (map vol_Name (ps_Volumes ps))"
    by (simp add: list_all_iff)
  moreover have "container_typed (ensureWorkerContainer b w) = dns_label (bw_WorkerID w)" for w
    by (simp add: container_typed_def ensureWorkerContainer_def)
  ultimately show ?thesis
    unfolding pod_typed_def assms names vols
    by (auto simp: list_all_iff names_typed worker_volume_typed distinct_worker_volumes block_volume_other image_iff
        dest: worker_volume_typed [THEN iffD1, rotated])
qed

section \<open>Which pods the server takes\<close>

text \<open>C8: the pods that the operator builds are well-typed, with two exceptions.

  Whatever the resource says, every pod built for a component or for CFSSL has containers and volumes with
  distinct names that are DNS labels, ports with distinct valid names and numbers, and no two mounts at one
  path. VerneMQ's pod has them unless it serves SSL itself from a secret whose name is no DNS label, since that
  name becomes the name of a volume; secrets may have longer names and names with dots. A block's pod has them
  exactly when the block has workers with distinct identifiers that are DNS labels of at most 49 characters.\<close>

theorem pods_well_typed:
  shows "(component_pod L name i r cr c = Inr p1 \<longrightarrow> pod_typed p1) \<and>
     (getCFSSLPodSpec name s cr = Inr p2 \<longrightarrow> pod_typed p2) \<and>
     (getVerneMQPodSpec (lib_semver L) name v cr = Inr p3 \<longrightarrow>
        pod_typed p3 = (shouldVerneHandleSSLTermination cr \<longrightarrow>
          dns_label (vmq_SSLListenerCertSecretName (spec_VerneMQ (ast_Spec cr))))) \<and>
     (ps_Containers p4 = map (ensureWorkerContainer b) (cb_Workers b) \<and> ps_Volumes p4 = generateVolumesFor f b cr \<longrightarrow>
        pod_typed p4 = (cb_Workers b \<noteq> [] \<and> distinct (map bw_WorkerID (cb_Workers b)) \<and>
          (\<forall>w \<in> set (cb_Workers b). dns_label (bw_WorkerID w) \<and> length (bw_WorkerID w) \<le> 49)))"
  by (intro conjI impI component_pod_typed cfssl_pod_typed vernemq_pod_typed flow_pod_typed; (elim conjE)?; assumption)

text \<open>A complete example; a certificate the webhook accepts and a flow it accepts, whose pods no server takes.\<close>

definition ex_dotted :: Astarte where
  "ex_dotted = ex_astarte\<lparr>ast_Spec := ex_spec\<lparr>spec_VerneMQ :=
     ex_vernemq\<lparr>vmq_SSLListenerCertSecretName := ''broker.example.com''\<rparr>\<rparr>\<rparr>"

definition ex_twins :: ContainerBlockSpec where
  "ex_twins = (let w = \<lparr>bw_WorkerID = ''w'', bw_DataProvider = \<lparr>dp_RabbitMQ = None\<rparr>\<rparr> in
     \<lparr>cb_BlockID = ''filter'', cb_Image = ''filter:1'', cb_ImagePullSecrets = [], cb_Environment = [],
      cb_Resources = NoResources, cb_Configuration = ''{}'', cb_Workers = [w, w]\<rparr>)"

definition ex_twins_pod :: "Flow \<Rightarrow> pod_spec" where
  "ex_twins_pod f = EmptyPodSpec\<lparr>ps_Containers := map (ensureWorkerContainer ex_twins) (cb_Workers ex_twins),
     ps_Volumes := generateVolumesFor f ex_twins ex_dotted\<rparr>"

theorem pods_well_typed_witness:
  "(\<exists>p. component_pod ex_libs ''example-pairing'' 0 0 ex_dotted Pairing = Inr p \<and> pod_typed p) \<and>
   (\<exists>p. getVerneMQPodSpec (lib_semver ex_libs) ''example-vernemq'' ''vernemq-data'' ex_dotted = Inr p \<and> \<not> pod_typed p) \<and>
   (\<forall>f. \<not> pod_typed (ex_twins_pod f))"
proof -
  have ex: "isOK (component_pod ex_libs ''example-pairing'' 0 0 ex_dotted Pairing)"
    "isOK (getVerneMQPodSpec (lib_semver ex_libs) ''example-vernemq'' ''vernemq-data'' ex_dotted)"
    "shouldVerneHandleSSLTermination ex_dotted"
    "\<not> dns_label (vmq_SSLListenerCertSecretName (spec_VerneMQ (ast_Spec ex_dotted)))"
    "\<not> distinct (map bw_WorkerID (cb_Workers ex_twins))"
    by code_simp+
  then obtain p1 p3 where p: "component_pod ex_libs ''example-pairing'' 0 0 ex_dotted Pairing = Inr p1"
    "getVerneMQPodSpec (lib_semver ex_libs) ''example-vernemq'' ''vernemq-data'' ex_dotted = Inr p3"
    by (auto simp: isOK_iff)
  have "pod_typed p1" "\<not> pod_typed p3"
    using pods_well_typed [of ex_libs "''example-pairing''" 0 0 ex_dotted Pairing p1]
      pods_well_typed [of ex_libs "''example-vernemq''" 0 0 ex_dotted Pairing p1 "''''" p1 "''vernemq-data''" p3]
      p ex(3,4) by simp_all
  moreover have "\<not> pod_typed (ex_twins_pod f)" for f
    using pods_well_typed [of ex_libs "''''" 0 0 ex_dotted Pairing p1 "''''" p1 "''''" p3 "ex_twins_pod f" ex_twins f] ex(5)
    by (simp add: ex_twins_pod_def)
  ultimately show ?thesis
    using p by blast
qed

text \<open>The webhook of Astarte accepts the certificate, and that of Flow accepts everything.\<close>

lemma dotted_certificate_accepted:
  "fst (ValidateCreate (memory_server [KSecret (ex_broker_cert\<lparr>sec_Meta := NewMeta ''broker.example.com'' ''astarte''\<rparr>)])
     (\<lambda>u. True) ex_dotted []) = Inr []"
  by code_simp

lemma twin_workers_accepted: "flow_ValidateCreate f = ([], None) \<and> \<not> pod_typed (ex_twins_pod f)"
proof -
  have "\<not> distinct (map bw_WorkerID (cb_Workers ex_twins))"
    by code_simp
  then show ?thesis
    using flow_pod_typed [of "ex_twins_pod f" ex_twins f ex_dotted] by (simp add: flow_ValidateCreate_def ex_twins_pod_def)
qed

end
