(* ===== verification/Spec2Isabelle.thy ===== *)
theory Spec2Isabelle
  imports Controllers Flow_Blocks Webhooks Pod_Properties Pod_Environment Controller_Properties Convergence_Properties
    First_Install Admission Status_Recovery Ingress_Handler Deletion Status_Writes Credentials
    Resource_Shares Flow_Handler Watches Pod_Types
begin

text \<open>
  A verification development for the Astarte Kubernetes operator.

  \<^bold>\<open>The program.\<close> The operator runs Astarte, an IoT platform of some ten services, on Kubernetes. Users
  describe an installation with three custom resources: Astarte (the platform), AstarteDefaultIngress (how it is
  reached) and Flow (data pipelines). Three controllers watch the cluster and bring it to what the
  resources say; validating and defaulting webhooks decide which resources are accepted; \<open>cmd/main.go\<close>
  registers all of them. The state of the program is the API server's: the operator itself keeps nothing between
  two runs of a handler, so that every run starts from what it reads.

  \<^bold>\<open>How the program is modelled.\<close> Go structs are records and enumerations are datatypes, with the field names of
  the source behind a prefix; a pointer is an option, reading a nil pointer is the error \<open>GoPanic\<close>; a
  function that may fail returns \<open>err + 'a\<close>; maps are association lists. Go's \<open>int\<close> and \<open>int32\<close> arithmetic
  wraps around (\<open>go_int\<close>, \<open>go_int32\<close>), division truncates, \<open>float64\<close> is a rational rounded to 53 bits after every
  operation. A function that talks to the API server is a program of type \<open>'a io\<close>: from the history of calls
  so far to a result and the longer history. What the server answers is an environment \<open>env\<close>, a function of
  the history, so that other clients, faults and races are functions of that kind; nothing is assumed of it
  unless a theorem says so.

  \<^bold>\<open>Theories.\<close> The prelude and the standard library:
  \<^item> \<open>Go_Base\<close>, \<open>Go_Num\<close>, \<open>Float64\<close>, \<open>Go_Json\<close>, \<open>Go_Encoding\<close>: errors and panics, pointers, strings, maps, integers
    and their text, floating point, \<open>encoding/json\<close>, base64, base32 and PEM.
  \<^item> \<open>K8s_Types\<close>: the Kubernetes objects with the fields the operator sets or reads. \<open>Kube_Api\<close>: objects, calls,
    programs, and the locale \<open>kube_api\<close> of what any API server promises.

  The operator's own code, in the order of its calls:
  \<^item> \<open>Astarte_Types\<close> (\<open>api/api/v2alpha1/astarte_types.go\<close>), \<open>Ingress_Types\<close>, \<open>Flow_Types\<close>: the resources.
  \<^item> \<open>Astarte_Version\<close> (\<open>internal/version\<close>): which versions the operator manages.
  \<^item> \<open>Misc_Utils\<close>, \<open>Allocation\<close> (\<open>internal/misc/utils.go\<close>): readers of the resource, the shares of CPU and memory.
  \<^item> \<open>Env_Vars\<close>, \<open>Pod_Parts\<close> (\<open>internal/reconcile/utils.go\<close>, \<open>probes.go\<close>, \<open>astarte_priorityclass.go\<close>), \<open>Backend_Pods\<close>,
    \<open>API_Pods\<close>, \<open>CFSSL_Pods\<close>, \<open>VerneMQ_Pods\<close>: environments, volumes, labels and the pod of every component.
  \<^item> \<open>Reconcile_Common\<close>, \<open>Reconcile_Components\<close> (\<open>internal/reconcile\<close>): one \<open>Ensure\<close> operation per component, and their
    sequence \<open>ReconcileAstarteResources\<close>.
  \<^item> \<open>Controllers\<close> (\<open>internal/controllerutils\<close>, \<open>internal/controller/api\<close>): health, status, upgrades,
    finalization and the handler \<open>astarte_Reconcile\<close>.
  \<^item> \<open>Ingress\<close> (\<open>internal/defaultingress\<close>, \<open>internal/controller/ingress\<close>): the ingress controller.
  \<^item> \<open>Flow_Blocks\<close> (\<open>internal/flow\<close>, \<open>internal/controller/flow\<close>): the flow controller.
  \<^item> \<open>Webhooks\<close>: the webhooks of Astarte and AstarteDefaultIngress.
  \<^item> \<open>Startup\<close> (\<open>cmd/main.go\<close>, the \<open>SetupWithManager\<close> methods, the webhook of Flow): flags, registrations, watches.

  \<^bold>\<open>What is shown.\<close>
  \<^item> About values: \<open>Backend_Pods\<close> and \<open>Keyspace\<close> (data queues are partitioned among the replicas; the keyspaces the
    webhook accepts and what Housekeeping gets of them), \<open>Pod_Properties\<close>, \<open>Pod_Environment\<close>, \<open>Pod_Types\<close> (when
    building a pod panics, that mounts and certificate paths resolve, that the user's variables win, that the
    API server takes the pods), \<open>Resource_Shares\<close> (shares add up to the whole but for rounding), \<open>Astarte_Version\<close>.
  \<^item> Against every server: \<open>Reconcile_Footprint\<close> and \<open>Controller_Footprint\<close> state which calls a program may make
    (\<open>emits\<close>) and are proved along the structure of the programs; \<open>Controller_Properties\<close> draws from them what a
    run may touch, and how it ends early; \<open>Status_Writes\<close> bounds its retries and shows that it gives up when
    conflicts last.
  \<^item> Against a server nobody else writes to (the locale \<open>sole_client\<close> of \<open>Kube_State\<close>, which extends \<open>kube_api\<close>: the
    calls act on a map from keys to objects): every \<open>Ensure\<close> operation \<open>converges\<close> to its goal, a predicate on
    the state, which refines the operation's specification and which a second run finds fulfilled
    (\<open>Convergence\<close>, \<open>Convergence_Run\<close>); the operations are stages with disjoint parts of the cluster, so that
    the goal of the whole is the conjunction of theirs (\<open>Convergence_All\<close>). From this \<open>Convergence_Properties\<close>,
    \<open>First_Install\<close>, \<open>Credentials\<close>, \<open>Deletion\<close>, \<open>Status_Recovery\<close> and \<open>Watches\<close> draw what a run of the handler does
    from installation to deletion, and \<open>Ingress_Handler\<close> and \<open>Flow_Handler\<close>, with \<open>Kube_Runs\<close>, the same of the other
    two controllers. \<open>Ingress_Properties\<close> composes the first two: what the ingress leads to is what the
    Astarte controller runs. \<open>Cluster_Health\<close> reads the health as a function of the state.
  \<^item> Over histories of requests: \<open>Admission\<close>, a step relation on the resources of a cluster and its invariants.

  \<^bold>\<open>Parameters and hypotheses.\<close> Code outside the repository is a parameter with its documented behaviour as a
  locale, interpreted on a concrete instance that the witnesses run: the API server (\<open>kube_api\<close>,
  \<open>sole_client\<close>; \<open>memory_server\<close> of \<open>Kube_Server\<close>), the semantic-version library (\<open>semver_laws\<close>; \<open>strict_semver\<close>),
  the quantity library (\<open>quantity_laws\<close>; \<open>plain_quantities\<close>), the map-merging library of the flow blocks
  (\<open>map_merge\<close>; \<open>append_merge\<close>), the controller runtime (\<open>event_router\<close>; \<open>plain_route\<close>), and Go's cryptography
  (\<open>crypto_works\<close>; \<open>ex_crypto\<close>). The hypotheses on a resource have names: \<open>reconcilable\<close> (a supported version,
  connections, a pull policy, an acceptable keyspace, names that do not clash), \<open>admissible\<close> (nobody else controls
  its objects), \<open>ca_given\<close> (a certificate authority it names is there), \<open>settled_version\<close> (it is new, or
  installed, or healthy and to be upgraded), \<open>flow_ready\<close>. The witnesses evaluate them at the resource of
  \<open>Example_Resource\<close>.

  \<^bold>\<open>Loops.\<close> The program's loops run over lists and are structural recursions; decimal digits and the lines of a PEM
  block are functions with a measure. \<open>retry.RetryOnConflict\<close> makes the positive number of attempts
  \<open>e_retry_steps\<close> of the environment, as the client library does, where it is five. No theorem depends on fuel.

  \<^bold>\<open>Not modelled.\<close> Generated code (deep copies, scheme registration), the test utilities, logging and the texts of
  recorded events. The field \<open>TypeMeta\<close> and the status subresources that other controllers fill, except
  the numbers of ready replicas. Parts of a pod that are only copied from the resource (custom affinity,
  volume sources, probes of other kinds) are opaque texts. The numbers in CFSSL's configuration are exact
  integers, where the code passes them through \<open>float64\<close>. Contexts, time-outs and leader election belong to the
  runtime; the handlers are run one at a time, as the runtime does for one resource, and what runs at the
  same time for others is part of the environment.
\<close>

end
